(* ===== verification/Prelude.thy ===== *)
theory Prelude
  imports Main
begin

text \<open>
  What every theory of the development shares: the theorem collections, the type of
  Go errors, and the few generic facts on sums, lists and strings the components use.

  A Go \<open>error\<close> is modelled by the text its \<open>Error()\<close> method returns, so that
  \<open>fmt.Errorf("x: %w", err)\<close> is concatenation and a message that reaches a client or
  a log line can be reasoned about.  A function with result \<open>(T, error)\<close> returns a
  value of \<open>gerr + T\<close>: \<open>Inl e\<close> for a non-nil error, \<open>Inr x\<close> for \<open>(x, nil)\<close>.
  A function that can panic returns an \<open>outcome\<close>.
\<close>

section \<open>Theorem collections\<close>

named_theorems trace_mono \<open>an operation only extends the trace of effects\<close>

section \<open>Errors and outcomes\<close>

type_synonym gerr = string

datatype 'a outcome = Done 'a | Panics string


section \<open>Go's rune and byte view of strings\<close>

text \<open>A Go string is a sequence of bytes; \<^typ>\<open>char\<close> is the type of bytes.\<close>

abbreviation byte :: "char \<Rightarrow> nat" where
  "byte c \<equiv> of_char c"

abbreviation dq :: char where
  "dq \<equiv> CHR 0x22"

abbreviation bslash :: char where
  "bslash \<equiv> CHR 0x5C"

definition ascii :: "string \<Rightarrow> bool" where
  "ascii s \<longleftrightarrow> list_all (\<lambda>c. byte c < 0x80) s"

definition printable :: "string \<Rightarrow> bool" where
  "printable s \<longleftrightarrow> list_all (\<lambda>c. 0x20 \<le> byte c \<and> byte c < 0x7f) s"

lemma ascii_Nil [simp]: "ascii []"
  by (simp add: ascii_def)

lemma ascii_Cons [simp]: "ascii (c # s) \<longleftrightarrow> byte c < 0x80 \<and> ascii s"
  by (simp add: ascii_def)

lemma ascii_append [simp]: "ascii (s @ t) \<longleftrightarrow> ascii s \<and> ascii t"
  by (simp add: ascii_def)

lemma printable_Nil [simp]: "printable []"
  by (simp add: printable_def)

lemma printable_Cons [simp]:
  "printable (c # s) \<longleftrightarrow> 0x20 \<le> byte c \<and> byte c < 0x7f \<and> printable s"
  by (simp add: printable_def)

lemma printable_append [simp]: "printable (s @ t) \<longleftrightarrow> printable s \<and> printable t"
  by (simp add: printable_def)

lemma printable_ascii: "printable s \<Longrightarrow> ascii s"
  by (induction s) auto

lemma byte_char_of [simp]: "n < 256 \<Longrightarrow> byte (char_of n) = n"
  by simp

lemma byte_dq [simp]: "byte c = 34 \<longleftrightarrow> c = dq"
  using of_char_eq_iff [of c dq, where ?'a = nat] by simp

lemma byte_bslash [simp]: "byte c = 92 \<longleftrightarrow> c = bslash"
  using of_char_eq_iff [of c bslash, where ?'a = nat] by simp

section \<open>Sums and lists\<close>

lemma sum_case_Inl_iff:
  "(case r of Inl e \<Rightarrow> Inl (f e) | Inr x \<Rightarrow> g x) = Inr y \<longleftrightarrow> (\<exists>x. r = Inr x \<and> g x = Inr y)"
  by (cases r) auto

lemma append_same_tl: "xs @ ys = xs @ zs \<Longrightarrow> ys = zs"
  by simp

lemma dropWhile_all: "list_all P xs \<Longrightarrow> dropWhile P xs = []"
  by (induction xs) auto

end
