(* ===== verification/Go_Strings.thy ===== *)
theory Go_Strings
  imports Prelude
begin

text \<open>
  The string functions of Go's standard library that the program calls: UTF-8 decoding
  as \<open>range\<close> over a string does it, \<open>strings\<close>, \<open>strconv\<close>, \<open>encoding/hex\<close>,
  \<open>net/url\<close> escaping and the \<open>%q\<close> verb of \<open>fmt\<close>.  They are executable and
  total; what the code does on malformed input (invalid UTF-8 bytes, say) is written out.
\<close>

section \<open>UTF-8\<close>

definition cont :: "char \<Rightarrow> bool" where
  "cont c \<longleftrightarrow> 0x80 \<le> byte c \<and> byte c \<le> 0xBF"

definition rune2 :: "char \<Rightarrow> char \<Rightarrow> nat" where
  "rune2 a b = (byte a - 0xC0) * 64 + (byte b - 0x80)"

definition rune3 :: "char \<Rightarrow> char \<Rightarrow> char \<Rightarrow> nat" where
  "rune3 a b c = (byte a - 0xE0) * 4096 + (byte b - 0x80) * 64 + (byte c - 0x80)"

definition rune4 :: "char \<Rightarrow> char \<Rightarrow> char \<Rightarrow> char \<Rightarrow> nat" where
  "rune4 a b c d = (byte a - 0xF0) * 262144 + (byte b - 0x80) * 4096
     + (byte c - 0x80) * 64 + (byte d - 0x80)"

definition ok2 :: "char \<Rightarrow> char \<Rightarrow> bool" where
  "ok2 a b \<longleftrightarrow> 0xC2 \<le> byte a \<and> byte a \<le> 0xDF \<and> cont b"

definition surrogate :: "nat \<Rightarrow> bool" where
  "surrogate r \<longleftrightarrow> 0xD800 \<le> r \<and> r \<le> 0xDFFF"

definition ok3 :: "char \<Rightarrow> char \<Rightarrow> char \<Rightarrow> bool" where
  "ok3 a b c \<longleftrightarrow> 0xE0 \<le> byte a \<and> byte a \<le> 0xEF \<and> cont b \<and> cont c
     \<and> 0x800 \<le> rune3 a b c \<and> \<not> surrogate (rune3 a b c)"

definition ok4 :: "char \<Rightarrow> char \<Rightarrow> char \<Rightarrow> char \<Rightarrow> bool" where
  "ok4 a b c d \<longleftrightarrow> 0xF0 \<le> byte a \<and> byte a \<le> 0xF4 \<and> cont b \<and> cont c \<and> cont d
     \<and> 0x10000 \<le> rune4 a b c d \<and> rune4 a b c d \<le> 0x10FFFF"

definition RuneError :: nat where
  "RuneError = 0xFFFD"

text \<open>
  One step of \<open>utf8.DecodeRune\<close>: the rune and the bytes it was decoded from, and the
  rest.  An invalid byte is \<open>RuneError\<close> of width one.
\<close>

fun decode_rune :: "char \<Rightarrow> string \<Rightarrow> (nat \<times> string) \<times> string" where
  "decode_rune a s =
     (if byte a < 0x80 then ((byte a, [a]), s)
      else case s of
        b # s1 \<Rightarrow>
          (if ok2 a b then ((rune2 a b, [a, b]), s1)
           else case s1 of
             c # s2 \<Rightarrow>
               (if ok3 a b c then ((rune3 a b c, [a, b, c]), s2)
                else case s2 of
                  d # s3 \<Rightarrow>
                    (if ok4 a b c d then ((rune4 a b c d, [a, b, c, d]), s3)
                     else ((RuneError, [a]), s))
                | [] \<Rightarrow> ((RuneError, [a]), s))
           | [] \<Rightarrow> ((RuneError, [a]), s))
      | [] \<Rightarrow> ((RuneError, [a]), s))"

declare decode_rune.simps [simp del]

lemma decode_rune_rest: "length (snd (decode_rune a s)) \<le> length s"
  by (simp add: decode_rune.simps split: list.split)

lemma decode_rune_bytes: "snd (fst (decode_rune a s)) @ snd (decode_rune a s) = a # s"
  by (simp add: decode_rune.simps split: list.split)

lemma decode_rune_ascii [simp]: "byte a < 0x80 \<Longrightarrow> decode_rune a s = ((byte a, [a]), s)"
  by (simp add: decode_rune.simps)

function utf8_segs :: "string \<Rightarrow> (nat \<times> string) list" where
  "utf8_segs [] = []"
| "utf8_segs (a # s) = fst (decode_rune a s) # utf8_segs (snd (decode_rune a s))"
  by pat_completeness auto
termination
  by (relation "measure length") (auto simp: less_Suc_eq_le decode_rune_rest)

definition runes :: "string \<Rightarrow> nat list" where
  "runes s = map fst (utf8_segs s)"

lemma runes_Nil [simp]: "runes [] = []"
  by (simp add: runes_def)

lemma runes_Cons: "runes (a # s) = fst (fst (decode_rune a s)) # runes (snd (decode_rune a s))"
  by (simp add: runes_def)

lemma runes_ascii [simp]: "byte a < 0x80 \<Longrightarrow> runes (a # s) = byte a # runes s"
  by (simp add: runes_Cons)

lemma segs_bytes: "concat (map snd (utf8_segs s)) = s"
  by (induction s rule: utf8_segs.induct) (simp_all add: decode_rune_bytes)

lemma utf8_segs_ascii: "ascii s \<Longrightarrow> utf8_segs s = map (\<lambda>c. (byte c, [c])) s"
  by (induction s) simp_all

lemma runes_all_ascii: "ascii s \<Longrightarrow> runes s = map byte s"
  by (induction s) simp_all

text \<open>\<open>utf8.AppendRune\<close>: surrogates and values beyond U+10FFFF become U+FFFD.\<close>

definition valid_rune :: "nat \<Rightarrow> bool" where
  "valid_rune r \<longleftrightarrow> r \<le> 0x10FFFF \<and> \<not> surrogate r"

definition utf8_enc :: "nat \<Rightarrow> string" where
  "utf8_enc r =
     (if r < 0x80 then [char_of r]
      else if r < 0x800 then [char_of (0xC0 + r div 64), char_of (0x80 + r mod 64)]
      else if r < 0x10000 then
        [char_of (0xE0 + r div 4096), char_of (0x80 + r div 64 mod 64), char_of (0x80 + r mod 64)]
      else
        [char_of (0xF0 + r div 262144), char_of (0x80 + r div 4096 mod 64),
         char_of (0x80 + r div 64 mod 64), char_of (0x80 + r mod 64)])"

definition utf8_encode :: "nat \<Rightarrow> string" where
  "utf8_encode r = (if valid_rune r then utf8_enc r else utf8_enc RuneError)"

text \<open>Decoding what was encoded gives the rune back, whatever follows it.\<close>

lemma mod64 [simp]: "(r::nat) mod 64 < 64"
  by simp

lemma byte_cont [simp]: "(n::nat) < 64 \<Longrightarrow> byte (char_of (0x80 + n)) = 0x80 + n"
  by simp

lemma cont_char [simp]: "(n::nat) < 64 \<Longrightarrow> cont (char_of (0x80 + n))"
  by (simp add: cont_def)

lemma base64_digits3: "(r::nat) div 4096 * 4096 + r div 64 mod 64 * 64 + r mod 64 = r"
proof -
  have "r div 4096 = r div 64 div 64"
    by (simp add: div_mult2_eq [symmetric])
  then show ?thesis
    using div_mult_mod_eq [of "r div 64" 64] div_mult_mod_eq [of r 64] by linarith
qed

lemma base64_digits4:
  "(r::nat) div 262144 * 262144 + r div 4096 mod 64 * 4096 + r div 64 mod 64 * 64 + r mod 64 = r"
proof -
  have "r div 262144 = r div 4096 div 64"
    by (simp add: div_mult2_eq [symmetric])
  then show ?thesis
    using div_mult_mod_eq [of "r div 4096" 64] base64_digits3 [of r] by linarith
qed

lemma decode_enc2:
  assumes "0x80 \<le> r" "r < 0x800"
  shows "decode_rune (char_of (0xC0 + r div 64)) (char_of (0x80 + r mod 64) # s) = ((r, utf8_enc r), s)"
proof -
  have q: "2 \<le> r div 64" "r div 64 < 32"
    using assms by (auto simp: less_mult_imp_div_less)
  then have b: "byte (char_of (0xC0 + r div 64)) = 0xC0 + r div 64"
    by simp
  have "ok2 (char_of (0xC0 + r div 64)) (char_of (0x80 + r mod 64))"
    using q by (simp add: ok2_def b del: of_char_of)
  moreover have "rune2 (char_of (0xC0 + r div 64)) (char_of (0x80 + r mod 64)) = r"
    using q by (simp add: rune2_def b del: of_char_of)
  ultimately show ?thesis
    using assms q by (simp add: decode_rune.simps b utf8_enc_def del: of_char_of)
qed

lemma decode_enc3:
  assumes "0x800 \<le> r" "r < 0x10000" "\<not> surrogate r"
  shows "decode_rune (char_of (0xE0 + r div 4096))
           (char_of (0x80 + r div 64 mod 64) # char_of (0x80 + r mod 64) # s) = ((r, utf8_enc r), s)"
proof -
  let ?a = "char_of (0xE0 + r div 4096)" and ?b = "char_of (0x80 + r div 64 mod 64)"
    and ?c = "char_of (0x80 + r mod 64)"
  have q: "r div 4096 < 16"
    using assms by (auto simp: less_mult_imp_div_less)
  then have b: "byte ?a = 0xE0 + r div 4096"
    by simp
  have r3: "rune3 ?a ?b ?c = r"
    using base64_digits3 [of r] by (simp add: rune3_def b del: of_char_of)
  have "\<not> ok2 ?a ?b"
    by (simp add: ok2_def b del: of_char_of)
  moreover have "ok3 ?a ?b ?c"
    using assms q by (simp add: ok3_def b r3 del: of_char_of)
  ultimately show ?thesis
    using assms q by (simp add: decode_rune.simps b r3 utf8_enc_def del: of_char_of)
qed

lemma decode_enc4:
  assumes "0x10000 \<le> r" "r \<le> 0x10FFFF"
  shows "decode_rune (char_of (0xF0 + r div 262144))
           (char_of (0x80 + r div 4096 mod 64) # char_of (0x80 + r div 64 mod 64)
              # char_of (0x80 + r mod 64) # s) = ((r, utf8_enc r), s)"
proof -
  let ?a = "char_of (0xF0 + r div 262144)" and ?b = "char_of (0x80 + r div 4096 mod 64)"
    and ?c = "char_of (0x80 + r div 64 mod 64)" and ?d = "char_of (0x80 + r mod 64)"
  have q: "r div 262144 < 5"
    using assms by (auto simp: less_mult_imp_div_less)
  then have b: "byte ?a = 0xF0 + r div 262144"
    by simp
  have r4: "rune4 ?a ?b ?c ?d = r"
    using base64_digits4 [of r] by (simp add: rune4_def b del: of_char_of)
  have "\<not> ok2 ?a ?b" "\<not> ok3 ?a ?b ?c"
    by (simp_all add: ok2_def ok3_def b del: of_char_of)
  moreover have "ok4 ?a ?b ?c ?d"
    using assms q by (simp add: ok4_def b r4 del: of_char_of)
  ultimately show ?thesis
    using assms q by (simp add: decode_rune.simps b r4 utf8_enc_def del: of_char_of)
qed

lemma segs_utf8_enc:
  assumes "valid_rune r"
  shows "utf8_segs (utf8_enc r @ s) = (r, utf8_enc r) # utf8_segs s"
proof -
  consider "r < 0x80" | "0x80 \<le> r" "r < 0x800" | "0x800 \<le> r" "r < 0x10000" | "0x10000 \<le> r"
    by linarith
  then show ?thesis
  proof cases
    case 1
    then show ?thesis by (simp add: utf8_enc_def)
  next
    case 2
    then show ?thesis using decode_enc2 [of r s] by (simp add: utf8_enc_def)
  next
    case 3
    then show ?thesis using decode_enc3 [of r s] assms by (simp add: utf8_enc_def valid_rune_def)
  next
    case 4
    then show ?thesis using decode_enc4 [of r s] assms by (simp add: utf8_enc_def valid_rune_def)
  qed
qed

lemma valid_RuneError [simp]: "valid_rune RuneError"
  by (simp add: valid_rune_def RuneError_def surrogate_def)

lemma runes_encode:
  "runes (utf8_encode r @ s) = (if valid_rune r then r else RuneError) # runes s"
  by (simp add: utf8_encode_def runes_def segs_utf8_enc)

lemma decode_rune_valid: "valid_rune (fst (fst (decode_rune a s)))"
proof -
  have "ok2 a b \<Longrightarrow> valid_rune (rune2 a b)" for b
    by (auto simp: ok2_def cont_def rune2_def valid_rune_def surrogate_def)
  moreover have "ok3 a b c \<Longrightarrow> valid_rune (rune3 a b c)" for b c
    by (auto simp: ok3_def cont_def rune3_def valid_rune_def)
  moreover have "ok4 a b c d \<Longrightarrow> valid_rune (rune4 a b c d)" for b c d
    by (auto simp: ok4_def valid_rune_def surrogate_def)
  ultimately show ?thesis
    by (auto simp: decode_rune.simps valid_rune_def [of "byte a"] surrogate_def split: list.split)
qed

lemma runes_valid: "list_all valid_rune (runes s)"
  by (induction s rule: utf8_segs.induct) (simp_all add: runes_Cons decode_rune_valid)

text \<open>Bytes of an encoded rune: a rune above ASCII has no ASCII byte.\<close>

lemma utf8_enc_high:
  assumes "0x80 \<le> r" "valid_rune r" "c \<in> set (utf8_enc r)"
  shows "0x80 \<le> byte c"
proof -
  have d: "r div 64 < 32" if "r < 0x800"
    using that by (auto simp: less_mult_imp_div_less)
  have e: "r div 4096 < 16" if "r < 0x10000"
    using that by (auto simp: less_mult_imp_div_less)
  have f: "r div 262144 < 5"
    using assms(2) by (auto simp: less_mult_imp_div_less valid_rune_def)
  show ?thesis
    using assms d e f by (auto simp: utf8_enc_def split: if_splits)
qed

text \<open>
  Encoding what was decoded gives the bytes back: a segment of \<open>utf8_segs\<close> is the
  encoding of a valid rune, or one byte that starts none.
\<close>

definition seg_ok :: "nat \<times> string \<Rightarrow> bool" where
  "seg_ok = (\<lambda>(r, bs). (valid_rune r \<and> bs = utf8_enc r)
     \<or> (r = RuneError \<and> length bs = 1 \<and> 0x80 \<le> byte (hd bs)))"

lemma char_byte: "byte c = n \<Longrightarrow> char_of n = c"
  by auto

lemma base64_step: "(y::nat) < 64 \<Longrightarrow> (x * 64 + y) div 64 = x" "(y::nat) < 64 \<Longrightarrow> (x * 64 + y) mod 64 = y"
  by simp_all

lemma utf8_enc_rune2:
  assumes "ok2 a b"
  shows "utf8_enc (rune2 a b) = [a, b]"
proof -
  let ?x = "byte a - 0xC0" and ?y = "byte b - 0x80"
  have xy: "2 \<le> ?x" "?x < 32" "?y < 64" "byte a = 0xC0 + ?x" "byte b = 0x80 + ?y"
    using assms by (auto simp: ok2_def cont_def)
  have r: "rune2 a b = ?x * 64 + ?y" by (simp add: rune2_def)
  have "rune2 a b div 64 = ?x" "rune2 a b mod 64 = ?y"
    unfolding r by (rule base64_step, rule xy)+
  moreover have "0x80 \<le> rune2 a b" "rune2 a b < 0x800" unfolding r using xy by linarith+
  ultimately show ?thesis
    using char_byte [OF xy(4)] char_byte [OF xy(5)] by (simp add: utf8_enc_def)
qed

lemma utf8_enc_rune3:
  assumes "ok3 a b c"
  shows "utf8_enc (rune3 a b c) = [a, b, c]"
proof -
  let ?x = "byte a - 0xE0" and ?y = "byte b - 0x80" and ?z = "byte c - 0x80"
  have xy: "?x < 16" "?y < 64" "?z < 64" "byte a = 0xE0 + ?x" "byte b = 0x80 + ?y" "byte c = 0x80 + ?z"
    using assms by (auto simp: ok3_def cont_def)
  have r: "rune3 a b c = (?x * 64 + ?y) * 64 + ?z" by (simp add: rune3_def)
  have d: "rune3 a b c div 64 = ?x * 64 + ?y" "rune3 a b c mod 64 = ?z"
    unfolding r by (rule base64_step, rule xy)+
  have "rune3 a b c div 4096 = rune3 a b c div 64 div 64" by (simp add: div_mult2_eq [symmetric])
  also have "\<dots> = ?x" unfolding d(1) by (rule base64_step, rule xy)
  finally have e: "rune3 a b c div 4096 = ?x" .
  have f: "rune3 a b c div 64 mod 64 = ?y" unfolding d(1) by (rule base64_step, rule xy)
  have "0x800 \<le> rune3 a b c" using assms by (simp add: ok3_def)
  moreover have "rune3 a b c < 0x10000"
    using div_less_iff_less_mult [of 4096 "rune3 a b c" 16] e xy(1) by simp
  ultimately show ?thesis
    using char_byte [OF xy(4)] char_byte [OF xy(5)] char_byte [OF xy(6)] d(2) e f
    by (simp add: utf8_enc_def)
qed

lemma utf8_enc_rune4:
  assumes "ok4 a b c d"
  shows "utf8_enc (rune4 a b c d) = [a, b, c, d]"
proof -
  let ?x = "byte a - 0xF0" and ?y = "byte b - 0x80" and ?z = "byte c - 0x80" and ?u = "byte d - 0x80"
  let ?r = "rune4 a b c d"
  have xy: "?x < 5" "?y < 64" "?z < 64" "?u < 64"
    "byte a = 0xF0 + ?x" "byte b = 0x80 + ?y" "byte c = 0x80 + ?z" "byte d = 0x80 + ?u"
    using assms by (auto simp: ok4_def cont_def)
  have r: "?r = ((?x * 64 + ?y) * 64 + ?z) * 64 + ?u" by (simp add: rune4_def)
  have d: "?r div 64 = (?x * 64 + ?y) * 64 + ?z" "?r mod 64 = ?u"
    unfolding r by (rule base64_step, rule xy)+
  have "?r div 4096 = ?r div 64 div 64" by (simp add: div_mult2_eq [symmetric])
  also have "\<dots> = ?x * 64 + ?y" unfolding d(1) by (rule base64_step, rule xy)
  finally have e: "?r div 4096 = ?x * 64 + ?y" .
  have "?r div 262144 = ?r div 4096 div 64" by (simp add: div_mult2_eq [symmetric])
  also have "\<dots> = ?x" unfolding e by (rule base64_step, rule xy)
  finally have g: "?r div 262144 = ?x" .
  have f: "?r div 64 mod 64 = ?z" "?r div 4096 mod 64 = ?y"
    unfolding d(1) e by (rule base64_step, rule xy)+
  have "0x10000 \<le> ?r" using assms by (simp add: ok4_def)
  then show ?thesis
    using char_byte [OF xy(5)] char_byte [OF xy(6)] char_byte [OF xy(7)] char_byte [OF xy(8)] d(2) g f
    by (simp add: utf8_enc_def)
qed

lemma seg_ok_decode: "seg_ok (fst (decode_rune a s))"
proof -
  have v: "valid_rune (fst (fst (decode_rune a s)))" by (rule decode_rune_valid)
  have one: "utf8_enc (byte a) = [a]" if "byte a < 0x80" using that by (simp add: utf8_enc_def)
  from v show ?thesis
    by (auto simp: decode_rune.simps seg_ok_def one utf8_enc_rune2 utf8_enc_rune3 utf8_enc_rune4 not_less
        split: list.splits if_splits)
qed

lemma utf8_segs_ok: "list_all seg_ok (utf8_segs s)"
  by (induction s rule: utf8_segs.induct) (simp_all add: seg_ok_decode)

lemma seg_high:
  assumes "seg_ok (r, bs)" "\<not> r < 0x80"
  shows "list_all (\<lambda>c. 0x80 \<le> byte c) bs"
proof (cases "valid_rune r \<and> bs = utf8_enc r")
  case True
  then show ?thesis using utf8_enc_high [of r] assms(2) by (simp add: list_all_iff)
next
  case False
  with assms(1) have "length bs = 1" "0x80 \<le> byte (hd bs)" by (auto simp: seg_ok_def)
  then show ?thesis by (cases bs) auto
qed

end
