(* ===== verification/Go_Text.thy ===== *)
theory Go_Text
  imports Go_Strings "HOL-Library.List_Lexorder" "HOL-Library.Char_ord"
begin

text \<open>
  The functions of \<open>strings\<close>, \<open>strconv\<close>, \<open>encoding/hex\<close> and \<open>net/url\<close> the
  program calls, on the byte strings of \<open>Go_Strings\<close>, with the few laws about
  them that the components rely on.
\<close>

section \<open>Package strings\<close>

definition HasPrefix :: "string \<Rightarrow> string \<Rightarrow> bool" where
  "HasPrefix s p \<longleftrightarrow> take (length p) s = p"

definition TrimPrefix :: "string \<Rightarrow> string \<Rightarrow> string" where
  "TrimPrefix s p = (if HasPrefix s p then drop (length p) s else s)"

fun Contains :: "string \<Rightarrow> string \<Rightarrow> bool" where
  "Contains [] sub \<longleftrightarrow> sub = []"
| "Contains (c # s) sub \<longleftrightarrow> HasPrefix (c # s) sub \<or> Contains s sub"

definition TrimRight :: "string \<Rightarrow> char \<Rightarrow> string" where
  "TrimRight s c = rev (dropWhile (\<lambda>x. x = c) (rev s))"

fun IndexByte :: "string \<Rightarrow> char \<Rightarrow> nat option" where
  "IndexByte [] c = None"
| "IndexByte (x # s) c = (if x = c then Some 0 else map_option Suc (IndexByte s c))"

fun Split :: "string \<Rightarrow> char \<Rightarrow> string list" where
  "Split [] c = [[]]"
| "Split (x # s) c = (if x = c then [] # Split s c
     else (x # hd (Split s c)) # tl (Split s c))"

text \<open>\<open>unicode.IsSpace\<close>, and \<open>strings.TrimSpace\<close>.\<close>

definition IsSpace :: "nat \<Rightarrow> bool" where
  "IsSpace r \<longleftrightarrow> (9 \<le> r \<and> r \<le> 13) \<or> r = 0x20 \<or> r = 0x85 \<or> r = 0xA0 \<or> r = 0x1680
     \<or> (0x2000 \<le> r \<and> r \<le> 0x200A) \<or> r = 0x2028 \<or> r = 0x2029 \<or> r = 0x202F
     \<or> r = 0x205F \<or> r = 0x3000"

definition TrimSpace :: "string \<Rightarrow> string" where
  "TrimSpace s = concat (map snd
     (rev (dropWhile (IsSpace \<circ> fst) (rev (dropWhile (IsSpace \<circ> fst) (utf8_segs s))))))"

lemma Contains_Nil [simp]: "Contains s []"
  by (cases s) (simp_all add: HasPrefix_def)

lemma Contains_iff: "Contains s sub \<longleftrightarrow> (\<exists>p q. s = p @ sub @ q)"
proof (induction s)
  case Nil
  then show ?case by auto
next
  case (Cons c s)
  have "HasPrefix (c # s) sub \<longleftrightarrow> (\<exists>q. c # s = sub @ q)"
    unfolding HasPrefix_def by (metis append_eq_conv_conj append_take_drop_id)
  with Cons show ?case
    by (auto simp: Cons_eq_append_conv)
qed

lemma HasPrefix_append [simp]: "HasPrefix (p @ s) p"
  by (simp add: HasPrefix_def)

lemma TrimPrefix_append [simp]: "TrimPrefix (p @ s) p = s"
  by (simp add: TrimPrefix_def)

lemma IndexByte_None [simp]: "IndexByte s c = None \<longleftrightarrow> c \<notin> set s"
  by (induction s) auto

lemma IndexByte_Some_iff:
  "IndexByte s c = Some i \<longleftrightarrow> i < length s \<and> s ! i = c \<and> c \<notin> set (take i s)"
proof (induction s arbitrary: i)
  case Nil
  then show ?case by simp
next
  case (Cons x s)
  then show ?case by (cases i) auto
qed

lemma IndexByte_append: "c \<notin> set s \<Longrightarrow> IndexByte (s @ c # t) c = Some (length s)"
  by (induction s) auto

lemma TrimRight_no_trailing: "TrimRight s c = [] \<or> last (TrimRight s c) \<noteq> c"
  unfolding TrimRight_def by (induction s rule: rev_induct) auto

lemma TrimRight_id: "s = [] \<or> last s \<noteq> c \<Longrightarrow> TrimRight s c = s"
  by (cases s rule: rev_cases) (auto simp: TrimRight_def)

lemma Split_nonempty [simp]: "Split s c \<noteq> []"
  by (cases s) auto

section \<open>Numbers and hexadecimal\<close>

definition digit :: "nat \<Rightarrow> char" where
  "digit d = char_of (48 + d)"

fun nat_dec :: "nat \<Rightarrow> string" where
  "nat_dec n = (if n < 10 then [digit n] else nat_dec (n div 10) @ [digit (n mod 10)])"

declare nat_dec.simps [simp del]

text \<open>\<open>%d\<close> and \<open>strconv.FormatInt(n, 10)\<close>.\<close>

definition FormatInt :: "int \<Rightarrow> string" where
  "FormatInt i = (if i < 0 then CHR ''-'' # nat_dec (nat (- i)) else nat_dec (nat i))"

definition is_digit :: "char \<Rightarrow> bool" where
  "is_digit c \<longleftrightarrow> 48 \<le> byte c \<and> byte c \<le> 57"

definition digit_val :: "char \<Rightarrow> nat" where
  "digit_val c = byte c - 48"

definition dec_val :: "string \<Rightarrow> nat" where
  "dec_val s = foldl (\<lambda>n c. n * 10 + digit_val c) 0 s"

text \<open>\<open>strconv.ParseInt(s, 10, 64)\<close> and \<open>strconv.Atoi\<close>: \<open>None\<close> on a syntax or range error.\<close>

definition ParseInt64 :: "string \<Rightarrow> int option" where
  "ParseInt64 s =
     (let neg = (s \<noteq> [] \<and> hd s = CHR ''-'');
          ds = (if s \<noteq> [] \<and> (hd s = CHR ''-'' \<or> hd s = CHR ''+'') then tl s else s);
          v = (if neg then - int (dec_val ds) else int (dec_val ds))
      in if ds = [] \<or> \<not> list_all is_digit ds then None
         else if - (2 ^ 63) \<le> v \<and> v < 2 ^ 63 then Some v else None)"

definition Atoi :: "string \<Rightarrow> int option" where
  "Atoi s = ParseInt64 s"

lemma byte_digit [simp]: "d < 10 \<Longrightarrow> byte (digit d) = 48 + d"
  by (simp add: digit_def)

lemma dec_val_snoc [simp]: "dec_val (s @ [c]) = dec_val s * 10 + digit_val c"
  by (simp add: dec_val_def)

lemma is_digit_digit [simp]: "d < 10 \<Longrightarrow> is_digit (digit d)"
  by (simp add: is_digit_def)

lemma nat_dec_digits: "list_all is_digit (nat_dec n)"
proof (induction n rule: nat_dec.induct)
  case (1 n)
  then show ?case by (subst nat_dec.simps) auto
qed

lemma nat_dec_nonempty [simp]: "nat_dec n \<noteq> []"
  by (subst nat_dec.simps) simp

lemma dec_val_nat_dec [simp]: "dec_val (nat_dec n) = n"
proof (induction n rule: nat_dec.induct)
  case (1 n)
  show ?case
  proof (cases "n < 10")
    case True
    then show ?thesis by (subst nat_dec.simps) (simp add: dec_val_def digit_val_def)
  next
    case False
    with 1 have "dec_val (nat_dec (n div 10)) = n div 10" by simp
    with False show ?thesis by (subst nat_dec.simps) (simp add: digit_val_def)
  qed
qed

lemma nat_dec_hd: "is_digit (hd (nat_dec n))"
  using nat_dec_digits [of n] nat_dec_nonempty [of n] by (cases "nat_dec n") auto

lemma FormatInt_nonempty [simp]: "FormatInt i \<noteq> []"
  by (simp add: FormatInt_def)

lemma Atoi_FormatInt:
  assumes "- (2 ^ 63) \<le> i" "i < 2 ^ 63"
  shows "Atoi (FormatInt i) = Some i"
proof -
  have "hd (nat_dec n) \<noteq> CHR ''-''" "hd (nat_dec n) \<noteq> CHR ''+''" for n
    using nat_dec_hd [of n] by (auto simp: is_digit_def)
  then show ?thesis
    using assms nat_dec_digits by (auto simp: Atoi_def ParseInt64_def FormatInt_def Let_def)
qed

definition hex_lower :: "nat \<Rightarrow> char" where
  "hex_lower d = (if d < 10 then char_of (48 + d) else char_of (87 + d))"

definition hex_upper :: "nat \<Rightarrow> char" where
  "hex_upper d = (if d < 10 then char_of (48 + d) else char_of (55 + d))"

text \<open>\<open>w\<close> lower-case hexadecimal digits of \<open>n\<close>, most significant first.\<close>

fun hexn :: "nat \<Rightarrow> nat \<Rightarrow> string" where
  "hexn 0 n = []"
| "hexn (Suc w) n = hexn w (n div 16) @ [hex_lower (n mod 16)]"

definition hex_EncodeToString :: "string \<Rightarrow> string" where
  "hex_EncodeToString bs = concat (map (\<lambda>b. [hex_lower (byte b div 16), hex_lower (byte b mod 16)]) bs)"

definition hex_val :: "char \<Rightarrow> nat option" where
  "hex_val c =
     (if 48 \<le> byte c \<and> byte c \<le> 57 then Some (byte c - 48)
      else if 97 \<le> byte c \<and> byte c \<le> 102 then Some (byte c - 87)
      else if 65 \<le> byte c \<and> byte c \<le> 70 then Some (byte c - 55)
      else None)"

lemma length_hex [simp]: "length (hex_EncodeToString bs) = 2 * length bs"
  by (induction bs) (simp_all add: hex_EncodeToString_def)

lemma length_hexn [simp]: "length (hexn w n) = w"
  by (induction w arbitrary: n) simp_all

lemma byte_hex_lower: "d < 16 \<Longrightarrow> byte (hex_lower d) = (if d < 10 then 48 + d else 87 + d)"
  by (simp add: hex_lower_def)

lemma hex_val_lower [simp]: "d < 16 \<Longrightarrow> hex_val (hex_lower d) = Some d"
  by (simp add: hex_val_def byte_hex_lower)

section \<open>The verb %q\<close>

text \<open>
  \<open>strconv.Quote\<close>.  Whether a rune above ASCII is printable is a table of package
  \<open>unicode\<close>: it is the parameter \<open>isprint\<close>.
\<close>

definition quote_rune :: "(nat \<Rightarrow> bool) \<Rightarrow> nat \<times> string \<Rightarrow> string" where
  "quote_rune isprint = (\<lambda>(r, bs).
     if r = RuneError \<and> length bs = 1 then bslash # CHR ''x'' # hexn 2 (byte (hd bs))
     else if r = byte dq \<or> r = byte bslash then [bslash, char_of r]
     else if (if r < 0x80 then 0x20 \<le> r \<and> r < 0x7f else isprint r) then bs
     else if r = 7 then [bslash, CHR ''a'']
     else if r = 8 then [bslash, CHR ''b'']
     else if r = 12 then [bslash, CHR ''f'']
     else if r = 10 then [bslash, CHR ''n'']
     else if r = 13 then [bslash, CHR ''r'']
     else if r = 9 then [bslash, CHR ''t'']
     else if r = 11 then [bslash, CHR ''v'']
     else if r < 0x20 \<or> r = 0x7f then bslash # CHR ''x'' # hexn 2 r
     else if r < 0x10000 then bslash # CHR ''u'' # hexn 4 r
     else bslash # CHR ''U'' # hexn 8 r)"

definition go_quote :: "(nat \<Rightarrow> bool) \<Rightarrow> string \<Rightarrow> string" where
  "go_quote isprint s = dq # concat (map (quote_rune isprint) (utf8_segs s)) @ [dq]"

text \<open>\<open>%.<n>q\<close> quotes the first \<open>n\<close> runes.\<close>

definition go_quote_prec :: "(nat \<Rightarrow> bool) \<Rightarrow> nat \<Rightarrow> string \<Rightarrow> string" where
  "go_quote_prec isprint n s = go_quote isprint (concat (map snd (take n (utf8_segs s))))"

section \<open>Package net/url\<close>

definition unreserved :: "char \<Rightarrow> bool" where
  "unreserved c \<longleftrightarrow> is_digit c \<or> (65 \<le> byte c \<and> byte c \<le> 90) \<or> (97 \<le> byte c \<and> byte c \<le> 122)
     \<or> c \<in> set ''-_.~''"

definition pct :: "char \<Rightarrow> string" where
  "pct c = [CHR ''%'', hex_upper (byte c div 16), hex_upper (byte c mod 16)]"

definition path_esc :: "char \<Rightarrow> string" where
  "path_esc c = (if unreserved c \<or> c \<in> set ''$&+:=@'' then [c] else pct c)"

definition PathEscape :: "string \<Rightarrow> string" where
  "PathEscape s = concat (map path_esc s)"

definition query_esc :: "char \<Rightarrow> string" where
  "query_esc c = (if c = CHR '' '' then ''+'' else if unreserved c then [c] else pct c)"

definition QueryEscape :: "string \<Rightarrow> string" where
  "QueryEscape s = concat (map query_esc s)"

text \<open>
  Percent decoding, to state that escaping loses nothing: two names never share an
  escaped path segment, and an escaped segment holds none of the bytes that end one.
\<close>

fun PathUnescape :: "string \<Rightarrow> string option" where
  "PathUnescape [] = Some []"
| "PathUnescape (c # s) =
     (if c = CHR ''%'' then
        (case s of
           h # l # t \<Rightarrow>
             (case (hex_val h, hex_val l) of
                (Some a, Some b) \<Rightarrow> map_option ((#) (char_of (16 * a + b))) (PathUnescape t)
              | _ \<Rightarrow> None)
         | _ \<Rightarrow> None)
      else map_option ((#) c) (PathUnescape s))"

lemma byte_hex_upper: "d < 16 \<Longrightarrow> byte (hex_upper d) = (if d < 10 then 48 + d else 55 + d)"
  by (simp add: hex_upper_def)

lemma hex_val_upper [simp]: "d < 16 \<Longrightarrow> hex_val (hex_upper d) = Some d"
  by (simp add: hex_val_def byte_hex_upper)

lemma nibble [simp]: "byte c div 16 < 16"
  using nat_of_char_less_256 [of c] by (simp add: less_mult_imp_div_less)

lemma nibbles [simp]: "16 * (byte c div 16) + byte c mod 16 = byte c"
  by simp

lemma percent_reserved: "path_esc (CHR ''%'') = pct (CHR ''%'')"
  by (simp add: path_esc_def unreserved_def is_digit_def)

lemma PathUnescape_esc [simp]: "PathUnescape (path_esc c @ t) = map_option ((#) c) (PathUnescape t)"
proof (cases "path_esc c = pct c")
  case True
  then show ?thesis by (simp add: pct_def)
next
  case False
  then have "path_esc c = [c]" "c \<noteq> CHR ''%''"
    using percent_reserved by (auto simp: path_esc_def split: if_splits)
  then show ?thesis by simp
qed

lemma PathUnescape_PathEscape: "PathUnescape (PathEscape s) = Some s"
  by (induction s) (simp_all add: PathEscape_def)

lemma PathEscape_inject: "PathEscape s = PathEscape t \<longleftrightarrow> s = t"
  by (metis PathUnescape_PathEscape option.inject)

lemma hex_upper_safe: "d < 16 \<Longrightarrow> hex_upper d \<notin> {CHR ''/'', CHR ''?'', CHR ''#''}"
  using byte_hex_upper [of d] by (auto split: if_splits)

lemma path_esc_safe: "x \<in> set (path_esc c) \<Longrightarrow> x \<notin> {CHR ''/'', CHR ''?'', CHR ''#''}"
  using hex_upper_safe [of "byte c div 16"] hex_upper_safe [of "byte c mod 16"]
  by (auto simp: path_esc_def pct_def unreserved_def is_digit_def split: if_splits)

lemma PathEscape_safe:
  "CHR ''/'' \<notin> set (PathEscape s)" "CHR ''?'' \<notin> set (PathEscape s)"
  "CHR ''#'' \<notin> set (PathEscape s)"
  using path_esc_safe by (fastforce simp: PathEscape_def)+

text \<open>\<open>url.Values\<close> with one value per key; \<open>Encode\<close> sorts by key.\<close>

type_synonym url_values = "(string \<times> string) list"

definition values_Set :: "string \<Rightarrow> string \<Rightarrow> url_values \<Rightarrow> url_values" where
  "values_Set k v form = (k, v) # filter (\<lambda>kv. fst kv \<noteq> k) form"

definition values_Encode :: "url_values \<Rightarrow> string" where
  "values_Encode form =
     (let ps = map (\<lambda>(k, v). QueryEscape k @ ''='' @ QueryEscape v) (sort_key fst form)
      in case ps of [] \<Rightarrow> [] | p # qs \<Rightarrow> p @ concat (map (\<lambda>q. CHR ''&'' # q) qs))"

section \<open>Splitting and unescaping\<close>

fun join :: "char \<Rightarrow> string list \<Rightarrow> string" where
  "join c [] = []"
| "join c [x] = x"
| "join c (x # y # xs) = x @ c # join c (y # xs)"

lemma join_Cons: "xs \<noteq> [] \<Longrightarrow> join c (x # xs) = x @ c # join c xs"
  by (cases xs) simp_all

lemma join_Split [simp]: "join c (Split s c) = s"
proof (induction s)
  case (Cons a s)
  then show ?case by (cases "Split s c"; cases "tl (Split s c)") (auto simp: join_Cons)
qed simp

lemma PathUnescape_append:
  "PathUnescape a = Some x \<Longrightarrow> PathUnescape (a @ b) = map_option ((@) x) (PathUnescape b)"
proof (induction a arbitrary: x rule: PathUnescape.induct)
  case 1
  then show ?case by (simp add: option.map_id [unfolded id_def])
next
  case (2 c s)
  show ?case
  proof (cases "c = CHR ''%''")
    case True
    with "2.prems" obtain h l t u v y where s: "s = h # l # t" "hex_val h = Some u" "hex_val l = Some v"
      "PathUnescape t = Some y" "x = char_of (16 * u + v) # y"
      by (auto split: list.splits option.splits)
    then have "PathUnescape (t @ b) = map_option ((@) y) (PathUnescape b)"
      using "2.IH"(1) [OF True s(1) _ refl] s by auto
    with True s show ?thesis by (simp add: option.map_comp comp_def)
  next
    case False
    with "2.prems" obtain y where "PathUnescape s = Some y" "x = c # y" by auto
    with "2.IH"(2) False show ?thesis by (simp add: option.map_comp comp_def)
  qed
qed

lemma PathUnescape_join:
  "those (map PathUnescape ps) = Some qs \<Longrightarrow> PathUnescape (join (CHR ''/'') ps) = Some (join (CHR ''/'') qs)"
proof (induction ps arbitrary: qs)
  case (Cons p ps)
  then obtain y zs where q: "PathUnescape p = Some y" "those (map PathUnescape ps) = Some zs" "qs = y # zs"
    by (auto split: option.splits)
  show ?case
  proof (cases ps)
    case Nil
    with q show ?thesis by simp
  next
    case (Cons p' ps')
    with q(2) have "zs \<noteq> []" by (auto split: option.splits)
    with Cons.IH [OF q(2)] q \<open>ps = p' # ps'\<close> show ?thesis
      by (simp add: join_Cons PathUnescape_append)
  qed
qed simp

end
