(* ===== verification/Go_Base64.thy ===== *)
theory Go_Base64
  imports Go_Text
begin

text \<open>
  \<open>encoding/base64.StdEncoding\<close>: the padded encoding of RFC 4648, and its decoder, which
  skips CR and LF, wants the padding, and does not look at the bits it discards.
\<close>

definition b64_char :: "nat \<Rightarrow> char" where
  "b64_char n =
     (if n < 26 then char_of (65 + n)
      else if n < 52 then char_of (71 + n)
      else if n < 62 then char_of (n - 4)
      else if n = 62 then CHR ''+'' else CHR ''/'')"

definition b64_val :: "char \<Rightarrow> nat option" where
  "b64_val c =
     (let b = byte c
      in if 65 \<le> b \<and> b \<le> 90 then Some (b - 65)
         else if 97 \<le> b \<and> b \<le> 122 then Some (b - 71)
         else if 48 \<le> b \<and> b \<le> 57 then Some (b + 4)
         else if b = 43 then Some 62
         else if b = 47 then Some 63 else None)"

fun EncodeToString :: "string \<Rightarrow> string" where
  "EncodeToString [] = []"
| "EncodeToString [a] = [b64_char (byte a div 4), b64_char (byte a mod 4 * 16), CHR ''='', CHR ''='']"
| "EncodeToString [a, b] =
     [b64_char (byte a div 4), b64_char (byte a mod 4 * 16 + byte b div 16),
      b64_char (byte b mod 16 * 4), CHR ''='']"
| "EncodeToString (a # b # c # s) =
     b64_char (byte a div 4) # b64_char (byte a mod 4 * 16 + byte b div 16) #
     b64_char (byte b mod 16 * 4 + byte c div 64) # b64_char (byte c mod 64) # EncodeToString s"

fun decode_quads :: "string \<Rightarrow> string option" where
  "decode_quads [] = Some []"
| "decode_quads (a # b # c # d # s) =
     (case (b64_val a, b64_val b, b64_val c, b64_val d) of
        (Some x, Some y, Some z, Some v) \<Rightarrow>
          map_option (\<lambda>t. char_of (x * 4 + y div 16) # char_of (y mod 16 * 16 + z div 4)
            # char_of (z mod 4 * 64 + v) # t) (decode_quads s)
      | (Some x, Some y, Some z, None) \<Rightarrow>
          if d = CHR ''='' \<and> s = []
          then Some [char_of (x * 4 + y div 16), char_of (y mod 16 * 16 + z div 4)] else None
      | (Some x, Some y, None, _) \<Rightarrow>
          if c = CHR ''='' \<and> d = CHR ''='' \<and> s = [] then Some [char_of (x * 4 + y div 16)] else None
      | _ \<Rightarrow> None)"
| "decode_quads _ = None"

definition DecodeString :: "string \<Rightarrow> string option" where
  "DecodeString s = decode_quads (filter (\<lambda>c. byte c \<noteq> 10 \<and> byte c \<noteq> 13) s)"

lemma byte_b64_char:
  "n < 64 \<Longrightarrow> byte (b64_char n) =
    (if n < 26 then 65 + n else if n < 52 then 71 + n else if n < 62 then n - 4
     else if n = 62 then 43 else 47)"
  by (auto simp: b64_char_def)

lemma b64_val_char [simp]: "n < 64 \<Longrightarrow> b64_val (b64_char n) = Some n"
  by (auto simp: b64_val_def byte_b64_char Let_def)

lemma b64_val_pad [simp]: "b64_val (CHR ''='') = None"
  by (simp add: b64_val_def)

lemma b64_bounds [simp]:
  "byte a div 4 < 64" "byte a mod 4 * 16 < 64" "byte a mod 4 * 16 + byte b div 16 < 64"
  "byte b mod 16 * 4 < 64" "byte b mod 16 * 4 + byte c div 64 < 64" "byte c mod 64 < 64"
proof -
  have a: "byte a < 256" "byte b < 256" "byte c < 256" by (rule nat_of_char_less_256)+
  then show "byte a div 4 < 64" by (simp add: less_mult_imp_div_less)
  have "byte b div 16 < 16" "byte c div 64 < 4" using a by (simp_all add: less_mult_imp_div_less)
  moreover have "byte a mod 4 < 4" "byte b mod 16 < 16" by simp_all
  ultimately show "byte a mod 4 * 16 < 64" "byte a mod 4 * 16 + byte b div 16 < 64"
    "byte b mod 16 * 4 < 64" "byte b mod 16 * 4 + byte c div 64 < 64" by linarith+
  show "byte c mod 64 < 64" by simp
qed

lemma b64_join1: "x div 4 * 4 + x mod 4 * 16 div 16 = (x :: nat)"
  by simp

lemma b64_join:
  assumes "(b::nat) < 256" "(c::nat) < 256"
  shows "a div 4 * 4 + (a mod 4 * 16 + b div 16) div 16 = a"
    and "(a mod 4 * 16 + b div 16) mod 16 * 16 + (b mod 16 * 4 + c div 64) div 4 = b"
    and "(a mod 4 * 16 + b div 16) mod 16 * 16 + (b mod 16 * 4) div 4 = b"
    and "(b mod 16 * 4 + c div 64) mod 4 * 64 + c mod 64 = c"
proof -
  have d: "b div 16 < 16" "c div 64 < 4" using assms by (simp_all add: less_mult_imp_div_less)
  show "a div 4 * 4 + (a mod 4 * 16 + b div 16) div 16 = a" using d by simp
  show "(a mod 4 * 16 + b div 16) mod 16 * 16 + (b mod 16 * 4 + c div 64) div 4 = b"
    using d by simp
  show "(a mod 4 * 16 + b div 16) mod 16 * 16 + (b mod 16 * 4) div 4 = b" using d by simp
  show "(b mod 16 * 4 + c div 64) mod 4 * 64 + c mod 64 = c" using d by simp
qed

lemma decode_EncodeToString: "decode_quads (EncodeToString s) = Some s"
proof (induction s rule: EncodeToString.induct)
  case (2 a)
  have "byte a div 4 * 4 + byte a mod 4 * 16 div 16 = byte a" by simp
  then show ?case by simp
next
  case (3 a b)
  show ?case
    using b64_join(1,3) [of "byte b" "byte b" "byte a"] by simp
next
  case (4 a b c s)
  then show ?case
    using b64_join(1,2) [of "byte b" "byte c" "byte a"] b64_join(4) [of "byte b" "byte c"] by simp
qed simp

lemma b64_char_no_newline: "n < 64 \<Longrightarrow> byte (b64_char n) \<noteq> 10 \<and> byte (b64_char n) \<noteq> 13"
  by (auto simp: byte_b64_char)

lemma Encode_no_newline: "list_all (\<lambda>c. byte c \<noteq> 10 \<and> byte c \<noteq> 13) (EncodeToString s)"
  by (induction s rule: EncodeToString.induct) (use b64_char_no_newline in simp_all)

lemma DecodeString_EncodeToString [simp]: "DecodeString (EncodeToString s) = Some s"
proof -
  have "filter (\<lambda>c. byte c \<noteq> 10 \<and> byte c \<noteq> 13) (EncodeToString s) = EncodeToString s"
    using Encode_no_newline [of s] by (simp add: filter_id_conv list_all_iff)
  then show ?thesis by (simp add: DecodeString_def decode_EncodeToString)
qed

lemma EncodeToString_nonempty [simp]: "EncodeToString s = [] \<longleftrightarrow> s = []"
  by (cases s rule: EncodeToString.cases) simp_all

end
