(* ===== verification/Log_Sanitizer.thy ===== *)
theory Log_Sanitizer
  imports Go_Text
begin

text \<open>
  \<open>sanitizeForLog\<close>, the function each adapter applies to values it writes to the log
  (datadog.go; splunk.go, sonarqube.go and pagerduty.go hold the same text).
\<close>

section \<open>The function\<close>

definition ellipsis :: string where
  "ellipsis = [CHR 0xE2, CHR 0x80, CHR 0xA6]"

definition maxRunes :: nat where
  "maxRunes = 256"

text \<open>The loop \<open>for _, r := range s\<close>, with \<open>n\<close> the number of runes written so far.\<close>

fun sanitize_loop :: "nat \<Rightarrow> nat list \<Rightarrow> string" where
  "sanitize_loop n [] = []"
| "sanitize_loop n (r # rs) =
     (if r < 0x20 \<or> r = 0x7f then sanitize_loop n rs
      else utf8_encode r @ (if n + 1 \<ge> maxRunes then ellipsis else sanitize_loop (n + 1) rs))"

definition sanitizeForLog :: "string \<Rightarrow> string" where
  "sanitizeForLog s = sanitize_loop 0 (runes s)"

section \<open>What it returns\<close>

definition loggable :: "nat \<Rightarrow> bool" where
  "loggable r \<longleftrightarrow> \<not> (r < 0x20 \<or> r = 0x7f)"

lemma ellipsis_utf8: "ellipsis = utf8_encode 0x2026"
proof -
  have "char_of (226 :: nat) = CHR 0xE2" "char_of (128 :: nat) = CHR 0x80" "char_of (166 :: nat) = CHR 0xA6"
    by (simp_all add: char_of_eq_iff)
  then show ?thesis
    by (simp add: ellipsis_def utf8_encode_def utf8_enc_def valid_rune_def surrogate_def)
qed

lemma runes_ellipsis: "runes ellipsis = [0x2026]"
  using runes_encode [of "0x2026" "[]"] by (simp add: ellipsis_utf8 valid_rune_def surrogate_def)

lemma runes_sanitize_loop:
  assumes "list_all valid_rune rs" "n < maxRunes"
  shows "runes (sanitize_loop n rs) =
    (let kept = filter loggable rs
     in if n + length kept < maxRunes then kept else take (maxRunes - n) kept @ [0x2026])"
  using assms
proof (induction n rs rule: sanitize_loop.induct)
  case (2 n r rs)
  consider "\<not> loggable r" | "loggable r" "n + 1 \<ge> maxRunes" | "loggable r" "n + 1 < maxRunes"
    by linarith
  then show ?case
  proof cases
    case 2
    then have "maxRunes - n = 1" using \<open>n < maxRunes\<close> by simp
    with 2 "2.prems" show ?thesis by (simp add: loggable_def runes_encode runes_ellipsis)
  next
    case 3
    moreover have "maxRunes - n = Suc (maxRunes - (n + 1))" using 3 by simp
    ultimately show ?thesis
      using "2.IH"(2) "2.prems" by (auto simp: loggable_def runes_encode Let_def)
  qed (use 2 in \<open>auto simp: loggable_def Let_def\<close>)
qed simp

lemma runes_sanitizeForLog:
  "runes (sanitizeForLog s) =
    (let kept = filter loggable (runes s)
     in if length kept < maxRunes then kept else take maxRunes kept @ [0x2026])"
  using runes_sanitize_loop [OF runes_valid, of 0 s]
  by (simp add: sanitizeForLog_def maxRunes_def Let_def)

definition log_safe :: "string \<Rightarrow> bool" where
  "log_safe s \<longleftrightarrow> list_all (\<lambda>c. loggable (byte c)) s"

lemma log_safe_encode: "valid_rune r \<Longrightarrow> loggable r \<Longrightarrow> log_safe (utf8_encode r)"
proof (cases "r < 0x80")
  case False
  assume "valid_rune r"
  with False have "\<forall>c \<in> set (utf8_encode r). 0x80 \<le> byte c"
    by (auto simp: utf8_encode_def intro: utf8_enc_high [of r])
  then show ?thesis by (fastforce simp: log_safe_def loggable_def list_all_iff)
qed (simp add: utf8_encode_def utf8_enc_def log_safe_def)

lemma log_safe_ellipsis: "log_safe ellipsis"
  by (simp add: log_safe_def ellipsis_def loggable_def)

lemma log_safe_loop: "list_all valid_rune rs \<Longrightarrow> log_safe (sanitize_loop n rs)"
proof (induction n rs rule: sanitize_loop.induct)
  case (2 n r rs)
  then show ?case
    using log_safe_encode [of r] log_safe_ellipsis by (simp add: loggable_def) (simp add: log_safe_def)
qed (simp add: log_safe_def)

lemma log_safe_sanitizeForLog: "log_safe (sanitizeForLog s)"
  by (simp add: sanitizeForLog_def log_safe_loop runes_valid)

lemma sanitize_loop_printable:
  "printable s \<Longrightarrow> n + length s < maxRunes \<Longrightarrow> sanitize_loop n (map byte s) = s"
  by (induction s arbitrary: n)
     (auto simp: utf8_encode_def utf8_enc_def valid_rune_def surrogate_def maxRunes_def)

lemma runes_short: "length (runes s) \<le> length s"
  by (induction s rule: utf8_segs.induct)
     (use decode_rune_rest le_trans in \<open>fastforce simp: runes_Cons\<close>)+

section \<open>Properties\<close>

lemma sanitize_loop_exact:
  "printable s \<Longrightarrow> n < maxRunes \<Longrightarrow>
   sanitize_loop n (map byte s) = (if n + length s < maxRunes then s else take (maxRunes - n) s @ ellipsis)"
proof (induction s arbitrary: n)
  case (Cons a s)
  have enc: "utf8_encode (byte a) = [a]"
    using Cons.prems by (simp add: utf8_encode_def utf8_enc_def valid_rune_def surrogate_def)
  show ?case
  proof (cases "n + 1 \<ge> maxRunes")
    case True
    then have "maxRunes - n = 1" using Cons.prems by simp
    with Cons.prems True enc show ?thesis by simp
  next
    case False
    then have "maxRunes - n = Suc (maxRunes - (n + 1))" by simp
    with Cons False enc show ?thesis by simp
  qed
qed (simp add: maxRunes_def)

text \<open>
  C38. Whatever the bytes of a value, the text \<open>sanitizeForLog\<close> writes to the log holds no
  control character (no CR, LF or DEL, so no forged log line), has at most 257 runes, and
  is not changed by sanitizing it again.
\<close>

theorem sanitizeForLog_safe:
  "log_safe (sanitizeForLog s) \<and> length (runes (sanitizeForLog s)) \<le> maxRunes + 1 \<and>
   runes (sanitizeForLog (sanitizeForLog s)) = runes (sanitizeForLog s)"
proof -
  let ?k = "filter loggable (runes s)"
  have k: "filter loggable (take n ?k) = take n ?k" for n
    using in_set_takeD by (fastforce simp: filter_id_conv)
  have l: "loggable 0x2026" by (simp add: loggable_def)
  have "runes (sanitizeForLog (sanitizeForLog s)) = runes (sanitizeForLog s)"
    using k l by (simp add: runes_sanitizeForLog Let_def)
  moreover have "length (runes (sanitizeForLog s)) \<le> maxRunes + 1"
    by (simp add: runes_sanitizeForLog Let_def)
  ultimately show ?thesis using log_safe_sanitizeForLog by blast
qed

text \<open>
  A printable value shorter than 256 bytes is logged unchanged; from 256 bytes on, its
  first 256 are followed by an ellipsis, also when there were exactly 256 and nothing was cut.
\<close>

lemma sanitizeForLog_printable:
  assumes "printable s"
  shows "sanitizeForLog s = (if length s < 256 then s else take 256 s @ ellipsis)"
proof -
  have "runes s = map byte s" using assms by (intro runes_all_ascii printable_ascii)
  then show ?thesis
    using sanitize_loop_exact [OF assms, of 0] by (simp add: sanitizeForLog_def maxRunes_def)
qed

end
