(* ===== verification/Go_Json.thy ===== *)
theory Go_Json
  imports Go_Text
begin

text \<open>
  Package \<open>encoding/json\<close> as the program uses it: a parser for JSON texts, the printer
  behind \<open>json.Marshal\<close> and \<open>Encoder.Encode\<close>, and the decoding of a parsed value into
  Go structs, maps, slices, strings, booleans and integers (keys matched exactly, else
  up to case; a later duplicate overwrites; \<open>null\<close> leaves a value as it is; a value of
  the wrong type is an error).  The limit of 10000 nested values and the wording of the
  package's own error messages are not modelled.
\<close>

section \<open>Values\<close>

datatype json =
    JNull
  | JBool bool
  | JNum string
  | JStr string
  | JArr "json list"
  | JObj "(string \<times> json) list"

section \<open>Scanning\<close>

definition is_ws :: "char \<Rightarrow> bool" where
  "is_ws c \<longleftrightarrow> c = CHR '' '' \<or> byte c = 9 \<or> byte c = 10 \<or> byte c = 13"

definition skip_ws :: "string \<Rightarrow> string" where
  "skip_ws s = dropWhile is_ws s"

lemma length_skip_ws: "length (skip_ws s) \<le> length s"
  by (simp add: skip_ws_def length_dropWhile_le)

lemma skip_ws_id [simp]: "\<not> is_ws c \<Longrightarrow> skip_ws (c # s) = c # s"
  by (simp add: skip_ws_def)

lemma skip_ws_Nil [simp]: "skip_ws [] = []"
  by (simp add: skip_ws_def)

lemma skip_ws_rest: "skip_ws s = c # t \<Longrightarrow> length t < length s"
  using length_skip_ws [of s] by simp

definition hex4 :: "string \<Rightarrow> (nat \<times> string) option" where
  "hex4 s = (case s of
     a # b # c # d # t \<Rightarrow>
       (case (hex_val a, hex_val b, hex_val c, hex_val d) of
          (Some w, Some x, Some y, Some z) \<Rightarrow> Some (((w * 16 + x) * 16 + y) * 16 + z, t)
        | _ \<Rightarrow> None)
   | _ \<Rightarrow> None)"

text \<open>The half of a surrogate pair that may follow the first.\<close>

definition low_half :: "string \<Rightarrow> (nat \<times> string) option" where
  "low_half s = (case s of
     a # b # t \<Rightarrow> (if a = bslash \<and> b = CHR ''u'' then hex4 t else None)
   | _ \<Rightarrow> None)"

text \<open>What follows a backslash: the bytes it stands for, and the rest.\<close>

definition unescape :: "string \<Rightarrow> (string \<times> string) option" where
  "unescape s = (case s of
     [] \<Rightarrow> None
   | e # t \<Rightarrow>
       if e = dq \<or> e = bslash \<or> e = CHR ''/'' then Some ([e], t)
       else if e = CHR ''b'' then Some ([char_of (8::nat)], t)
       else if e = CHR ''f'' then Some ([char_of (12::nat)], t)
       else if e = CHR ''n'' then Some ([char_of (10::nat)], t)
       else if e = CHR ''r'' then Some ([char_of (13::nat)], t)
       else if e = CHR ''t'' then Some ([char_of (9::nat)], t)
       else if e = CHR ''u'' then
         (case hex4 t of
            None \<Rightarrow> None
          | Some (r, t1) \<Rightarrow>
              if surrogate r then
                (case low_half t1 of
                   Some (r1, t2) \<Rightarrow>
                     if r < 0xDC00 \<and> 0xDC00 \<le> r1 \<and> r1 \<le> 0xDFFF
                     then Some (utf8_encode (0x10000 + (r - 0xD800) * 1024 + (r1 - 0xDC00)), t2)
                     else Some (utf8_encode RuneError, t1)
                 | None \<Rightarrow> Some (utf8_encode RuneError, t1))
              else Some (utf8_encode r, t1))
       else None)"

lemma hex4_length: "hex4 s = Some (r, t) \<Longrightarrow> length t < length s"
  by (auto simp: hex4_def split: list.splits option.splits)

lemma low_half_length: "low_half s = Some (r, t) \<Longrightarrow> length t < length s"
  by (auto simp: low_half_def dest: hex4_length split: list.splits if_splits)

lemma unescape_length: "unescape s = Some (b, t) \<Longrightarrow> length t < length s"
  by (auto simp: unescape_def dest!: hex4_length low_half_length
      split: list.splits if_splits option.splits)

text \<open>The bytes of a string literal after its opening quote, up to the closing one.\<close>

function scan_str :: "string \<Rightarrow> (string \<times> string) option" where
  "scan_str [] = None"
| "scan_str (c # s) =
     (if c = dq then Some ([], s)
      else if c = bslash then
        (case unescape s of
           None \<Rightarrow> None
         | Some (b, t) \<Rightarrow> (case scan_str t of None \<Rightarrow> None | Some (r, u) \<Rightarrow> Some (b @ r, u)))
      else if byte c < 0x20 then None
      else (case scan_str s of None \<Rightarrow> None | Some (r, u) \<Rightarrow> Some (c # r, u)))"
  by pat_completeness auto
termination
  by (relation "measure length") (auto dest: unescape_length)

lemma scan_str_length: "scan_str s = Some (r, t) \<Longrightarrow> length t < length s"
proof (induction s arbitrary: r rule: scan_str.induct)
  case 1
  then show ?case by simp
next
  case (2 c s)
  then show ?case
    by (auto dest!: unescape_length split: if_splits option.splits) fastforce+
qed

text \<open>Invalid UTF-8 in a literal is replaced by U+FFFD.\<close>

definition to_valid :: "string \<Rightarrow> string" where
  "to_valid s = concat (map utf8_encode (runes s))"

lemma to_valid_ascii [simp]: "ascii s \<Longrightarrow> to_valid s = s"
  by (induction s) (auto simp: to_valid_def utf8_encode_def utf8_enc_def valid_rune_def surrogate_def)

text \<open>Number literals; the literal itself is kept.\<close>

definition scan_digits :: "string \<Rightarrow> (string \<times> string) option" where
  "scan_digits s = (if takeWhile is_digit s = [] then None
     else Some (takeWhile is_digit s, dropWhile is_digit s))"

definition scan_int :: "string \<Rightarrow> (string \<times> string) option" where
  "scan_int s = (case s of
     c # t \<Rightarrow> if c = CHR ''0'' then Some ([c], t) else scan_digits s
   | [] \<Rightarrow> None)"

definition scan_frac :: "string \<Rightarrow> (string \<times> string) option" where
  "scan_frac s = (case s of
     c # t \<Rightarrow> if c = CHR ''.'' then map_option (\<lambda>(d, u). (c # d, u)) (scan_digits t) else Some ([], s)
   | [] \<Rightarrow> Some ([], s))"

definition scan_exp :: "string \<Rightarrow> (string \<times> string) option" where
  "scan_exp s = (case s of
     c # t \<Rightarrow>
       if c = CHR ''e'' \<or> c = CHR ''E'' then
         (case t of
            g # t' \<Rightarrow>
              if g = CHR ''+'' \<or> g = CHR ''-''
              then map_option (\<lambda>(d, u). (c # g # d, u)) (scan_digits t')
              else map_option (\<lambda>(d, u). (c # d, u)) (scan_digits t)
          | [] \<Rightarrow> None)
       else Some ([], s)
   | [] \<Rightarrow> Some ([], s))"

definition scan_num :: "string \<Rightarrow> (string \<times> string) option" where
  "scan_num s =
     (let sg = (if s \<noteq> [] \<and> hd s = CHR ''-'' then [hd s] else []) in
      case scan_int (drop (length sg) s) of
        None \<Rightarrow> None
      | Some (i, s1) \<Rightarrow>
          (case scan_frac s1 of
             None \<Rightarrow> None
           | Some (f, s2) \<Rightarrow>
               (case scan_exp s2 of
                  None \<Rightarrow> None
                | Some (e, s3) \<Rightarrow> Some (sg @ i @ f @ e, s3))))"

definition scan_lit :: "string \<Rightarrow> json \<Rightarrow> string \<Rightarrow> (json \<times> string) option" where
  "scan_lit l v s = (if HasPrefix s l then Some (v, drop (length l) s) else None)"

section \<open>The parser\<close>

text \<open>
  Recursive descent; each call returns the value and the rest of the text.  The test
  that a value consumed something keeps the recursion well-founded; it never fails
  (\<open>parse_value_length\<close>).
\<close>

function parse_value :: "string \<Rightarrow> (json \<times> string) option"
  and parse_elems :: "string \<Rightarrow> (json list \<times> string) option"
  and parse_members :: "string \<Rightarrow> ((string \<times> json) list \<times> string) option" where
  "parse_value [] = None"
| "parse_value (c # s) =
     (if is_ws c then parse_value s
      else if c = dq then map_option (\<lambda>(x, t). (JStr (to_valid x), t)) (scan_str s)
      else if c = CHR ''{'' then
        (case skip_ws s of
           [] \<Rightarrow> None
         | d # t \<Rightarrow> if d = CHR ''}'' then Some (JObj [], t)
             else map_option (\<lambda>(ms, u). (JObj ms, u)) (parse_members (d # t)))
      else if c = CHR ''['' then
        (case skip_ws s of
           [] \<Rightarrow> None
         | d # t \<Rightarrow> if d = CHR '']'' then Some (JArr [], t)
             else map_option (\<lambda>(vs, u). (JArr vs, u)) (parse_elems (d # t)))
      else if c = CHR ''t'' then scan_lit ''true'' (JBool True) (c # s)
      else if c = CHR ''f'' then scan_lit ''false'' (JBool False) (c # s)
      else if c = CHR ''n'' then scan_lit ''null'' JNull (c # s)
      else map_option (\<lambda>(n, t). (JNum n, t)) (scan_num (c # s)))"
| "parse_elems s =
     (case parse_value s of
        None \<Rightarrow> None
      | Some (v, t) \<Rightarrow>
          (if length t < length s then
            (case skip_ws t of
               [] \<Rightarrow> None
             | d # u \<Rightarrow>
                 if d = CHR '','' then map_option (\<lambda>(vs, w). (v # vs, w)) (parse_elems u)
                 else if d = CHR '']'' then Some ([v], u) else None)
           else None))"
| "parse_members s =
     (case skip_ws s of
        [] \<Rightarrow> None
      | c # s1 \<Rightarrow>
        (if c \<noteq> dq then None
         else case scan_str s1 of
           None \<Rightarrow> None
         | Some (k, t) \<Rightarrow>
           (case skip_ws t of
              [] \<Rightarrow> None
            | d # u \<Rightarrow>
              (if d \<noteq> CHR '':'' then None
               else case parse_value u of
                 None \<Rightarrow> None
               | Some (v, w) \<Rightarrow>
                   (if length w < length s then
                     (case skip_ws w of
                        [] \<Rightarrow> None
                      | e # w1 \<Rightarrow>
                          if e = CHR '','' then
                            map_option (\<lambda>(ms, x). ((to_valid k, v) # ms, x)) (parse_members w1)
                          else if e = CHR ''}'' then Some ([(to_valid k, v)], w1) else None)
                    else None)))))"
  by pat_completeness auto
termination
proof (relation "measure (\<lambda>x. case x of
      Inl s \<Rightarrow> 2 * length s
    | Inr (Inl s) \<Rightarrow> Suc (2 * length s)
    | Inr (Inr s) \<Rightarrow> Suc (2 * length s))", goal_cases)
qed (auto dest!: skip_ws_rest scan_str_length)

declare parse_elems.simps [simp del] parse_members.simps [simp del]

lemma scan_digits_length: "scan_digits s = Some (d, t) \<Longrightarrow> length t < length s"
proof -
  assume a: "scan_digits s = Some (d, t)"
  then have "takeWhile is_digit s \<noteq> []" "t = dropWhile is_digit s"
    by (auto simp: scan_digits_def split: if_splits)
  moreover have "length s = length (takeWhile is_digit s) + length (dropWhile is_digit s)"
    by (metis length_append takeWhile_dropWhile_id)
  ultimately show ?thesis by (cases "takeWhile is_digit s") auto
qed

lemma scan_int_length: "scan_int s = Some (d, t) \<Longrightarrow> length t < length s"
  by (auto simp: scan_int_def dest: scan_digits_length split: list.splits if_splits)

lemma scan_frac_length: "scan_frac s = Some (d, t) \<Longrightarrow> length t \<le> length s"
  by (auto simp: scan_frac_def dest: scan_digits_length split: list.splits if_splits)

lemma scan_exp_length: "scan_exp s = Some (d, t) \<Longrightarrow> length t \<le> length s"
  by (auto simp: scan_exp_def dest: scan_digits_length split: list.splits if_splits)

lemma scan_num_length: "scan_num s = Some (d, t) \<Longrightarrow> length t < length s"
  by (fastforce simp: scan_num_def Let_def
      dest!: scan_int_length scan_frac_length scan_exp_length split: option.splits if_splits)

lemma scan_lit_length: "scan_lit l v s = Some (w, t) \<Longrightarrow> l \<noteq> [] \<Longrightarrow> length t < length s"
  by (cases s) (auto simp: scan_lit_def HasPrefix_def split: if_splits)

text \<open>The guards of the parser never fail: every value consumes something.\<close>

lemma parse_length:
  "parse_value s = Some (v, t) \<Longrightarrow> length t < length s"
  "parse_elems s' = Some (vs, t) \<Longrightarrow> length t < length s'"
  "parse_members s'' = Some (ms, t) \<Longrightarrow> length t < length s''"
proof (induction s and s' and s'' arbitrary: v t and vs t and ms t
    rule: parse_value_parse_elems_parse_members.induct)
  case 1
  then show ?case by simp
next
  case (2 c s)
  then show ?case
    by (auto dest!: scan_str_length scan_num_length scan_lit_length skip_ws_rest
        split: if_splits list.splits) fastforce+
next
  case (3 s)
  from "3.prems" obtain x u d w where
      a: "parse_value s = Some (x, u)" "length u < length s" "skip_ws u = d # w"
    and b: "w = t \<or> (d = CHR '','' \<and> (\<exists>vs'. parse_elems w = Some (vs', t)))"
    by (subst (asm) parse_elems.simps) (auto split: option.splits list.splits if_splits)
  from b have "length t \<le> length w"
    using "3.IH"(2) [OF a(1) refl a(2,3)] by auto
  with skip_ws_rest [OF a(3)] a(2) show ?case by simp
next
  case (4 s)
  from "4.prems" obtain s1 k y z x u d w where
      a: "skip_ws s = dq # s1" "scan_str s1 = Some (k, y)" "skip_ws y = CHR '':'' # z"
         "parse_value z = Some (x, u)" "length u < length s" "skip_ws u = d # w"
    and b: "w = t \<or> (d = CHR '','' \<and> (\<exists>ms'. parse_members w = Some (ms', t)))"
    by (subst (asm) parse_members.simps) (auto split: option.splits list.splits if_splits)
  from b have "length t \<le> length w"
    using "4.IH"(2) [OF a(1) _ a(2) refl a(3) _ a(4) refl a(5,6)] by auto
  with skip_ws_rest [OF a(6)] a(5) show ?case by simp
qed

lemma parse_value_length: "parse_value s = Some (v, t) \<Longrightarrow> length t < length s"
  by (rule parse_length)

section \<open>The printer\<close>

definition json_esc :: "nat \<times> string \<Rightarrow> string" where
  "json_esc = (\<lambda>(r, bs).
     if r = RuneError \<and> length bs = 1 then bslash # CHR ''u'' # ''fffd''
     else if r = 0x2028 \<or> r = 0x2029 then bslash # CHR ''u'' # hexn 4 r
     else if r = byte dq \<or> r = byte bslash then [bslash, char_of r]
     else if r = 8 then [bslash, CHR ''b'']
     else if r = 12 then [bslash, CHR ''f'']
     else if r = 10 then [bslash, CHR ''n'']
     else if r = 13 then [bslash, CHR ''r'']
     else if r = 9 then [bslash, CHR ''t'']
     else if r < 0x20 \<or> r = byte CHR ''<'' \<or> r = byte CHR ''>'' \<or> r = byte CHR ''&''
       then bslash # CHR ''u'' # hexn 4 r
     else bs)"

definition json_quote :: "string \<Rightarrow> string" where
  "json_quote s = dq # concat (map json_esc (utf8_segs s)) @ [dq]"

fun commas :: "string list \<Rightarrow> string" where
  "commas [] = []"
| "commas [x] = x"
| "commas (x # y # zs) = x @ CHR '','' # commas (y # zs)"

fun json_print :: "json \<Rightarrow> string" where
  "json_print JNull = ''null''"
| "json_print (JBool b) = (if b then ''true'' else ''false'')"
| "json_print (JNum n) = n"
| "json_print (JStr s) = json_quote s"
| "json_print (JArr vs) = CHR ''['' # commas (map json_print vs) @ '']''"
| "json_print (JObj ms) =
     CHR ''{'' # commas (map (\<lambda>(k, v). json_quote k @ CHR '':'' # json_print v) ms) @ ''}''"

lemma length_json_esc: "length bs \<le> 4 \<Longrightarrow> length (json_esc (r, bs)) \<le> 6"
  by (simp add: json_esc_def)

lemma length_json_quote: "ascii s \<Longrightarrow> length (json_quote s) \<le> 6 * length s + 2"
proof -
  assume a: "ascii s"
  have "length (concat (map json_esc (utf8_segs s))) \<le> 6 * length s" if "ascii s" for s
    using that
  proof (induction s)
    case (Cons c s)
    then show ?case using length_json_esc [of "[c]" "byte c"] by simp
  qed simp
  from this [OF a] show ?thesis by (simp add: json_quote_def)
qed

text \<open>
  Values the round trip is stated for hold no number literals; their text comes back with
  invalid UTF-8 replaced, so that ASCII values come back as they are.
\<close>

fun no_nums :: "json \<Rightarrow> bool" where
  "no_nums JNull \<longleftrightarrow> True"
| "no_nums (JBool b) \<longleftrightarrow> True"
| "no_nums (JNum n) \<longleftrightarrow> False"
| "no_nums (JStr s) \<longleftrightarrow> True"
| "no_nums (JArr vs) \<longleftrightarrow> list_all no_nums vs"
| "no_nums (JObj ms) \<longleftrightarrow> list_all (\<lambda>(k, v). no_nums v) ms"

fun valid_json :: "json \<Rightarrow> json" where
  "valid_json JNull = JNull"
| "valid_json (JBool b) = JBool b"
| "valid_json (JNum n) = JNum n"
| "valid_json (JStr s) = JStr (to_valid s)"
| "valid_json (JArr vs) = JArr (map valid_json vs)"
| "valid_json (JObj ms) = JObj (map (\<lambda>(k, v). (to_valid k, valid_json v)) ms)"

fun ascii_json :: "json \<Rightarrow> bool" where
  "ascii_json JNull \<longleftrightarrow> True"
| "ascii_json (JBool b) \<longleftrightarrow> True"
| "ascii_json (JNum n) \<longleftrightarrow> False"
| "ascii_json (JStr s) \<longleftrightarrow> ascii s"
| "ascii_json (JArr vs) \<longleftrightarrow> list_all ascii_json vs"
| "ascii_json (JObj ms) \<longleftrightarrow> list_all (\<lambda>(k, v). ascii k \<and> ascii_json v) ms"

lemma ascii_json_no_nums: "ascii_json v \<Longrightarrow> no_nums v"
  by (induction v) (auto simp: list_all_iff)

lemma ascii_json_valid: "ascii_json v \<Longrightarrow> valid_json v = v"
  by (induction v) (auto simp: list_all_iff intro!: map_idI)

lemma hex_val_hexn4:
  assumes "r < 0x10000"
  shows "hex4 (hexn 4 r @ t) = Some (r, t)"
proof -
  have d: "r div 16 div 16 div 16 < 16"
    using assms by (simp add: div_mult2_eq [symmetric] less_mult_imp_div_less)
  have four: "hexn 4 r = hexn (Suc (Suc (Suc (Suc 0)))) r"
    by (rule arg_cong [where f = "\<lambda>w. hexn w r"]) simp
  have digits: "hexn 4 r = [hex_lower (r div 16 div 16 div 16), hex_lower (r div 16 div 16 mod 16),
      hex_lower (r div 16 mod 16), hex_lower (r mod 16)]"
    using d unfolding four by simp
  have "((r div 16 div 16 div 16 * 16 + r div 16 div 16 mod 16) * 16 + r div 16 mod 16) * 16 + r mod 16 = r"
    by (simp only: div_mult_mod_eq)
  with d show ?thesis unfolding digits by (simp add: hex4_def)
qed

lemma unescape_hex:
  assumes "r < 0x10000" "\<not> surrogate r"
  shows "unescape (CHR ''u'' # hexn 4 r @ t) = Some (utf8_encode r, t)"
  using assms by (simp add: unescape_def hex_val_hexn4)

lemma utf8_encode_ascii: "r < 0x80 \<Longrightarrow> utf8_encode r = [char_of r]"
  by (simp add: utf8_encode_def utf8_enc_def valid_rune_def surrogate_def)

lemma scan_str_esc:
  assumes "byte c < 0x80"
  shows "scan_str (json_esc (byte c, [c]) @ t)
           = map_option (\<lambda>(r, u). (c # r, u)) (scan_str t)"
proof -
  have c: "char_of (byte c) = c"
    by simp
  have esc: "scan_str (bslash # CHR ''u'' # hexn 4 (byte c) @ t)
      = map_option (\<lambda>(r, u). (c # r, u)) (scan_str t)"
    using unescape_hex [of "byte c" t] assms
    by (simp add: surrogate_def utf8_encode_ascii split: option.split)
  have two: "scan_str (bslash # e # t) = map_option (\<lambda>(r, u). (c # r, u)) (scan_str t)"
    if "unescape (e # t) = Some ([c], t)" for e
    using that by (simp split: option.split)
  have ch: "char_of n = c" if "byte c = n" for n
    using that by auto
  show ?thesis
    using assms esc
    by (auto simp: json_esc_def RuneError_def unescape_def ch intro!: two split: option.split)
qed

lemma scan_str_high:
  "list_all (\<lambda>c. 0x80 \<le> byte c) bs \<Longrightarrow>
   scan_str (bs @ t) = map_option (\<lambda>(r, u). (bs @ r, u)) (scan_str t)"
proof (induction bs)
  case (Cons c bs)
  have "c \<noteq> dq" "c \<noteq> bslash" "\<not> byte c < 0x20" using Cons.prems by auto
  with Cons show ?case by (simp split: option.split)
qed (simp add: option.map_id case_prod_beta)

text \<open>
  Any segment, escaped and scanned again: the rune it stands for, U+FFFD for a byte that
  starts none.
\<close>

lemma scan_str_seg:
  assumes "seg_ok (r, bs)"
  shows "scan_str (json_esc (r, bs) @ t) = map_option (\<lambda>(x, u). (utf8_encode r @ x, u)) (scan_str t)"
proof -
  have hex: "scan_str (bslash # CHR ''u'' # hexn 4 n @ t)
      = map_option (\<lambda>(x, u). (utf8_encode n @ x, u)) (scan_str t)" if "n < 0x10000" "\<not> surrogate n" for n
    using unescape_hex [OF that, of t] by (simp split: option.split)
  have low: "hexn 4 0xFFFD = ''fffd''"
  proof -
    have "hexn 4 0xFFFD = hexn (Suc (Suc (Suc (Suc 0)))) 0xFFFD"
      by (rule arg_cong [where f = "\<lambda>w. hexn w 0xFFFD"]) simp
    moreover have "char_of (102 :: nat) = CHR ''f''" "char_of (100 :: nat) = CHR ''d''" by code_simp+
    ultimately show ?thesis by (simp add: hex_lower_def)
  qed
  consider "r = RuneError" "length bs = 1" | "valid_rune r" "bs = utf8_enc r" "r < 0x80"
    | "valid_rune r" "bs = utf8_enc r" "\<not> r < 0x80" "r \<noteq> RuneError \<or> length bs \<noteq> 1"
    using assms by (auto simp: seg_ok_def)
  then show ?thesis
  proof cases
    case 1
    then have "json_esc (r, bs) = bslash # CHR ''u'' # hexn 4 RuneError"
      unfolding json_esc_def RuneError_def low by simp
    with 1 show ?thesis using hex [of RuneError] by (simp add: RuneError_def surrogate_def)
  next
    case 2
    then have "bs = [char_of r]" "byte (char_of r) = r" by (simp_all add: utf8_enc_def)
    with 2(3) scan_str_esc [of "char_of r" t] show ?thesis by (simp add: utf8_encode_ascii)
  next
    case 3
    have "list_all (\<lambda>c. 0x80 \<le> byte c) bs" using seg_high [OF assms 3(3)] .
    moreover have "utf8_encode r = bs" using 3 by (simp add: utf8_encode_def)
    ultimately show ?thesis
      using 3 scan_str_high [of bs t] hex [of r] by (auto simp: json_esc_def surrogate_def)
  qed
qed

lemma scan_str_segs:
  "list_all seg_ok segs \<Longrightarrow>
   scan_str (concat (map json_esc segs) @ dq # t) = Some (concat (map (utf8_encode \<circ> fst) segs), t)"
proof (induction segs)
  case (Cons sg segs)
  then show ?case by (cases sg) (simp add: scan_str_seg del: scan_str.simps)
qed simp

lemma scan_str_quoted: "scan_str (concat (map json_esc (utf8_segs s)) @ dq # t) = Some (to_valid s, t)"
  using scan_str_segs [OF utf8_segs_ok, of s t] by (simp add: to_valid_def runes_def)

lemma runes_encoded: "list_all valid_rune rs \<Longrightarrow> runes (concat (map utf8_encode rs)) = rs"
  by (induction rs) (simp_all add: runes_encode)

lemma to_valid_idem [simp]: "to_valid (to_valid s) = to_valid s"
  using runes_encoded [OF runes_valid, of s] by (simp add: to_valid_def)

text \<open>\<open>%q\<close> agrees with JSON on printable ASCII text.\<close>

lemma scan_str_go_quoted:
  assumes "printable s"
  shows "scan_str (concat (map (quote_rune p) (utf8_segs s)) @ dq # t) = Some (s, t)"
  using assms
proof (induction s)
  case Nil
  then show ?case by simp
next
  case (Cons c s)
  have "scan_str (quote_rune p (byte c, [c]) @ u)
      = map_option (\<lambda>(r, u). (c # r, u)) (scan_str u)" for u
    using Cons.prems
    by (auto simp: quote_rune_def RuneError_def unescape_def split: option.split)
  with Cons show ?case
    by (simp del: scan_str.simps)
qed

lemma json_print_Cons:
  assumes "no_nums v"
  obtains c s where "json_print v = c # s" "\<not> is_ws c" "c \<noteq> CHR '']''"
proof (cases v)
  case (JNum n)
  with assms show ?thesis by simp
next
  case (JBool b)
  with that show ?thesis by (cases b) (auto simp: is_ws_def)
qed (use that in \<open>auto simp: is_ws_def json_quote_def split: if_splits\<close>)

lemma commas_Cons: "commas (x # xs) = x @ (if xs = [] then [] else CHR '','' # commas xs)"
  by (cases xs) auto

lemma parse_elems_commas:
  assumes "vs \<noteq> []" "\<And>v t. v \<in> set vs \<Longrightarrow> parse_value (json_print v @ t) = Some (valid_json v, t)"
    and "list_all no_nums vs"
  shows "parse_elems (commas (map json_print vs) @ CHR '']'' # t) = Some (map valid_json vs, t)"
  using assms
proof (induction vs)
  case Nil
  then show ?case by simp
next
  case (Cons v vs)
  obtain c s where "json_print v = c # s"
    using Cons.prems(3) by (auto elim: json_print_Cons)
  then have len: "0 < length (json_print v)" by simp
  show ?case
  proof (cases "vs = []")
    case True
    with Cons.prems len show ?thesis
      by (subst parse_elems.simps) (simp add: is_ws_def)
  next
    case False
    with Cons have "parse_elems (commas (map json_print vs) @ CHR '']'' # t) = Some (map valid_json vs, t)"
      by simp
    with Cons.prems(2) [of v] len False show ?thesis
      by (subst parse_elems.simps) (simp add: commas_Cons is_ws_def)
  qed
qed

definition print_member :: "string \<times> json \<Rightarrow> string" where
  "print_member = (\<lambda>(k, v). json_quote k @ CHR '':'' # json_print v)"

definition valid_member :: "string \<times> json \<Rightarrow> string \<times> json" where
  "valid_member = (\<lambda>(k, v). (to_valid k, valid_json v))"

lemma parse_members_commas:
  assumes "ms \<noteq> []" "\<And>k v t. (k, v) \<in> set ms \<Longrightarrow> parse_value (json_print v @ t) = Some (valid_json v, t)"
    and "list_all (\<lambda>(k, v). no_nums v) ms"
  shows "parse_members (commas (map print_member ms) @ CHR ''}'' # t) = Some (map valid_member ms, t)"
  using assms
proof (induction ms)
  case Nil
  then show ?case by simp
next
  case (Cons m ms)
  obtain k v where m: "m = (k, v)" by (cases m)
  with Cons.prems have v: "parse_value (json_print v @ u) = Some (valid_json v, u)" for u
    by auto
  have ws: "\<not> is_ws dq" "\<not> is_ws (CHR '':'')" "\<not> is_ws (CHR '','')" "\<not> is_ws (CHR ''}'')"
    by (simp_all add: is_ws_def)
  show ?case
  proof (cases "ms = []")
    case True
    with m v ws show ?thesis
      by (subst parse_members.simps) (simp add: print_member_def valid_member_def json_quote_def scan_str_quoted)
  next
    case False
    have "parse_members (commas (map print_member ms) @ CHR ''}'' # t) = Some (map valid_member ms, t)"
      by (rule Cons.IH [OF False]) (use Cons.prems in auto)
    with m v ws False show ?thesis
      by (subst parse_members.simps)
        (simp add: print_member_def valid_member_def json_quote_def scan_str_quoted commas_Cons)
  qed
qed

lemma parse_print: "no_nums v \<Longrightarrow> parse_value (json_print v @ t) = Some (valid_json v, t)"
proof (induction v arbitrary: t)
  case JNull
  then show ?case by (simp add: is_ws_def scan_lit_def HasPrefix_def)
next
  case (JBool b)
  then show ?case by (simp add: is_ws_def scan_lit_def HasPrefix_def)
next
  case (JNum n)
  then show ?case by simp
next
  case (JStr s)
  then show ?case by (simp add: is_ws_def json_quote_def scan_str_quoted)
next
  case (JArr vs)
  show ?case
  proof (cases vs)
    case Nil
    then show ?thesis by (simp add: is_ws_def)
  next
    case (Cons v vs')
    with JArr have "no_nums v" by simp
    then obtain c s where "json_print v = c # s" "\<not> is_ws c" "c \<noteq> CHR '']''"
      by (rule json_print_Cons)
    then have "\<exists>s'. commas (map json_print vs) @ CHR '']'' # t = c # s' \<and> \<not> is_ws c \<and> c \<noteq> CHR '']''"
      by (simp add: Cons commas_Cons)
    moreover have "parse_elems (commas (map json_print vs) @ CHR '']'' # t) = Some (map valid_json vs, t)"
      using JArr Cons by (intro parse_elems_commas) (auto simp: list_all_iff)
    ultimately show ?thesis by (auto simp: is_ws_def)
  qed
next
  case (JObj ms)
  have pm: "map (\<lambda>(k, v). json_quote k @ CHR '':'' # json_print v) ms = map print_member ms"
    by (simp add: print_member_def)
  show ?case
  proof (cases ms)
    case Nil
    then show ?thesis by (simp add: is_ws_def)
  next
    case (Cons m ms')
    have "\<exists>s'. commas (map print_member ms) @ CHR ''}'' # t = dq # s'"
      by (cases m) (simp add: Cons commas_Cons print_member_def json_quote_def)
    moreover have "parse_members (commas (map print_member ms) @ CHR ''}'' # t) = Some (map valid_member ms, t)"
      using JObj Cons by (intro parse_members_commas) (fastforce simp: list_all_iff)+
    moreover have "\<not> is_ws dq" by (simp add: is_ws_def)
    ultimately show ?thesis by (auto simp: pm is_ws_def valid_member_def [symmetric])
  qed
qed

lemma parse_print_ascii: "ascii_json v \<Longrightarrow> parse_value (json_print v @ t) = Some (v, t)"
  by (simp add: parse_print ascii_json_no_nums ascii_json_valid)

section \<open>Unmarshal and Decode\<close>

text \<open>\<open>json.Unmarshal\<close> refuses anything but white space after the value.\<close>

definition Unmarshal :: "string \<Rightarrow> json option" where
  "Unmarshal s = (case parse_value s of
     Some (v, t) \<Rightarrow> if skip_ws t = [] then Some v else None
   | None \<Rightarrow> None)"

text \<open>\<open>json.NewDecoder(r).Decode\<close> reads the first value and ignores what follows.\<close>

definition Decode :: "string \<Rightarrow> json option" where
  "Decode s = map_option fst (parse_value s)"

lemma Unmarshal_print [simp]: "ascii_json v \<Longrightarrow> Unmarshal (json_print v) = Some v"
  using parse_print_ascii [of v "[]"] by (simp add: Unmarshal_def)

lemma Unmarshal_print_newline [simp]:
  "ascii_json v \<Longrightarrow> Unmarshal (json_print v @ [char_of (10::nat)]) = Some v"
  using parse_print_ascii [of v] by (simp add: Unmarshal_def skip_ws_def is_ws_def)

lemma Decode_print [simp]: "ascii_json v \<Longrightarrow> Decode (json_print v @ t) = Some v"
  by (simp add: Decode_def parse_print_ascii)

text \<open>Whatever the bytes, what the printer wrote is one JSON text.\<close>

lemma Unmarshal_printed: "no_nums v \<Longrightarrow> Unmarshal (json_print v) = Some (valid_json v)"
  using parse_print [of v "[]"] by (simp add: Unmarshal_def)

lemma Unmarshal_printed_newline:
  "no_nums v \<Longrightarrow> Unmarshal (json_print v @ [char_of (10::nat)]) = Some (valid_json v)"
  using parse_print [of v] by (simp add: Unmarshal_def skip_ws_def is_ws_def)

section \<open>Decoding into Go values\<close>

text \<open>
  Case folding of keys: ASCII letters, and the two non-ASCII runes that fold to an ASCII
  letter (U+017F to S, U+212A to K).
\<close>

fun fold_runes :: "nat list \<Rightarrow> nat list" where
  "fold_runes [] = []"
| "fold_runes (r # rs) =
     (if 97 \<le> r \<and> r \<le> 122 then r - 32 else if r = 0x17F then 83 else if r = 0x212A then 75 else r)
       # fold_runes rs"

definition same_fold :: "string \<Rightarrow> string \<Rightarrow> bool" where
  "same_fold s t \<longleftrightarrow> fold_runes (runes s) = fold_runes (runes t)"

text \<open>Key \<open>k\<close> is stored in field \<open>f\<close> of a struct with the fields \<open>fs\<close>.\<close>

definition key_for :: "string list \<Rightarrow> string \<Rightarrow> string \<Rightarrow> bool" where
  "key_for fs f k \<longleftrightarrow> k = f \<or> (k \<notin> set fs \<and> same_fold k f)"

text \<open>The members of the object a struct is decoded from.\<close>

definition dec_struct :: "json \<Rightarrow> (string \<times> json) list option" where
  "dec_struct v = (case v of JObj ms \<Rightarrow> Some ms | JNull \<Rightarrow> Some [] | _ \<Rightarrow> None)"

text \<open>One field of basic type, from the members in order; \<open>None\<close> is a type error.\<close>

fun dec_field :: "(json \<Rightarrow> 'a option) \<Rightarrow> (string \<Rightarrow> bool) \<Rightarrow> 'a \<Rightarrow> (string \<times> json) list \<Rightarrow> 'a option"
where
  "dec_field dec p x [] = Some x"
| "dec_field dec p x ((k, v) # ms) =
     (if p k \<and> v \<noteq> JNull then
        (case dec v of None \<Rightarrow> None | Some y \<Rightarrow> dec_field dec p y ms)
      else dec_field dec p x ms)"

definition dec_str :: "json \<Rightarrow> string option" where
  "dec_str v = (case v of JStr s \<Rightarrow> Some s | _ \<Rightarrow> None)"

definition dec_bool :: "json \<Rightarrow> bool option" where
  "dec_bool v = (case v of JBool b \<Rightarrow> Some b | _ \<Rightarrow> None)"

text \<open>\<open>int\<close> and \<open>int64\<close>: an integer literal in range.\<close>

definition dec_int64 :: "json \<Rightarrow> int option" where
  "dec_int64 v = (case v of JNum n \<Rightarrow> ParseInt64 n | _ \<Rightarrow> None)"

text \<open>A nested struct: all the objects given for the field are stored into it in turn.\<close>

fun dec_nested :: "(string \<Rightarrow> bool) \<Rightarrow> (string \<times> json) list \<Rightarrow> (string \<times> json) list option" where
  "dec_nested p [] = Some []"
| "dec_nested p ((k, v) # ms) =
     (if p k then
        (case (dec_struct v, dec_nested p ms) of
           (Some xs, Some ys) \<Rightarrow> Some (xs @ ys) | _ \<Rightarrow> None)
      else dec_nested p ms)"

text \<open>A slice; the elements are decoded by the caller.\<close>

fun dec_slice :: "(string \<Rightarrow> bool) \<Rightarrow> json list \<Rightarrow> (string \<times> json) list \<Rightarrow> json list option" where
  "dec_slice p xs [] = Some xs"
| "dec_slice p xs ((k, v) # ms) =
     (if p k then
        (case v of JArr ys \<Rightarrow> dec_slice p ys ms | JNull \<Rightarrow> dec_slice p [] ms | _ \<Rightarrow> None)
      else dec_slice p xs ms)"

text \<open>A \<open>map[string]string\<close>: every member is stored, \<open>null\<close> as the empty string.\<close>

fun dec_str_map :: "(string \<rightharpoonup> string) \<Rightarrow> (string \<times> json) list \<Rightarrow> (string \<rightharpoonup> string) option" where
  "dec_str_map m [] = Some m"
| "dec_str_map m ((k, v) # ms) =
     (case v of
        JStr s \<Rightarrow> dec_str_map (m(k \<mapsto> s)) ms
      | JNull \<Rightarrow> dec_str_map (m(k \<mapsto> [])) ms
      | _ \<Rightarrow> None)"

text \<open>A field of type \<open>map[string]string\<close>; \<open>null\<close> makes the map nil.\<close>

fun dec_map_field :: "(string \<Rightarrow> bool) \<Rightarrow> (string \<rightharpoonup> string) \<Rightarrow> (string \<times> json) list
    \<Rightarrow> (string \<rightharpoonup> string) option" where
  "dec_map_field p m [] = Some m"
| "dec_map_field p m ((k, v) # ms) =
     (if p k then
        (case v of
           JObj xs \<Rightarrow> (case dec_str_map m xs of None \<Rightarrow> None | Some m' \<Rightarrow> dec_map_field p m' ms)
         | JNull \<Rightarrow> dec_map_field p Map.empty ms
         | _ \<Rightarrow> None)
      else dec_map_field p m ms)"

text \<open>\<open>json.Marshal\<close> of a \<open>map[string]string\<close> or of a map with the given members sorts the keys.\<close>

definition marshal_map :: "(string \<times> json) list \<Rightarrow> json" where
  "marshal_map ms = JObj (sort_key fst ms)"

lemma key_for_same [simp]: "key_for fs f f"
  by (simp add: key_for_def)

lemma key_for_other: "k \<in> set fs \<Longrightarrow> k \<noteq> f \<Longrightarrow> \<not> key_for fs f k"
  by (simp add: key_for_def)

section \<open>Objects written with \<open>%q\<close>\<close>

text \<open>A key written literally: printable, without quotes or backslashes.\<close>

definition plain_key :: "string \<Rightarrow> bool" where
  "plain_key k \<longleftrightarrow> printable k \<and> dq \<notin> set k \<and> bslash \<notin> set k"

lemma scan_plain: "plain_key k \<Longrightarrow> scan_str (k @ dq # t) = Some (k, t)"
  by (induction k) (auto simp: plain_key_def)

lemma parse_go_quote: "printable v \<Longrightarrow> parse_value (go_quote p v @ t) = Some (JStr v, t)"
  using scan_str_go_quoted [of v p t]
  by (simp add: go_quote_def is_ws_def printable_ascii del: scan_str.simps)

lemma parse_member:
  assumes "plain_key k" "parse_value (x @ d # u) = Some (v, d # u)" "d = CHR '','' \<or> d = CHR ''}''"
  shows "parse_members (dq # k @ dq # CHR '':'' # x @ d # u) =
    (if d = CHR ''}'' then Some ([(k, v)], u)
     else map_option (\<lambda>(ms, y). ((k, v) # ms, y)) (parse_members u))"
proof -
  have "ascii k" using assms(1) by (simp add: plain_key_def printable_ascii)
  moreover have "skip_ws (dq # w) = dq # w" "skip_ws (CHR '':'' # w) = CHR '':'' # w" for w
    by (simp_all add: is_ws_def)
  moreover have "skip_ws (d # u) = d # u" using assms(3) by (auto simp: is_ws_def)
  ultimately show ?thesis
    using assms(2,3) by (subst parse_members.simps) (auto simp: scan_plain [OF assms(1)] simp del: scan_str.simps)
qed

lemmas parse_member_comma = parse_member [where d = "CHR '',''", simplified]
lemmas parse_member_end = parse_member [where d = "CHR ''}''", simplified]

lemma Unmarshal_members:
  assumes "parse_members (dq # s) = Some (ms, [])"
  shows "Unmarshal (CHR ''{'' # dq # s) = Some (JObj ms)"
  using assms by (simp add: Unmarshal_def is_ws_def)

lemma Decode_members:
  assumes "parse_members (dq # s) = Some (ms, t)"
  shows "Decode (CHR ''{'' # dq # s) = Some (JObj ms)"
  using assms by (simp add: Decode_def is_ws_def)

end
