(* ===== verification/Go_Time.thy ===== *)
theory Go_Time
  imports Go_Text "HOL-Library.Monad_Syntax"
begin

text \<open>
  Package \<open>time\<close> as the program uses it.  An instant is the number of nanoseconds since
  1970-01-01 UTC; a \<open>time.Duration\<close> is a signed 64-bit count of nanoseconds whose
  arithmetic wraps.  The civil calendar is computed by cycles of 400, 100, 4 and 1 years;
  the layouts the program formats with and the RFC 3339 parser are executable, and
  parsing inverts formatting.
\<close>

section \<open>Durations\<close>

definition wrap64 :: "int \<Rightarrow> int" where
  "wrap64 i = (i + 2 ^ 63) mod 2 ^ 64 - 2 ^ 63"

definition Second :: int where
  "Second = 1000000000"

definition Minute :: int where
  "Minute = 60 * Second"

text \<open>\<open>time.Duration(n) * time.Second\<close>\<close>

definition dur_seconds :: "int \<Rightarrow> int" where
  "dur_seconds n = wrap64 (n * Second)"

lemma wrap64_range: "- (2 ^ 63) \<le> wrap64 i" "wrap64 i < 2 ^ 63"
proof -
  have "0 \<le> (i + 2 ^ 63) mod (2 ^ 64 :: int)" "(i + 2 ^ 63) mod (2 ^ 64 :: int) < 2 ^ 64"
    by (rule pos_mod_sign pos_mod_bound, simp)+
  then show "- (2 ^ 63) \<le> wrap64 i" "wrap64 i < 2 ^ 63"
    by (simp_all add: wrap64_def)
qed

lemma wrap64_id: "- (2 ^ 63) \<le> i \<Longrightarrow> i < 2 ^ 63 \<Longrightarrow> wrap64 i = i"
  by (simp add: wrap64_def)

section \<open>The calendar\<close>

definition leap :: "int \<Rightarrow> bool" where
  "leap y \<longleftrightarrow> y mod 4 = 0 \<and> (y mod 100 \<noteq> 0 \<or> y mod 400 = 0)"

definition month_lengths :: "int \<Rightarrow> int list" where
  "month_lengths y = [31, if leap y then 29 else 28, 31, 30, 31, 30, 31, 31, 30, 31, 30, 31]"

text \<open>Days from 0001-01-01 to 1970-01-01.\<close>

definition unix_day :: int where
  "unix_day = 719162"

definition year_start :: "int \<Rightarrow> int" where
  "year_start y = 365 * (y - 1) + (y - 1) div 4 - (y - 1) div 100 + (y - 1) div 400"

text \<open>The year and the day of the year of the day with number \<open>d\<close> since 0001-01-01.\<close>

definition year_day :: "int \<Rightarrow> int \<times> int" where
  "year_day d =
     (let n400 = d div 146097; r = d mod 146097;
          n100 = min 3 (r div 36524); r1 = r - n100 * 36524;
          n4 = r1 div 1461; r2 = r1 mod 1461;
          n1 = min 3 (r2 div 365)
      in (400 * n400 + 100 * n100 + 4 * n4 + n1 + 1, r2 - n1 * 365))"

fun month_day :: "int list \<Rightarrow> int \<Rightarrow> int \<times> int" where
  "month_day [] yd = (1, yd + 1)"
| "month_day (l # ls) yd =
     (if yd < l then (1, yd + 1) else let (m, d) = month_day ls (yd - l) in (m + 1, d))"

definition civil :: "int \<Rightarrow> int \<times> int \<times> int" where
  "civil day = (let (y, yd) = year_day (day + unix_day); (m, d) = month_day (month_lengths y) yd
                in (y, m, d))"

definition day_of :: "int \<Rightarrow> int \<Rightarrow> int \<Rightarrow> int" where
  "day_of y m d = year_start y + sum_list (take (nat (m - 1)) (month_lengths y)) + (d - 1) - unix_day"

lemma year_start_cycles:
  fixes a b c e :: int
  assumes "0 \<le> b" "b \<le> 3" "0 \<le> c" "c \<le> 24" "0 \<le> e" "e \<le> 3"
  shows "year_start (400 * a + 100 * b + 4 * c + e + 1) = 146097 * a + 36524 * b + 1461 * c + 365 * e"
proof -
  let ?y = "400 * a + 100 * b + 4 * c + e"
  have "?y div 4 = 100 * a + 25 * b + c" using assms by linarith
  moreover have "?y div 100 = 4 * a + b" using assms by linarith
  moreover have "?y div 400 = a" using assms by linarith
  ultimately show ?thesis by (simp add: year_start_def)
qed

lemma mod_top: "0 < u \<Longrightarrow> u \<le> n \<Longrightarrow> (u + n * k) mod n = 0 \<longleftrightarrow> u = n" for u n k :: int
proof -
  assume u: "0 < u" "u \<le> n"
  have "(u + n * k) mod n = u mod n" by simp
  with u show ?thesis by (cases "u = n") auto
qed

lemma leap_cycles:
  fixes a b c e :: int
  assumes "0 \<le> b" "b \<le> 3" "0 \<le> c" "c \<le> 24" "0 \<le> e" "e \<le> 3"
  shows "leap (400 * a + 100 * b + 4 * c + e + 1) \<longleftrightarrow> e = 3 \<and> (c \<noteq> 24 \<or> b = 3)"
proof -
  let ?y = "400 * a + 100 * b + 4 * c + e + 1"
  have "?y mod 4 = 0 \<longleftrightarrow> e = 3"
    using mod_top [of "e + 1" 4 "100 * a + 25 * b + c"] assms by (simp add: algebra_simps)
  moreover have "?y mod 100 = 0 \<longleftrightarrow> 4 * c + e = 99"
    using mod_top [of "4 * c + e + 1" 100 "4 * a + b"] assms by (simp add: algebra_simps)
  moreover have "?y mod 400 = 0 \<longleftrightarrow> 100 * b + 4 * c + e = 399"
    using mod_top [of "100 * b + 4 * c + e + 1" 400 a] assms by (simp add: algebra_simps)
  moreover have "4 * c + e = 99 \<longleftrightarrow> c = 24 \<and> e = 3"
    using assms by linarith
  moreover have "100 * b + 4 * c + e = 399 \<longleftrightarrow> b = 3 \<and> c = 24 \<and> e = 3"
    using assms by linarith
  ultimately have "(?y mod 4 = 0) = (e = 3)" "(?y mod 100 = 0) = (c = 24 \<and> e = 3)"
    "(?y mod 400 = 0) = (b = 3 \<and> c = 24 \<and> e = 3)" by simp_all
  then show ?thesis by (simp only: leap_def) blast
qed

lemma year_day_correct:
  assumes "year_day d = (y, yd)"
  shows "year_start y + yd = d" "0 \<le> yd" "yd < 365 + (if leap y then 1 else 0)"
proof -
  define a where "a = d div 146097"
  define r where "r = d mod 146097"
  define b where "b = min 3 (r div 36524)"
  define r1 where "r1 = r - b * 36524"
  define c where "c = r1 div 1461"
  define r2 where "r2 = r1 mod 1461"
  define e where "e = min 3 (r2 div 365)"
  have r: "0 \<le> r" "r < 146097" "d = 146097 * a + r"
    by (simp_all add: r_def a_def)
  have b: "0 \<le> b" "b \<le> 3" using r by (auto simp: b_def)
  have r1: "0 \<le> r1" "r1 < 36525" "b \<noteq> 3 \<longrightarrow> r1 < 36524"
    using r by (auto simp: r1_def b_def min_def)
  have c: "0 \<le> c" "c \<le> 24" using r1 by (auto simp: c_def)
  have r2: "0 \<le> r2" "r2 < 1461" "r1 = 1461 * c + r2" by (simp_all add: r2_def c_def)
  have e: "0 \<le> e" "e \<le> 3" using r2 by (auto simp: e_def)
  have y: "y = 400 * a + 100 * b + 4 * c + e + 1" and yd: "yd = r2 - e * 365"
    using assms unfolding year_day_def Let_def a_def r_def b_def r1_def c_def r2_def e_def by simp_all
  show "year_start y + yd = d"
    using year_start_cycles [OF b c e, of a] r(3) r2(3) by (simp add: y yd r1_def)
  show "0 \<le> yd"
    using r2(1) by (auto simp: yd e_def min_def)
  have "e \<noteq> 3 \<longrightarrow> yd < 365" "yd \<le> 365"
    using r2 by (auto simp: yd e_def min_def)
  moreover have "yd < 365" if "e = 3" "c = 24" "b \<noteq> 3"
    using that r1 r2 by (auto simp: yd)
  ultimately show "yd < 365 + (if leap y then 1 else 0)"
    using leap_cycles [OF b c e, of a] y by auto
qed

lemma month_day_correct:
  assumes "month_day ls yd = (m, d)" "0 \<le> yd" "yd < sum_list ls"
  shows "1 \<le> m \<and> nat (m - 1) < length ls \<and> 1 \<le> d \<and> d \<le> ls ! nat (m - 1)
    \<and> sum_list (take (nat (m - 1)) ls) + (d - 1) = yd"
  using assms
proof (induction ls arbitrary: yd m)
  case Nil
  then show ?case by simp
next
  case (Cons l ls)
  show ?case
  proof (cases "yd < l")
    case True
    with Cons.prems show ?thesis by auto
  next
    case False
    obtain m' where m': "month_day ls (yd - l) = (m', d)" "m = m' + 1"
      using Cons.prems(1) False by (auto split: prod.splits)
    have "1 \<le> m' \<and> nat (m' - 1) < length ls \<and> 1 \<le> d \<and> d \<le> ls ! nat (m' - 1)
        \<and> sum_list (take (nat (m' - 1)) ls) + (d - 1) = yd - l"
      using Cons.IH [OF m'(1)] Cons.prems(3) False by simp
    moreover from this have "nat (m - 1) = Suc (nat (m' - 1))"
      using m'(2) by linarith
    ultimately show ?thesis using m'(2) by simp
  qed
qed

lemma civil_correct:
  assumes "civil day = (y, m, d)"
  shows "day_of y m d = day" "1 \<le> m" "m \<le> 12" "1 \<le> d" "d \<le> month_lengths y ! nat (m - 1)"
proof -
  obtain yd where yd: "year_day (day + unix_day) = (y, yd)" "month_day (month_lengths y) yd = (m, d)"
    using assms by (auto simp: civil_def Let_def split: prod.splits)
  note c = year_day_correct [OF yd(1)]
  have "yd < sum_list (month_lengths y)"
    using c(3) by (simp add: month_lengths_def split: if_splits)
  note md = month_day_correct [OF yd(2) c(2) this]
  show "day_of y m d = day"
    using md c(1) by (simp add: day_of_def)
  show "1 \<le> m" "m \<le> 12" "1 \<le> d" "d \<le> month_lengths y ! nat (m - 1)"
    using md by (auto simp: month_lengths_def)
qed

section \<open>Formatting\<close>

text \<open>The decimal digits of \<open>n\<close>, padded with zeros to width \<open>w\<close>.\<close>

fun decn :: "nat \<Rightarrow> nat \<Rightarrow> string" where
  "decn 0 n = []"
| "decn (Suc w) n = decn w (n div 10) @ [digit (n mod 10)]"

definition sec_of :: "int \<Rightarrow> int" where
  "sec_of t = t div Second"

definition nsec_of :: "int \<Rightarrow> int" where
  "nsec_of t = t mod Second"

record clock_fields =
  cf_year :: int
  cf_month :: int
  cf_day :: int
  cf_hour :: int
  cf_min :: int
  cf_sec :: int
  cf_nano :: int

definition fields_of :: "int \<Rightarrow> clock_fields" where
  "fields_of t =
     (let (y, m, d) = civil (sec_of t div 86400); s = sec_of t mod 86400
      in \<lparr>cf_year = y, cf_month = m, cf_day = d,
          cf_hour = s div 3600, cf_min = s mod 3600 div 60, cf_sec = s mod 60, cf_nano = nsec_of t\<rparr>)"

definition p2 :: "int \<Rightarrow> string" where
  "p2 i = decn 2 (nat i)"

definition fmt_year :: "int \<Rightarrow> string" where
  "fmt_year y = (if 0 \<le> y \<and> y \<le> 9999 then decn 4 (nat y) else FormatInt y)"

text \<open>The layout \<open>20060102T150405Z\<close> of \<open>tokenTimeFmt\<close>.\<close>

definition fmt_compact :: "int \<Rightarrow> string" where
  "fmt_compact t = (let f = fields_of t in
     fmt_year (cf_year f) @ p2 (cf_month f) @ p2 (cf_day f) @ ''T''
       @ p2 (cf_hour f) @ p2 (cf_min f) @ p2 (cf_sec f) @ ''Z'')"

text \<open>The layout \<open>20060102T150405.000Z\<close>, with milliseconds.\<close>

definition fmt_compact_ms :: "int \<Rightarrow> string" where
  "fmt_compact_ms t = (let f = fields_of t in
     fmt_year (cf_year f) @ p2 (cf_month f) @ p2 (cf_day f) @ ''T''
       @ p2 (cf_hour f) @ p2 (cf_min f) @ p2 (cf_sec f)
       @ ''.'' @ decn 3 (nat (cf_nano f div 1000000)) @ ''Z'')"

definition fmt_datetime :: "clock_fields \<Rightarrow> string" where
  "fmt_datetime f =
     fmt_year (cf_year f) @ ''-'' @ p2 (cf_month f) @ ''-'' @ p2 (cf_day f) @ ''T''
       @ p2 (cf_hour f) @ '':'' @ p2 (cf_min f) @ '':'' @ p2 (cf_sec f)"

text \<open>\<open>time.RFC3339\<close> in UTC.\<close>

definition fmt_rfc3339 :: "int \<Rightarrow> string" where
  "fmt_rfc3339 t = fmt_datetime (fields_of t) @ ''Z''"

text \<open>\<open>time.RFC3339Nano\<close> in UTC, which is how a \<open>time.Time\<close> is marshalled to JSON.\<close>

definition fmt_fraction :: "int \<Rightarrow> string" where
  "fmt_fraction ns = (if ns = 0 then [] else CHR ''.'' # TrimRight (decn 9 (nat ns)) (CHR ''0''))"

definition fmt_rfc3339nano :: "int \<Rightarrow> string" where
  "fmt_rfc3339nano t =
     (let f = fields_of t in fmt_datetime f @ fmt_fraction (cf_nano f) @ ''Z'')"

section \<open>Parsing\<close>

definition expect :: "char \<Rightarrow> string \<Rightarrow> string option" where
  "expect c s = (case s of x # t \<Rightarrow> if x = c then Some t else None | [] \<Rightarrow> None)"

fun numn :: "nat \<Rightarrow> nat \<Rightarrow> string \<Rightarrow> (nat \<times> string) option" where
  "numn 0 acc s = Some (acc, s)"
| "numn (Suc w) acc s = (case s of
     c # t \<Rightarrow> if is_digit c then numn w (acc * 10 + digit_val c) t else None
   | [] \<Rightarrow> None)"

text \<open>The hour may have one digit.\<close>

definition num_hour :: "string \<Rightarrow> (nat \<times> string) option" where
  "num_hour s = (case numn 2 0 s of Some r \<Rightarrow> Some r | None \<Rightarrow> numn 1 0 s)"

text \<open>A fraction after the seconds: at most nine digits count.\<close>

definition parse_fraction :: "string \<Rightarrow> nat \<times> string" where
  "parse_fraction s = (case s of
     c # d # t \<Rightarrow>
       if (c = CHR ''.'' \<or> c = CHR '','') \<and> is_digit d then
         (let ds = take 9 (takeWhile is_digit (d # t))
          in (dec_val ds * 10 ^ (9 - length ds), dropWhile is_digit (d # t)))
       else (0, s)
   | _ \<Rightarrow> (0, s))"

text \<open>The offset from UTC in seconds.\<close>

definition parse_zone :: "string \<Rightarrow> int option" where
  "parse_zone s = (case s of
     [] \<Rightarrow> None
   | c # t \<Rightarrow>
       if c = CHR ''Z'' then (if t = [] then Some 0 else None)
       else if c = CHR ''+'' \<or> c = CHR ''-'' then
         do { (hh, t1) \<leftarrow> numn 2 0 t; t2 \<leftarrow> expect (CHR '':'') t1; (mm, t3) \<leftarrow> numn 2 0 t2;
              if t3 = [] \<and> hh \<le> 24 \<and> mm \<le> 60
              then Some ((if c = CHR ''-'' then -1 else 1) * (int hh * 3600 + int mm * 60))
              else None }
       else None)"

definition parse_rfc3339 :: "string \<Rightarrow> int option" where
  "parse_rfc3339 s =
     do { (y, s) \<leftarrow> numn 4 0 s; s \<leftarrow> expect (CHR ''-'') s;
          (m, s) \<leftarrow> numn 2 0 s; s \<leftarrow> expect (CHR ''-'') s;
          (d, s) \<leftarrow> numn 2 0 s; s \<leftarrow> expect (CHR ''T'') s;
          (hh, s) \<leftarrow> num_hour s; s \<leftarrow> expect (CHR '':'') s;
          (mm, s) \<leftarrow> numn 2 0 s; s \<leftarrow> expect (CHR '':'') s;
          (ss, s) \<leftarrow> numn 2 0 s;
          (let (ns, s) = parse_fraction s in
           do { off \<leftarrow> parse_zone s;
                if 1 \<le> m \<and> m \<le> 12 \<and> 1 \<le> d \<and> int d \<le> month_lengths (int y) ! (m - 1)
                  \<and> hh < 24 \<and> mm < 60 \<and> ss < 60
                then Some ((day_of (int y) (int m) (int d) * 86400
                            + int hh * 3600 + int mm * 60 + int ss - off) * Second + int ns)
                else None }) }"

section \<open>Parsing inverts formatting\<close>

lemma length_decn [simp]: "length (decn w n) = w"
  by (induction w arbitrary: n) simp_all

lemma decn_digits: "list_all is_digit (decn w n)"
  by (induction w arbitrary: n) simp_all

lemma numn_decn_acc: "n < 10 ^ w \<Longrightarrow> numn (w + k) a (decn w n @ s) = numn k (a * 10 ^ w + n) s"
proof (induction w arbitrary: n k s)
  case 0
  then show ?case by simp
next
  case (Suc w)
  have "n div 10 < 10 ^ w"
    using Suc.prems by (auto simp: less_mult_imp_div_less)
  then have "numn (w + Suc k) a (decn w (n div 10) @ digit (n mod 10) # s)
      = numn (Suc k) (a * 10 ^ w + n div 10) (digit (n mod 10) # s)"
    using Suc.IH by blast
  then show ?case
    by (simp add: digit_val_def algebra_simps)
qed

lemma numn_decn [simp]: "n < 10 ^ w \<Longrightarrow> numn w 0 (decn w n @ s) = Some (n, s)"
  using numn_decn_acc [of n w 0 0 s] by simp

lemma dec_val_append: "dec_val (s @ t) = dec_val s * 10 ^ length t + dec_val t"
proof (induction t rule: rev_induct)
  case Nil
  then show ?case by (simp add: dec_val_def)
next
  case (snoc c t)
  then show ?case by (simp add: append_assoc [symmetric] algebra_simps del: append_assoc)
qed

lemma dec_val_decn [simp]: "n < 10 ^ w \<Longrightarrow> dec_val (decn w n) = n"
proof (induction w arbitrary: n)
  case 0
  then show ?case by (simp add: dec_val_def)
next
  case (Suc w)
  have "n div 10 < 10 ^ w"
    using Suc.prems by (auto simp: less_mult_imp_div_less)
  with Suc.IH show ?case by (simp add: digit_val_def)
qed

lemma p2_num [simp]: "0 \<le> i \<Longrightarrow> i < 100 \<Longrightarrow> numn 2 0 (p2 i @ s) = Some (nat i, s)"
  by (simp add: p2_def)

lemma expect_Cons [simp]: "expect c (c # s) = Some s"
  by (simp add: expect_def)

text \<open>Cutting trailing zeros off a fraction keeps its value.\<close>

lemma dec_val_zeros: "dec_val (replicate k (CHR ''0'')) = 0"
  by (induction k) (simp_all add: dec_val_def digit_val_def)

lemma takeWhile_replicate:
  "takeWhile (\<lambda>x. x = c) xs = replicate (length (takeWhile (\<lambda>x. x = c) xs)) c"
  by (induction xs) auto

lemma TrimRight_decomp: "\<exists>k. s = TrimRight s c @ replicate k c"
proof -
  let ?P = "\<lambda>x. x = c"
  have "s = rev (takeWhile ?P (rev s) @ dropWhile ?P (rev s))"
    by simp
  then have "s = TrimRight s c @ rev (takeWhile ?P (rev s))"
    unfolding TrimRight_def rev_append .
  moreover have "rev (takeWhile ?P (rev s)) = replicate (length (takeWhile ?P (rev s))) c"
    using takeWhile_replicate [of c "rev s"] by (metis rev_replicate)
  ultimately show ?thesis by metis
qed

lemma parse_fraction_fmt:
  assumes "0 \<le> ns" "ns < Second"
  shows "parse_fraction (fmt_fraction ns @ ''Z'') = (nat ns, ''Z'')"
proof (cases "ns = 0")
  case True
  then show ?thesis by (simp add: fmt_fraction_def parse_fraction_def)
next
  case False
  let ?d = "decn 9 (nat ns)"
  let ?t = "TrimRight ?d (CHR ''0'')"
  have lt: "nat ns < 10 ^ 9" using assms by (simp add: Second_def)
  obtain k where k: "?d = ?t @ replicate k (CHR ''0'')"
    using TrimRight_decomp by blast
  have len: "length ?t + k = 9"
    using arg_cong [OF k, of length] by simp
  have val: "nat ns = dec_val ?t * 10 ^ k"
    using arg_cong [OF k, of dec_val] lt by (simp add: dec_val_append dec_val_zeros)
  have dig: "list_all is_digit ?t"
    using decn_digits [of 9 "nat ns"] by (subst (asm) k) simp
  have "?t \<noteq> []" using val False assms by (auto simp: dec_val_def)
  then obtain x u where xu: "?t = x # u" by (cases ?t) auto
  have "\<not> is_digit (CHR ''Z'')" by (simp add: is_digit_def)
  then have tw: "takeWhile is_digit (?t @ ''Z'') = ?t" "dropWhile is_digit (?t @ ''Z'') = ''Z''"
    using dig by (simp_all add: takeWhile_append dropWhile_append list_all_iff)
  have "is_digit x" using dig xu by simp
  then have "parse_fraction (CHR ''.'' # ?t @ ''Z'')
      = (dec_val (take 9 ?t) * 10 ^ (9 - length (take 9 ?t)), ''Z'')"
    using tw by (simp add: parse_fraction_def xu Let_def)
  also have "\<dots> = (nat ns, ''Z'')"
  proof -
    have "9 - length ?t = k" "length ?t \<le> 9" using len by simp_all
    then show ?thesis using val by simp
  qed
  finally show ?thesis using False by (simp add: fmt_fraction_def)
qed

lemma fields_ranges:
  assumes "f = fields_of t"
  shows "0 \<le> cf_hour f \<and> cf_hour f < 24" "0 \<le> cf_min f \<and> cf_min f < 60"
    "0 \<le> cf_sec f \<and> cf_sec f < 60" "0 \<le> cf_nano f \<and> cf_nano f < Second"
    "cf_hour f * 3600 + cf_min f * 60 + cf_sec f = sec_of t mod 86400"
proof -
  define s where "s = sec_of t mod 86400"
  have s: "0 \<le> s" "s < 86400" by (simp_all add: s_def)
  have f: "cf_hour f = s div 3600" "cf_min f = s mod 3600 div 60" "cf_sec f = s mod 60"
    "cf_nano f = t mod Second"
    using assms by (simp_all add: fields_of_def Let_def s_def nsec_of_def split: prod.split)
  show "0 \<le> cf_hour f \<and> cf_hour f < 24" using s f(1) by linarith
  show "0 \<le> cf_min f \<and> cf_min f < 60"
  proof -
    have "0 \<le> s mod 3600" "s mod 3600 < 3600" by simp_all
    then show ?thesis using f(2) by linarith
  qed
  show "0 \<le> cf_sec f \<and> cf_sec f < 60" using f(3) by simp
  show "0 \<le> cf_nano f \<and> cf_nano f < Second" using f(4) by (simp add: Second_def)
  have "s mod 60 = s mod 3600 mod 60" by (simp add: mod_mod_cancel)
  then have "s = s div 3600 * 3600 + (s mod 3600 div 60 * 60 + s mod 60)"
    using div_mult_mod_eq [of s 3600] div_mult_mod_eq [of "s mod 3600" 60] by linarith
  then show "cf_hour f * 3600 + cf_min f * 60 + cf_sec f = sec_of t mod 86400"
    using f(1,2,3) by (simp add: s_def)
qed

lemma fields_day:
  assumes "f = fields_of t"
  shows "day_of (cf_year f) (cf_month f) (cf_day f) = sec_of t div 86400"
    "1 \<le> cf_month f" "cf_month f \<le> 12" "1 \<le> cf_day f"
    "cf_day f \<le> month_lengths (cf_year f) ! nat (cf_month f - 1)"
proof -
  have "civil (sec_of t div 86400) = (cf_year f, cf_month f, cf_day f)"
    using assms by (auto simp: fields_of_def Let_def split: prod.split)
  from civil_correct [OF this] show
    "day_of (cf_year f) (cf_month f) (cf_day f) = sec_of t div 86400"
    "1 \<le> cf_month f" "cf_month f \<le> 12" "1 \<le> cf_day f"
    "cf_day f \<le> month_lengths (cf_year f) ! nat (cf_month f - 1)"
    by simp_all
qed

definition year_ok :: "int \<Rightarrow> bool" where
  "year_ok t \<longleftrightarrow> 0 \<le> cf_year (fields_of t) \<and> cf_year (fields_of t) \<le> 9999"

lemma month_length_le: "1 \<le> m \<Longrightarrow> m \<le> 12 \<Longrightarrow> month_lengths y ! nat (m - 1) \<le> 31"
proof -
  assume "1 \<le> m" "m \<le> 12"
  then have "nat (m - 1) < 12" by linarith
  then have "month_lengths y ! nat (m - 1) \<in> set (month_lengths y)"
    by (intro nth_mem) (simp add: month_lengths_def)
  then show ?thesis by (auto simp: month_lengths_def split: if_splits)
qed

lemma parse_fields:
  assumes f: "f = fields_of t" and "year_ok t" and frac: "parse_fraction u = (ns, ''Z'')"
  shows "parse_rfc3339 (fmt_datetime f @ u) = Some (sec_of t * Second + int ns)"
proof -
  note r = fields_ranges [OF f] and d = fields_day [OF f]
  have y: "fmt_year (cf_year f) = decn 4 (nat (cf_year f))" "nat (cf_year f) < 10 ^ 4"
    "0 \<le> cf_year f"
    using assms(2) f by (auto simp: fmt_year_def year_ok_def)
  have dd: "cf_day f < 100" "cf_month f < 100"
    using month_length_le [OF d(2,3), of "cf_year f"] d by linarith+
  have m: "nat (cf_month f - 1) = nat (cf_month f) - 1" using d by linarith
  have nn: "nat (cf_month f) \<le> 12" "Suc 0 \<le> nat (cf_month f)" "Suc 0 \<le> nat (cf_day f)"
    using d by linarith+
  have tot: "sec_of t div 86400 * 86400 + cf_hour f * 3600 + cf_min f * 60 + cf_sec f = sec_of t"
    using r(5) div_mult_mod_eq [of "sec_of t" 86400] by linarith
  show ?thesis
    using r d dd y tot frac nn
    by (simp add: parse_rfc3339_def fmt_datetime_def num_hour_def parse_zone_def m
        nat_less_iff algebra_simps)
qed

lemma parse_fmt_rfc3339nano:
  assumes "year_ok t"
  shows "parse_rfc3339 (fmt_rfc3339nano t) = Some t"
proof -
  let ?f = "fields_of t"
  have n: "0 \<le> cf_nano ?f" "cf_nano ?f < Second" using fields_ranges [of ?f t] by simp_all
  have "cf_nano ?f = t mod Second"
    by (simp add: fields_of_def Let_def nsec_of_def split: prod.split)
  then have "sec_of t * Second + int (nat (cf_nano ?f)) = t"
    using n by (simp add: sec_of_def)
  then show ?thesis
    using parse_fields [OF refl assms parse_fraction_fmt [OF n]]
    by (simp add: fmt_rfc3339nano_def Let_def)
qed

lemma parse_fmt_rfc3339:
  assumes "year_ok t"
  shows "parse_rfc3339 (fmt_rfc3339 t) = Some (sec_of t * Second)"
  using parse_fields [OF refl assms, of "''Z''" 0]
  by (simp add: fmt_rfc3339_def parse_fraction_def)

section \<open>Times in JSON\<close>

text \<open>
  \<open>Time.UnmarshalJSON\<close> takes RFC 3339 strictly: two digits for the hour, a point before
  the fraction, and a zone of less than 24 hours.  (It looks at the text between the
  quotes as it stands; a text written with escapes is no time for it.)
\<close>

definition strict_rfc3339 :: "string \<Rightarrow> bool" where
  "strict_rfc3339 s \<longleftrightarrow> s ! 12 \<noteq> CHR '':'' \<and> s ! 19 \<noteq> CHR '','' \<and>
     (last s = CHR ''Z'' \<or>
      (dec_val (take 2 (drop (length s - 5) s)) < 24 \<and> dec_val (drop (length s - 2) s) < 60))"

definition parse_strict_rfc3339 :: "string \<Rightarrow> int option" where
  "parse_strict_rfc3339 s = (case parse_rfc3339 s of
     None \<Rightarrow> None | Some t \<Rightarrow> if strict_rfc3339 s then Some t else None)"

lemma nth_decn: "i < w \<Longrightarrow> is_digit (decn w n ! i)"
  using decn_digits [of w n] by (simp add: list_all_length)

lemma strict_fmt:
  assumes "year_ok t" "u = [] \<or> hd u = CHR ''.''"
  shows "strict_rfc3339 (fmt_datetime (fields_of t) @ u @ ''Z'')"
proof -
  let ?f = "fields_of t"
  have y: "fmt_year (cf_year ?f) = decn 4 (nat (cf_year ?f))"
    using assms by (simp add: fmt_year_def year_ok_def)
  have d: "(fmt_datetime ?f @ u @ ''Z'') ! 12 = decn 2 (nat (cf_hour ?f)) ! 1"
    by (simp add: fmt_datetime_def y p2_def nth_append)
  have "is_digit (decn 2 (nat (cf_hour ?f)) ! 1)" by (rule nth_decn) simp
  then have "decn 2 (nat (cf_hour ?f)) ! 1 \<noteq> CHR '':''" by (auto simp: is_digit_def)
  moreover have "length (fmt_datetime ?f) = 19" by (simp add: fmt_datetime_def y p2_def)
  then have "(fmt_datetime ?f @ u @ ''Z'') ! 19 = hd (u @ ''Z'')"
    by (cases u) (simp_all add: nth_append)
  then have "(fmt_datetime ?f @ u @ ''Z'') ! 19 \<noteq> CHR '',''"
    using assms(2) by (cases u) auto
  ultimately show ?thesis using d by (simp add: strict_rfc3339_def)
qed

lemma parse_strict_fmt_rfc3339nano: "year_ok t \<Longrightarrow> parse_strict_rfc3339 (fmt_rfc3339nano t) = Some t"
  using strict_fmt [of t "fmt_fraction (cf_nano (fields_of t))"]
  by (simp add: parse_strict_rfc3339_def parse_fmt_rfc3339nano)
     (simp add: fmt_rfc3339nano_def Let_def fmt_fraction_def)

section \<open>Formatted times are short and ASCII\<close>

lemma ascii_decn [simp]: "ascii (decn w n)"
proof -
  have "list_all is_digit (decn w n)" by (rule decn_digits)
  then show ?thesis by (auto simp: ascii_def list_all_iff is_digit_def)
qed

lemma length_TrimRight_le: "length (TrimRight s c) \<le> length s"
  using TrimRight_decomp [of s c] by (metis length_append le_add1)

lemma ascii_append_iff: "ascii (s @ t) \<longleftrightarrow> ascii s \<and> ascii t"
  by (auto simp: ascii_def)

lemma ascii_TrimRight: "ascii s \<Longrightarrow> ascii (TrimRight s c)"
  using TrimRight_decomp [of s c] by (metis ascii_append_iff)

lemma fmt_datetime_shape:
  assumes "year_ok t"
  shows "ascii (fmt_datetime (fields_of t)) \<and> length (fmt_datetime (fields_of t)) = 19"
  using assms by (simp add: fmt_datetime_def fmt_year_def year_ok_def p2_def ascii_append_iff)

lemma fmt_rfc3339_shape: "year_ok t \<Longrightarrow> ascii (fmt_rfc3339 t) \<and> length (fmt_rfc3339 t) = 20"
  by (simp add: fmt_rfc3339_def fmt_datetime_shape ascii_append_iff)

lemma fmt_rfc3339nano_shape: "year_ok t \<Longrightarrow> ascii (fmt_rfc3339nano t) \<and> length (fmt_rfc3339nano t) \<le> 30"
  using length_TrimRight_le [of "decn 9 (nat (cf_nano (fields_of t)))" "CHR ''0''"]
  by (auto simp: fmt_rfc3339nano_def Let_def fmt_fraction_def fmt_datetime_shape ascii_append_iff ascii_TrimRight)

lemma year_ok_0 [simp]: "year_ok 0"
  by (simp add: year_ok_def fields_of_def civil_def year_day_def sec_of_def unix_day_def Second_def
      split: prod.split)

end
