(* ===== verification/World.thy ===== *)
theory World
  imports Go_Text Go_Json Go_Time
begin

text \<open>
  The effects of the broker: what the Go code reads from its surroundings and what it does
  to them.

  Everything outside the repository is an argument \<open>env\<close>: the providers' HTTP endpoints
  (\<open>net\<close>), Vault (\<open>vault\<close>), the clock, the entropy source, the verdict of
  \<open>url.Parse\<close>, the outcome of \<open>semaphore.Acquire\<close>, Unicode's table of printable
  runes, and the wording of \<open>encoding/json\<close>'s errors.  A reply may depend on the whole
  history of requests, so a stateful provider is one such function.

  The mutable state of the process is a \<open>world\<close>, passed explicitly: the trace of the
  requests sent, the log, the clean-up goroutines started, the Auth0 adapter's token cache,
  the Vault client's token, the server's count of requests in flight, and (of a
  plugin) its storage, which holds decoded entries.  An operation of the code that may fail is an
  \<open>'a act\<close>, a function from worlds to a result and a world; \<open>attempt\<close> is Go's
  \<open>x, err := f(); if err != nil { return fmt.Errorf("...: %w", err) }\<close>.
\<close>

section \<open>Requests, replies and events\<close>

text \<open>
  \<open>context.Context\<close>: the request's own context, \<open>context.Background()\<close>, or one
  derived by \<open>context.WithTimeout\<close> (nanoseconds).  Cancellation itself shows up as an
  error of the call the context is given to.
\<close>

datatype ctx = Background | RequestCtx | WithTimeout ctx int

fun detached :: "ctx \<Rightarrow> bool" where
  "detached Background \<longleftrightarrow> True"
| "detached RequestCtx \<longleftrightarrow> False"
| "detached (WithTimeout c d) \<longleftrightarrow> detached c"

record http_request =
  hr_ctx :: ctx
  hr_method :: string
  hr_url :: string
  hr_headers :: "(string \<times> string) list"
  hr_body :: "string option"

record http_response =
  resp_status :: nat
  resp_body :: string

text \<open>
  A Go \<open>interface{}\<close> as the Vault API returns it (numbers are \<open>json.Number\<close>; a
  \<open>float64\<close> is given by its integer part), and as it is handed to it.
\<close>

datatype goval = GNil | GBool bool | GStr string | GNum string
  | GFloat int | GMap "(string \<times> goval) list" | GList "goval list"

record secret =
  secret_data :: "(string \<times> goval) list option"
  secret_auth :: "string option"

datatype vault_op =
    VWrite string "(string \<times> goval) list"
  | VRead string
  | VLookupSelf

datatype event =
    EHttp http_request
  | EVault string vault_op

text \<open>
  The settings of an \<open>http.Client\<close> that matter for safety: its timeout, and its TLS
  configuration (\<open>hc_RootCAs\<close> is the PEM text of a private CA pool).
\<close>

record http_client =
  hc_Timeout :: int
  hc_MinVersion :: nat
  hc_InsecureSkipVerify :: bool
  hc_RootCAs :: "string option"

definition VersionTLS12 :: nat where
  "VersionTLS12 = 0x0303"

definition VersionTLS13 :: nat where
  "VersionTLS13 = 0x0304"

section \<open>Logging\<close>

datatype level = LInfo | LWarn | LError

text \<open>The numbers \<open>log/slog\<close> gives the levels order them.\<close>

fun level_value :: "level \<Rightarrow> int" where
  "level_value LInfo = 0"
| "level_value LWarn = 4"
| "level_value LError = 8"

lemma level_value_inject: "level_value l = level_value k \<Longrightarrow> l = k"
  by (cases l; cases k) simp_all

instantiation level :: linorder
begin

definition less_eq_level :: "level \<Rightarrow> level \<Rightarrow> bool" where
  "l \<le> k \<longleftrightarrow> level_value l \<le> level_value k"

definition less_level :: "level \<Rightarrow> level \<Rightarrow> bool" where
  "l < k \<longleftrightarrow> level_value l < level_value k"

instance
  by standard (auto simp: less_eq_level_def less_level_def intro: level_value_inject)

end

datatype attr = AStr string | AInt int | AList "string list"

record log_entry =
  log_level :: level
  log_msg :: string
  log_attrs :: "(string \<times> attr) list"

section \<open>The world and its surroundings\<close>

record cleanup =
  cl_adapter :: string
  cl_target :: string
  cl_provider :: string

record world =
  trace :: "event list"
  ticks :: nat
  logs :: "log_entry list"
  spawned :: "cleanup list"
  mgmtToken :: string
  tokenExpiry :: int
  vault_token :: string
  inFlight :: int
  storage :: "string \<rightharpoonup> (string \<times> goval) list"

text \<open>A JWT-SVID of the SPIFFE workload API: the trust domain of its id, and the token.\<close>

record svid =
  svid_trust_domain :: string
  svid_token :: string

record env =
  net :: "event list \<Rightarrow> http_request \<Rightarrow> gerr + http_response"
  vault :: "event list \<Rightarrow> string \<Rightarrow> vault_op \<Rightarrow> gerr + secret option"
  clock :: "nat \<Rightarrow> int"
  entropy :: "nat \<Rightarrow> nat \<Rightarrow> gerr + string"
  acquire :: "nat \<Rightarrow> ctx \<Rightarrow> gerr option"
  url_err :: "string \<Rightarrow> gerr option"
  isprint :: "nat \<Rightarrow> bool"
  json_err :: "string \<Rightarrow> string \<Rightarrow> gerr"
  base64_err :: "string \<Rightarrow> gerr"
  drain_wait :: "nat \<Rightarrow> string \<Rightarrow> (gerr \<times> nat) option"
  getenv :: "string \<Rightarrow> string"
  read_clean :: "string \<Rightarrow> gerr + string"
  pem_ok :: "string \<Rightarrow> bool"
  keypair_err :: "string \<Rightarrow> string \<Rightarrow> gerr option"
  vault_tls_err :: "string \<Rightarrow> gerr option"
  vault_client_err :: "string \<Rightarrow> gerr option"
  spire_connect :: "nat \<Rightarrow> string \<Rightarrow> gerr option"
  spire_fetch :: "nat \<Rightarrow> string \<Rightarrow> string \<Rightarrow> gerr + svid"
  ctx_done :: "nat \<Rightarrow> int \<Rightarrow> bool"
  http_shutdown :: "nat \<Rightarrow> gerr option"
  redirect_status :: nat
  storage_get :: "nat \<Rightarrow> gerr option"
  storage_put :: "nat \<Rightarrow> gerr option"
  storage_decode :: "nat \<Rightarrow> gerr option"

text \<open>
  \<open>json_err env T s\<close> is the wording of the error of decoding \<open>s\<close> into a Go value of
  type \<open>T\<close>, \<open>base64_err\<close> that of a base64 error.  \<open>drain_wait\<close> says which of its two channels \<open>Drain\<close>'s \<open>select\<close> sees
  first: \<open>None\<close> when every clean-up finished, \<open>Some (err, k)\<close> when the context ended
  with \<open>err\<close> after \<open>k\<close> of the pending ones had run.  \<open>read_clean p\<close> is
  \<open>os.ReadFile(filepath.Clean(p))\<close>; \<open>pem_ok\<close>, \<open>keypair_err\<close>, \<open>vault_tls_err\<close> and
  \<open>vault_client_err\<close> are the verdicts of \<open>AppendCertsFromPEM\<close>, \<open>tls.X509KeyPair\<close>,
  \<open>ConfigureTLS\<close> and \<open>vaultapi.NewClient\<close>; \<open>spire_connect\<close> and \<open>spire_fetch\<close> are the
  SPIFFE workload API; \<open>ctx_done t d\<close> tells whether the process is asked to stop before
  a timer of \<open>d\<close> nanoseconds fires; \<open>http_shutdown\<close> is the result of
  \<open>http.Server.Shutdown\<close>, and \<open>redirect_status\<close> the code (301 or 307, by Go version) with
  which \<open>ServeMux\<close> redirects to a cleaned path.  \<open>storage_get\<close>, \<open>storage_put\<close> and
  \<open>storage_decode\<close> are the failures of a plugin's \<open>logical.Storage\<close>.
\<close>

section \<open>Actions\<close>

type_synonym 'a act = "world \<Rightarrow> (gerr + 'a) \<times> world"

definition ret :: "'a \<Rightarrow> 'a act" where
  "ret x = (\<lambda>w. (Inr x, w))"

definition fail :: "gerr \<Rightarrow> 'a act" where
  "fail e = (\<lambda>w. (Inl e, w))"

definition attempt :: "'a act \<Rightarrow> (gerr \<Rightarrow> gerr) \<Rightarrow> ('a \<Rightarrow> 'b act) \<Rightarrow> 'b act" where
  "attempt m wrap k = (\<lambda>w. case m w of (Inl e, w') \<Rightarrow> (Inl (wrap e), w') | (Inr x, w') \<Rightarrow> k x w')"

definition on_result :: "'a act \<Rightarrow> (gerr + 'a \<Rightarrow> 'b act) \<Rightarrow> 'b act" where
  "on_result m k = (\<lambda>w. case m w of (r, w') \<Rightarrow> k r w')"

definition check :: "bool \<Rightarrow> gerr \<Rightarrow> 'a act \<Rightarrow> 'a act" where
  "check bad e m = (if bad then fail e else m)"

definition of_option :: "'a option \<Rightarrow> gerr \<Rightarrow> ('a \<Rightarrow> 'b act) \<Rightarrow> 'b act" where
  "of_option r e k = (case r of None \<Rightarrow> fail e | Some x \<Rightarrow> k x)"

lemma ret_apply [simp]: "ret x w = (Inr x, w)"
  by (simp add: ret_def)

lemma fail_apply [simp]: "fail e w = (Inl e, w)"
  by (simp add: fail_def)

lemma attempt_Inl [simp]: "m w = (Inl e, w') \<Longrightarrow> attempt m f k w = (Inl (f e), w')"
  by (simp add: attempt_def)

lemma attempt_Inr [simp]: "m w = (Inr x, w') \<Longrightarrow> attempt m f k w = k x w'"
  by (simp add: attempt_def)

lemma attempt_fail [simp]: "attempt (fail e) f k = fail (f e)"
  by (simp add: attempt_def fail_def)

lemma on_result_apply [simp]: "m w = (r, w') \<Longrightarrow> on_result m k w = k r w'"
  by (simp add: on_result_def)

lemma attempt_eq_Inr:
  "attempt m f k w = (Inr y, w'') \<longleftrightarrow> (\<exists>x w'. m w = (Inr x, w') \<and> k x w' = (Inr y, w''))"
  by (auto simp: attempt_def split: prod.splits sum.splits)

lemma attempt_eq_Inl:
  "attempt m f k w = (Inl e, w'') \<longleftrightarrow>
     (\<exists>e'. m w = (Inl e', w'') \<and> e = f e') \<or> (\<exists>x w'. m w = (Inr x, w') \<and> k x w' = (Inl e, w''))"
  by (auto simp: attempt_def split: prod.splits sum.splits)

lemma check_eq_Inr: "check b e m w = (Inr y, w') \<longleftrightarrow> \<not> b \<and> m w = (Inr y, w')"
  by (simp add: check_def)

lemma check_eq_Inl: "check b e m w = (Inl x, w') \<longleftrightarrow> (b \<and> x = e \<and> w' = w) \<or> (\<not> b \<and> m w = (Inl x, w'))"
  by (auto simp: check_def)

lemma of_option_eq_Inr:
  "of_option r e k w = (Inr y, w') \<longleftrightarrow> (\<exists>x. r = Some x \<and> k x w = (Inr y, w'))"
  by (cases r) (simp_all add: of_option_def)

lemma check_simps [simp]: "check True e m = fail e" "check False e m = m"
  by (simp_all add: check_def)

lemma of_option_simps [simp]: "of_option None e k = fail e" "of_option (Some x) e k = k x"
  by (simp_all add: of_option_def)

section \<open>Primitive actions\<close>

text \<open>\<open>time.Now()\<close>, as nanoseconds since the Unix epoch.\<close>

definition Now :: "env \<Rightarrow> (int \<Rightarrow> 'a act) \<Rightarrow> 'a act" where
  "Now env k = (\<lambda>w. k (clock env (ticks w)) (w\<lparr>ticks := Suc (ticks w)\<rparr>))"

definition log :: "level \<Rightarrow> string \<Rightarrow> (string \<times> attr) list \<Rightarrow> world \<Rightarrow> world" where
  "log l m as w = w\<lparr>logs := logs w @ [\<lparr>log_level = l, log_msg = m, log_attrs = as\<rparr>]\<rparr>"

definition spawn :: "cleanup \<Rightarrow> world \<Rightarrow> world" where
  "spawn c w = w\<lparr>spawned := spawned w @ [c]\<rparr>"

text \<open>\<open>then_do\<close> runs a step that cannot fail before an action.\<close>

definition then_do :: "(world \<Rightarrow> world) \<Rightarrow> 'a act \<Rightarrow> 'a act" where
  "then_do f m = (\<lambda>w. m (f w))"

definition Acquire :: "env \<Rightarrow> ctx \<Rightarrow> unit act" where
  "Acquire env c = (\<lambda>w.
     let w' = w\<lparr>ticks := Suc (ticks w)\<rparr>
     in case acquire env (ticks w) c of Some e \<Rightarrow> (Inl e, w') | None \<Rightarrow> (Inr (), w'))"

text \<open>\<open>rand.Read\<close> into a slice of \<open>n\<close> bytes.\<close>

definition rand_Read :: "env \<Rightarrow> nat \<Rightarrow> string act" where
  "rand_Read env n = (\<lambda>w. (entropy env (ticks w) n, w\<lparr>ticks := Suc (ticks w)\<rparr>))"

text \<open>
  \<open>http.NewRequestWithContext\<close> fails exactly when \<open>url.Parse\<close> rejects the URL (the
  methods the code uses are constants).  \<open>Client.Do\<close> sends the request; reading the
  body through \<open>io.LimitReader\<close> keeps at most the given number of bytes.
\<close>

definition NewRequest ::
  "env \<Rightarrow> ctx \<Rightarrow> string \<Rightarrow> string \<Rightarrow> string option \<Rightarrow> (gerr \<Rightarrow> gerr)
   \<Rightarrow> (http_request \<Rightarrow> 'a act) \<Rightarrow> 'a act"
where
  "NewRequest env c method url body wrap k = (case url_err env url of
     Some e \<Rightarrow> fail (wrap e)
   | None \<Rightarrow> k \<lparr>hr_ctx = c, hr_method = method, hr_url = url, hr_headers = [], hr_body = body\<rparr>)"

text \<open>\<open>Header.Set\<close> on a canonical header name that the code sets once.\<close>

definition set_header :: "string \<Rightarrow> string \<Rightarrow> http_request \<Rightarrow> http_request" where
  "set_header k v r = r\<lparr>hr_headers := hr_headers r @ [(k, v)]\<rparr>"

definition Do :: "env \<Rightarrow> http_request \<Rightarrow> http_response act" where
  "Do env r = (\<lambda>w. (net env (trace w) r, w\<lparr>trace := trace w @ [EHttp r]\<rparr>))"

definition read_limited :: "nat \<Rightarrow> http_response \<Rightarrow> string" where
  "read_limited n r = take n (resp_body r)"

definition vault_do :: "env \<Rightarrow> vault_op \<Rightarrow> secret option act" where
  "vault_do env op = (\<lambda>w. (vault env (trace w) (vault_token w) op,
     w\<lparr>trace := trace w @ [EVault (vault_token w) op]\<rparr>))"

definition em_dash :: string where
  "em_dash = [CHR 0xE2, CHR 0x80, CHR 0x94]"

text \<open>Decoding a JSON text into a struct starts from its members.\<close>

definition dec_root :: "string \<Rightarrow> (string \<times> json) list option" where
  "dec_root s = Option.bind (Unmarshal s) dec_struct"

definition quoted :: "env \<Rightarrow> string \<Rightarrow> string" where
  "quoted env s = go_quote (isprint env) s"

lemma Now_eq_Inr:
  "Now env k w = (Inr y, w') \<longleftrightarrow> k (clock env (ticks w)) (w\<lparr>ticks := Suc (ticks w)\<rparr>) = (Inr y, w')"
  by (simp add: Now_def)

lemma NewRequest_eq_Inr:
  "NewRequest env c m u b f k w = (Inr y, w') \<longleftrightarrow> url_err env u = None \<and>
     k \<lparr>hr_ctx = c, hr_method = m, hr_url = u, hr_headers = [], hr_body = b\<rparr> w = (Inr y, w')"
  by (simp add: NewRequest_def split: option.split)

lemmas act_eq_Inr = attempt_eq_Inr check_eq_Inr of_option_eq_Inr Now_eq_Inr NewRequest_eq_Inr

section \<open>What an action does to the trace and to the goroutines\<close>

text \<open>
  \<open>emits P m\<close>: whatever the result, \<open>m\<close> extends the trace by events that satisfy
  \<open>P\<close>.  \<open>only_spawns C m\<close>: the goroutines \<open>m\<close> starts satisfy \<open>C\<close>.
\<close>

definition emits :: "(event \<Rightarrow> bool) \<Rightarrow> 'a act \<Rightarrow> bool" where
  "emits P m \<longleftrightarrow> (\<forall>w. \<exists>es. trace (snd (m w)) = trace w @ es \<and> list_all P es)"

definition only_spawns :: "(cleanup \<Rightarrow> bool) \<Rightarrow> 'a act \<Rightarrow> bool" where
  "only_spawns C m \<longleftrightarrow> (\<forall>w. \<exists>cs. spawned (snd (m w)) = spawned w @ cs \<and> list_all C cs)"

lemma emitsD: "emits P m \<Longrightarrow> \<exists>es. trace (snd (m w)) = trace w @ es \<and> list_all P es"
  by (simp add: emits_def)

lemma only_spawnsD: "only_spawns C m \<Longrightarrow> \<exists>cs. spawned (snd (m w)) = spawned w @ cs \<and> list_all C cs"
  by (simp add: only_spawns_def)

lemma emits_mono: "emits P m \<Longrightarrow> (\<And>e. P e \<Longrightarrow> Q e) \<Longrightarrow> emits Q m"
  unfolding emits_def by (metis list.pred_mono_strong)

lemma emits_ret [trace_mono]: "emits P (ret x)"
  by (simp add: emits_def)

lemma emits_fail [trace_mono]: "emits P (fail e)"
  by (simp add: emits_def)

lemma only_spawns_ret [trace_mono]: "only_spawns C (ret x)"
  by (simp add: only_spawns_def)

lemma only_spawns_fail [trace_mono]: "only_spawns C (fail e)"
  by (simp add: only_spawns_def)

lemma emits_on_result [trace_mono]:
  assumes "emits P m" "\<And>r. emits P (k r)"
  shows "emits P (on_result m k)"
  unfolding emits_def
proof
  fix w
  obtain r w' where m: "m w = (r, w')" by (cases "m w")
  obtain es where es: "trace w' = trace w @ es" "list_all P es"
    using emitsD [OF assms(1), of w] m by auto
  obtain fs where fs: "trace (snd (k r w')) = trace w' @ fs" "list_all P fs"
    using emitsD [OF assms(2)] by blast
  show "\<exists>es. trace (snd (on_result m k w)) = trace w @ es \<and> list_all P es"
    by (rule exI [of _ "es @ fs"]) (simp add: m es fs)
qed

lemma only_spawns_on_result [trace_mono]:
  assumes "only_spawns C m" "\<And>r. only_spawns C (k r)"
  shows "only_spawns C (on_result m k)"
  unfolding only_spawns_def
proof
  fix w
  obtain r w' where m: "m w = (r, w')" by (cases "m w")
  obtain es where es: "spawned w' = spawned w @ es" "list_all C es"
    using only_spawnsD [OF assms(1), of w] m by auto
  obtain fs where fs: "spawned (snd (k r w')) = spawned w' @ fs" "list_all C fs"
    using only_spawnsD [OF assms(2)] by blast
  show "\<exists>es. spawned (snd (on_result m k w)) = spawned w @ es \<and> list_all C es"
    by (rule exI [of _ "es @ fs"]) (simp add: m es fs)
qed

lemma attempt_on_result:
  "attempt m f k = on_result m (\<lambda>r. case r of Inl e \<Rightarrow> fail (f e) | Inr x \<Rightarrow> k x)"
  by (rule ext) (auto simp: attempt_def on_result_def split: prod.splits sum.splits)

lemma emits_attempt [trace_mono]:
  assumes "emits P m" "\<And>x. emits P (k x)"
  shows "emits P (attempt m f k)"
  unfolding attempt_on_result
  by (rule emits_on_result) (auto intro: assms emits_fail split: sum.split)

lemma only_spawns_attempt [trace_mono]:
  assumes "only_spawns C m" "\<And>x. only_spawns C (k x)"
  shows "only_spawns C (attempt m f k)"
  unfolding attempt_on_result
  by (rule only_spawns_on_result) (auto intro: assms only_spawns_fail split: sum.split)

lemma emits_check [trace_mono]: "emits P m \<Longrightarrow> emits P (check b e m)"
  by (simp add: check_def emits_fail)

lemma only_spawns_check [trace_mono]: "only_spawns C m \<Longrightarrow> only_spawns C (check b e m)"
  by (simp add: check_def only_spawns_fail)

lemma emits_of_option [trace_mono]: "(\<And>x. emits P (k x)) \<Longrightarrow> emits P (of_option r e k)"
  by (cases r) (simp_all add: emits_fail)

lemma only_spawns_of_option [trace_mono]:
  "(\<And>x. only_spawns C (k x)) \<Longrightarrow> only_spawns C (of_option r e k)"
  by (cases r) (simp_all add: only_spawns_fail)

lemma emits_Now [trace_mono]: "(\<And>t. emits P (k t)) \<Longrightarrow> emits P (Now env k)"
  by (simp add: emits_def Now_def) (metis world.select_convs(1) world.update_convs(2) world.surjective)

lemma only_spawns_Now [trace_mono]: "(\<And>t. only_spawns C (k t)) \<Longrightarrow> only_spawns C (Now env k)"
  by (simp add: only_spawns_def Now_def)
     (metis world.select_convs(4) world.update_convs(2) world.surjective)

lemma emits_Acquire [trace_mono]: "emits P (Acquire env c)"
  by (simp add: emits_def Acquire_def Let_def split: option.split)

lemma only_spawns_Acquire [trace_mono]: "only_spawns C (Acquire env c)"
  by (simp add: only_spawns_def Acquire_def Let_def split: option.split)

lemma emits_rand [trace_mono]: "emits P (rand_Read env n)"
  by (simp add: emits_def rand_Read_def)

lemma only_spawns_rand [trace_mono]: "only_spawns C (rand_Read env n)"
  by (simp add: only_spawns_def rand_Read_def)

lemma emits_NewRequest [trace_mono]:
  "emits P (k \<lparr>hr_ctx = c, hr_method = m, hr_url = u, hr_headers = [], hr_body = b\<rparr>) \<Longrightarrow>
   emits P (NewRequest env c m u b f k)"
  by (simp add: NewRequest_def emits_fail split: option.split)

lemma only_spawns_NewRequest [trace_mono]:
  "(\<And>r. only_spawns C (k r)) \<Longrightarrow> only_spawns C (NewRequest env c m u b f k)"
  by (simp add: NewRequest_def only_spawns_fail split: option.split)

lemma emits_Do [trace_mono]: "P (EHttp r) \<Longrightarrow> emits P (Do env r)"
  by (simp add: emits_def Do_def)

lemma only_spawns_Do [trace_mono]: "only_spawns C (Do env r)"
  by (simp add: only_spawns_def Do_def)

lemma emits_vault_do [trace_mono]: "(\<And>t. P (EVault t op)) \<Longrightarrow> emits P (vault_do env op)"
  by (simp add: emits_def vault_do_def)

lemma only_spawns_vault_do [trace_mono]: "only_spawns C (vault_do env op)"
  by (simp add: only_spawns_def vault_do_def)

lemma emits_log [trace_mono]: "emits P m \<Longrightarrow> emits P (then_do (log l s as) m)"
  unfolding emits_def then_do_def log_def
  by (metis world.select_convs(1) world.surjective world.update_convs(3))

lemma emits_spawn [trace_mono]: "emits P m \<Longrightarrow> emits P (then_do (spawn c) m)"
  unfolding emits_def then_do_def spawn_def
  by (metis world.select_convs(1) world.surjective world.update_convs(4))

lemma only_spawns_log [trace_mono]: "only_spawns C m \<Longrightarrow> only_spawns C (then_do (log l s as) m)"
  unfolding only_spawns_def then_do_def log_def
  by (metis world.select_convs(4) world.surjective world.update_convs(3))

lemma only_spawns_spawn [trace_mono]:
  assumes "C c" "only_spawns C m"
  shows "only_spawns C (then_do (spawn c) m)"
  unfolding only_spawns_def
proof
  fix w
  obtain cs where "spawned (snd (m (spawn c w))) = spawned (spawn c w) @ cs" "list_all C cs"
    using only_spawnsD [OF assms(2)] by blast
  then show "\<exists>cs. spawned (snd (then_do (spawn c) m w)) = spawned w @ cs \<and> list_all C cs"
    by (intro exI [of _ "c # cs"]) (simp add: then_do_def spawn_def assms(1))
qed

lemma emits_if [trace_mono]: "emits P m \<Longrightarrow> emits P n \<Longrightarrow> emits P (if b then m else n)"
  by simp

lemma only_spawns_if [trace_mono]:
  "only_spawns C m \<Longrightarrow> only_spawns C n \<Longrightarrow> only_spawns C (if b then m else n)"
  by simp

lemma hr_set_header [simp]:
  "hr_url (set_header k v r) = hr_url r"
  "hr_method (set_header k v r) = hr_method r"
  "hr_ctx (set_header k v r) = hr_ctx r"
  "hr_body (set_header k v r) = hr_body r"
  "hr_headers (set_header k v r) = hr_headers r @ [(k, v)]"
  by (simp_all add: set_header_def)

section \<open>Success\<close>

definition succeeds :: "'a act \<Rightarrow> world \<Rightarrow> bool" where
  "succeeds m w \<longleftrightarrow> (\<exists>x w'. m w = (Inr x, w'))"

lemma succeedsE: "succeeds m w \<Longrightarrow> (\<And>x w'. m w = (Inr x, w') \<Longrightarrow> thesis) \<Longrightarrow> thesis"
  by (auto simp: succeeds_def)

lemma succeeds_ret [simp]: "succeeds (ret x) w"
  by (simp add: succeeds_def)

lemma succeeds_Pair [simp]: "succeeds (Pair (Inr x)) w"
  by (simp add: succeeds_def)

lemma succeeds_Now [simp]:
  "succeeds (Now env k) w \<longleftrightarrow> succeeds (k (clock env (ticks w))) (w\<lparr>ticks := Suc (ticks w)\<rparr>)"
  by (simp add: succeeds_def Now_def)

lemma succeeds_attempt:
  "succeeds m w \<Longrightarrow> (\<And>x w'. m w = (Inr x, w') \<Longrightarrow> succeeds (k x) w') \<Longrightarrow> succeeds (attempt m f k) w"
  by (fastforce simp: succeeds_def)

lemma succeeds_Acquire [simp]: "succeeds (Acquire env c) w \<longleftrightarrow> acquire env (ticks w) c = None"
  by (simp add: succeeds_def Acquire_def Let_def split: option.split)

lemma succeeds_spawn [simp]: "succeeds (then_do f m) w \<longleftrightarrow> succeeds m (f w)"
  by (simp add: succeeds_def then_do_def)

lemma succeeds_NewRequest:
  "url_err env u = None \<Longrightarrow>
   succeeds (k \<lparr>hr_ctx = c, hr_method = m, hr_url = u, hr_headers = [], hr_body = b\<rparr>) w \<Longrightarrow>
   succeeds (NewRequest env c m u b f k) w"
  by (simp add: NewRequest_def)

text \<open>\<open>m\<close> has the result \<open>x\<close> from every world.\<close>

definition yields :: "'a act \<Rightarrow> 'a \<Rightarrow> bool" where
  "yields m x \<longleftrightarrow> (\<forall>w. \<exists>w'. m w = (Inr x, w'))"

named_theorems yields_intro

lemma yieldsD: "yields m x \<Longrightarrow> \<exists>w'. m w = (Inr x, w')"
  by (simp add: yields_def)

lemma yields_ret [yields_intro]: "yields (ret x) x"
  by (simp add: yields_def)

lemma yields_Pair [yields_intro]: "yields (Pair (Inr x)) x"
  by (simp add: yields_def)

lemma yields_attempt [yields_intro]: "yields m x \<Longrightarrow> yields (k x) y \<Longrightarrow> yields (attempt m f k) y"
  unfolding yields_def by (metis attempt_Inr)

lemma yields_then_do [yields_intro]: "yields m x \<Longrightarrow> yields (then_do f m) x"
  by (simp add: yields_def then_do_def)

lemma yields_Now [yields_intro]: "(\<And>t. yields (k t) x) \<Longrightarrow> yields (Now env k) x"
  by (simp add: yields_def Now_def)

lemma yields_check [yields_intro]: "\<not> b \<Longrightarrow> yields m x \<Longrightarrow> yields (check b e m) x"
  by (simp add: check_def)

lemma yields_of_option [yields_intro]: "r = Some y \<Longrightarrow> yields (k y) x \<Longrightarrow> yields (of_option r e k) x"
  by (simp add: of_option_def)

lemma yields_vault [yields_intro]: "(\<And>tr tok. vault env tr tok op = Inr r) \<Longrightarrow> yields (vault_do env op) r"
  by (simp add: yields_def vault_do_def)

section \<open>Silent actions, and what a failure leaves behind\<close>

text \<open>
  \<open>quiet m\<close>: \<open>m\<close> writes nothing to the log.  \<open>on_fail P m\<close>: when \<open>m\<close> fails, it has
  started no goroutine, and all it has sent satisfies \<open>P\<close>.
\<close>

definition quiet :: "'a act \<Rightarrow> bool" where
  "quiet m \<longleftrightarrow> (\<forall>w. logs (snd (m w)) = logs w)"

definition on_fail :: "(event \<Rightarrow> bool) \<Rightarrow> 'a act \<Rightarrow> bool" where
  "on_fail P m \<longleftrightarrow> (\<forall>w e w'. m w = (Inl e, w') \<longrightarrow>
     spawned w' = spawned w \<and> (\<exists>es. trace w' = trace w @ es \<and> list_all P es))"

named_theorems fail_intro

lemma quietD: "quiet m \<Longrightarrow> logs (snd (m w)) = logs w"
  by (simp add: quiet_def)

lemma on_failD:
  "on_fail P m \<Longrightarrow> m w = (Inl e, w') \<Longrightarrow>
   spawned w' = spawned w \<and> (\<exists>es. trace w' = trace w @ es \<and> list_all P es)"
  by (simp add: on_fail_def)

lemma quiet_simple [trace_mono]:
  "quiet (ret x)" "quiet (fail e)" "quiet (Acquire env c)" "quiet (rand_Read env n)"
  "quiet (Do env r)" "quiet (vault_do env op)"
  by (simp_all add: quiet_def Acquire_def rand_Read_def Do_def vault_do_def Let_def split: option.split)

lemma quiet_on_result [trace_mono]: "quiet m \<Longrightarrow> (\<And>r. quiet (k r)) \<Longrightarrow> quiet (on_result m k)"
  by (simp add: quiet_def on_result_def split: prod.split) (metis snd_conv)

lemma quiet_attempt [trace_mono]: "quiet m \<Longrightarrow> (\<And>x. quiet (k x)) \<Longrightarrow> quiet (attempt m f k)"
  unfolding attempt_on_result
  by (rule quiet_on_result) (auto intro: quiet_simple split: sum.split)

lemma quiet_check [trace_mono]: "quiet m \<Longrightarrow> quiet (check b e m)"
  by (simp add: check_def quiet_simple)

lemma quiet_of_option [trace_mono]: "(\<And>x. quiet (k x)) \<Longrightarrow> quiet (of_option r e k)"
  by (cases r) (simp_all add: quiet_simple)

lemma quiet_Now [trace_mono]: "(\<And>t. quiet (k t)) \<Longrightarrow> quiet (Now env k)"
  by (simp add: quiet_def Now_def)

lemma quiet_NewRequest [trace_mono]: "(\<And>r. quiet (k r)) \<Longrightarrow> quiet (NewRequest env c m u b f k)"
  by (simp add: NewRequest_def quiet_simple split: option.split)

lemma quiet_spawn [trace_mono]: "quiet m \<Longrightarrow> quiet (then_do (spawn c) m)"
  by (simp add: quiet_def then_do_def spawn_def)

lemma quiet_if [trace_mono]: "quiet m \<Longrightarrow> quiet n \<Longrightarrow> quiet (if b then m else n)"
  by simp

lemma on_failI:
  assumes "emits P m" "only_spawns (\<lambda>_. False) m"
  shows "on_fail P m"
  unfolding on_fail_def
proof (intro allI impI)
  fix w e w' assume m: "m w = (Inl e, w')"
  have "spawned w' = spawned w" using only_spawnsD [OF assms(2), of w] m by (auto simp: list_all_iff)
  with emitsD [OF assms(1), of w] m
  show "spawned w' = spawned w \<and> (\<exists>es. trace w' = trace w @ es \<and> list_all P es)" by simp
qed

lemma on_fail_attempt [fail_intro]:
  assumes "emits P m" "only_spawns (\<lambda>_. False) m" "\<And>x. on_fail P (k x)"
  shows "on_fail P (attempt m f k)"
  unfolding on_fail_def
proof (intro allI impI)
  fix w e w' assume run: "attempt m f k w = (Inl e, w')"
  obtain r w1 where m: "m w = (r, w1)" by fastforce
  have sp: "spawned w1 = spawned w" using only_spawnsD [OF assms(2), of w] m by (auto simp: list_all_iff)
  obtain es where es: "trace w1 = trace w @ es" "list_all P es" using emitsD [OF assms(1), of w] m by auto
  show "spawned w' = spawned w \<and> (\<exists>es. trace w' = trace w @ es \<and> list_all P es)"
  proof (cases r)
    case (Inl e')
    with run m have "w' = w1" by (simp add: attempt_def)
    with sp es show ?thesis by blast
  next
    case (Inr x)
    with run m have "k x w1 = (Inl e, w')" by (simp add: attempt_def)
    from on_failD [OF assms(3) this] sp es show ?thesis by fastforce
  qed
qed

lemma on_fail_simple [fail_intro]: "on_fail P (ret x)" "on_fail P (fail e)"
  by (simp_all add: on_fail_def)

lemma on_fail_check [fail_intro]: "on_fail P m \<Longrightarrow> on_fail P (check b e m)"
  by (simp add: check_def on_fail_simple)

lemma on_fail_of_option [fail_intro]: "(\<And>x. on_fail P (k x)) \<Longrightarrow> on_fail P (of_option r e k)"
  by (cases r) (simp_all add: on_fail_simple)

lemma on_fail_Now [fail_intro]: "(\<And>t. on_fail P (k t)) \<Longrightarrow> on_fail P (Now env k)"
  by (fastforce simp: on_fail_def Now_def)

lemma on_fail_NewRequest [fail_intro]:
  "(\<And>r. on_fail P (k r)) \<Longrightarrow> on_fail P (NewRequest env c m u b f k)"
  by (simp add: NewRequest_def on_fail_simple split: option.split)

text \<open>An action that cannot fail leaves nothing behind by failing.\<close>

lemma on_fail_never: "(\<And>w. succeeds m w) \<Longrightarrow> on_fail P m"
  unfolding on_fail_def succeeds_def by (metis Pair_inject sum.distinct(1))

text \<open>The requests that take a credential away.\<close>

definition HasSuffix :: "string \<Rightarrow> string \<Rightarrow> bool" where
  "HasSuffix s t = HasPrefix (rev s) (rev t)"

definition keeps :: "event \<Rightarrow> bool" where
  "keeps e = (case e of
     EHttp r \<Rightarrow> hr_method r \<noteq> ''DELETE'' \<and> \<not> HasSuffix (hr_url r) ''/api/user_tokens/revoke''
   | EVault _ _ \<Rightarrow> True)"

lemma HasSuffix_last: "HasSuffix s t \<Longrightarrow> t \<noteq> [] \<Longrightarrow> s \<noteq> [] \<and> last s = last t"
  by (cases s rule: rev_cases; cases t rule: rev_cases) (auto simp: HasSuffix_def HasPrefix_def)

lemma HasSuffix_append: "length t \<le> length s \<Longrightarrow> HasSuffix (x @ s) t = HasSuffix s t"
  by (simp add: HasSuffix_def HasPrefix_def)

lemma keeps_last:
  assumes "hr_method r \<noteq> ''DELETE''" "last (hr_url r) \<noteq> CHR ''e''"
  shows "keeps (EHttp r)"
  using assms HasSuffix_last [of "hr_url r" "''/api/user_tokens/revoke''"] by (auto simp: keeps_def)

end
