(* ===== verification/Fixtures.thy ===== *)
theory Fixtures
  imports World
begin

text \<open>
  Surroundings in which nothing fails, and the state of a fresh process, for the concrete
  instances of the theorems.  A provider that always gives the same answer is
  \<open>answering status body\<close>; the bodies are beside the theorems they serve.
\<close>

definition fresh_world :: world where
  "fresh_world = \<lparr>trace = [], ticks = 0, logs = [], spawned = [], mgmtToken = [], tokenExpiry = 0,
     vault_token = [], inFlight = 0, storage = Map.empty\<rparr>"

definition calm_env :: env where
  "calm_env = \<lparr>net = (\<lambda>_ _. Inl ''no route to host''), vault = (\<lambda>_ _ _. Inl ''no vault''),
     clock = (\<lambda>_. 0), entropy = (\<lambda>_ n. Inr (replicate n (CHR ''a''))), acquire = (\<lambda>_ _. None),
     url_err = (\<lambda>_. None), isprint = (\<lambda>r. 0x20 \<le> r \<and> r < 0x7f), json_err = (\<lambda>_ _. ''invalid JSON''),
     base64_err = (\<lambda>_. ''illegal base64 data''), drain_wait = (\<lambda>_ _. None), getenv = (\<lambda>_. []),
     read_clean = (\<lambda>_. Inr ''pem''), pem_ok = (\<lambda>_. True), keypair_err = (\<lambda>_ _. None),
     vault_tls_err = (\<lambda>_. None), vault_client_err = (\<lambda>_. None), spire_connect = (\<lambda>_ _. None),
     spire_fetch = (\<lambda>_ _ _. Inr \<lparr>svid_trust_domain = ''example.org'', svid_token = ''jwt''\<rparr>),
     ctx_done = (\<lambda>_ _. True), http_shutdown = (\<lambda>_. None), redirect_status = 301,
     storage_get = (\<lambda>_. None), storage_put = (\<lambda>_. None), storage_decode = (\<lambda>_. None)\<rparr>"

definition answering :: "nat \<Rightarrow> json \<Rightarrow> env" where
  "answering code v = calm_env\<lparr>net := (\<lambda>_ _. Inr \<lparr>resp_status = code, resp_body = json_print v\<rparr>)\<rparr>"

lemma fresh_world_sel [simp]:
  "trace fresh_world = []" "ticks fresh_world = 0" "logs fresh_world = []" "spawned fresh_world = []"
  "mgmtToken fresh_world = []" "tokenExpiry fresh_world = 0" "vault_token fresh_world = []"
  "inFlight fresh_world = 0" "storage fresh_world = Map.empty"
  by (simp_all add: fresh_world_def)

lemma calm_env_sel [simp]:
  "clock calm_env t = 0" "entropy calm_env t n = Inr (replicate n (CHR ''a''))"
  "acquire calm_env t c = None" "url_err calm_env u = None" "drain_wait calm_env t s = None"
  "getenv calm_env v = []" "pem_ok calm_env p = True" "keypair_err calm_env p q = None"
  "vault_tls_err calm_env p = None" "vault_client_err calm_env p = None"
  "read_clean calm_env p = Inr ''pem''" "http_shutdown calm_env t = None"
  "spire_connect calm_env t s = None" "ctx_done calm_env t i = True"
  "spire_fetch calm_env t s a = Inr \<lparr>svid_trust_domain = ''example.org'', svid_token = ''jwt''\<rparr>"
  "storage_get calm_env t = None" "storage_put calm_env t = None" "storage_decode calm_env t = None"
  "isprint calm_env r = (0x20 \<le> r \<and> r < 0x7f)"
  by (simp_all add: calm_env_def)

text \<open>A body that is short and ASCII is read whole and decodes to the value printed.\<close>

definition short_json :: "nat \<Rightarrow> json \<Rightarrow> bool" where
  "short_json n v \<longleftrightarrow> ascii_json v \<and> length (json_print v) \<le> n"

lemma read_short [simp]:
  "short_json n v \<Longrightarrow> read_limited n \<lparr>resp_status = code, resp_body = json_print v\<rparr> = json_print v"
  by (simp add: short_json_def read_limited_def)

lemma dec_root_short [simp]: "short_json n v \<Longrightarrow> dec_root (json_print v) = dec_struct v"
  by (simp add: short_json_def dec_root_def)

lemma answering_sel [simp]:
  "net (answering code v) tr r = Inr \<lparr>resp_status = code, resp_body = json_print v\<rparr>"
  "url_err (answering code v) u = None" "acquire (answering code v) t c = None"
  "clock (answering code v) t = 0"
  "entropy (answering code v) t n = Inr (replicate n (CHR ''a''))"
  by (simp_all add: answering_def)

text \<open>Surroundings that let every request through and give the same answer to each.\<close>

definition answers :: "env \<Rightarrow> nat \<Rightarrow> json \<Rightarrow> bool" where
  "answers env code v \<longleftrightarrow>
     (\<forall>tr r. net env tr r = Inr \<lparr>resp_status = code, resp_body = json_print v\<rparr>) \<and>
     (\<forall>u. url_err env u = None) \<and> (\<forall>t c. acquire env t c = None) \<and>
     (\<forall>t n. \<exists>b. entropy env t n = Inr b)"

lemma answersD:
  assumes "answers env code v"
  shows "net env tr r = Inr \<lparr>resp_status = code, resp_body = json_print v\<rparr>"
    "url_err env u = None" "acquire env t c = None" "\<exists>b. entropy env t n = Inr b"
  using assms by (auto simp only: answers_def)

lemma answers_answering [simp]: "answers (answering code v) code v"
  by (simp add: answers_def)

end
