(* ===== verification/Adapter.thy ===== *)
theory Adapter
  imports Fixtures
begin

text \<open>
  The adapter package: the request and result types (adapter.go), the \<open>Adapter\<close> and
  \<open>Drainer\<close> interfaces as a record of functions, the registry (registry.go), and the
  contracts the server relies on, as the locales \<open>credential_adapter\<close> and \<open>drainer\<close>.
  Each adapter's theory interprets them on its own definitions; the server's proofs use
  nothing else.  \<open>registry_refines_map\<close> relates the registry to a finite map.
\<close>

section \<open>Requests and results\<close>

record RotateRequest =
  rq_ProviderID :: string
  rq_Meta :: "string \<rightharpoonup> string"

record RotateResponse =
  rs_ProviderID :: string
  rs_EncryptedValue :: string
  rs_RotatedAt :: int

record RevokeRequest =
  rv_ProviderID :: string
  rv_CredentialID :: string

record CredentialStatus =
  cs_ProviderID :: string
  cs_CredentialID :: string
  cs_Active :: bool
  cs_CheckedAt :: int

record Result =
  res_ProviderID :: string
  res_CredentialID :: string
  res_Credential :: string
  res_RotatedAt :: int

section \<open>The interfaces\<close>

text \<open>\<open>Drain\<close> is \<open>None\<close> for an adapter that does not implement \<open>Drainer\<close>.\<close>

record adapter =
  Name :: string
  Rotate :: "ctx \<Rightarrow> RotateRequest \<Rightarrow> Result act"
  Revoke :: "ctx \<Rightarrow> RevokeRequest \<Rightarrow> unit act"
  Status :: "ctx \<Rightarrow> string \<Rightarrow> CredentialStatus act"
  Drain :: "(ctx \<Rightarrow> unit act) option"

text \<open>\<open>if x, ok := req.Meta[k]; ok && x != ""\<close>\<close>

definition meta_value :: "(string \<rightharpoonup> string) \<Rightarrow> string \<Rightarrow> string option" where
  "meta_value m k = (case m k of Some v \<Rightarrow> if v = [] then None else Some v | None \<Rightarrow> None)"

section \<open>Registry\<close>

text \<open>
  \<open>Registry.adapters\<close>, kept as the association list in the order of registration.  The
  order in which Go ranges over a map is an argument of \<open>Names\<close>.
\<close>

type_synonym registry = "(string \<times> adapter) list"

definition NewRegistry :: registry where
  "NewRegistry = []"

definition Register :: "env \<Rightarrow> adapter \<Rightarrow> registry \<Rightarrow> registry outcome" where
  "Register env a r =
     (case map_of r (Name a) of
        Some _ \<Rightarrow> Panics (''adapter '' @ quoted env (Name a) @ '' already registered'')
      | None \<Rightarrow> Done (r @ [(Name a, a)]))"

definition Get :: "env \<Rightarrow> registry \<Rightarrow> string \<Rightarrow> gerr + adapter" where
  "Get env r n =
     (case map_of r n of
        None \<Rightarrow> Inl (''no adapter registered for provider '' @ quoted env n)
      | Some a \<Rightarrow> Inr a)"

definition Names :: "(string list \<Rightarrow> string list) \<Rightarrow> registry \<Rightarrow> string list" where
  "Names order r = order (map fst r)"

fun Register_all :: "env \<Rightarrow> adapter list \<Rightarrow> registry \<Rightarrow> registry outcome" where
  "Register_all env [] r = Done r"
| "Register_all env (a # as) r =
     (case Register env a r of Done r' \<Rightarrow> Register_all env as r' | Panics e \<Rightarrow> Panics e)"

text \<open>The invariant: each adapter stands under its own name, and no name twice.\<close>

definition registry_ok :: "registry \<Rightarrow> bool" where
  "registry_ok r \<longleftrightarrow> distinct (map fst r) \<and> list_all (\<lambda>(n, a). Name a = n) r"

lemma registry_ok_New [simp]: "registry_ok NewRegistry"
  by (simp add: registry_ok_def NewRegistry_def)

lemma registry_ok_Register: "registry_ok r \<Longrightarrow> Register env a r = Done r' \<Longrightarrow> registry_ok r'"
  by (auto simp: registry_ok_def Register_def map_of_eq_None_iff split: option.splits)

lemma registry_ok_Register_all:
  "registry_ok r \<Longrightarrow> Register_all env as r = Done r' \<Longrightarrow> registry_ok r'"
  by (induction as arbitrary: r) (auto dest: registry_ok_Register split: outcome.splits)

lemma Get_Name: "registry_ok r \<Longrightarrow> Get env r n = Inr a \<Longrightarrow> Name a = n"
  by (auto simp: registry_ok_def Get_def list_all_iff dest: map_of_SomeD split: option.splits)

lemma Get_member: "Get env r n = Inr a \<Longrightarrow> (n, a) \<in> set r"
  by (auto simp: Get_def dest: map_of_SomeD split: option.splits)

lemma Register_Done_iff:
  "(\<exists>r'. Register env a r = Done r') \<longleftrightarrow> Name a \<notin> fst ` set r"
proof (cases "map_of r (Name a)")
  case (Some x)
  then have "Name a \<in> fst ` set r" by (force dest: map_of_SomeD)
  with Some show ?thesis by (simp add: Register_def)
next
  case None
  then have "Name a \<notin> fst ` set r" by (simp add: map_of_eq_None_iff)
  with None show ?thesis by (simp add: Register_def)
qed

lemma Get_Register:
  assumes "Register env a r = Done r'"
  shows "Get env r' n = (if n = Name a then Inr a else Get env r n)"
proof -
  have "map_of r (Name a) = None" "r' = r @ [(Name a, a)]"
    using assms by (auto simp: Register_def split: option.splits)
  then show ?thesis by (cases "map_of r n") (auto simp: Get_def map_add_def)
qed

lemma Register_all_Done:
  "distinct (map Name as) \<Longrightarrow> Name ` set as \<inter> fst ` set r = {} \<Longrightarrow>
   Register_all env as r = Done (r @ map (\<lambda>a. (Name a, a)) as)"
proof (induction as arbitrary: r)
  case (Cons a as)
  then have "map_of r (Name a) = None" by (auto simp: map_of_eq_None_iff)
  with Cons show ?case by (simp add: Register_def)
qed simp

section \<open>The contract of an adapter\<close>

text \<open>
  What the server relies on, whichever the provider: a successful rotation echoes the
  provider id and carries a credential; revoking with no credential id fails without any
  effect where the provider supports revocation at all; a status answer is about the
  credential it was asked for; every request the adapter sends satisfies \<open>mine\<close>,
  every goroutine it starts \<open>own\<close>; no call writes to the log; and a rotation that fails
  has started no clean-up and taken no credential away.
\<close>

locale credential_adapter =
  fixes a :: adapter and mine :: "event \<Rightarrow> bool" and own :: "cleanup \<Rightarrow> bool"
  assumes rotate_echo: "Rotate a c req w = (Inr res, w') \<Longrightarrow> res_ProviderID res = rq_ProviderID req"
    and rotate_credential: "Rotate a c req w = (Inr res, w') \<Longrightarrow> res_Credential res \<noteq> []"
    and revoke_empty: "rv_CredentialID rv = [] \<Longrightarrow> \<exists>e. Revoke a c rv w = (Inl e, w)"
    and status_echo: "Status a c cid w = (Inr st, w') \<Longrightarrow> cs_CredentialID st = cid"
    and rotate_emits: "emits mine (Rotate a c req)"
    and revoke_emits: "emits mine (Revoke a c rv)"
    and status_emits: "emits mine (Status a c cid)"
    and rotate_spawns: "only_spawns own (Rotate a c req)"
    and revoke_spawns: "only_spawns (\<lambda>_. False) (Revoke a c rv)"
    and status_spawns: "only_spawns (\<lambda>_. False) (Status a c cid)"
    and rotate_quiet: "quiet (Rotate a c req)"
    and revoke_quiet: "quiet (Revoke a c rv)"
    and status_quiet: "quiet (Status a c cid)"
    and rotate_failure: "on_fail keeps (Rotate a c req)"
begin

lemma revoke_spawned: "spawned (snd (Revoke a c rv w)) = spawned w"
  using only_spawnsD [OF revoke_spawns, of c rv w] by (auto simp: list_all_iff)

lemma status_spawned: "spawned (snd (Status a c cid w)) = spawned w"
  using only_spawnsD [OF status_spawns, of c cid w] by (auto simp: list_all_iff)

lemma revoke_done: "Revoke a c rv w = (Inr u, w') \<Longrightarrow> rv_CredentialID rv \<noteq> []"
  using revoke_empty [of rv c w] by auto

end

text \<open>
  The requests of an adapter: each one goes to a URL under the configured base URL and
  carries the adapter's authentication headers.
\<close>

definition under :: "string \<Rightarrow> string \<Rightarrow> bool" where
  "under base u \<longleftrightarrow> HasPrefix u (base @ ''/'')"

definition to_provider :: "string \<Rightarrow> (string \<times> string) list \<Rightarrow> event \<Rightarrow> bool" where
  "to_provider base auth e =
     (case e of EHttp r \<Rightarrow> under base (hr_url r) \<and> set auth \<subseteq> set (hr_headers r) | EVault _ _ \<Rightarrow> False)"

lemma under_append [simp]: "under base (base @ ''/'' @ p)"
  using HasPrefix_append [of "base @ ''/''" p] by (simp add: under_def)

lemma under_append' [simp]: "under base (base @ CHR ''/'' # p)"
  using under_append [of base p] by simp

text \<open>Between two worlds one request was made, and it was answered with the status \<open>st\<close>.\<close>

definition answered :: "env \<Rightarrow> world \<Rightarrow> world \<Rightarrow> nat \<Rightarrow> bool" where
  "answered env w w' st \<longleftrightarrow> (\<exists>q reply. trace w' = trace w @ [EHttp q]
     \<and> net env (trace w) q = Inr reply \<and> resp_status reply = st)"

section \<open>Clean-up goroutines and Drain\<close>

text \<open>
  A clean-up runs on its own context, \<open>WithTimeout Background deleteOldTimeout\<close>, at any
  time after it was started; here it is taken to run at the latest when \<open>Drain\<close> waits
  for it (the interleavings are the subject of theory \<open>Concurrency\<close>).
\<close>

definition run_pending :: "string \<Rightarrow> (cleanup \<Rightarrow> world \<Rightarrow> world) \<Rightarrow> nat \<Rightarrow> world \<Rightarrow> world" where
  "run_pending n run k w =
     (let own = filter (\<lambda>c. cl_adapter c = n) (spawned w);
          rest = filter (\<lambda>c. cl_adapter c \<noteq> n) (spawned w)
      in fold run (take k own) (w\<lparr>spawned := rest @ drop k own\<rparr>))"

definition Drain_wait :: "env \<Rightarrow> string \<Rightarrow> (cleanup \<Rightarrow> world \<Rightarrow> world) \<Rightarrow> ctx \<Rightarrow> unit act" where
  "Drain_wait env n run c = (\<lambda>w.
     let w' = w\<lparr>ticks := Suc (ticks w)\<rparr>
     in case drain_wait env (ticks w) n of
          None \<Rightarrow> (Inr (), run_pending n run (length (spawned w')) w')
        | Some (e, k) \<Rightarrow> (Inl e, run_pending n run k w'))"

definition log_failure :: "'a act \<Rightarrow> (gerr \<Rightarrow> world \<Rightarrow> world) \<Rightarrow> world \<Rightarrow> world" where
  "log_failure m l w = (case m w of (Inl e, w') \<Rightarrow> l e w' | (Inr _, w') \<Rightarrow> w')"

lemma spawned_log [simp]: "spawned (log l m as w) = spawned w"
  by (simp add: log_def)

lemma trace_log [simp]: "trace (log l m as w) = trace w"
  by (simp add: log_def)

lemma fold_spawned:
  assumes "\<And>c w. spawned (run c w) = spawned w"
  shows "spawned (fold run cs w) = spawned w"
  by (induction cs arbitrary: w) (simp_all add: assms)

lemma Drain_wait_done:
  assumes "\<And>c w. spawned (run c w) = spawned w"
    and "Drain_wait env n run c w = (Inr u, w')"
  shows "spawned w' = filter (\<lambda>c. cl_adapter c \<noteq> n) (spawned w)"
proof -
  let ?own = "filter (\<lambda>c. cl_adapter c = n) (spawned w)"
  have "length ?own \<le> length (spawned w)" by simp
  with assms show ?thesis
    by (auto simp: Drain_wait_def run_pending_def Let_def fold_spawned split: option.splits prod.splits)
qed

text \<open>
  The \<open>Drainer\<close> interface, by what the server relies on when it shuts down and the wait is
  not cut short: no clean-up of the adapter is left, nothing is unsent again, and for every
  clean-up that was pending a request that satisfies \<open>sent\<close> has been made.
\<close>

locale drainer =
  fixes env :: env and a :: adapter and n :: string and sent :: "cleanup \<Rightarrow> event \<Rightarrow> bool"
  assumes drains: "Drain a = Some d \<Longrightarrow> drain_wait env (ticks w) n = None \<Longrightarrow> (\<And>u. url_err env u = None) \<Longrightarrow>
    \<exists>w'. d c w = (Inr (), w') \<and> spawned w' = filter (\<lambda>cl. cl_adapter cl \<noteq> n) (spawned w)
      \<and> set (trace w) \<subseteq> set (trace w')
      \<and> (\<forall>cl \<in> set (spawned w). cl_adapter cl = n \<longrightarrow> (\<exists>e \<in> set (trace w'). sent cl e))"
begin

lemma drained_none_left:
  assumes "Drain a = Some d" "drain_wait env (ticks w) n = None" "\<And>u. url_err env u = None"
  shows "\<exists>w'. d c w = (Inr (), w') \<and> (\<forall>cl \<in> set (spawned w'). cl_adapter cl \<noteq> n)
      \<and> set (spawned w') \<subseteq> set (spawned w)"
  using drains [OF assms(1) assms(2) assms(3), of c] by fastforce

end

lemma drainer_without_Drain: "Drain a = None \<Longrightarrow> drainer env a n P"
  by (rule drainer.intro) simp

lemma fold_trace:
  assumes "\<And>cl w. set (trace w) \<subseteq> set (trace (run cl w))"
    and "\<And>cl w. \<exists>e \<in> set (trace (run cl w)). P cl e"
  shows "set (trace w) \<subseteq> set (trace (fold run cs w))
    \<and> (\<forall>cl \<in> set cs. \<exists>e \<in> set (trace (fold run cs w)). P cl e)"
proof (induction cs arbitrary: w)
  case (Cons c cs)
  have "set (trace (run c w)) \<subseteq> set (trace (fold run cs (run c w)))" using Cons.IH by blast
  moreover obtain e where "e \<in> set (trace (run c w))" "P c e" using assms(2) by blast
  ultimately show ?case using Cons.IH [of "run c w"] assms(1) [of w c] by fastforce
qed simp

lemma Drain_wait_drains:
  assumes "\<And>cl w. spawned (run cl w) = spawned w" "\<And>cl w. set (trace w) \<subseteq> set (trace (run cl w))"
    and "\<And>cl w. \<exists>e \<in> set (trace (run cl w)). P cl e" "drain_wait env (ticks w) n = None"
  shows "\<exists>w'. Drain_wait env n run c w = (Inr (), w')
    \<and> spawned w' = filter (\<lambda>cl. cl_adapter cl \<noteq> n) (spawned w) \<and> set (trace w) \<subseteq> set (trace w')
    \<and> (\<forall>cl \<in> set (spawned w). cl_adapter cl = n \<longrightarrow> (\<exists>e \<in> set (trace w'). P cl e))"
proof -
  let ?own = "filter (\<lambda>cl. cl_adapter cl = n) (spawned w)"
  let ?rest = "filter (\<lambda>cl. cl_adapter cl \<noteq> n) (spawned w)"
  let ?w = "w\<lparr>ticks := Suc (ticks w), spawned := ?rest\<rparr>"
  have "length ?own \<le> length (spawned w)" by simp
  then have "Drain_wait env n run c w = (Inr (), fold run ?own ?w)"
    using assms(4) by (simp add: Drain_wait_def run_pending_def Let_def)
  moreover have "spawned (fold run ?own ?w) = ?rest" by (simp add: fold_spawned assms(1))
  moreover have "set (trace ?w) \<subseteq> set (trace (fold run ?own ?w))
      \<and> (\<forall>cl \<in> set ?own. \<exists>e \<in> set (trace (fold run ?own ?w)). P cl e)"
    by (rule fold_trace [of run P, OF assms(2,3)])
  ultimately show ?thesis by simp
qed

lemma log_failure_trace:
  assumes "\<And>e w. trace (l e w) = trace w"
  shows "trace (log_failure m l w) = trace (snd (m w))"
  by (simp add: log_failure_def assms split: prod.split sum.split)

lemma log_failure_extends:
  assumes "emits P m" "\<And>e w. trace (l e w) = trace w"
  shows "set (trace w) \<subseteq> set (trace (log_failure m l w))"
  using emitsD [OF assms(1), of w] by (auto simp: log_failure_trace [OF assms(2)])

section \<open>Code the adapters share\<close>

text \<open>\<open>randomHex\<close>, which datadog.go, splunk.go, sonarqube.go and pagerduty.go each hold.\<close>

definition randomHex :: "env \<Rightarrow> nat \<Rightarrow> string act" where
  "randomHex env n = attempt (rand_Read env n) (\<lambda>e. e) (\<lambda>b. ret (hex_EncodeToString b))"

definition deleteOldTimeout :: int where
  "deleteOldTimeout = 10 * Second"

definition bodyLimit :: nat where
  "bodyLimit = 2 ^ 20"

definition defaultSemLimit :: nat where
  "defaultSemLimit = 10"

text \<open>An adapter's logger: the one given by \<open>WithLogger\<close>, or one that discards.\<close>

definition log_to :: "bool \<Rightarrow> level \<Rightarrow> string \<Rightarrow> (string \<times> attr) list \<Rightarrow> world \<Rightarrow> world" where
  "log_to b l m as w = (if b then log l m as w else w)"

text \<open>\<open>if old, ok := req.Meta[k]; ok && old != "" { go func() { ... }() }\<close>\<close>

definition start_cleanup :: "string \<Rightarrow> string \<Rightarrow> RotateRequest \<Rightarrow> 'a act \<Rightarrow> 'a act" where
  "start_cleanup n k req m = (case meta_value (rq_Meta req) k of
     None \<Rightarrow> m
   | Some old \<Rightarrow> then_do (spawn \<lparr>cl_adapter = n, cl_target = old, cl_provider = rq_ProviderID req\<rparr>) m)"

text \<open>The pieces of a comma-separated list, without blanks and without empty ones.\<close>

definition split_trimmed :: "string \<Rightarrow> string list" where
  "split_trimmed s = filter (\<lambda>x. x \<noteq> []) (map TrimSpace (Split s (CHR '','')))"

lemma emits_randomHex [trace_mono]: "emits P (randomHex env n)"
  unfolding randomHex_def by (intro trace_mono)

lemma only_spawns_randomHex [trace_mono]: "only_spawns C (randomHex env n)"
  unfolding randomHex_def by (intro trace_mono)

lemma quiet_randomHex [trace_mono]: "quiet (randomHex env n)"
  unfolding randomHex_def by (intro trace_mono)

lemma quiet_start_cleanup [trace_mono]: "quiet m \<Longrightarrow> quiet (start_cleanup n k req m)"
  unfolding start_cleanup_def by (auto intro: trace_mono split: option.split)

lemma on_fail_start_cleanup [fail_intro]:
  "on_fail P (start_cleanup n k req (Now env (\<lambda>t. ret (f t))))"
  by (rule on_fail_never) (simp add: start_cleanup_def split: option.split)

lemma emits_start_cleanup [trace_mono]: "emits P m \<Longrightarrow> emits P (start_cleanup n k req m)"
  unfolding start_cleanup_def by (auto intro: trace_mono split: option.split)

definition cleanup_of :: "string \<Rightarrow> cleanup \<Rightarrow> bool" where
  "cleanup_of n c \<longleftrightarrow> cl_adapter c = n \<and> cl_target c \<noteq> []"

lemma meta_value_nonempty: "meta_value m k = Some v \<Longrightarrow> v \<noteq> []"
  by (auto simp: meta_value_def split: option.splits if_splits)

lemma only_spawns_start_cleanup [trace_mono]:
  "only_spawns (cleanup_of n) m \<Longrightarrow> only_spawns (cleanup_of n) (start_cleanup n k req m)"
  unfolding start_cleanup_def
  by (auto intro!: trace_mono simp: cleanup_of_def dest: meta_value_nonempty split: option.split)

lemma start_cleanup_eq_Inr:
  "start_cleanup n k req (Now env f) w = (Inr y, w') \<Longrightarrow> \<exists>t w. f (clock env t) w = (Inr y, w')"
  by (auto simp: start_cleanup_def Now_def then_do_def split: option.splits)

lemma trace_log_to [simp]: "trace (log_to b l m as w) = trace w"
  by (simp add: log_to_def)

lemma spawned_log_to [simp]: "spawned (log_to b l m as w) = spawned w"
  by (simp add: log_to_def)

lemma spawned_log_failure:
  assumes "only_spawns (\<lambda>_. False) m" "\<And>e w. spawned (l e w) = spawned w"
  shows "spawned (log_failure m l w) = spawned w"
proof -
  have "spawned (snd (m w)) = spawned w"
    using only_spawnsD [OF assms(1), of w] by (auto simp: list_all_iff)
  then show ?thesis by (auto simp: log_failure_def assms(2) split: prod.splits sum.splits)
qed

lemma succeeds_randomHex [simp]:
  "succeeds (randomHex env n) w \<longleftrightarrow> (\<exists>b. entropy env (ticks w) n = Inr b)"
  by (auto simp: succeeds_def randomHex_def attempt_eq_Inr rand_Read_def)

lemma succeeds_start_cleanup:
  "(\<And>w. succeeds m w) \<Longrightarrow> succeeds (start_cleanup n k req m) w"
  by (simp add: start_cleanup_def split: option.split)

section \<open>The registry is a map\<close>

text \<open>
  The registry refines a finite map from names to adapters: registering adds one binding
  and panics exactly when there is one already, looking up reads the map, and the names
  listed are its domain; every registry built by \<open>Register\<close> keeps its adapters under
  their own names.
\<close>

lemma registry_refines_map:
  "map_of NewRegistry = Map.empty \<and>
   (case map_of r (Name a) of
      Some _ \<Rightarrow> \<exists>m. Register env a r = Panics m
    | None \<Rightarrow> \<exists>r'. Register env a r = Done r' \<and> map_of r' = (map_of r)(Name a \<mapsto> a)
        \<and> registry_ok r' = registry_ok r) \<and>
   (case Get env r n of Inr b \<Rightarrow> map_of r n = Some b | Inl _ \<Rightarrow> map_of r n = None) \<and>
   set (Names (\<lambda>ns. ns) r) = dom (map_of r)"
proof (intro conjI)
  show "case map_of r (Name a) of
      Some _ \<Rightarrow> \<exists>m. Register env a r = Panics m
    | None \<Rightarrow> \<exists>r'. Register env a r = Done r' \<and> map_of r' = (map_of r)(Name a \<mapsto> a)
        \<and> registry_ok r' = registry_ok r"
  proof (cases "map_of r (Name a)")
    case None
    then have "map_of (r @ [(Name a, a)]) = (map_of r)(Name a \<mapsto> a)"
      by (auto simp: fun_eq_iff map_add_def split: option.split)
    moreover have "Name a \<notin> fst ` set r" using None by (simp add: map_of_eq_None_iff)
    then have "registry_ok (r @ [(Name a, a)]) = registry_ok r" by (auto simp: registry_ok_def)
    ultimately show ?thesis using None by (simp add: Register_def)
  qed (simp add: Register_def)
  show "case Get env r n of Inr b \<Rightarrow> map_of r n = Some b | Inl _ \<Rightarrow> map_of r n = None"
    by (simp add: Get_def split: option.split)
qed (simp_all add: NewRegistry_def Names_def dom_map_of_conv_image_fst)

end
