(* ===== verification/Auth0_Adapter.thy ===== *)
theory Auth0_Adapter
  imports Adapter
begin

text \<open>
  The Auth0 adapter (adapter/auth0/auth0.go).  Its token cache, \<open>mgmtToken\<close> and
  \<open>tokenExpiry\<close>, is the part of the world of the same names; the double-checked locking
  of \<open>managementToken\<close> is two consecutive checks here.
\<close>

section \<open>Configuration\<close>

definition auth0_name :: string where
  "auth0_name = ''auth0''"

definition tokenRefreshBuf :: int where
  "tokenRefreshBuf = 5 * Minute"

record auth0_adapter =
  a0_domain :: string
  a0_clientID :: string
  a0_clientSecret :: string
  a0_audience :: string
  a0_baseURL :: string
  a0_client :: http_client

record auth0_config =
  ac_Domain :: string
  ac_ClientID :: string
  ac_ClientSecret :: string
  ac_Audience :: string

definition auth0_WithBaseURL :: "string \<Rightarrow> auth0_adapter \<Rightarrow> auth0_adapter" where
  "auth0_WithBaseURL u a = a\<lparr>a0_baseURL := u\<rparr>"

definition auth0_New :: "auth0_config \<Rightarrow> (auth0_adapter \<Rightarrow> auth0_adapter) list \<Rightarrow> gerr + auth0_adapter"
where
  "auth0_New cfg opts =
     (if ac_Domain cfg = [] \<or> ac_ClientID cfg = [] \<or> ac_ClientSecret cfg = [] \<or> ac_Audience cfg = []
      then Inl ''auth0: all Config fields are required''
      else Inr (fold (\<lambda>f a. f a) opts
        \<lparr>a0_domain = ac_Domain cfg, a0_clientID = ac_ClientID cfg, a0_clientSecret = ac_ClientSecret cfg,
         a0_audience = ac_Audience cfg, a0_baseURL = ''https://'' @ ac_Domain cfg,
         a0_client = \<lparr>hc_Timeout = 15 * Second, hc_MinVersion = VersionTLS13,
                      hc_InsecureSkipVerify = False, hc_RootCAs = None\<rparr>\<rparr>))"

section \<open>The management token\<close>

text \<open>\<open>a.mgmtToken != "" && time.Until(a.tokenExpiry) > tokenRefreshBuf\<close>\<close>

definition token_valid :: "env \<Rightarrow> (bool \<Rightarrow> 'a act) \<Rightarrow> 'a act" where
  "token_valid env k = (\<lambda>w.
     if mgmtToken w = [] then k False w
     else Now env (\<lambda>t. k (tokenExpiry w - t > tokenRefreshBuf)) w)"

definition token_body :: "env \<Rightarrow> auth0_adapter \<Rightarrow> string" where
  "token_body env a =
     ''{\"client_id\":'' @ quoted env (a0_clientID a) @
     '',\"client_secret\":'' @ quoted env (a0_clientSecret a) @
     '',\"audience\":'' @ quoted env (a0_audience a) @
     '',\"grant_type\":\"client_credentials\"}''"

definition token_fields :: "string list" where
  "token_fields = [''access_token'', ''expires_in'']"

definition decode_token :: "string \<Rightarrow> (string \<times> int) option" where
  "decode_token s = do {
     ms \<leftarrow> dec_root s;
     tok \<leftarrow> dec_field dec_str (key_for token_fields ''access_token'') [] ms;
     n \<leftarrow> dec_field dec_int64 (key_for token_fields ''expires_in'') 0 ms;
     Some (tok, n) }"

definition store_token :: "env \<Rightarrow> string \<Rightarrow> int \<Rightarrow> string act" where
  "store_token env tok expires = Now env (\<lambda>t w.
     (Inr tok, w\<lparr>mgmtToken := tok, tokenExpiry := t + dur_seconds expires\<rparr>))"

definition fetch_token :: "env \<Rightarrow> auth0_adapter \<Rightarrow> ctx \<Rightarrow> string act" where
  "fetch_token env a c =
     NewRequest env c ''POST'' (a0_baseURL a @ ''/oauth/token'') (Some (token_body env a))
       (\<lambda>e. ''build token request: '' @ e) (\<lambda>req.
     attempt (Do env (set_header ''Content-Type'' ''application/json'' req))
       (\<lambda>e. ''token request: '' @ e) (\<lambda>resp.
     let respBody = read_limited (2 ^ 16) resp in
     check (resp_status resp \<noteq> 200)
       (''token endpoint status '' @ nat_dec (resp_status resp) @ '': '' @ respBody)
     (of_option (decode_token respBody)
       (''parse token response: '' @ json_err env ''auth0 token'' respBody) (\<lambda>(tok, n).
     check (tok = []) ''empty access_token in response''
       (store_token env tok n)))))"

definition managementToken :: "env \<Rightarrow> auth0_adapter \<Rightarrow> ctx \<Rightarrow> string act" where
  "managementToken env a c =
     token_valid env (\<lambda>ok. if ok then (\<lambda>w. ret (mgmtToken w) w)
       else token_valid env (\<lambda>ok. if ok then (\<lambda>w. ret (mgmtToken w) w) else fetch_token env a c))"

section \<open>Operations\<close>

definition decode_client_secret :: "string \<Rightarrow> string option" where
  "decode_client_secret s = do {
     ms \<leftarrow> dec_root s;
     dec_field dec_str (key_for [''client_secret''] ''client_secret'') [] ms }"

definition auth0_Rotate :: "env \<Rightarrow> auth0_adapter \<Rightarrow> ctx \<Rightarrow> RotateRequest \<Rightarrow> Result act" where
  "auth0_Rotate env a c req =
     attempt (managementToken env a c) (\<lambda>e. ''auth0 rotate: get management token: '' @ e) (\<lambda>token.
     NewRequest env c ''POST''
         (a0_baseURL a @ ''/api/v2/clients/'' @ rq_ProviderID req @ ''/rotate-secret'') None
       (\<lambda>e. ''auth0 rotate: build request: '' @ e) (\<lambda>httpReq.
     attempt (Do env (set_header ''Content-Type'' ''application/json''
         (set_header ''Authorization'' (''Bearer '' @ token) httpReq)))
       (\<lambda>e. ''auth0 rotate: http: '' @ e) (\<lambda>resp.
     let body = read_limited (2 ^ 20) resp in
     check (resp_status resp \<noteq> 200)
       (''auth0 rotate: unexpected status '' @ nat_dec (resp_status resp) @ '': '' @ body)
     (of_option (decode_client_secret body)
       (''auth0 rotate: parse response: '' @ json_err env ''auth0 rotate'' body) (\<lambda>secret.
     check (secret = []) ''auth0 rotate: empty client_secret in response''
     (Now env (\<lambda>t. ret
       \<lparr>res_ProviderID = rq_ProviderID req, res_CredentialID = rq_ProviderID req,
        res_Credential = secret, res_RotatedAt = t\<rparr>)))))))"

definition auth0_Revoke :: "auth0_adapter \<Rightarrow> ctx \<Rightarrow> RevokeRequest \<Rightarrow> unit act" where
  "auth0_Revoke a c req =
     fail ''auth0: explicit revocation is not supported; use Rotate to replace the secret''"

definition auth0_Status :: "env \<Rightarrow> auth0_adapter \<Rightarrow> ctx \<Rightarrow> string \<Rightarrow> CredentialStatus act" where
  "auth0_Status env a c credentialID =
     attempt (managementToken env a c) (\<lambda>e. ''auth0 status: get management token: '' @ e) (\<lambda>token.
     NewRequest env c ''GET'' (a0_baseURL a @ ''/api/v2/clients/'' @ credentialID
         @ ''?fields=client_id,name&include_fields=true'') None
       (\<lambda>e. ''auth0 status: build request: '' @ e) (\<lambda>httpReq.
     attempt (Do env (set_header ''Authorization'' (''Bearer '' @ token) httpReq))
       (\<lambda>e. ''auth0 status: http: '' @ e) (\<lambda>resp.
     Now env (\<lambda>t. ret
       \<lparr>cs_ProviderID = credentialID, cs_CredentialID = credentialID,
        cs_Active = (resp_status resp = 200), cs_CheckedAt = t\<rparr>))))"

definition auth0 :: "env \<Rightarrow> auth0_adapter \<Rightarrow> adapter" where
  "auth0 env a = \<lparr>Name = auth0_name, Rotate = auth0_Rotate env a, Revoke = auth0_Revoke a,
     Status = auth0_Status env a, Drain = None\<rparr>"

section \<open>The contract\<close>

definition auth0_mine :: "auth0_adapter \<Rightarrow> event \<Rightarrow> bool" where
  "auth0_mine a = to_provider (a0_baseURL a) []"

lemma auth0_mine_http [simp]:
  "auth0_mine a (EHttp r) \<longleftrightarrow> under (a0_baseURL a) (hr_url r)"
  by (simp add: auth0_mine_def to_provider_def)

lemma emits_token_valid [trace_mono]:
  "(\<And>b. emits P (k b)) \<Longrightarrow> emits P (token_valid env k)"
  using emits_Now [of P "\<lambda>t. k (tokenExpiry w - t > tokenRefreshBuf)" env for w]
  by (fastforce simp: token_valid_def emits_def)

lemma only_spawns_token_valid [trace_mono]:
  "(\<And>b. only_spawns C (k b)) \<Longrightarrow> only_spawns C (token_valid env k)"
  using only_spawns_Now [of C "\<lambda>t. k (tokenExpiry w - t > tokenRefreshBuf)" env for w]
  by (fastforce simp: token_valid_def only_spawns_def)

lemma quiet_token_valid [trace_mono]:
  "(\<And>b. quiet (k b)) \<Longrightarrow> quiet (token_valid env k)"
  using quiet_Now [of "\<lambda>t. k (tokenExpiry w - t > tokenRefreshBuf)" env for w]
  by (fastforce simp: token_valid_def quiet_def)

lemma emits_store [trace_mono]: "emits P (store_token env tok n)"
  by (simp add: store_token_def emits_def Now_def)

lemma only_spawns_store [trace_mono]: "only_spawns C (store_token env tok n)"
  by (simp add: store_token_def only_spawns_def Now_def)

lemma quiet_store [trace_mono]: "quiet (store_token env tok n)"
  by (simp add: store_token_def quiet_def Now_def)

lemma emits_get [trace_mono]: "emits P (\<lambda>w. ret (f w) w)"
  by (simp add: emits_def)

lemma only_spawns_get [trace_mono]: "only_spawns C (\<lambda>w. ret (f w) w)"
  by (simp add: only_spawns_def)

lemma quiet_get [trace_mono]: "quiet (\<lambda>w. ret (f w) w)"
  by (simp add: quiet_def)

lemma emits_managementToken: "emits (auth0_mine a) (managementToken env a c)"
  unfolding managementToken_def fetch_token_def Let_def
  by (auto intro!: trace_mono split: prod.split)

lemma only_spawns_managementToken: "only_spawns C (managementToken env a c)"
  unfolding managementToken_def fetch_token_def Let_def
  by (auto intro!: trace_mono split: prod.split)

lemma quiet_managementToken: "quiet (managementToken env a c)"
  unfolding managementToken_def fetch_token_def Let_def
  by (auto intro!: trace_mono split: prod.split)

lemma auth0_Rotate_emits: "emits (auth0_mine a) (auth0_Rotate env a c req)"
  unfolding auth0_Rotate_def Let_def by (auto intro!: trace_mono emits_managementToken)

lemma auth0_Status_emits: "emits (auth0_mine a) (auth0_Status env a c cid)"
  unfolding auth0_Status_def Let_def by (auto intro!: trace_mono emits_managementToken)

lemma auth0_Rotate_spawns: "only_spawns C (auth0_Rotate env a c req)"
  unfolding auth0_Rotate_def Let_def by (auto intro!: trace_mono only_spawns_managementToken)

lemma auth0_Rotate_quiet: "quiet (auth0_Rotate env a c req)"
  unfolding auth0_Rotate_def Let_def by (auto intro!: trace_mono quiet_managementToken)

lemma auth0_Status_spawns: "only_spawns C (auth0_Status env a c cid)"
  unfolding auth0_Status_def Let_def by (auto intro!: trace_mono only_spawns_managementToken)

lemma auth0_Status_quiet: "quiet (auth0_Status env a c cid)"
  unfolding auth0_Status_def Let_def by (auto intro!: trace_mono quiet_managementToken)

lemma auth0_Rotate_result:
  assumes "auth0_Rotate env a c req w = (Inr res, w')"
  shows "res_ProviderID res = rq_ProviderID req \<and> res_CredentialID res = rq_ProviderID req
    \<and> res_Credential res \<noteq> []"
  using assms unfolding auth0_Rotate_def by (auto simp: Let_def act_eq_Inr)

lemma auth0_Status_result:
  assumes "auth0_Status env a c cid w = (Inr st, w')"
  shows "cs_ProviderID st = cid \<and> cs_CredentialID st = cid"
  using assms unfolding auth0_Status_def by (auto simp: act_eq_Inr)

lemma auth0_sel [simp]:
  "Name (auth0 env a) = auth0_name" "Rotate (auth0 env a) = auth0_Rotate env a"
  "Revoke (auth0 env a) = auth0_Revoke a" "Status (auth0 env a) = auth0_Status env a"
  "Drain (auth0 env a) = None"
  by (simp_all add: auth0_def)

lemma managementToken_keeps: "emits keeps (managementToken env a c)"
  unfolding managementToken_def fetch_token_def Let_def
  by (auto intro!: trace_mono keeps_last split: prod.split)

lemma auth0_Rotate_failure: "on_fail keeps (auth0_Rotate env a c req)"
  unfolding auth0_Rotate_def Let_def
  by (auto intro!: on_failI trace_mono managementToken_keeps quiet_managementToken only_spawns_managementToken
      keeps_last)

interpretation auth0: credential_adapter "auth0 env a" "auth0_mine a" "\<lambda>_. False"
  by unfold_locales
     (auto simp: auth0_Revoke_def auth0_Rotate_emits auth0_Status_emits auth0_Rotate_spawns
       auth0_Status_spawns emits_fail only_spawns_fail auth0_Rotate_quiet auth0_Status_quiet
       quiet_simple auth0_Rotate_failure
       dest: auth0_Rotate_result auth0_Status_result)

section \<open>The token request\<close>

lemma token_body_members:
  "token_body env a = CHR ''{'' # dq # ''client_id'' @ dq # CHR '':'' # quoted env (a0_clientID a) @ CHR '','' #
     dq # ''client_secret'' @ dq # CHR '':'' # quoted env (a0_clientSecret a) @ CHR '','' #
     dq # ''audience'' @ dq # CHR '':'' # quoted env (a0_audience a) @ CHR '','' #
     dq # ''grant_type'' @ dq # CHR '':'' # (dq # ''client_credentials'' @ [dq]) @ [CHR ''}'']"
  by (simp add: token_body_def)

lemma token_keys:
  "plain_key ''client_id''" "plain_key ''client_secret''" "plain_key ''audience''"
  "plain_key ''grant_type''" "plain_key ''client_credentials''"
  by (simp_all add: plain_key_def)

lemma parse_literal:
  "plain_key k \<Longrightarrow> parse_value ((dq # k @ [dq]) @ t) = Some (JStr k, t)"
  using scan_plain [of k t] by (simp add: is_ws_def plain_key_def printable_ascii del: scan_str.simps)

text \<open>
  For printable client id, secret and audience the body of the token request, which the
  code assembles with \<open>%q\<close>, is the JSON object with exactly these four members.
\<close>

lemma token_body_json:
  assumes "printable (a0_clientID a)" "printable (a0_clientSecret a)" "printable (a0_audience a)"
  shows "Unmarshal (token_body env a) = Some (JObj
    [(''client_id'', JStr (a0_clientID a)), (''client_secret'', JStr (a0_clientSecret a)),
     (''audience'', JStr (a0_audience a)), (''grant_type'', JStr ''client_credentials'')])"
proof -
  have q: "parse_value (quoted env v @ t) = Some (JStr v, t)" if "printable v" for v t
    unfolding quoted_def using that by (rule parse_go_quote)
  note k = token_keys
  have m4: "parse_members (dq # ''grant_type'' @ dq # CHR '':'' # (dq # ''client_credentials'' @ [dq]) @ [CHR ''}''])
      = Some ([(''grant_type'', JStr ''client_credentials'')], [])"
    by (rule parse_member_end [OF k(4) parse_literal [OF k(5)]])
  note m3 = parse_member_comma [OF k(3) q [OF assms(3)], unfolded m4 option.map prod.case]
  note m2 = parse_member_comma [OF k(2) q [OF assms(2)], unfolded m3 option.map prod.case]
  note m1 = parse_member_comma [OF k(1) q [OF assms(1)], unfolded m2 option.map prod.case]
  show ?thesis
    unfolding token_body_members
    by (rule Unmarshal_members) (simp only: parse_member_comma [OF k(1) q [OF assms(1)]]
      parse_member_comma [OF k(2) q [OF assms(2)]] parse_member_comma [OF k(3) q [OF assms(3)]] m4
      option.map prod.case)
qed

definition auth0_example :: auth0_adapter where
  "auth0_example = \<lparr>a0_domain = ''t.auth0.com'', a0_clientID = ''id1'', a0_clientSecret = ''s3cret'',
     a0_audience = ''https://api'', a0_baseURL = ''https://t.auth0.com'', a0_client =
     \<lparr>hc_Timeout = 0, hc_MinVersion = VersionTLS13, hc_InsecureSkipVerify = False, hc_RootCAs = None\<rparr>\<rparr>"

text \<open>A secret with a control character: \<open>%q\<close> writes an escape that JSON does not have.\<close>

lemma scan_bell: "scan_str (bslash # CHR ''a'' # t) = None"
  by (simp add: unescape_def)

text \<open>
  With a BEL character in the client secret the body the code sends is not JSON, so Auth0
  cannot read it: \<open>%q\<close> writes \<open>\\a\<close>, an escape JSON does not have.
\<close>

lemma token_body_control_char:
  "Unmarshal (token_body env (auth0_example\<lparr>a0_clientSecret := [char_of (7::nat)]\<rparr>)) = None"
proof -
  let ?a = "auth0_example\<lparr>a0_clientSecret := [char_of (7::nat)]\<rparr>"
  have q: "quoted env [char_of (7::nat)] = dq # bslash # CHR ''a'' # [dq]"
    by (simp add: quoted_def go_quote_def quote_rune_def RuneError_def)
  have id1: "parse_value (quoted env ''id1'' @ t) = Some (JStr ''id1'', t)" for t
    unfolding quoted_def by (rule parse_go_quote) simp
  have bad: "parse_value (quoted env [char_of (7::nat)] @ t) = None" for t
    by (simp add: q is_ws_def scan_bell del: scan_str.simps)
  have m2: "parse_members (dq # ''client_secret'' @ dq # CHR '':'' # quoted env [char_of (7::nat)] @ t) = None" for t
    using scan_plain [OF token_keys(2), of "CHR '':'' # quoted env [char_of (7::nat)] @ t"]
    by (subst parse_members.simps) (simp add: is_ws_def bad del: scan_str.simps append.simps)
  have "parse_members (dq # ''client_id'' @ dq # CHR '':'' # quoted env ''id1'' @ CHR '','' #
      dq # ''client_secret'' @ dq # CHR '':'' # quoted env [char_of (7::nat)] @ t) = None" for t
    by (simp only: parse_member_comma [OF token_keys(1) id1] m2 option.map)
  then show ?thesis
    unfolding token_body_members
    by (simp add: Unmarshal_def is_ws_def auth0_example_def del: scan_str.simps append.simps)
qed

section \<open>The token cache\<close>

lemma token_valid_cached:
  "mgmtToken w \<noteq> [] \<Longrightarrow> token_valid env k w =
     k (tokenExpiry w - clock env (ticks w) > tokenRefreshBuf) (w\<lparr>ticks := Suc (ticks w)\<rparr>)"
  by (simp add: token_valid_def Now_def)

text \<open>
  While the cached management token has more than five minutes to live, it is returned
  without any request, and nothing but the clock reading changes.
\<close>

lemma managementToken_cached:
  assumes "mgmtToken w \<noteq> []" "tokenExpiry w - clock env (ticks w) > tokenRefreshBuf"
  shows "managementToken env a c w = (Inr (mgmtToken w), w\<lparr>ticks := Suc (ticks w)\<rparr>)"
  using assms by (simp add: managementToken_def token_valid_cached)

text \<open>
  A token that Auth0 issues for five minutes or less is never reused: with a clock that
  does not run backwards, the next call fetches again.
\<close>

lemma short_token_refetched:
  assumes "0 \<le> n" "n \<le> 300" "\<And>i j. i \<le> j \<Longrightarrow> clock env i \<le> clock env j" "tok \<noteq> []"
    and "store_token env tok n w = (Inr tok, w1)"
  shows "managementToken env a c w1 = fetch_token env a c (w1\<lparr>ticks := Suc (Suc (ticks w1))\<rparr>)"
proof -
  have d: "dur_seconds n = n * Second" using assms(1,2) by (simp add: dur_seconds_def wrap64_def Second_def)
  have w1: "mgmtToken w1 = tok" "tokenExpiry w1 = clock env (ticks w) + n * Second" "ticks w1 = Suc (ticks w)"
    using assms(5) by (auto simp: store_token_def Now_def d)
  have "n * Second \<le> tokenRefreshBuf" using assms(2) by (simp add: tokenRefreshBuf_def Minute_def Second_def)
  moreover have "clock env (ticks w) \<le> clock env (Suc (ticks w))"
    "clock env (ticks w) \<le> clock env (Suc (Suc (ticks w)))" using assms(3) by simp_all
  ultimately have "\<not> tokenExpiry w1 - clock env (ticks w1) > tokenRefreshBuf"
    "\<not> tokenExpiry w1 - clock env (Suc (ticks w1)) > tokenRefreshBuf" by (simp_all add: w1)
  with assms(4) show ?thesis by (simp add: managementToken_def token_valid_cached w1(1))
qed

end
