(* ===== verification/Datadog_Adapter.thy ===== *)
theory Datadog_Adapter
  imports Adapter Log_Sanitizer
begin

text \<open>
  The Datadog adapter (adapter/datadog/datadog.go): API keys and application keys through
  the v2 Key Management API.  The concurrency of \<open>sem\<close> and \<open>cleanupWg\<close> is the subject
  of theory \<open>Concurrency\<close>; here \<open>Acquire\<close> may fail and the clean-up goroutine is recorded.
\<close>

section \<open>Configuration\<close>

definition dd_name :: string where
  "dd_name = ''datadog''"

definition KeyTypeAPI :: string where
  "KeyTypeAPI = ''api_key''"

definition KeyTypeApp :: string where
  "KeyTypeApp = ''app_key''"

definition dd_defaultBaseURL :: string where
  "dd_defaultBaseURL = ''https://api.datadoghq.com''"

record dd_adapter =
  dd_baseURL :: string
  dd_adminAPIKey :: string
  dd_adminAppKey :: string
  dd_keyType :: string
  dd_client :: http_client
  dd_logger :: bool

record dd_config =
  dc_AdminAPIKey :: string
  dc_AdminAppKey :: string
  dc_BaseURL :: string
  dc_KeyType :: string

definition dd_WithBaseURL :: "string \<Rightarrow> dd_adapter \<Rightarrow> dd_adapter" where
  "dd_WithBaseURL u a = a\<lparr>dd_baseURL := TrimRight u (CHR ''/'')\<rparr>"

definition dd_WithLogger :: "dd_adapter \<Rightarrow> dd_adapter" where
  "dd_WithLogger a = a\<lparr>dd_logger := True\<rparr>"

definition dd_New :: "env \<Rightarrow> dd_config \<Rightarrow> (dd_adapter \<Rightarrow> dd_adapter) list \<Rightarrow> gerr + dd_adapter" where
  "dd_New env cfg opts =
     (if dc_AdminAPIKey cfg = [] then Inl ''datadog: AdminAPIKey is required''
      else if dc_AdminAppKey cfg = [] then Inl ''datadog: AdminAppKey is required''
      else let keyType = (if dc_KeyType cfg = [] then KeyTypeAPI else dc_KeyType cfg)
      in if keyType \<noteq> KeyTypeAPI \<and> keyType \<noteq> KeyTypeApp
         then Inl (''datadog: KeyType must be '' @ quoted env KeyTypeAPI @ '' or '' @
                quoted env KeyTypeApp @ '', got '' @ quoted env keyType)
      else let baseURL = (if dc_BaseURL cfg = [] then dd_defaultBaseURL else dc_BaseURL cfg)
      in Inr (fold (\<lambda>f a. f a) opts
        \<lparr>dd_baseURL = TrimRight baseURL (CHR ''/''), dd_adminAPIKey = dc_AdminAPIKey cfg,
         dd_adminAppKey = dc_AdminAppKey cfg, dd_keyType = keyType,
         dd_client = \<lparr>hc_Timeout = 20 * Second, hc_MinVersion = VersionTLS13,
                      hc_InsecureSkipVerify = False, hc_RootCAs = None\<rparr>,
         dd_logger = False\<rparr>))"

section \<open>Requests\<close>

definition collectionPath :: "dd_adapter \<Rightarrow> string" where
  "collectionPath a =
     (if dd_keyType a = KeyTypeApp then ''/api/v2/application_keys'' else ''/api/v2/api_keys'')"

definition keyPath :: "dd_adapter \<Rightarrow> string \<Rightarrow> string" where
  "keyPath a kid =
     (if dd_keyType a = KeyTypeApp then ''/api/v2/application_keys/'' @ kid
      else ''/api/v2/api_keys/'' @ kid)"

definition dd_do :: "env \<Rightarrow> dd_adapter \<Rightarrow> ctx \<Rightarrow> string \<Rightarrow> string \<Rightarrow> string option \<Rightarrow> (nat \<times> string) act"
where
  "dd_do env a c method endpoint reqBody =
     NewRequest env c method endpoint reqBody (\<lambda>e. ''build request: '' @ e) (\<lambda>req.
     let req = set_header ''Accept'' ''application/json''
           (set_header ''DD-APPLICATION-KEY'' (dd_adminAppKey a)
             (set_header ''DD-API-KEY'' (dd_adminAPIKey a) req));
         req = (if reqBody \<noteq> None then set_header ''Content-Type'' ''application/json'' req else req)
     in attempt (Do env req) (\<lambda>e. ''http: '' @ e) (\<lambda>resp.
          ret (resp_status resp, read_limited bodyLimit resp)))"

definition dd_buildCreateBody :: "dd_adapter \<Rightarrow> string \<Rightarrow> (string \<rightharpoonup> string) \<Rightarrow> string" where
  "dd_buildCreateBody a name meta =
     (let app = (dd_keyType a = KeyTypeApp);
          scopes = (case meta_value meta ''scopes'' of None \<Rightarrow> [] | Some s \<Rightarrow> split_trimmed s);
          attrs = (''name'', JStr name) # (if app then [(''scopes'', JArr (map JStr scopes))] else []);
          ddType = (if app then ''application_keys'' else ''api_keys'')
      in json_print (marshal_map [(''data'',
           marshal_map [(''type'', JStr ddType), (''attributes'', marshal_map attrs)])]))"

text \<open>\<open>ddResponse\<close>, \<open>ddData\<close> and \<open>ddAttributes\<close>: the id and the key value of a creation's reply.\<close>

definition dd_decode :: "string \<Rightarrow> (string \<times> string) option" where
  "dd_decode s = do {
     ms \<leftarrow> dec_root s;
     d \<leftarrow> dec_nested (key_for [''data''] ''data'') ms;
     let fs = [''id'', ''type'', ''attributes''];
     kid \<leftarrow> dec_field dec_str (key_for fs ''id'') [] d;
     ty \<leftarrow> dec_field dec_str (key_for fs ''type'') [] d;
     at \<leftarrow> dec_nested (key_for fs ''attributes'') d;
     let gs = [''name'', ''key'', ''last4''];
     nm \<leftarrow> dec_field dec_str (key_for gs ''name'') [] at;
     key \<leftarrow> dec_field dec_str (key_for gs ''key'') [] at;
     l4 \<leftarrow> dec_field dec_str (key_for gs ''last4'') [] at;
     Some (kid, key) }"

definition dd_createKey :: "env \<Rightarrow> dd_adapter \<Rightarrow> ctx \<Rightarrow> string \<Rightarrow> (string \<rightharpoonup> string) \<Rightarrow> (string \<times> string) act"
where
  "dd_createKey env a c name meta =
     attempt (dd_do env a c ''POST'' (dd_baseURL a @ collectionPath a)
         (Some (dd_buildCreateBody a name meta)))
       (\<lambda>e. ''create key '' @ quoted env name @ '': '' @ e) (\<lambda>(status, respBody).
     check (status \<noteq> 201)
       (''create key '' @ quoted env name @ '': unexpected status '' @ nat_dec status @ '': '' @ respBody)
     (of_option (dd_decode respBody)
       (''create key '' @ quoted env name @ '': parse response: '' @ json_err env ''ddResponse'' respBody)
     (\<lambda>(kid, key).
     check (kid = []) (''create key '' @ quoted env name @ '': id missing in response'')
     (check (key = []) (''create key '' @ quoted env name @ '': key value missing in response'')
     (ret (kid, key))))))"

definition dd_deleteKey :: "env \<Rightarrow> dd_adapter \<Rightarrow> ctx \<Rightarrow> string \<Rightarrow> unit act" where
  "dd_deleteKey env a c kid =
     attempt (dd_do env a c ''DELETE'' (dd_baseURL a @ keyPath a kid) None)
       (\<lambda>e. ''delete key '' @ quoted env kid @ '': '' @ e) (\<lambda>(status, body).
     check (status \<noteq> 204 \<and> status \<noteq> 404)
       (''delete key '' @ quoted env kid @ '': unexpected status '' @ nat_dec status @ '': '' @ body)
     (ret ()))"

section \<open>Operations\<close>

definition dd_Rotate :: "env \<Rightarrow> dd_adapter \<Rightarrow> ctx \<Rightarrow> RotateRequest \<Rightarrow> Result act" where
  "dd_Rotate env a c req =
     attempt (Acquire env c) (\<lambda>e. ''datadog rotate: acquire slot: '' @ e) (\<lambda>_.
     attempt (randomHex env 2) (\<lambda>e. ''datadog rotate: generate name suffix: '' @ e) (\<lambda>suffix.
     Now env (\<lambda>t.
     let newName = rq_ProviderID req @ ''-'' @ fmt_compact_ms t @ ''-'' @ suffix
     in attempt (dd_createKey env a c newName (rq_Meta req)) (\<lambda>e. ''datadog rotate: '' @ e)
     (\<lambda>(keyID, keyValue).
     start_cleanup dd_name ''old_key_id'' req
     (Now env (\<lambda>t. ret
       \<lparr>res_ProviderID = rq_ProviderID req, res_CredentialID = keyID,
        res_Credential = keyValue, res_RotatedAt = t\<rparr>))))))"

text \<open>The body of the clean-up goroutine.\<close>

definition dd_cleanup :: "env \<Rightarrow> dd_adapter \<Rightarrow> cleanup \<Rightarrow> world \<Rightarrow> world" where
  "dd_cleanup env a cl =
     log_failure (dd_deleteKey env a (WithTimeout Background deleteOldTimeout) (cl_target cl))
       (\<lambda>e. log_to (dd_logger a) LWarn ''datadog: best-effort delete of old key failed''
         [(''old_key_id'', AStr (sanitizeForLog (cl_target cl))),
          (''provider_id'', AStr (sanitizeForLog (cl_provider cl))),
          (''err'', AStr (sanitizeForLog e))])"

definition dd_Drain :: "env \<Rightarrow> dd_adapter \<Rightarrow> ctx \<Rightarrow> unit act" where
  "dd_Drain env a c = Drain_wait env dd_name (dd_cleanup env a) c"

definition dd_Revoke :: "env \<Rightarrow> dd_adapter \<Rightarrow> ctx \<Rightarrow> RevokeRequest \<Rightarrow> unit act" where
  "dd_Revoke env a c req =
     check (rv_CredentialID req = [])
       (''datadog revoke: credential_id is required '' @ em_dash @ '' refusing to skip revocation'')
     (attempt (dd_deleteKey env a c (rv_CredentialID req)) (\<lambda>e. ''datadog revoke: '' @ e) (\<lambda>_. ret ()))"

definition dd_Status :: "env \<Rightarrow> dd_adapter \<Rightarrow> ctx \<Rightarrow> string \<Rightarrow> CredentialStatus act" where
  "dd_Status env a c credentialID =
     check (credentialID = []) ''datadog status: credential_id is required''
     (attempt (dd_do env a c ''GET'' (dd_baseURL a @ keyPath a credentialID) None)
       (\<lambda>e. ''datadog status: '' @ e) (\<lambda>(status, _).
     check (status \<noteq> 200 \<and> status \<noteq> 404)
       (''datadog status: unexpected status '' @ nat_dec status)
     (Now env (\<lambda>t. ret
       \<lparr>cs_ProviderID = credentialID, cs_CredentialID = credentialID,
        cs_Active = (status = 200), cs_CheckedAt = t\<rparr>))))"

definition datadog :: "env \<Rightarrow> dd_adapter \<Rightarrow> adapter" where
  "datadog env a = \<lparr>Name = dd_name, Rotate = dd_Rotate env a, Revoke = dd_Revoke env a,
     Status = dd_Status env a, Drain = Some (dd_Drain env a)\<rparr>"

section \<open>The contract\<close>

definition dd_auth :: "dd_adapter \<Rightarrow> (string \<times> string) list" where
  "dd_auth a = [(''DD-API-KEY'', dd_adminAPIKey a), (''DD-APPLICATION-KEY'', dd_adminAppKey a)]"

definition dd_mine :: "dd_adapter \<Rightarrow> event \<Rightarrow> bool" where
  "dd_mine a = to_provider (dd_baseURL a) (dd_auth a)"

lemma datadog_sel [simp]:
  "Name (datadog env a) = dd_name" "Rotate (datadog env a) = dd_Rotate env a"
  "Revoke (datadog env a) = dd_Revoke env a" "Status (datadog env a) = dd_Status env a"
  "Drain (datadog env a) = Some (dd_Drain env a)"
  by (simp_all add: datadog_def)

lemma emits_dd_do:
  "under (dd_baseURL a) u \<Longrightarrow> emits (dd_mine a) (dd_do env a c m u b)"
  unfolding dd_do_def Let_def
  by (intro trace_mono) (simp add: dd_mine_def to_provider_def dd_auth_def)

lemma only_spawns_dd_do [trace_mono]: "only_spawns C (dd_do env a c m u b)"
  unfolding dd_do_def Let_def by (intro trace_mono)

lemma quiet_dd_do [trace_mono]: "quiet (dd_do env a c m u b)"
  unfolding dd_do_def Let_def by (intro trace_mono)

lemma under_keyPath [simp]: "under (dd_baseURL a) (dd_baseURL a @ keyPath a kid)"
  by (simp add: keyPath_def)

lemma under_collectionPath [simp]: "under (dd_baseURL a) (dd_baseURL a @ collectionPath a)"
  by (simp add: collectionPath_def)

lemma emits_dd_createKey [trace_mono]: "emits (dd_mine a) (dd_createKey env a c n m)"
  unfolding dd_createKey_def by (auto intro!: trace_mono emits_dd_do split: prod.split)

lemma emits_dd_deleteKey [trace_mono]: "emits (dd_mine a) (dd_deleteKey env a c k)"
  unfolding dd_deleteKey_def by (auto intro!: trace_mono emits_dd_do split: prod.split)

lemma only_spawns_dd_createKey [trace_mono]: "only_spawns C (dd_createKey env a c n m)"
  unfolding dd_createKey_def by (auto intro!: trace_mono split: prod.split)

lemma quiet_dd_createKey [trace_mono]: "quiet (dd_createKey env a c n m)"
  unfolding dd_createKey_def by (auto intro!: trace_mono split: prod.split)

lemma only_spawns_dd_deleteKey [trace_mono]: "only_spawns C (dd_deleteKey env a c k)"
  unfolding dd_deleteKey_def by (auto intro!: trace_mono split: prod.split)

lemma quiet_dd_deleteKey [trace_mono]: "quiet (dd_deleteKey env a c k)"
  unfolding dd_deleteKey_def by (auto intro!: trace_mono split: prod.split)

lemma dd_Rotate_emits: "emits (dd_mine a) (dd_Rotate env a c req)"
  unfolding dd_Rotate_def Let_def by (auto intro!: trace_mono split: prod.split)

lemma dd_Rotate_spawns: "only_spawns (cleanup_of dd_name) (dd_Rotate env a c req)"
  unfolding dd_Rotate_def Let_def by (auto intro!: trace_mono split: prod.split)

lemma dd_Rotate_quiet: "quiet (dd_Rotate env a c req)"
  unfolding dd_Rotate_def Let_def by (auto intro!: trace_mono split: prod.split)

lemma dd_Revoke_emits: "emits (dd_mine a) (dd_Revoke env a c rv)"
  unfolding dd_Revoke_def by (intro trace_mono)

lemma dd_Status_emits: "emits (dd_mine a) (dd_Status env a c cid)"
  unfolding dd_Status_def by (auto intro!: trace_mono emits_dd_do split: prod.split)

lemma dd_Revoke_spawns: "only_spawns C (dd_Revoke env a c rv)"
  unfolding dd_Revoke_def by (intro trace_mono)

lemma dd_Revoke_quiet: "quiet (dd_Revoke env a c rv)"
  unfolding dd_Revoke_def by (intro trace_mono)

lemma dd_Status_spawns: "only_spawns C (dd_Status env a c cid)"
  unfolding dd_Status_def by (auto intro!: trace_mono split: prod.split)

lemma dd_Status_quiet: "quiet (dd_Status env a c cid)"
  unfolding dd_Status_def by (auto intro!: trace_mono split: prod.split)

lemma dd_createKey_result:
  "dd_createKey env a c n m w = (Inr (kid, key), w') \<Longrightarrow> kid \<noteq> [] \<and> key \<noteq> []"
  unfolding dd_createKey_def by (auto simp: act_eq_Inr split: prod.splits)

lemma dd_Rotate_result:
  assumes "dd_Rotate env a c req w = (Inr res, w')"
  shows "res_ProviderID res = rq_ProviderID req \<and> res_CredentialID res \<noteq> [] \<and> res_Credential res \<noteq> []"
  using assms unfolding dd_Rotate_def
  by (auto simp: Let_def act_eq_Inr dest!: start_cleanup_eq_Inr dd_createKey_result split: prod.splits)

lemma dd_Status_result:
  assumes "dd_Status env a c cid w = (Inr st, w')"
  shows "cs_ProviderID st = cid \<and> cs_CredentialID st = cid"
  using assms unfolding dd_Status_def by (auto simp: act_eq_Inr split: prod.splits)

lemma dd_do_answered: "dd_do env a c m u b w = (Inr (st, body), w') \<Longrightarrow> answered env w w' st"
  by (auto simp: dd_do_def Let_def act_eq_Inr Do_def answered_def)

lemma dd_Revoke_answered:
  "dd_Revoke env a c rv w = (Inr u, w') \<Longrightarrow> \<exists>st \<in> {200, 204, 404}. answered env w w' st"
  by (auto simp: dd_Revoke_def dd_deleteKey_def act_eq_Inr dest!: dd_do_answered split: if_splits sum.splits)

lemma dd_Revoke_empty: "rv_CredentialID rv = [] \<Longrightarrow> \<exists>e. dd_Revoke env a c rv w = (Inl e, w)"
  by (simp add: dd_Revoke_def)

lemma dd_createKey_keeps: "emits keeps (dd_createKey env a c n m)"
  unfolding dd_createKey_def dd_do_def Let_def
  by (auto intro!: trace_mono keeps_last simp: collectionPath_def split: prod.split)

lemma dd_Rotate_failure: "on_fail keeps (dd_Rotate env a c req)"
  unfolding dd_Rotate_def Let_def
  by (auto intro!: fail_intro trace_mono dd_createKey_keeps split: prod.split)

interpretation datadog: credential_adapter "datadog env a" "dd_mine a" "cleanup_of dd_name"
  by unfold_locales
     (auto simp: dd_Rotate_emits dd_Revoke_emits dd_Status_emits dd_Rotate_spawns dd_Revoke_spawns
       dd_Status_spawns dd_Revoke_empty dd_Rotate_quiet dd_Revoke_quiet dd_Status_quiet dd_Rotate_failure dest: dd_Rotate_result dd_Status_result)

lemma dd_cleanup_spawned [simp]: "spawned (dd_cleanup env a cl w) = spawned w"
  unfolding dd_cleanup_def by (rule spawned_log_failure) (auto intro: trace_mono)

section \<open>Draining\<close>

text \<open>The request a clean-up makes for the old key, on a context of its own.\<close>

definition dd_sent :: "dd_adapter \<Rightarrow> cleanup \<Rightarrow> event \<Rightarrow> bool" where
  "dd_sent a cl e = (case e of EHttp r \<Rightarrow> hr_method r = ''DELETE''
     \<and> hr_url r = dd_baseURL a @ keyPath a (cl_target cl) \<and> detached (hr_ctx r) | EVault _ _ \<Rightarrow> False)"

lemma dd_cleanup_sends:
  assumes "\<And>u. url_err env u = None"
  shows "\<exists>e \<in> set (trace (dd_cleanup env a cl w)). dd_sent a cl e"
  unfolding dd_cleanup_def
  by (subst log_failure_trace)
     (auto simp: log_to_def dd_deleteKey_def dd_do_def NewRequest_def Let_def attempt_def Do_def assms check_def
       set_header_def dd_sent_def split: sum.split)

lemma dd_cleanup_trace: "set (trace w) \<subseteq> set (trace (dd_cleanup env a cl w))"
  unfolding dd_cleanup_def
  by (rule log_failure_extends [where P = "dd_mine a"]) (auto intro: trace_mono)

interpretation dd_drainer: drainer env "datadog env a" dd_name "dd_sent a"
proof
  fix d c and w :: world
  assume d: "Drain (datadog env a) = Some d" and wait: "drain_wait env (ticks w) dd_name = None"
    and url: "\<And>u. url_err env u = None"
  have "d c w = Drain_wait env dd_name (dd_cleanup env a) c w" using d by (auto simp: dd_Drain_def)
  then show "\<exists>w'. d c w = (Inr (), w') \<and> spawned w' = filter (\<lambda>cl. cl_adapter cl \<noteq> dd_name) (spawned w)
      \<and> set (trace w) \<subseteq> set (trace w')
      \<and> (\<forall>cl \<in> set (spawned w). cl_adapter cl = dd_name \<longrightarrow> (\<exists>e \<in> set (trace w'). dd_sent a cl e))"
    using Drain_wait_drains [of "dd_cleanup env a" "dd_sent a",
        OF dd_cleanup_spawned dd_cleanup_trace dd_cleanup_sends [OF url] wait] by simp
qed

section \<open>A reply that is not 201\<close>

lemma dd_do_reply:
  assumes "\<And>tr q. net env tr q = Inr \<lparr>resp_status = st, resp_body = b\<rparr>" "\<And>u. url_err env u = None"
    and "length b \<le> bodyLimit"
  shows "\<exists>w'. dd_do env a c m u body w = (Inr (st, b), w')"
  by (simp add: dd_do_def NewRequest_def Let_def attempt_def Do_def assms read_limited_def)

text \<open>The error of a rotation then ends with the whole body of the reply.\<close>

lemma dd_Rotate_unexpected:
  assumes "\<And>tr q. net env tr q = Inr \<lparr>resp_status = st, resp_body = b\<rparr>" "\<And>u. url_err env u = None"
    and "\<And>t c. acquire env t c = None" "\<And>t n. \<exists>x. entropy env t n = Inr x" "st \<noteq> 201" "length b \<le> bodyLimit"
  shows "\<exists>pre w'. dd_Rotate env a c req w = (Inl (pre @ b), w')"
proof -
  have create: "\<exists>pre w'. dd_createKey env a c n m w = (Inl (pre @ b), w')" for n m w
  proof -
    obtain w' where "dd_do env a c ''POST'' (dd_baseURL a @ collectionPath a)
        (Some (dd_buildCreateBody a n m)) w = (Inr (st, b), w')"
      using dd_do_reply [OF assms(1,2,6)] by blast
    then have "dd_createKey env a c n m w = (Inl ((''create key '' @ quoted env n
        @ '': unexpected status '' @ nat_dec st @ '': '') @ b), w')"
      using assms(5) by (simp add: dd_createKey_def)
    then show ?thesis by blast
  qed
  obtain w1 where w1: "Acquire env c w = (Inr (), w1)"
    using assms(3) by (simp add: Acquire_def Let_def)
  obtain x w2 where w2: "randomHex env 2 w1 = (Inr x, w2)"
    using assms(4) succeeds_randomHex [of env 2 w1] by (auto simp: succeeds_def)
  let ?n = "rq_ProviderID req @ ''-'' @ fmt_compact_ms (clock env (ticks w2)) @ ''-'' @ x"
  obtain pre w3 where w3: "dd_createKey env a c ?n (rq_Meta req) (w2\<lparr>ticks := Suc (ticks w2)\<rparr>)
      = (Inl (pre @ b), w3)" using create by blast
  have "dd_Rotate env a c req w = (Inl ((''datadog rotate: '' @ pre) @ b), w3)"
    unfolding dd_Rotate_def Let_def attempt_Inr [of "Acquire env c", OF w1] attempt_Inr [of "randomHex env 2", OF w2]
      Now_def attempt_Inl [of "dd_createKey env a c ?n (rq_Meta req)", OF w3] by simp
  then show ?thesis by blast
qed

end
