(* ===== verification/Splunk_Adapter.thy ===== *)
theory Splunk_Adapter
  imports Adapter Log_Sanitizer
begin

text \<open>
  The Splunk adapter (adapter/splunk/splunk.go): HEC tokens, named entities that stand in
  the request path escaped by \<open>url.PathEscape\<close>.
\<close>

section \<open>Configuration\<close>

definition sp_name :: string where
  "sp_name = ''splunk''"

record sp_adapter =
  sp_baseURL :: string
  sp_authToken :: string
  sp_client :: http_client
  sp_logger :: bool
  sp_defaultIndex :: string
  sp_defaultSourcetype :: string

record sp_config =
  sc_BaseURL :: string
  sc_AuthToken :: string
  sc_CACert :: string
  sc_Insecure :: bool
  sc_DefaultIndex :: string
  sc_DefaultSourcetype :: string

definition sp_WithBaseURL :: "string \<Rightarrow> sp_adapter \<Rightarrow> sp_adapter" where
  "sp_WithBaseURL u a = a\<lparr>sp_baseURL := u\<rparr>"

definition sp_WithLogger :: "sp_adapter \<Rightarrow> sp_adapter" where
  "sp_WithLogger a = a\<lparr>sp_logger := True\<rparr>"

definition sp_New :: "env \<Rightarrow> sp_config \<Rightarrow> (sp_adapter \<Rightarrow> sp_adapter) list \<Rightarrow> gerr + sp_adapter"
where
  "sp_New env cfg opts =
     (if sc_BaseURL cfg = [] then Inl ''splunk: BaseURL is required''
      else if sc_AuthToken cfg = [] then Inl ''splunk: AuthToken is required''
      else if sc_CACert cfg \<noteq> [] \<and> \<not> pem_ok env (sc_CACert cfg)
      then Inl ''splunk: CACert contains no valid PEM blocks''
      else Inr (fold (\<lambda>f a. f a) opts
        \<lparr>sp_baseURL = TrimRight (sc_BaseURL cfg) (CHR ''/''), sp_authToken = sc_AuthToken cfg,
         sp_client = \<lparr>hc_Timeout = 15 * Second, hc_MinVersion = VersionTLS12,
                      hc_InsecureSkipVerify = sc_Insecure cfg,
                      hc_RootCAs = (if sc_CACert cfg = [] then None else Some (sc_CACert cfg))\<rparr>,
         sp_logger = False, sp_defaultIndex = sc_DefaultIndex cfg,
         sp_defaultSourcetype = sc_DefaultSourcetype cfg\<rparr>))"

section \<open>Requests\<close>

definition sp_do :: "env \<Rightarrow> sp_adapter \<Rightarrow> ctx \<Rightarrow> string \<Rightarrow> string \<Rightarrow> string option \<Rightarrow> (nat \<times> string) act"
where
  "sp_do env a c method endpoint reqBody =
     NewRequest env c method endpoint reqBody (\<lambda>e. ''build request: '' @ e) (\<lambda>req.
     let req = set_header ''Authorization'' (''Bearer '' @ sp_authToken a) req;
         req = (if reqBody \<noteq> None
                then set_header ''Content-Type'' ''application/x-www-form-urlencoded'' req else req)
     in attempt (Do env req) (\<lambda>e. ''http: '' @ e) (\<lambda>resp.
          ret (resp_status resp, read_limited bodyLimit resp)))"

text \<open>
  \<open>splunkResponse\<close>: the \<open>Disabled\<close> flag and the token of each entry, in order.
\<close>

definition sp_decode_entry :: "json \<Rightarrow> (bool \<times> string) option" where
  "sp_decode_entry v = do {
     e \<leftarrow> dec_struct v;
     let fs = [''name'', ''content''];
     nm \<leftarrow> dec_field dec_str (key_for fs ''name'') [] e;
     ct \<leftarrow> dec_nested (key_for fs ''content'') e;
     let gs = [''disabled'', ''index'', ''sourcetype'', ''token''];
     d \<leftarrow> dec_field dec_bool (key_for gs ''disabled'') False ct;
     ix \<leftarrow> dec_field dec_str (key_for gs ''index'') [] ct;
     st \<leftarrow> dec_field dec_str (key_for gs ''sourcetype'') [] ct;
     tok \<leftarrow> dec_field dec_str (key_for gs ''token'') [] ct;
     Some (d, tok) }"

definition sp_decode :: "string \<Rightarrow> (bool \<times> string) list option" where
  "sp_decode s = do {
     ms \<leftarrow> dec_root s;
     es \<leftarrow> dec_slice (key_for [''entry''] ''entry'') [] ms;
     those (map sp_decode_entry es) }"

definition sp_form :: "sp_adapter \<Rightarrow> string \<Rightarrow> (string \<rightharpoonup> string) \<Rightarrow> url_values" where
  "sp_form a name meta =
     (let form = [(''name'', name)];
          form = (if sp_defaultIndex a \<noteq> [] then values_Set ''index'' (sp_defaultIndex a) form else form);
          form = (if sp_defaultSourcetype a \<noteq> []
                  then values_Set ''sourcetype'' (sp_defaultSourcetype a) form else form);
          form = (case meta_value meta ''index'' of None \<Rightarrow> form | Some i \<Rightarrow> values_Set ''index'' i form)
      in case meta_value meta ''sourcetype'' of None \<Rightarrow> form
         | Some st \<Rightarrow> values_Set ''sourcetype'' st form)"

definition sp_createToken :: "env \<Rightarrow> sp_adapter \<Rightarrow> ctx \<Rightarrow> string \<Rightarrow> (string \<rightharpoonup> string) \<Rightarrow> string act" where
  "sp_createToken env a c name meta =
     attempt (sp_do env a c ''POST'' (sp_baseURL a @ ''/services/data/inputs/http?output_mode=json'')
         (Some (values_Encode (sp_form a name meta))))
       (\<lambda>e. ''create token '' @ quoted env name @ '': '' @ e) (\<lambda>(status, body).
     check (status \<noteq> 201 \<and> status \<noteq> 200)
       (''create token '' @ quoted env name @ '': unexpected status '' @ nat_dec status @ '': '' @ body)
     (of_option (sp_decode body)
       (''create token '' @ quoted env name @ '': parse response: '' @ json_err env ''splunkResponse'' body)
     (\<lambda>entries.
     check (entries = [] \<or> snd (hd entries) = [])
       (''create token '' @ quoted env name @ '': token value missing in response'')
     (ret (snd (hd entries))))))"

definition sp_tokenURL :: "sp_adapter \<Rightarrow> string \<Rightarrow> string" where
  "sp_tokenURL a name =
     sp_baseURL a @ ''/services/data/inputs/http/'' @ PathEscape name @ ''?output_mode=json''"

definition sp_deleteToken :: "env \<Rightarrow> sp_adapter \<Rightarrow> ctx \<Rightarrow> string \<Rightarrow> unit act" where
  "sp_deleteToken env a c name =
     attempt (sp_do env a c ''DELETE'' (sp_tokenURL a name) None)
       (\<lambda>e. ''delete token '' @ quoted env name @ '': '' @ e) (\<lambda>(status, body).
     check (status \<noteq> 200 \<and> status \<noteq> 204 \<and> status \<noteq> 404)
       (''delete token '' @ quoted env name @ '': unexpected status '' @ nat_dec status @ '': '' @ body)
     (ret ()))"

section \<open>Operations\<close>

definition sp_Rotate :: "env \<Rightarrow> sp_adapter \<Rightarrow> ctx \<Rightarrow> RotateRequest \<Rightarrow> Result act" where
  "sp_Rotate env a c req =
     attempt (Acquire env c) (\<lambda>e. ''splunk rotate: acquire slot: '' @ e) (\<lambda>_.
     attempt (randomHex env 2) (\<lambda>e. ''splunk rotate: generate name suffix: '' @ e) (\<lambda>suffix.
     Now env (\<lambda>t.
     let newName = rq_ProviderID req @ ''-'' @ fmt_compact_ms t @ ''-'' @ suffix
     in attempt (sp_createToken env a c newName (rq_Meta req)) (\<lambda>e. ''splunk rotate: '' @ e)
     (\<lambda>tokenValue.
     start_cleanup sp_name ''old_token_name'' req
     (Now env (\<lambda>t. ret
       \<lparr>res_ProviderID = rq_ProviderID req, res_CredentialID = newName,
        res_Credential = tokenValue, res_RotatedAt = t\<rparr>))))))"

definition sp_cleanup :: "env \<Rightarrow> sp_adapter \<Rightarrow> cleanup \<Rightarrow> world \<Rightarrow> world" where
  "sp_cleanup env a cl =
     log_failure (sp_deleteToken env a (WithTimeout Background deleteOldTimeout) (cl_target cl))
       (\<lambda>e. log_to (sp_logger a) LWarn ''splunk: best-effort delete of old token failed''
         [(''old_token'', AStr (sanitizeForLog (cl_target cl))),
          (''provider_id'', AStr (sanitizeForLog (cl_provider cl))),
          (''err'', AStr (sanitizeForLog e))])"

definition sp_Drain :: "env \<Rightarrow> sp_adapter \<Rightarrow> ctx \<Rightarrow> unit act" where
  "sp_Drain env a c = Drain_wait env sp_name (sp_cleanup env a) c"

definition sp_Revoke :: "env \<Rightarrow> sp_adapter \<Rightarrow> ctx \<Rightarrow> RevokeRequest \<Rightarrow> unit act" where
  "sp_Revoke env a c req =
     check (rv_CredentialID req = [])
       (''splunk revoke: credential_id is required '' @ em_dash @ '' refusing to skip revocation'')
     (attempt (sp_deleteToken env a c (rv_CredentialID req)) (\<lambda>e. ''splunk revoke: '' @ e) (\<lambda>_. ret ()))"

definition sp_Status :: "env \<Rightarrow> sp_adapter \<Rightarrow> ctx \<Rightarrow> string \<Rightarrow> CredentialStatus act" where
  "sp_Status env a c credentialID =
     check (credentialID = []) ''splunk status: credential_id is required''
     (attempt (sp_do env a c ''GET'' (sp_tokenURL a credentialID) None)
       (\<lambda>e. ''splunk status: '' @ e) (\<lambda>(status, body).
     if status = 404
     then Now env (\<lambda>t. ret
       \<lparr>cs_ProviderID = credentialID, cs_CredentialID = credentialID,
        cs_Active = False, cs_CheckedAt = t\<rparr>)
     else check (status \<noteq> 200)
       (''splunk status: unexpected status '' @ nat_dec status @ '': '' @ body)
     (of_option (sp_decode body)
       (''splunk status: parse response: '' @ json_err env ''splunkResponse'' body) (\<lambda>entries.
     let active = (entries \<noteq> [] \<and> \<not> fst (hd entries))
     in Now env (\<lambda>t. ret
       \<lparr>cs_ProviderID = credentialID, cs_CredentialID = credentialID,
        cs_Active = active, cs_CheckedAt = t\<rparr>)))))"

definition splunk :: "env \<Rightarrow> sp_adapter \<Rightarrow> adapter" where
  "splunk env a = \<lparr>Name = sp_name, Rotate = sp_Rotate env a, Revoke = sp_Revoke env a,
     Status = sp_Status env a, Drain = Some (sp_Drain env a)\<rparr>"

section \<open>The contract\<close>

definition sp_mine :: "sp_adapter \<Rightarrow> event \<Rightarrow> bool" where
  "sp_mine a = to_provider (sp_baseURL a) [(''Authorization'', ''Bearer '' @ sp_authToken a)]"

lemma splunk_sel [simp]:
  "Name (splunk env a) = sp_name" "Rotate (splunk env a) = sp_Rotate env a"
  "Revoke (splunk env a) = sp_Revoke env a" "Status (splunk env a) = sp_Status env a"
  "Drain (splunk env a) = Some (sp_Drain env a)"
  by (simp_all add: splunk_def)

lemma emits_sp_do: "under (sp_baseURL a) u \<Longrightarrow> emits (sp_mine a) (sp_do env a c m u b)"
  unfolding sp_do_def Let_def by (intro trace_mono) (simp add: sp_mine_def to_provider_def)

lemma only_spawns_sp_do [trace_mono]: "only_spawns C (sp_do env a c m u b)"
  unfolding sp_do_def Let_def by (intro trace_mono)

lemma quiet_sp_do [trace_mono]: "quiet (sp_do env a c m u b)"
  unfolding sp_do_def Let_def by (intro trace_mono)

lemma under_tokenURL [simp]: "under (sp_baseURL a) (sp_tokenURL a name)"
  by (simp add: sp_tokenURL_def)

lemma emits_sp_createToken [trace_mono]: "emits (sp_mine a) (sp_createToken env a c n m)"
  unfolding sp_createToken_def by (auto intro!: trace_mono emits_sp_do split: prod.split)

lemma emits_sp_deleteToken [trace_mono]: "emits (sp_mine a) (sp_deleteToken env a c k)"
  unfolding sp_deleteToken_def by (auto intro!: trace_mono emits_sp_do split: prod.split)

lemma only_spawns_sp_createToken [trace_mono]: "only_spawns C (sp_createToken env a c n m)"
  unfolding sp_createToken_def by (auto intro!: trace_mono split: prod.split)

lemma quiet_sp_createToken [trace_mono]: "quiet (sp_createToken env a c n m)"
  unfolding sp_createToken_def by (auto intro!: trace_mono split: prod.split)

lemma only_spawns_sp_deleteToken [trace_mono]: "only_spawns C (sp_deleteToken env a c k)"
  unfolding sp_deleteToken_def by (auto intro!: trace_mono split: prod.split)

lemma quiet_sp_deleteToken [trace_mono]: "quiet (sp_deleteToken env a c k)"
  unfolding sp_deleteToken_def by (auto intro!: trace_mono split: prod.split)

lemma sp_Rotate_emits: "emits (sp_mine a) (sp_Rotate env a c req)"
  unfolding sp_Rotate_def Let_def by (auto intro!: trace_mono)

lemma sp_Rotate_spawns: "only_spawns (cleanup_of sp_name) (sp_Rotate env a c req)"
  unfolding sp_Rotate_def Let_def by (auto intro!: trace_mono)

lemma sp_Rotate_quiet: "quiet (sp_Rotate env a c req)"
  unfolding sp_Rotate_def Let_def by (auto intro!: trace_mono)

lemma sp_Revoke_emits: "emits (sp_mine a) (sp_Revoke env a c rv)"
  unfolding sp_Revoke_def by (intro trace_mono)

lemma sp_Status_emits: "emits (sp_mine a) (sp_Status env a c cid)"
  unfolding sp_Status_def Let_def by (auto intro!: trace_mono emits_sp_do split: prod.split)

lemma sp_Revoke_spawns: "only_spawns C (sp_Revoke env a c rv)"
  unfolding sp_Revoke_def by (intro trace_mono)

lemma sp_Revoke_quiet: "quiet (sp_Revoke env a c rv)"
  unfolding sp_Revoke_def by (intro trace_mono)

lemma sp_Status_spawns: "only_spawns C (sp_Status env a c cid)"
  unfolding sp_Status_def Let_def by (auto intro!: trace_mono split: prod.split)

lemma sp_Status_quiet: "quiet (sp_Status env a c cid)"
  unfolding sp_Status_def Let_def by (auto intro!: trace_mono split: prod.split)

lemma sp_createToken_result: "sp_createToken env a c n m w = (Inr tok, w') \<Longrightarrow> tok \<noteq> []"
  unfolding sp_createToken_def by (auto simp: act_eq_Inr split: prod.splits)

lemma sp_Rotate_result:
  assumes "sp_Rotate env a c req w = (Inr res, w')"
  shows "res_ProviderID res = rq_ProviderID req \<and> res_CredentialID res \<noteq> [] \<and> res_Credential res \<noteq> []"
  using assms unfolding sp_Rotate_def
  by (auto simp: Let_def act_eq_Inr dest!: start_cleanup_eq_Inr sp_createToken_result split: prod.splits)

lemma sp_Status_result:
  assumes "sp_Status env a c cid w = (Inr st, w')"
  shows "cs_ProviderID st = cid \<and> cs_CredentialID st = cid"
  using assms unfolding sp_Status_def by (auto simp: act_eq_Inr Let_def split: prod.splits if_splits)

lemma sp_do_answered: "sp_do env a c m u b w = (Inr (st, body), w') \<Longrightarrow> answered env w w' st"
  by (auto simp: sp_do_def Let_def act_eq_Inr Do_def answered_def)

lemma sp_Revoke_answered:
  "sp_Revoke env a c rv w = (Inr u, w') \<Longrightarrow> \<exists>st \<in> {200, 204, 404}. answered env w w' st"
  by (auto simp: sp_Revoke_def sp_deleteToken_def act_eq_Inr dest!: sp_do_answered split: if_splits sum.splits)

lemma sp_Revoke_empty: "rv_CredentialID rv = [] \<Longrightarrow> \<exists>e. sp_Revoke env a c rv w = (Inl e, w)"
  by (simp add: sp_Revoke_def)

lemma sp_createToken_keeps: "emits keeps (sp_createToken env a c n m)"
  unfolding sp_createToken_def sp_do_def Let_def
  by (auto intro!: trace_mono keeps_last simp:  split: prod.split)

lemma sp_Rotate_failure: "on_fail keeps (sp_Rotate env a c req)"
  unfolding sp_Rotate_def Let_def
  by (auto intro!: fail_intro trace_mono sp_createToken_keeps split: prod.split)

interpretation splunk: credential_adapter "splunk env a" "sp_mine a" "cleanup_of sp_name"
  by unfold_locales
     (auto simp: sp_Rotate_emits sp_Revoke_emits sp_Status_emits sp_Rotate_spawns sp_Revoke_spawns
       sp_Status_spawns sp_Revoke_empty sp_Rotate_quiet sp_Revoke_quiet sp_Status_quiet sp_Rotate_failure dest: sp_Rotate_result sp_Status_result)

lemma sp_cleanup_spawned [simp]: "spawned (sp_cleanup env a cl w) = spawned w"
  unfolding sp_cleanup_def by (rule spawned_log_failure) (auto intro: trace_mono)

section \<open>Draining\<close>

text \<open>The request a clean-up makes for the old token, on a context of its own.\<close>

definition sp_sent :: "sp_adapter \<Rightarrow> cleanup \<Rightarrow> event \<Rightarrow> bool" where
  "sp_sent a cl e = (case e of EHttp r \<Rightarrow> hr_method r = ''DELETE'' \<and> hr_url r = sp_tokenURL a (cl_target cl)
     \<and> detached (hr_ctx r) | EVault _ _ \<Rightarrow> False)"

lemma sp_cleanup_sends:
  assumes "\<And>u. url_err env u = None"
  shows "\<exists>e \<in> set (trace (sp_cleanup env a cl w)). sp_sent a cl e"
  unfolding sp_cleanup_def
  by (subst log_failure_trace)
     (auto simp: log_to_def sp_deleteToken_def sp_do_def NewRequest_def Let_def attempt_def Do_def assms check_def
       set_header_def sp_sent_def split: sum.split)

lemma sp_cleanup_trace: "set (trace w) \<subseteq> set (trace (sp_cleanup env a cl w))"
  unfolding sp_cleanup_def
  by (rule log_failure_extends [where P = "sp_mine a"]) (auto intro: trace_mono)

interpretation sp_drainer: drainer env "splunk env a" sp_name "sp_sent a"
proof
  fix d c and w :: world
  assume d: "Drain (splunk env a) = Some d" and wait: "drain_wait env (ticks w) sp_name = None"
    and url: "\<And>u. url_err env u = None"
  have "d c w = Drain_wait env sp_name (sp_cleanup env a) c w" using d by (auto simp: sp_Drain_def)
  then show "\<exists>w'. d c w = (Inr (), w') \<and> spawned w' = filter (\<lambda>cl. cl_adapter cl \<noteq> sp_name) (spawned w)
      \<and> set (trace w) \<subseteq> set (trace w')
      \<and> (\<forall>cl \<in> set (spawned w). cl_adapter cl = sp_name \<longrightarrow> (\<exists>e \<in> set (trace w'). sp_sent a cl e))"
    using Drain_wait_drains [of "sp_cleanup env a" "sp_sent a",
        OF sp_cleanup_spawned sp_cleanup_trace sp_cleanup_sends [OF url] wait] by simp
qed

section \<open>Requests name exactly one token\<close>

text \<open>
  The URL of a delete or status request holds the token name as one escaped path segment,
  whatever bytes the name has: the segment decodes to the name, has no slash, question mark
  or hash, and two names never share a URL.
\<close>

lemma sp_tokenURL_exact:
  "\<exists>seg. sp_tokenURL a n = sp_baseURL a @ ''/services/data/inputs/http/'' @ seg @ ''?output_mode=json''
     \<and> PathUnescape seg = Some n \<and> set seg \<inter> set ''/?#'' = {}
     \<and> (sp_tokenURL a n = sp_tokenURL a m \<longleftrightarrow> n = m)"
proof (intro exI conjI)
  show "sp_tokenURL a n = sp_baseURL a @ ''/services/data/inputs/http/'' @ PathEscape n @ ''?output_mode=json''"
    by (simp add: sp_tokenURL_def)
  show "PathUnescape (PathEscape n) = Some n" by (rule PathUnescape_PathEscape)
  show "set (PathEscape n) \<inter> set ''/?#'' = {}" using PathEscape_safe [of n] by auto
  show "sp_tokenURL a n = sp_tokenURL a m \<longleftrightarrow> n = m" by (simp add: sp_tokenURL_def PathEscape_inject)
qed

end
