(* ===== verification/Sonarqube_Adapter.thy ===== *)
theory Sonarqube_Adapter
  imports Adapter Log_Sanitizer
begin

text \<open>
  The SonarQube adapter (adapter/sonarqube/sonarqube.go): user tokens, named by the pair of
  a login and a token name that a credential id \<open>login:tokenname\<close> carries.
\<close>

section \<open>Configuration\<close>

definition sq_name :: string where
  "sq_name = ''sonarqube''"

record sq_adapter =
  sq_baseURL :: string
  sq_adminToken :: string
  sq_client :: http_client
  sq_logger :: bool

record sq_config =
  qc_BaseURL :: string
  qc_AdminToken :: string

definition sq_WithBaseURL :: "string \<Rightarrow> sq_adapter \<Rightarrow> sq_adapter" where
  "sq_WithBaseURL u a = a\<lparr>sq_baseURL := TrimRight u (CHR ''/'')\<rparr>"

definition sq_WithLogger :: "sq_adapter \<Rightarrow> sq_adapter" where
  "sq_WithLogger a = a\<lparr>sq_logger := True\<rparr>"

definition sq_New :: "sq_config \<Rightarrow> (sq_adapter \<Rightarrow> sq_adapter) list \<Rightarrow> gerr + sq_adapter" where
  "sq_New cfg opts =
     (if qc_BaseURL cfg = [] then Inl ''sonarqube: BaseURL is required''
      else if qc_AdminToken cfg = [] then Inl ''sonarqube: AdminToken is required''
      else Inr (fold (\<lambda>f a. f a) opts
        \<lparr>sq_baseURL = TrimRight (qc_BaseURL cfg) (CHR ''/''), sq_adminToken = qc_AdminToken cfg,
         sq_client = \<lparr>hc_Timeout = 20 * Second, hc_MinVersion = VersionTLS13,
                      hc_InsecureSkipVerify = False, hc_RootCAs = None\<rparr>,
         sq_logger = False\<rparr>))"

section \<open>Credential ids\<close>

text \<open>\<open>parseCredentialID\<close>: everything before the first colon is the login.\<close>

definition parseCredentialID :: "env \<Rightarrow> string \<Rightarrow> gerr + string \<times> string" where
  "parseCredentialID env cid =
     (let bad = Inl (''invalid credential_id '' @ quoted env (sanitizeForLog cid)
                @ '': expected \"<login>:<tokenname>\"'')
      in case IndexByte cid (CHR '':'') of
           None \<Rightarrow> bad
         | Some idx \<Rightarrow> if idx < 1 \<or> idx = length cid - 1 then bad
                       else Inr (take idx cid, drop (idx + 1) cid))"

section \<open>Requests\<close>

definition sq_do ::
  "env \<Rightarrow> sq_adapter \<Rightarrow> ctx \<Rightarrow> string \<Rightarrow> string \<Rightarrow> string option \<Rightarrow> string \<Rightarrow> (nat \<times> string) act"
where
  "sq_do env a c method endpoint reqBody contentType =
     NewRequest env c method endpoint reqBody (\<lambda>e. ''build request: '' @ e) (\<lambda>req.
     let req = set_header ''Authorization'' (''Bearer '' @ sq_adminToken a) req;
         req = (if contentType \<noteq> [] then set_header ''Content-Type'' contentType req else req)
     in attempt (Do env req) (\<lambda>e. ''http: '' @ e) (\<lambda>resp.
          ret (resp_status resp, read_limited bodyLimit resp)))"

definition sq_decode_token :: "string \<Rightarrow> string option" where
  "sq_decode_token s = do {
     ms \<leftarrow> dec_root s;
     dec_field dec_str (key_for [''token''] ''token'') [] ms }"

definition sq_decode_name :: "json \<Rightarrow> string option" where
  "sq_decode_name v = do {
     t \<leftarrow> dec_struct v;
     dec_field dec_str (key_for [''name''] ''name'') [] t }"

definition sq_decode_search :: "string \<Rightarrow> string list option" where
  "sq_decode_search s = do {
     ms \<leftarrow> dec_root s;
     ts \<leftarrow> dec_slice (key_for [''userTokens''] ''userTokens'') [] ms;
     those (map sq_decode_name ts) }"

definition form_type :: string where
  "form_type = ''application/x-www-form-urlencoded''"

definition sq_generateToken ::
  "env \<Rightarrow> sq_adapter \<Rightarrow> ctx \<Rightarrow> string \<Rightarrow> string \<Rightarrow> string \<Rightarrow> string act"
where
  "sq_generateToken env a c login name tokenType =
     (let form = values_Set ''type'' tokenType (values_Set ''name'' name (values_Set ''login'' login []))
      in attempt (sq_do env a c ''POST'' (sq_baseURL a @ ''/api/user_tokens/generate'')
            (Some (values_Encode form)) form_type)
       (\<lambda>e. ''generate token '' @ quoted env name @ '': '' @ e) (\<lambda>(status, body).
     check (status \<noteq> 200)
       (''generate token '' @ quoted env name @ '': unexpected status '' @ nat_dec status @ '': '' @ body)
     (of_option (sq_decode_token body)
       (''generate token '' @ quoted env name @ '': parse response: ''
         @ json_err env ''sonarqube token'' body) (\<lambda>token.
     check (token = []) (''generate token '' @ quoted env name @ '': token value missing in response'')
     (ret token)))))"

definition sq_revokeToken :: "env \<Rightarrow> sq_adapter \<Rightarrow> ctx \<Rightarrow> string \<Rightarrow> string \<Rightarrow> unit act" where
  "sq_revokeToken env a c login name =
     (let form = values_Set ''name'' name (values_Set ''login'' login [])
      in attempt (sq_do env a c ''POST'' (sq_baseURL a @ ''/api/user_tokens/revoke'')
            (Some (values_Encode form)) form_type)
       (\<lambda>e. ''revoke token '' @ quoted env name @ '': '' @ e) (\<lambda>(status, body).
     check (status \<noteq> 204 \<and> status \<noteq> 404)
       (''revoke token '' @ quoted env name @ '': unexpected status '' @ nat_dec status @ '': '' @ body)
     (ret ())))"

definition sq_tokenExists :: "env \<Rightarrow> sq_adapter \<Rightarrow> ctx \<Rightarrow> string \<Rightarrow> string \<Rightarrow> bool act" where
  "sq_tokenExists env a c login tokenName =
     attempt (sq_do env a c ''GET''
         (sq_baseURL a @ ''/api/user_tokens/search?login='' @ QueryEscape login) None [])
       (\<lambda>e. ''search tokens for '' @ quoted env login @ '': '' @ e) (\<lambda>(status, body).
     check (status \<noteq> 200)
       (''search tokens for '' @ quoted env login @ '': unexpected status '' @ nat_dec status
         @ '': '' @ body)
     (of_option (sq_decode_search body)
       (''search tokens: parse response: '' @ json_err env ''sonarqube search'' body) (\<lambda>names.
     ret (tokenName \<in> set names))))"

section \<open>Operations\<close>

definition sq_Rotate :: "env \<Rightarrow> sq_adapter \<Rightarrow> ctx \<Rightarrow> RotateRequest \<Rightarrow> Result act" where
  "sq_Rotate env a c req =
     check (rq_ProviderID req = []) ''sonarqube rotate: provider_id (login) is required''
     (attempt (Acquire env c) (\<lambda>e. ''sonarqube rotate: acquire slot: '' @ e) (\<lambda>_.
     attempt (randomHex env 2) (\<lambda>e. ''sonarqube rotate: generate name suffix: '' @ e) (\<lambda>suffix.
     Now env (\<lambda>t.
     let tokenName = rq_ProviderID req @ ''-'' @ fmt_compact t @ ''-'' @ suffix;
         tokenType = (case meta_value (rq_Meta req) ''token_type'' of
            None \<Rightarrow> ''USER_TOKEN'' | Some t \<Rightarrow> t)
     in attempt (sq_generateToken env a c (rq_ProviderID req) tokenName tokenType)
          (\<lambda>e. ''sonarqube rotate: '' @ e) (\<lambda>tokenValue.
     start_cleanup sq_name ''old_token_name'' req
     (Now env (\<lambda>t. ret
       \<lparr>res_ProviderID = rq_ProviderID req,
        res_CredentialID = rq_ProviderID req @ '':'' @ tokenName,
        res_Credential = tokenValue, res_RotatedAt = t\<rparr>)))))))"

definition sq_cleanup :: "env \<Rightarrow> sq_adapter \<Rightarrow> cleanup \<Rightarrow> world \<Rightarrow> world" where
  "sq_cleanup env a cl =
     log_failure (sq_revokeToken env a (WithTimeout Background deleteOldTimeout)
         (cl_provider cl) (cl_target cl))
       (\<lambda>e. log_to (sq_logger a) LWarn ''sonarqube: best-effort revoke of old token failed''
         [(''login'', AStr (sanitizeForLog (cl_provider cl))),
          (''old_token_name'', AStr (sanitizeForLog (cl_target cl))),
          (''err'', AStr (sanitizeForLog e))])"

definition sq_Drain :: "env \<Rightarrow> sq_adapter \<Rightarrow> ctx \<Rightarrow> unit act" where
  "sq_Drain env a c = Drain_wait env sq_name (sq_cleanup env a) c"

definition sq_Revoke :: "env \<Rightarrow> sq_adapter \<Rightarrow> ctx \<Rightarrow> RevokeRequest \<Rightarrow> unit act" where
  "sq_Revoke env a c req =
     check (rv_CredentialID req = [])
       (''sonarqube revoke: credential_id is required '' @ em_dash @ '' refusing to skip revocation'')
     (case parseCredentialID env (rv_CredentialID req) of
        Inl e \<Rightarrow> fail (''sonarqube revoke: '' @ e)
      | Inr (login, tokenName) \<Rightarrow>
          attempt (sq_revokeToken env a c login tokenName) (\<lambda>e. ''sonarqube revoke: '' @ e) (\<lambda>_. ret ()))"

definition sq_Status :: "env \<Rightarrow> sq_adapter \<Rightarrow> ctx \<Rightarrow> string \<Rightarrow> CredentialStatus act" where
  "sq_Status env a c credentialID =
     check (credentialID = []) ''sonarqube status: credential_id is required''
     (case parseCredentialID env credentialID of
        Inl e \<Rightarrow> fail (''sonarqube status: '' @ e)
      | Inr (login, tokenName) \<Rightarrow>
          attempt (sq_tokenExists env a c login tokenName) (\<lambda>e. ''sonarqube status: '' @ e) (\<lambda>active.
          Now env (\<lambda>t. ret
            \<lparr>cs_ProviderID = login, cs_CredentialID = credentialID,
             cs_Active = active, cs_CheckedAt = t\<rparr>)))"

definition sonarqube :: "env \<Rightarrow> sq_adapter \<Rightarrow> adapter" where
  "sonarqube env a = \<lparr>Name = sq_name, Rotate = sq_Rotate env a, Revoke = sq_Revoke env a,
     Status = sq_Status env a, Drain = Some (sq_Drain env a)\<rparr>"

section \<open>The contract\<close>

definition sq_mine :: "sq_adapter \<Rightarrow> event \<Rightarrow> bool" where
  "sq_mine a = to_provider (sq_baseURL a) [(''Authorization'', ''Bearer '' @ sq_adminToken a)]"

lemma sonarqube_sel [simp]:
  "Name (sonarqube env a) = sq_name" "Rotate (sonarqube env a) = sq_Rotate env a"
  "Revoke (sonarqube env a) = sq_Revoke env a" "Status (sonarqube env a) = sq_Status env a"
  "Drain (sonarqube env a) = Some (sq_Drain env a)"
  by (simp_all add: sonarqube_def)

lemma emits_sq_do: "under (sq_baseURL a) u \<Longrightarrow> emits (sq_mine a) (sq_do env a c m u b t)"
  unfolding sq_do_def Let_def by (intro trace_mono) (simp add: sq_mine_def to_provider_def)

lemma only_spawns_sq_do [trace_mono]: "only_spawns C (sq_do env a c m u b t)"
  unfolding sq_do_def Let_def by (intro trace_mono)

lemma quiet_sq_do [trace_mono]: "quiet (sq_do env a c m u b t)"
  unfolding sq_do_def Let_def by (intro trace_mono)

lemma emits_sq_calls [trace_mono]:
  "emits (sq_mine a) (sq_generateToken env a c l n t)"
  "emits (sq_mine a) (sq_revokeToken env a c l n)"
  "emits (sq_mine a) (sq_tokenExists env a c l n)"
  unfolding sq_generateToken_def sq_revokeToken_def sq_tokenExists_def Let_def
  by (auto intro!: trace_mono emits_sq_do split: prod.split)

lemma only_spawns_sq_calls [trace_mono]:
  "only_spawns C (sq_generateToken env a c l n t)"
  "only_spawns C (sq_revokeToken env a c l n)"
  "only_spawns C (sq_tokenExists env a c l n)"
  unfolding sq_generateToken_def sq_revokeToken_def sq_tokenExists_def Let_def
  by (auto intro!: trace_mono split: prod.split)

lemma quiet_sq_calls [trace_mono]:
  "quiet (sq_generateToken env a c l n t)"
  "quiet (sq_revokeToken env a c l n)"
  "quiet (sq_tokenExists env a c l n)"
  unfolding sq_generateToken_def sq_revokeToken_def sq_tokenExists_def Let_def
  by (auto intro!: trace_mono split: prod.split)

lemma sq_Rotate_emits: "emits (sq_mine a) (sq_Rotate env a c req)"
  unfolding sq_Rotate_def Let_def by (auto intro!: trace_mono)

lemma sq_Rotate_spawns: "only_spawns (cleanup_of sq_name) (sq_Rotate env a c req)"
  unfolding sq_Rotate_def Let_def by (auto intro!: trace_mono)

lemma sq_Rotate_quiet: "quiet (sq_Rotate env a c req)"
  unfolding sq_Rotate_def Let_def by (auto intro!: trace_mono)

lemma sq_Revoke_emits: "emits (sq_mine a) (sq_Revoke env a c rv)"
  unfolding sq_Revoke_def by (auto intro!: trace_mono split: sum.split prod.split)

lemma sq_Status_emits: "emits (sq_mine a) (sq_Status env a c cid)"
  unfolding sq_Status_def by (auto intro!: trace_mono split: sum.split prod.split)

lemma sq_Revoke_spawns: "only_spawns C (sq_Revoke env a c rv)"
  unfolding sq_Revoke_def by (auto intro!: trace_mono split: sum.split prod.split)

lemma sq_Revoke_quiet: "quiet (sq_Revoke env a c rv)"
  unfolding sq_Revoke_def by (auto intro!: trace_mono split: sum.split prod.split)

lemma sq_Status_spawns: "only_spawns C (sq_Status env a c cid)"
  unfolding sq_Status_def by (auto intro!: trace_mono split: sum.split prod.split)

lemma sq_Status_quiet: "quiet (sq_Status env a c cid)"
  unfolding sq_Status_def by (auto intro!: trace_mono split: sum.split prod.split)

lemma sq_generateToken_result: "sq_generateToken env a c l n t w = (Inr tok, w') \<Longrightarrow> tok \<noteq> []"
  unfolding sq_generateToken_def by (auto simp: act_eq_Inr Let_def split: prod.splits)

lemma sq_Rotate_result:
  assumes "sq_Rotate env a c req w = (Inr res, w')"
  shows "res_ProviderID res = rq_ProviderID req \<and> res_Credential res \<noteq> []"
  using assms unfolding sq_Rotate_def
  by (auto simp: Let_def act_eq_Inr dest!: start_cleanup_eq_Inr sq_generateToken_result split: prod.splits)

lemma sq_Status_result:
  assumes "sq_Status env a c cid w = (Inr st, w')"
  shows "cs_CredentialID st = cid"
  using assms unfolding sq_Status_def by (auto simp: act_eq_Inr split: prod.splits sum.splits)

lemma sq_do_answered: "sq_do env a c m u b t w = (Inr (st, body), w') \<Longrightarrow> answered env w w' st"
  by (auto simp: sq_do_def Let_def act_eq_Inr Do_def answered_def)

lemma sq_Revoke_answered:
  "sq_Revoke env a c rv w = (Inr u, w') \<Longrightarrow> \<exists>st \<in> {200, 204, 404}. answered env w w' st"
  by (auto simp: sq_Revoke_def sq_revokeToken_def Let_def act_eq_Inr dest!: sq_do_answered split: if_splits sum.splits)

lemma sq_Revoke_empty: "rv_CredentialID rv = [] \<Longrightarrow> \<exists>e. sq_Revoke env a c rv w = (Inl e, w)"
  by (simp add: sq_Revoke_def)

lemma sq_generateToken_keeps: "emits keeps (sq_generateToken env a c l n t)"
proof -
  have "\<not> HasSuffix (sq_baseURL a @ ''/api/user_tokens/generate'') ''/api/user_tokens/revoke''"
    by (subst HasSuffix_append) (simp_all add: HasSuffix_def HasPrefix_def)
  then show ?thesis
    unfolding sq_generateToken_def sq_do_def Let_def
    by (auto intro!: trace_mono simp: keeps_def split: prod.split)
qed

lemma sq_Rotate_failure: "on_fail keeps (sq_Rotate env a c req)"
  unfolding sq_Rotate_def Let_def
  by (auto intro!: fail_intro trace_mono sq_generateToken_keeps split: prod.split)

interpretation sonarqube: credential_adapter "sonarqube env a" "sq_mine a" "cleanup_of sq_name"
  by unfold_locales
     (auto simp: sq_Rotate_emits sq_Revoke_emits sq_Status_emits sq_Rotate_spawns sq_Revoke_spawns
       sq_Status_spawns sq_Revoke_empty sq_Rotate_quiet sq_Revoke_quiet sq_Status_quiet sq_Rotate_failure dest: sq_Rotate_result sq_Status_result)

lemma sq_cleanup_spawned [simp]: "spawned (sq_cleanup env a cl w) = spawned w"
  unfolding sq_cleanup_def by (rule spawned_log_failure) (auto intro: trace_mono)

section \<open>Draining\<close>

text \<open>The request a clean-up makes for the old token, on a context of its own.\<close>

definition sq_sent :: "sq_adapter \<Rightarrow> cleanup \<Rightarrow> event \<Rightarrow> bool" where
  "sq_sent a cl e = (case e of EHttp r \<Rightarrow> hr_method r = ''POST''
     \<and> hr_url r = sq_baseURL a @ ''/api/user_tokens/revoke''
     \<and> hr_body r = Some (values_Encode (values_Set ''name'' (cl_target cl) (values_Set ''login'' (cl_provider cl) [])))
     \<and> detached (hr_ctx r) | EVault _ _ \<Rightarrow> False)"

lemma sq_cleanup_sends:
  assumes "\<And>u. url_err env u = None"
  shows "\<exists>e \<in> set (trace (sq_cleanup env a cl w)). sq_sent a cl e"
  unfolding sq_cleanup_def
  by (subst log_failure_trace)
     (auto simp: log_to_def sq_revokeToken_def sq_do_def NewRequest_def Let_def attempt_def Do_def assms check_def
       set_header_def sq_sent_def split: sum.split)

lemma sq_cleanup_trace: "set (trace w) \<subseteq> set (trace (sq_cleanup env a cl w))"
  unfolding sq_cleanup_def
  by (rule log_failure_extends [where P = "sq_mine a"]) (auto intro: trace_mono)

interpretation sq_drainer: drainer env "sonarqube env a" sq_name "sq_sent a"
proof
  fix d c and w :: world
  assume d: "Drain (sonarqube env a) = Some d" and wait: "drain_wait env (ticks w) sq_name = None"
    and url: "\<And>u. url_err env u = None"
  have "d c w = Drain_wait env sq_name (sq_cleanup env a) c w" using d by (auto simp: sq_Drain_def)
  then show "\<exists>w'. d c w = (Inr (), w') \<and> spawned w' = filter (\<lambda>cl. cl_adapter cl \<noteq> sq_name) (spawned w)
      \<and> set (trace w) \<subseteq> set (trace w')
      \<and> (\<forall>cl \<in> set (spawned w). cl_adapter cl = sq_name \<longrightarrow> (\<exists>e \<in> set (trace w'). sq_sent a cl e))"
    using Drain_wait_drains [of "sq_cleanup env a" "sq_sent a",
        OF sq_cleanup_spawned sq_cleanup_trace sq_cleanup_sends [OF url] wait] by simp
qed

section \<open>Round trip of credential ids\<close>

lemma parse_credential_id:
  assumes "l \<noteq> []" "CHR '':'' \<notin> set l" "n \<noteq> []"
  shows "parseCredentialID env (l @ '':'' @ n) = Inr (l, n)"
  using assms by (simp add: parseCredentialID_def IndexByte_append)

lemma sq_Rotate_names:
  assumes "sq_Rotate env a c req w = (Inr res, w')"
  obtains name ty w0 w1 where "name \<noteq> []"
    "sq_generateToken env a c (rq_ProviderID req) name ty w0 = (Inr (res_Credential res), w1)"
    "res_CredentialID res = rq_ProviderID req @ '':'' @ name" "rq_ProviderID req \<noteq> []"
  using assms unfolding sq_Rotate_def
  by (auto simp: Let_def act_eq_Inr dest!: start_cleanup_eq_Inr split: prod.splits) blast

text \<open>
  C31. A rotation of a login without a colon returns a credential id from which \<open>Revoke\<close> gets
  back exactly the login and the token name that were generated: the revocation request is
  about the token the rotation made.
\<close>

theorem sq_rotate_revocable:
  assumes "sq_Rotate env a c req w = (Inr res, w')" and "CHR '':'' \<notin> set (rq_ProviderID req)"
  shows "\<exists>name ty w0 w1.
      sq_generateToken env a c (rq_ProviderID req) name ty w0 = (Inr (res_Credential res), w1) \<and>
      (\<forall>c' pid. sq_Revoke env a c' \<lparr>rv_ProviderID = pid, rv_CredentialID = res_CredentialID res\<rparr> =
        attempt (sq_revokeToken env a c' (rq_ProviderID req) name)
          (\<lambda>e. ''sonarqube revoke: '' @ e) (\<lambda>_. ret ()))"
proof -
  from sq_Rotate_names [OF assms(1)] obtain name ty w0 w1 where n: "name \<noteq> []"
    "sq_generateToken env a c (rq_ProviderID req) name ty w0 = (Inr (res_Credential res), w1)"
    "res_CredentialID res = rq_ProviderID req @ '':'' @ name" "rq_ProviderID req \<noteq> []" .
  then have "parseCredentialID env (res_CredentialID res) = Inr (rq_ProviderID req, name)"
    using assms(2) by (simp only: n(3)) (rule parse_credential_id)
  moreover have "res_CredentialID res \<noteq> []" by (simp add: n(3))
  ultimately have "sq_Revoke env a c' \<lparr>rv_ProviderID = pid, rv_CredentialID = res_CredentialID res\<rparr> =
      attempt (sq_revokeToken env a c' (rq_ProviderID req) name)
        (\<lambda>e. ''sonarqube revoke: '' @ e) (\<lambda>_. ret ())" for c' pid
    by (simp only: sq_Revoke_def RevokeRequest.select_convs check_simps simp_thms sum.case prod.case)
  with n(2) show ?thesis by blast
qed

definition sq_example :: sq_adapter where
  "sq_example = \<lparr>sq_baseURL = ''https://sq'', sq_adminToken = ''adm'', sq_client =
     \<lparr>hc_Timeout = 0, hc_MinVersion = VersionTLS13, hc_InsecureSkipVerify = False, hc_RootCAs = None\<rparr>,
     sq_logger = False\<rparr>"

definition token_reply :: json where
  "token_reply = JObj [(''token'', JStr ''t1'')]"

lemma short_token_reply: "short_json bodyLimit token_reply"
  by (simp add: short_json_def token_reply_def json_quote_def json_esc_def bodyLimit_def)

lemma sq_answers_do:
  assumes "answers env 200 token_reply"
  shows "\<exists>w'. sq_do env a c m u b t w = (Inr (200, json_print token_reply), w')"
  using short_token_reply
  by (simp add: sq_do_def NewRequest_def Let_def attempt_def Do_def answersD [OF assms])

lemma sq_decode_example: "sq_decode_token (json_print token_reply) = Some ''t1''"
proof -
  have "dec_root (json_print token_reply) = dec_struct token_reply"
    using short_token_reply by (rule dec_root_short)
  then show ?thesis by (simp add: sq_decode_token_def token_reply_def dec_struct_def dec_str_def)
qed

lemma sq_answers_generate:
  assumes "answers env 200 token_reply"
  shows "\<exists>w'. sq_generateToken env a c l n ty w = (Inr ''t1'', w')"
proof -
  obtain w' where "sq_do env a c ''POST'' (sq_baseURL a @ ''/api/user_tokens/generate'')
      (Some (values_Encode (values_Set ''type'' ty (values_Set ''name'' n (values_Set ''login'' l [])))))
      form_type w = (Inr (200, json_print token_reply), w')"
    using sq_answers_do [OF assms] by blast
  then show ?thesis
    unfolding sq_generateToken_def Let_def by (simp add: attempt_Inr sq_decode_example)
qed

lemma sq_answers_Rotate:
  assumes "answers env 200 token_reply" "rq_ProviderID req \<noteq> []"
  shows "succeeds (sq_Rotate env a c req) w"
proof -
  have "succeeds (sq_generateToken env a c l n ty) w" for l n ty w
    using sq_answers_generate [OF assms(1)] unfolding succeeds_def by blast
  then show ?thesis
    unfolding sq_Rotate_def Let_def using assms(2) answersD(3,4) [OF assms(1)]
    by (auto intro!: succeeds_attempt succeeds_start_cleanup)
qed

lemma sq_answers_Rotate_result:
  assumes "answers env 200 token_reply" "sq_Rotate env a c req w = (Inr res, w')"
  shows "res_Credential res = ''t1'' \<and> res_RotatedAt res \<in> range (clock env)"
proof -
  obtain name ty w0 w1 where "sq_generateToken env a c (rq_ProviderID req) name ty w0 = (Inr (res_Credential res), w1)"
    using assms(2) by (rule sq_Rotate_names)
  then have "res_Credential res = ''t1''"
    using sq_answers_generate [OF assms(1), of a c "rq_ProviderID req" name ty w0] by simp
  moreover have "res_RotatedAt res \<in> range (clock env)"
    using assms(2) unfolding sq_Rotate_def
    by (auto simp: Let_def act_eq_Inr dest!: start_cleanup_eq_Inr split: prod.splits)
  ultimately show ?thesis by blast
qed

theorem sq_rotate_revocable_witness:
  "\<exists>(res :: Result) name ty w0 w1.
      sq_generateToken (answering 200 token_reply) sq_example Background ''bot'' name ty w0
        = (Inr (res_Credential res), w1) \<and>
      (\<forall>c' pid. sq_Revoke (answering 200 token_reply) sq_example c'
          \<lparr>rv_ProviderID = pid, rv_CredentialID = res_CredentialID res\<rparr> =
        attempt (sq_revokeToken (answering 200 token_reply) sq_example c' ''bot'' name)
          (\<lambda>e. ''sonarqube revoke: '' @ e) (\<lambda>_. ret ()))"
proof -
  have "succeeds (sq_Rotate (answering 200 token_reply) sq_example Background
      \<lparr>rq_ProviderID = ''bot'', rq_Meta = Map.empty\<rparr>) fresh_world"
    by (rule sq_answers_Rotate) simp_all
  then obtain res w' where run: "sq_Rotate (answering 200 token_reply) sq_example Background
      \<lparr>rq_ProviderID = ''bot'', rq_Meta = Map.empty\<rparr> fresh_world = (Inr res, w')"
    by (rule succeedsE)
  have colon: "CHR '':'' \<notin> set ''bot''" by simp
  show ?thesis
    by (rule exI) (rule sq_rotate_revocable [OF run, unfolded RotateRequest.select_convs, OF colon])
qed

end
