(* ===== verification/Pagerduty_Adapter.thy ===== *)
theory Pagerduty_Adapter
  imports Adapter Log_Sanitizer
begin

text \<open>The PagerDuty adapter (adapter/pagerduty/pagerduty.go): REST API v2 keys.\<close>

section \<open>Configuration\<close>

definition pd_name :: string where
  "pd_name = ''pagerduty''"

definition pd_defaultBaseURL :: string where
  "pd_defaultBaseURL = ''https://api.pagerduty.com''"

definition pdAccept :: string where
  "pdAccept = ''application/vnd.pagerduty+json;version=2''"

record pd_adapter =
  pd_baseURL :: string
  pd_apiKey :: string
  pd_email :: string
  pd_client :: http_client
  pd_logger :: bool

record pd_config =
  pc_APIKey :: string
  pc_Email :: string
  pc_BaseURL :: string

definition pd_WithBaseURL :: "string \<Rightarrow> pd_adapter \<Rightarrow> pd_adapter" where
  "pd_WithBaseURL u a = a\<lparr>pd_baseURL := TrimRight u (CHR ''/'')\<rparr>"

definition pd_WithLogger :: "pd_adapter \<Rightarrow> pd_adapter" where
  "pd_WithLogger a = a\<lparr>pd_logger := True\<rparr>"

definition pd_New :: "pd_config \<Rightarrow> (pd_adapter \<Rightarrow> pd_adapter) list \<Rightarrow> gerr + pd_adapter" where
  "pd_New cfg opts =
     (if pc_APIKey cfg = [] then Inl ''pagerduty: APIKey is required''
      else if pc_Email cfg = [] then Inl ''pagerduty: Email is required (PagerDuty From header)''
      else let baseURL = (if pc_BaseURL cfg = [] then pd_defaultBaseURL else pc_BaseURL cfg)
      in Inr (fold (\<lambda>f a. f a) opts
        \<lparr>pd_baseURL = TrimRight baseURL (CHR ''/''), pd_apiKey = pc_APIKey cfg,
         pd_email = pc_Email cfg,
         pd_client = \<lparr>hc_Timeout = 20 * Second, hc_MinVersion = VersionTLS13,
                      hc_InsecureSkipVerify = False, hc_RootCAs = None\<rparr>,
         pd_logger = False\<rparr>))"

section \<open>Requests\<close>

definition pd_do :: "env \<Rightarrow> pd_adapter \<Rightarrow> ctx \<Rightarrow> string \<Rightarrow> string \<Rightarrow> string option \<Rightarrow> (nat \<times> string) act"
where
  "pd_do env a c method endpoint reqBody =
     NewRequest env c method endpoint reqBody (\<lambda>e. ''build request: '' @ e) (\<lambda>req.
     let req = set_header ''From'' (pd_email a) (set_header ''Accept'' pdAccept
           (set_header ''Authorization'' (''Token token='' @ pd_apiKey a) req));
         req = (if reqBody \<noteq> None then set_header ''Content-Type'' ''application/json'' req else req)
     in attempt (Do env req) (\<lambda>e. ''http: '' @ e) (\<lambda>resp.
          ret (resp_status resp, read_limited bodyLimit resp)))"

text \<open>\<open>pdKey\<close>, with its id, name and key value.\<close>

definition pd_decode_key :: "(string \<times> json) list \<Rightarrow> (string \<times> string) option" where
  "pd_decode_key k = do {
     let fs = [''id'', ''name'', ''key''];
     kid \<leftarrow> dec_field dec_str (key_for fs ''id'') [] k;
     nm \<leftarrow> dec_field dec_str (key_for fs ''name'') [] k;
     key \<leftarrow> dec_field dec_str (key_for fs ''key'') [] k;
     Some (kid, key) }"

definition pd_decode :: "string \<Rightarrow> (string \<times> string) option" where
  "pd_decode s = do {
     ms \<leftarrow> dec_root s;
     k \<leftarrow> dec_nested (key_for [''api_key''] ''api_key'') ms;
     pd_decode_key k }"

text \<open>\<open>pdKeysListResponse\<close>: the ids listed, and whether there are more of them.\<close>

definition pd_decode_list :: "string \<Rightarrow> (string list \<times> bool) option" where
  "pd_decode_list s = do {
     ms \<leftarrow> dec_root s;
     let fs = [''api_keys'', ''more''];
     ks \<leftarrow> dec_slice (key_for fs ''api_keys'') [] ms;
     ids \<leftarrow> those (map (\<lambda>k. do { m \<leftarrow> dec_struct k; (kid, _) \<leftarrow> pd_decode_key m; Some kid }) ks);
     more \<leftarrow> dec_field dec_bool (key_for fs ''more'') False ms;
     Some (ids, more) }"

definition pd_body :: "string \<Rightarrow> string" where
  "pd_body name = json_print (marshal_map [(''api_key'',
     marshal_map [(''name'', JStr name), (''type'', JStr ''read_write_api_key'')])])"

definition pd_createKey :: "env \<Rightarrow> pd_adapter \<Rightarrow> ctx \<Rightarrow> string \<Rightarrow> (string \<times> string) act" where
  "pd_createKey env a c name =
     attempt (pd_do env a c ''POST'' (pd_baseURL a @ ''/api_keys'') (Some (pd_body name)))
       (\<lambda>e. ''create key '' @ quoted env name @ '': '' @ e) (\<lambda>(status, respBody).
     check (status \<noteq> 201)
       (''create key '' @ quoted env name @ '': unexpected status '' @ nat_dec status @ '': '' @ respBody)
     (of_option (pd_decode respBody)
       (''create key '' @ quoted env name @ '': parse response: '' @ json_err env ''pdKeyResponse'' respBody)
     (\<lambda>(kid, key).
     check (kid = []) (''create key '' @ quoted env name @ '': id missing in response'')
     (check (key = []) (''create key '' @ quoted env name @ '': key value missing in response'')
     (ret (kid, key))))))"

definition pd_deleteKey :: "env \<Rightarrow> pd_adapter \<Rightarrow> ctx \<Rightarrow> string \<Rightarrow> unit act" where
  "pd_deleteKey env a c kid =
     attempt (pd_do env a c ''DELETE'' (pd_baseURL a @ ''/api_keys/'' @ kid) None)
       (\<lambda>e. ''delete key '' @ quoted env kid @ '': '' @ e) (\<lambda>(status, body).
     check (status \<noteq> 204 \<and> status \<noteq> 404)
       (''delete key '' @ quoted env kid @ '': unexpected status '' @ nat_dec status @ '': '' @ body)
     (ret ()))"

definition pd_keyExists :: "env \<Rightarrow> pd_adapter \<Rightarrow> ctx \<Rightarrow> string \<Rightarrow> bool act" where
  "pd_keyExists env a c kid =
     attempt (pd_do env a c ''GET'' (pd_baseURL a @ ''/api_keys?limit=100'') None)
       (\<lambda>e. ''list keys: '' @ e) (\<lambda>(status, body).
     check (status \<noteq> 200) (''list keys: unexpected status '' @ nat_dec status @ '': '' @ body)
     (of_option (pd_decode_list body)
       (''list keys: parse response: '' @ json_err env ''pdKeysListResponse'' body) (\<lambda>(ids, more).
     ret (kid \<in> set ids))))"

section \<open>Operations\<close>

definition pd_Rotate :: "env \<Rightarrow> pd_adapter \<Rightarrow> ctx \<Rightarrow> RotateRequest \<Rightarrow> Result act" where
  "pd_Rotate env a c req =
     attempt (Acquire env c) (\<lambda>e. ''pagerduty rotate: acquire slot: '' @ e) (\<lambda>_.
     attempt (randomHex env 2) (\<lambda>e. ''pagerduty rotate: generate name suffix: '' @ e) (\<lambda>suffix.
     Now env (\<lambda>t.
     let name = rq_ProviderID req @ ''-'' @ fmt_compact t @ ''-'' @ suffix
     in attempt (pd_createKey env a c name) (\<lambda>e. ''pagerduty rotate: '' @ e) (\<lambda>(keyID, keyValue).
     start_cleanup pd_name ''old_key_id'' req
     (Now env (\<lambda>t. ret
       \<lparr>res_ProviderID = rq_ProviderID req, res_CredentialID = keyID,
        res_Credential = keyValue, res_RotatedAt = t\<rparr>))))))"

definition pd_cleanup :: "env \<Rightarrow> pd_adapter \<Rightarrow> cleanup \<Rightarrow> world \<Rightarrow> world" where
  "pd_cleanup env a cl =
     log_failure (pd_deleteKey env a (WithTimeout Background deleteOldTimeout) (cl_target cl))
       (\<lambda>e. log_to (pd_logger a) LWarn ''pagerduty: best-effort delete of old key failed''
         [(''old_key_id'', AStr (sanitizeForLog (cl_target cl))),
          (''provider_id'', AStr (sanitizeForLog (cl_provider cl))),
          (''err'', AStr (sanitizeForLog e))])"

definition pd_Drain :: "env \<Rightarrow> pd_adapter \<Rightarrow> ctx \<Rightarrow> unit act" where
  "pd_Drain env a c = Drain_wait env pd_name (pd_cleanup env a) c"

definition pd_Revoke :: "env \<Rightarrow> pd_adapter \<Rightarrow> ctx \<Rightarrow> RevokeRequest \<Rightarrow> unit act" where
  "pd_Revoke env a c req =
     check (rv_CredentialID req = [])
       (''pagerduty revoke: credential_id is required '' @ em_dash @ '' refusing to skip revocation'')
     (attempt (pd_deleteKey env a c (rv_CredentialID req)) (\<lambda>e. ''pagerduty revoke: '' @ e) (\<lambda>_. ret ()))"

definition pd_Status :: "env \<Rightarrow> pd_adapter \<Rightarrow> ctx \<Rightarrow> string \<Rightarrow> CredentialStatus act" where
  "pd_Status env a c credentialID =
     check (credentialID = []) ''pagerduty status: credential_id is required''
     (attempt (pd_keyExists env a c credentialID) (\<lambda>e. ''pagerduty status: '' @ e) (\<lambda>active.
     Now env (\<lambda>t. ret
       \<lparr>cs_ProviderID = credentialID, cs_CredentialID = credentialID,
        cs_Active = active, cs_CheckedAt = t\<rparr>)))"

definition pagerduty :: "env \<Rightarrow> pd_adapter \<Rightarrow> adapter" where
  "pagerduty env a = \<lparr>Name = pd_name, Rotate = pd_Rotate env a, Revoke = pd_Revoke env a,
     Status = pd_Status env a, Drain = Some (pd_Drain env a)\<rparr>"

section \<open>The contract\<close>

definition pd_mine :: "pd_adapter \<Rightarrow> event \<Rightarrow> bool" where
  "pd_mine a = to_provider (pd_baseURL a)
     [(''Authorization'', ''Token token='' @ pd_apiKey a), (''From'', pd_email a)]"

lemma pagerduty_sel [simp]:
  "Name (pagerduty env a) = pd_name" "Rotate (pagerduty env a) = pd_Rotate env a"
  "Revoke (pagerduty env a) = pd_Revoke env a" "Status (pagerduty env a) = pd_Status env a"
  "Drain (pagerduty env a) = Some (pd_Drain env a)"
  by (simp_all add: pagerduty_def)

lemma emits_pd_do: "under (pd_baseURL a) u \<Longrightarrow> emits (pd_mine a) (pd_do env a c m u b)"
  unfolding pd_do_def Let_def by (intro trace_mono) (simp add: pd_mine_def to_provider_def)

lemma only_spawns_pd_do [trace_mono]: "only_spawns C (pd_do env a c m u b)"
  unfolding pd_do_def Let_def by (intro trace_mono)

lemma quiet_pd_do [trace_mono]: "quiet (pd_do env a c m u b)"
  unfolding pd_do_def Let_def by (intro trace_mono)

lemma emits_pd_calls [trace_mono]:
  "emits (pd_mine a) (pd_createKey env a c n)"
  "emits (pd_mine a) (pd_deleteKey env a c k)"
  "emits (pd_mine a) (pd_keyExists env a c k)"
  unfolding pd_createKey_def pd_deleteKey_def pd_keyExists_def
  by (auto intro!: trace_mono emits_pd_do split: prod.split)

lemma only_spawns_pd_calls [trace_mono]:
  "only_spawns C (pd_createKey env a c n)"
  "only_spawns C (pd_deleteKey env a c k)"
  "only_spawns C (pd_keyExists env a c k)"
  unfolding pd_createKey_def pd_deleteKey_def pd_keyExists_def
  by (auto intro!: trace_mono split: prod.split)

lemma quiet_pd_calls [trace_mono]:
  "quiet (pd_createKey env a c n)"
  "quiet (pd_deleteKey env a c k)"
  "quiet (pd_keyExists env a c k)"
  unfolding pd_createKey_def pd_deleteKey_def pd_keyExists_def
  by (auto intro!: trace_mono split: prod.split)

lemma pd_Rotate_emits: "emits (pd_mine a) (pd_Rotate env a c req)"
  unfolding pd_Rotate_def Let_def by (auto intro!: trace_mono split: prod.split)

lemma pd_Rotate_spawns: "only_spawns (cleanup_of pd_name) (pd_Rotate env a c req)"
  unfolding pd_Rotate_def Let_def by (auto intro!: trace_mono split: prod.split)

lemma pd_Rotate_quiet: "quiet (pd_Rotate env a c req)"
  unfolding pd_Rotate_def Let_def by (auto intro!: trace_mono split: prod.split)

lemma pd_Revoke_emits: "emits (pd_mine a) (pd_Revoke env a c rv)"
  unfolding pd_Revoke_def by (intro trace_mono)

lemma pd_Status_emits: "emits (pd_mine a) (pd_Status env a c cid)"
  unfolding pd_Status_def by (intro trace_mono)

lemma pd_Revoke_spawns: "only_spawns C (pd_Revoke env a c rv)"
  unfolding pd_Revoke_def by (intro trace_mono)

lemma pd_Revoke_quiet: "quiet (pd_Revoke env a c rv)"
  unfolding pd_Revoke_def by (intro trace_mono)

lemma pd_Status_spawns: "only_spawns C (pd_Status env a c cid)"
  unfolding pd_Status_def by (intro trace_mono)

lemma pd_Status_quiet: "quiet (pd_Status env a c cid)"
  unfolding pd_Status_def by (intro trace_mono)

lemma pd_createKey_result:
  "pd_createKey env a c n w = (Inr (kid, key), w') \<Longrightarrow> kid \<noteq> [] \<and> key \<noteq> []"
  unfolding pd_createKey_def by (auto simp: act_eq_Inr split: prod.splits)

lemma pd_Rotate_result:
  assumes "pd_Rotate env a c req w = (Inr res, w')"
  shows "res_ProviderID res = rq_ProviderID req \<and> res_CredentialID res \<noteq> [] \<and> res_Credential res \<noteq> []"
  using assms unfolding pd_Rotate_def
  by (auto simp: Let_def act_eq_Inr dest!: start_cleanup_eq_Inr pd_createKey_result split: prod.splits)

lemma pd_Status_result:
  assumes "pd_Status env a c cid w = (Inr st, w')"
  shows "cs_ProviderID st = cid \<and> cs_CredentialID st = cid"
  using assms unfolding pd_Status_def by (auto simp: act_eq_Inr)

lemma pd_do_answered: "pd_do env a c m u b w = (Inr (st, body), w') \<Longrightarrow> answered env w w' st"
  by (auto simp: pd_do_def Let_def act_eq_Inr Do_def answered_def)

lemma pd_Revoke_answered:
  "pd_Revoke env a c rv w = (Inr u, w') \<Longrightarrow> \<exists>st \<in> {200, 204, 404}. answered env w w' st"
  by (auto simp: pd_Revoke_def pd_deleteKey_def act_eq_Inr dest!: pd_do_answered split: if_splits sum.splits)

lemma pd_Revoke_empty: "rv_CredentialID rv = [] \<Longrightarrow> \<exists>e. pd_Revoke env a c rv w = (Inl e, w)"
  by (simp add: pd_Revoke_def)

lemma pd_createKey_keeps: "emits keeps (pd_createKey env a c n)"
  unfolding pd_createKey_def pd_do_def Let_def
  by (auto intro!: trace_mono keeps_last simp:  split: prod.split)

lemma pd_Rotate_failure: "on_fail keeps (pd_Rotate env a c req)"
  unfolding pd_Rotate_def Let_def
  by (auto intro!: fail_intro trace_mono pd_createKey_keeps split: prod.split)

interpretation pagerduty: credential_adapter "pagerduty env a" "pd_mine a" "cleanup_of pd_name"
  by unfold_locales
     (auto simp: pd_Rotate_emits pd_Revoke_emits pd_Status_emits pd_Rotate_spawns pd_Revoke_spawns
       pd_Status_spawns pd_Revoke_empty pd_Rotate_quiet pd_Revoke_quiet pd_Status_quiet pd_Rotate_failure dest: pd_Rotate_result pd_Status_result)

lemma pd_cleanup_spawned [simp]: "spawned (pd_cleanup env a cl w) = spawned w"
  unfolding pd_cleanup_def by (rule spawned_log_failure) (auto intro: trace_mono)

section \<open>Draining\<close>

text \<open>The request a clean-up makes for the old key, on a context of its own.\<close>

definition pd_sent :: "pd_adapter \<Rightarrow> cleanup \<Rightarrow> event \<Rightarrow> bool" where
  "pd_sent a cl e = (case e of EHttp r \<Rightarrow> hr_method r = ''DELETE''
     \<and> hr_url r = pd_baseURL a @ ''/api_keys/'' @ cl_target cl \<and> detached (hr_ctx r) | EVault _ _ \<Rightarrow> False)"

lemma pd_cleanup_sends:
  assumes "\<And>u. url_err env u = None"
  shows "\<exists>e \<in> set (trace (pd_cleanup env a cl w)). pd_sent a cl e"
  unfolding pd_cleanup_def
  by (subst log_failure_trace)
     (auto simp: log_to_def pd_deleteKey_def pd_do_def NewRequest_def Let_def attempt_def Do_def assms check_def
       set_header_def pd_sent_def split: sum.split)

lemma pd_cleanup_trace: "set (trace w) \<subseteq> set (trace (pd_cleanup env a cl w))"
  unfolding pd_cleanup_def
  by (rule log_failure_extends [where P = "pd_mine a"]) (auto intro: trace_mono)

interpretation pd_drainer: drainer env "pagerduty env a" pd_name "pd_sent a"
proof
  fix d c and w :: world
  assume d: "Drain (pagerduty env a) = Some d" and wait: "drain_wait env (ticks w) pd_name = None"
    and url: "\<And>u. url_err env u = None"
  have "d c w = Drain_wait env pd_name (pd_cleanup env a) c w" using d by (auto simp: pd_Drain_def)
  then show "\<exists>w'. d c w = (Inr (), w') \<and> spawned w' = filter (\<lambda>cl. cl_adapter cl \<noteq> pd_name) (spawned w)
      \<and> set (trace w) \<subseteq> set (trace w')
      \<and> (\<forall>cl \<in> set (spawned w). cl_adapter cl = pd_name \<longrightarrow> (\<exists>e \<in> set (trace w'). pd_sent a cl e))"
    using Drain_wait_drains [of "pd_cleanup env a" "pd_sent a",
        OF pd_cleanup_spawned pd_cleanup_trace pd_cleanup_sends [OF url] wait] by simp
qed

section \<open>Status looks at one page\<close>

lemma pd_keyExists_eq:
  assumes "pd_do env a c ''GET'' (pd_baseURL a @ ''/api_keys?limit=100'') None w = (Inr (200, body), w1)"
    and "pd_decode_list body = Some (ids, rest)"
  shows "pd_keyExists env a c kid w = (Inr (kid \<in> set ids), w1)"
  using assms by (simp add: pd_keyExists_def attempt_def)

text \<open>
  The status of a key is whether its id is on the one page of at most 100 keys that is
  read; the reply's \<open>more\<close> flag is decoded and ignored, so an existing key that stands on a
  later page is reported inactive.
\<close>

lemma pd_Status_first_page:
  assumes "kid \<noteq> []"
    and "pd_do env a c ''GET'' (pd_baseURL a @ ''/api_keys?limit=100'') None w = (Inr (200, body), w1)"
    and "pd_decode_list body = Some (ids, rest)"
  shows "\<exists>st w'. pd_Status env a c kid w = (Inr st, w') \<and> cs_Active st = (kid \<in> set ids)"
  using assms by (simp add: pd_Status_def attempt_def pd_keyExists_eq Now_def)

definition pd_example :: pd_adapter where
  "pd_example = \<lparr>pd_baseURL = ''https://pd'', pd_apiKey = ''k'', pd_email = ''a@b'', pd_client =
     \<lparr>hc_Timeout = 0, hc_MinVersion = VersionTLS13, hc_InsecureSkipVerify = False, hc_RootCAs = None\<rparr>,
     pd_logger = False\<rparr>"

end
