(* ===== verification/Github_Adapter.thy ===== *)
theory Github_Adapter
  imports Adapter
begin

text \<open>
  The GitHub adapter (adapter/github/github.go): fine-grained personal access tokens.  It
  deletes the old token inline, with the caller's context, and has no goroutine to drain.
\<close>

section \<open>Configuration\<close>

definition gh_name :: string where
  "gh_name = ''github''"

definition gh_defaultBaseURL :: string where
  "gh_defaultBaseURL = ''https://api.github.com''"

definition defaultExpiry :: int where
  "defaultExpiry = 90"

definition apiVersion :: string where
  "apiVersion = ''2022-11-28''"

record gh_config =
  gc_BaseURL :: string
  gc_AdminPAT :: string

record gh_adapter =
  gh_baseURL :: string
  gh_adminPAT :: string
  gh_client :: http_client

definition gh_WithBaseURL :: "string \<Rightarrow> gh_adapter \<Rightarrow> gh_adapter" where
  "gh_WithBaseURL u a = a\<lparr>gh_baseURL := TrimRight u (CHR ''/'')\<rparr>"

definition gh_New :: "gh_config \<Rightarrow> (gh_adapter \<Rightarrow> gh_adapter) list \<Rightarrow> gerr + gh_adapter" where
  "gh_New cfg opts =
     (if gc_AdminPAT cfg = [] then Inl ''github: AdminPAT is required''
      else let base = (if gc_BaseURL cfg = [] then gh_defaultBaseURL else gc_BaseURL cfg)
      in Inr (fold (\<lambda>f a. f a) opts
        \<lparr>gh_baseURL = TrimRight base (CHR ''/''), gh_adminPAT = gc_AdminPAT cfg,
         gh_client = \<lparr>hc_Timeout = 30 * Second, hc_MinVersion = VersionTLS13,
                      hc_InsecureSkipVerify = False, hc_RootCAs = None\<rparr>\<rparr>))"

section \<open>Requests\<close>

definition gh_do :: "env \<Rightarrow> gh_adapter \<Rightarrow> ctx \<Rightarrow> string \<Rightarrow> string \<Rightarrow> string \<Rightarrow> (nat \<times> string) act" where
  "gh_do env a c method path body =
     NewRequest env c method (gh_baseURL a @ path) (if body = [] then None else Some body)
       (\<lambda>e. ''build request: '' @ e) (\<lambda>req.
     let req = set_header ''X-GitHub-Api-Version'' apiVersion
           (set_header ''Accept'' ''application/vnd.github+json''
             (set_header ''Authorization'' (''Bearer '' @ gh_adminPAT a) req));
         req = (if body \<noteq> [] then set_header ''Content-Type'' ''application/json'' req else req)
     in attempt (Do env req) (\<lambda>e. ''http: '' @ e) (\<lambda>resp.
          ret (resp_status resp, read_limited bodyLimit resp)))"

definition token_path :: "string \<Rightarrow> string" where
  "token_path tid = ''/user/personal_access_tokens/'' @ tid"

text \<open>The lifetime in days: \<open>Meta["expires_days"]\<close> where it is a number from 1 to 366.\<close>

definition expire_days :: "(string \<rightharpoonup> string) \<Rightarrow> int" where
  "expire_days meta = (case meta ''expires_days'' of
     None \<Rightarrow> defaultExpiry
   | Some v \<Rightarrow> (case Atoi v of
       None \<Rightarrow> defaultExpiry
     | Some n \<Rightarrow> if 1 \<le> n \<and> n \<le> 366 then n else defaultExpiry))"

text \<open>
  \<open>Meta["permissions"]\<close> decoded into a \<open>map[string]string\<close> and marshalled again, its
  keys sorted; \<open>null\<close> leaves the map nil.  A text that does not decode is dropped.
\<close>

definition permissions_json :: "string \<Rightarrow> json option" where
  "permissions_json v = (case Unmarshal v of
     Some JNull \<Rightarrow> Some JNull
   | Some (JObj ms) \<Rightarrow>
       map_option (\<lambda>m. marshal_map (map (\<lambda>k. (k, JStr (the (m k)))) (remdups (map fst ms))))
         (dec_str_map Map.empty ms)
   | _ \<Rightarrow> None)"

text \<open>
  The request body; \<open>t1\<close> and \<open>t2\<close> are the two readings of the clock, and adding days to a
  UTC time with \<open>AddDate\<close> adds 24 hours each.
\<close>

definition gh_body :: "RotateRequest \<Rightarrow> int \<Rightarrow> int \<Rightarrow> json" where
  "gh_body req t1 t2 =
     (let meta = rq_Meta req;
          perms = (case meta_value meta ''permissions'' of None \<Rightarrow> None | Some v \<Rightarrow> permissions_json v);
          repos = (case meta_value meta ''repositories'' of None \<Rightarrow> [] | Some v \<Rightarrow> split_trimmed v)
      in marshal_map (
         [(''name'', JStr (rq_ProviderID req @ ''-'' @ FormatInt (t1 div 1000000))),
          (''expires_at'', JStr (fmt_rfc3339 (t2 + expire_days meta * 86400 * Second)))]
         @ (case perms of None \<Rightarrow> [] | Some p \<Rightarrow> [(''permissions'', p)])
         @ (if repos = [] then [] else [(''repositories'', JArr (map JStr repos))])))"

definition gh_decode_created :: "string \<Rightarrow> (int \<times> string) option" where
  "gh_decode_created s = do {
     ms \<leftarrow> dec_root s;
     let fs = [''id'', ''token''];
     tid \<leftarrow> dec_field dec_int64 (key_for fs ''id'') 0 ms;
     tok \<leftarrow> dec_field dec_str (key_for fs ''token'') [] ms;
     Some (tid, tok) }"

definition gh_decode_expiry :: "string \<Rightarrow> string option" where
  "gh_decode_expiry s = do {
     ms \<leftarrow> dec_root s;
     dec_field dec_str (key_for [''expires_at''] ''expires_at'') [] ms }"

section \<open>Operations\<close>

definition gh_Revoke :: "env \<Rightarrow> gh_adapter \<Rightarrow> ctx \<Rightarrow> RevokeRequest \<Rightarrow> unit act" where
  "gh_Revoke env a c req =
     check (rv_CredentialID req = []) ''github revoke: credential_id is required''
     (attempt (gh_do env a c ''DELETE'' (token_path (rv_CredentialID req)) [])
       (\<lambda>e. ''github revoke: '' @ e) (\<lambda>(status, body).
     if status = 404 then ret ()
     else check (status \<noteq> 204)
       (''github revoke: unexpected status '' @ nat_dec status @ '': '' @ body)
     (ret ())))"

text \<open>\<open>_ = a.Revoke(...)\<close> on the old token, after the result is made.\<close>

definition gh_delete_old :: "env \<Rightarrow> gh_adapter \<Rightarrow> ctx \<Rightarrow> RotateRequest \<Rightarrow> Result \<Rightarrow> Result act" where
  "gh_delete_old env a c req result = (case meta_value (rq_Meta req) ''old_token_id'' of
     None \<Rightarrow> ret result
   | Some old \<Rightarrow> on_result
       (gh_Revoke env a c \<lparr>rv_ProviderID = rq_ProviderID req, rv_CredentialID = old\<rparr>)
       (\<lambda>_. ret result))"

definition gh_Rotate :: "env \<Rightarrow> gh_adapter \<Rightarrow> ctx \<Rightarrow> RotateRequest \<Rightarrow> Result act" where
  "gh_Rotate env a c req =
     Now env (\<lambda>t1. Now env (\<lambda>t2.
     attempt (gh_do env a c ''POST'' ''/user/personal_access_tokens'' (json_print (gh_body req t1 t2)))
       (\<lambda>e. ''github rotate: '' @ e) (\<lambda>(status, respBody).
     check (status \<noteq> 201)
       (''github rotate: unexpected status '' @ nat_dec status @ '': '' @ respBody)
     (of_option (gh_decode_created respBody)
       (''github rotate: parse response: '' @ json_err env ''github rotate'' respBody) (\<lambda>(tid, tok).
     check (tok = []) ''github rotate: empty token in response''
     (Now env (\<lambda>t. gh_delete_old env a c req
       \<lparr>res_ProviderID = rq_ProviderID req, res_CredentialID = FormatInt tid,
        res_Credential = tok, res_RotatedAt = t\<rparr>)))))))"

text \<open>\<open>ProviderID\<close> is left empty in the status.\<close>

definition gh_status :: "env \<Rightarrow> string \<Rightarrow> bool \<Rightarrow> CredentialStatus act" where
  "gh_status env credentialID active = Now env (\<lambda>t. ret
     \<lparr>cs_ProviderID = [], cs_CredentialID = credentialID, cs_Active = active, cs_CheckedAt = t\<rparr>)"

definition gh_Status :: "env \<Rightarrow> gh_adapter \<Rightarrow> ctx \<Rightarrow> string \<Rightarrow> CredentialStatus act" where
  "gh_Status env a c credentialID =
     check (credentialID = []) ''github status: credential_id is required''
     (attempt (gh_do env a c ''GET'' (token_path credentialID) [])
       (\<lambda>e. ''github status: '' @ e) (\<lambda>(status, body).
     if status = 404 then gh_status env credentialID False
     else check (status \<noteq> 200)
       (''github status: unexpected status '' @ nat_dec status @ '': '' @ body)
     (of_option (gh_decode_expiry body)
       (''github status: parse response: '' @ json_err env ''github status'' body) (\<lambda>expires.
     case (if expires = [] then None else parse_rfc3339 expires) of
       None \<Rightarrow> gh_status env credentialID True
     | Some expiry \<Rightarrow> Now env (\<lambda>now. gh_status env credentialID (now < expiry))))))"

definition github :: "env \<Rightarrow> gh_adapter \<Rightarrow> adapter" where
  "github env a = \<lparr>Name = gh_name, Rotate = gh_Rotate env a, Revoke = gh_Revoke env a,
     Status = gh_Status env a, Drain = None\<rparr>"

section \<open>The contract\<close>

definition gh_mine :: "gh_adapter \<Rightarrow> event \<Rightarrow> bool" where
  "gh_mine a = to_provider (gh_baseURL a) [(''Authorization'', ''Bearer '' @ gh_adminPAT a)]"

lemma github_sel [simp]:
  "Name (github env a) = gh_name" "Rotate (github env a) = gh_Rotate env a"
  "Revoke (github env a) = gh_Revoke env a" "Status (github env a) = gh_Status env a"
  "Drain (github env a) = None"
  by (simp_all add: github_def)

lemma emits_gh_do:
  "under (gh_baseURL a) (gh_baseURL a @ p) \<Longrightarrow> emits (gh_mine a) (gh_do env a c m p b)"
  unfolding gh_do_def Let_def by (intro trace_mono) (simp add: gh_mine_def to_provider_def)

lemma only_spawns_gh_do [trace_mono]: "only_spawns C (gh_do env a c m p b)"
  unfolding gh_do_def Let_def by (intro trace_mono)

lemma quiet_gh_do [trace_mono]: "quiet (gh_do env a c m p b)"
  unfolding gh_do_def Let_def by (intro trace_mono)

lemma under_token_path [simp]: "under base (base @ token_path t)"
  by (simp add: token_path_def)

lemma emits_gh_Revoke [trace_mono]: "emits (gh_mine a) (gh_Revoke env a c rv)"
  unfolding gh_Revoke_def by (auto intro!: trace_mono emits_gh_do split: prod.split)

lemma gh_Revoke_spawns [trace_mono]: "only_spawns C (gh_Revoke env a c rv)"
  unfolding gh_Revoke_def by (auto intro!: trace_mono split: prod.split)

lemma gh_Revoke_quiet [trace_mono]: "quiet (gh_Revoke env a c rv)"
  unfolding gh_Revoke_def by (auto intro!: trace_mono split: prod.split)

lemma emits_gh_delete_old [trace_mono]: "emits (gh_mine a) (gh_delete_old env a c req r)"
  unfolding gh_delete_old_def by (auto intro!: trace_mono split: option.split)

lemma only_spawns_gh_delete_old [trace_mono]: "only_spawns C (gh_delete_old env a c req r)"
  unfolding gh_delete_old_def by (auto intro!: trace_mono split: option.split)

lemma quiet_gh_delete_old [trace_mono]: "quiet (gh_delete_old env a c req r)"
  unfolding gh_delete_old_def by (auto intro!: trace_mono split: option.split)

lemma emits_gh_status [trace_mono]: "emits P (gh_status env cid b)"
  unfolding gh_status_def by (intro trace_mono)

lemma only_spawns_gh_status [trace_mono]: "only_spawns C (gh_status env cid b)"
  unfolding gh_status_def by (intro trace_mono)

lemma quiet_gh_status [trace_mono]: "quiet (gh_status env cid b)"
  unfolding gh_status_def by (intro trace_mono)

lemma gh_Rotate_emits: "emits (gh_mine a) (gh_Rotate env a c req)"
  unfolding gh_Rotate_def by (auto intro!: trace_mono emits_gh_do split: prod.split)

lemma gh_Rotate_spawns: "only_spawns C (gh_Rotate env a c req)"
  unfolding gh_Rotate_def by (auto intro!: trace_mono split: prod.split)

lemma gh_Rotate_quiet: "quiet (gh_Rotate env a c req)"
  unfolding gh_Rotate_def by (auto intro!: trace_mono split: prod.split)

lemma gh_Status_emits: "emits (gh_mine a) (gh_Status env a c cid)"
  unfolding gh_Status_def by (auto intro!: trace_mono emits_gh_do split: prod.split option.split)

lemma gh_Status_spawns: "only_spawns C (gh_Status env a c cid)"
  unfolding gh_Status_def by (auto intro!: trace_mono split: prod.split option.split)

lemma gh_Status_quiet: "quiet (gh_Status env a c cid)"
  unfolding gh_Status_def by (auto intro!: trace_mono split: prod.split option.split)

lemma gh_delete_old_result: "gh_delete_old env a c req r w = (Inr res, w') \<Longrightarrow> res = r"
  by (auto simp: gh_delete_old_def on_result_def split: option.splits prod.splits)

lemma gh_Rotate_result:
  assumes "gh_Rotate env a c req w = (Inr res, w')"
  shows "res_ProviderID res = rq_ProviderID req \<and> res_CredentialID res \<noteq> [] \<and> res_Credential res \<noteq> []"
  using assms unfolding gh_Rotate_def
  by (auto simp: act_eq_Inr dest!: gh_delete_old_result split: prod.splits)

lemma gh_status_result: "gh_status env cid b w = (Inr st, w') \<Longrightarrow> cs_CredentialID st = cid \<and> cs_Active st = b"
  by (auto simp: gh_status_def act_eq_Inr)

lemma gh_Status_result:
  assumes "gh_Status env a c cid w = (Inr st, w')"
  shows "cs_CredentialID st = cid"
  using assms unfolding gh_Status_def
  by (auto simp: act_eq_Inr dest!: gh_status_result split: prod.splits if_splits option.splits)

lemma gh_do_answered: "gh_do env a c m u b w = (Inr (st, body), w') \<Longrightarrow> answered env w w' st"
  by (auto simp: gh_do_def Let_def act_eq_Inr Do_def answered_def)

lemma gh_Revoke_answered:
  "gh_Revoke env a c rv w = (Inr u, w') \<Longrightarrow> \<exists>st \<in> {200, 204, 404}. answered env w w' st"
  by (auto simp: gh_Revoke_def  act_eq_Inr dest!: gh_do_answered split: if_splits sum.splits)

lemma gh_Revoke_empty: "rv_CredentialID rv = [] \<Longrightarrow> \<exists>e. gh_Revoke env a c rv w = (Inl e, w)"
  by (simp add: gh_Revoke_def)

lemma gh_create_keeps: "emits keeps (gh_do env a c ''POST'' ''/user/personal_access_tokens'' b)"
  unfolding gh_do_def Let_def by (auto intro!: trace_mono keeps_last)

lemma gh_delete_old_never_fails: "succeeds (gh_delete_old env a c req r) w"
  by (simp add: gh_delete_old_def succeeds_def on_result_def split: option.split prod.split)

lemma gh_Rotate_failure: "on_fail keeps (gh_Rotate env a c req)"
  unfolding gh_Rotate_def
  by (auto intro!: fail_intro trace_mono gh_create_keeps on_fail_never [OF gh_delete_old_never_fails]
      split: prod.split)

interpretation github: credential_adapter "github env a" "gh_mine a" "\<lambda>_. False"
  by unfold_locales
     (auto simp: gh_Rotate_emits emits_gh_Revoke gh_Status_emits gh_Rotate_spawns gh_Revoke_spawns
       gh_Status_spawns gh_Revoke_empty gh_Rotate_quiet gh_Revoke_quiet gh_Status_quiet gh_Rotate_failure dest: gh_Rotate_result gh_Status_result)

section \<open>Lifetimes\<close>

text \<open>
  The lifetime asked for is always between 1 and 366 days: the number given in
  \<open>expires_days\<close> when it is in that range, and 90 for anything else.
\<close>

lemma expire_days_range:
  "1 \<le> expire_days meta \<and> expire_days meta \<le> 366 \<and>
   expire_days (meta(''expires_days'' := None)) = 90 \<and>
   expire_days (meta(''expires_days'' \<mapsto> FormatInt (int n mod 366 + 1))) = int n mod 366 + 1 \<and>
   expire_days (meta(''expires_days'' \<mapsto> FormatInt (367 + int n mod 1000))) = 90"
proof -
  have "Atoi (FormatInt (int n mod 366 + 1)) = Some (int n mod 366 + 1)"
    "Atoi (FormatInt (367 + int n mod 1000)) = Some (367 + int n mod 1000)"
    by (rule Atoi_FormatInt; simp; smt (verit) pos_mod_bound pos_mod_sign)+
  moreover have "0 \<le> int n mod 366" "int n mod 366 < 366" "0 \<le> int n mod 1000" by simp_all
  ultimately show ?thesis
    by (auto simp: expire_days_def defaultExpiry_def split: option.splits)
qed

lemma gh_Status_eq:
  assumes "credentialID \<noteq> []"
    and "gh_do env a c ''GET'' (token_path credentialID) [] w = (Inr (200, body), w1)"
    and "gh_decode_expiry body = Some expires" "expires \<noteq> []" "parse_rfc3339 expires = Some t"
  shows "gh_Status env a c credentialID w = Now env (\<lambda>now. gh_status env credentialID (now < t)) w1"
  using assms by (simp add: gh_Status_def attempt_def)

text \<open>
  A token the API reports with an expiry time is active exactly when the clock is before
  that time.
\<close>

lemma gh_Status_expiry:
  assumes "credentialID \<noteq> []"
    and "gh_do env a c ''GET'' (token_path credentialID) [] w = (Inr (200, body), w1)"
    and "gh_decode_expiry body = Some expires" "expires \<noteq> []" "parse_rfc3339 expires = Some t"
  shows "\<exists>st w'. gh_Status env a c credentialID w = (Inr st, w') \<and> cs_CredentialID st = credentialID
    \<and> cs_Active st = (clock env (ticks w1) < t)"
  by (simp add: gh_Status_eq [OF assms] Now_def gh_status_def)

definition gh_example :: gh_adapter where
  "gh_example = \<lparr>gh_baseURL = ''https://gh'', gh_adminPAT = ''p'', gh_client =
     \<lparr>hc_Timeout = 0, hc_MinVersion = VersionTLS13, hc_InsecureSkipVerify = False, hc_RootCAs = None\<rparr>\<rparr>"

end
