(* ===== verification/Vault_Client.thy ===== *)
theory Vault_Client
  imports Fixtures Go_Base64
begin

text \<open>
  The Vault client (vault/client.go): authentication, SPIFFE renewal, Transit, KV and PKI.
  Vault itself is \<open>vault env\<close>; the token of \<open>vaultapi.Client\<close> is \<open>vault_token\<close> of the
  world.  The Transit operations dereference the reply without a nil check, so they are
  actions whose result can be a panic.
\<close>

section \<open>Configuration\<close>

record vault_config =
  vc_Address :: string
  vc_Token :: string
  vc_JWTMountPath :: string
  vc_JWTRole :: string
  vc_JWTToken :: string
  vc_SPIFFESocket :: string
  vc_SPIFFEAudience :: string
  vc_SPIFFETrustDomain :: string
  vc_RoleID :: string
  vc_SecretID :: string
  vc_CACertPath :: string

definition envOr :: "env \<Rightarrow> string \<Rightarrow> string \<Rightarrow> string" where
  "envOr env key fallback = (if getenv env key \<noteq> [] then getenv env key else fallback)"

definition NewFromEnv :: "env \<Rightarrow> vault_config" where
  "NewFromEnv env =
     \<lparr>vc_Address = envOr env ''VAULT_ADDR'' ''http://127.0.0.1:8200'',
      vc_Token = getenv env ''VAULT_TOKEN'',
      vc_JWTMountPath = envOr env ''VAULT_JWT_MOUNT'' ''auth/jwt/login'',
      vc_JWTRole = getenv env ''VAULT_JWT_ROLE'',
      vc_JWTToken = getenv env ''VAULT_JWT_TOKEN'',
      vc_SPIFFESocket = getenv env ''SPIFFE_ENDPOINT_SOCKET'',
      vc_SPIFFEAudience = getenv env ''VAULT_SPIFFE_AUDIENCE'',
      vc_SPIFFETrustDomain = getenv env ''VAULT_SPIFFE_TRUST_DOMAIN'',
      vc_RoleID = getenv env ''VAULT_APPROLE_ROLE_ID'',
      vc_SecretID = getenv env ''VAULT_APPROLE_SECRET_ID'',
      vc_CACertPath = getenv env ''VAULT_CACERT''\<rparr>"

record vault_client =
  vcl_authCfg :: vault_config

section \<open>Replies\<close>

text \<open>\<open>secret.Data[k]\<close> for a non-nil secret; its map may be nil.\<close>

definition data_field :: "secret \<Rightarrow> string \<Rightarrow> goval option" where
  "data_field s k = (case secret_data s of None \<Rightarrow> None | Some d \<Rightarrow> map_of d k)"

text \<open>\<open>x, ok := v.(string)\<close>, with \<open>x == ""\<close> when it is not a string.\<close>

definition as_string :: "goval option \<Rightarrow> string" where
  "as_string v = (case v of Some (GStr s) \<Rightarrow> s | _ \<Rightarrow> [])"

definition SetToken :: "string \<Rightarrow> unit act" where
  "SetToken t = (\<lambda>w. (Inr (), w\<lparr>vault_token := t\<rparr>))"

section \<open>Authentication\<close>

text \<open>Both login paths take the token from a reply that must carry an \<open>Auth\<close> block.\<close>

definition take_auth :: "secret option \<Rightarrow> gerr \<Rightarrow> unit act" where
  "take_auth r e = of_option (Option.bind r secret_auth) e SetToken"

definition loginJWT :: "env \<Rightarrow> string \<Rightarrow> string \<Rightarrow> string \<Rightarrow> unit act" where
  "loginJWT env mountPath role jwt =
     attempt (vault_do env (VWrite mountPath
         ((''jwt'', GStr jwt) # (if role \<noteq> [] then [(''role'', GStr role)] else []))))
       (\<lambda>e. ''vault: JWT auth login: '' @ e) (\<lambda>secret.
     take_auth secret ''vault: JWT auth returned empty auth'')"

definition maxLen :: nat where
  "maxLen = 512"

definition validateSPIFFESocket :: "env \<Rightarrow> string \<Rightarrow> gerr option" where
  "validateSPIFFESocket env addr =
     (if length addr > maxLen
      then Some (''SPIFFE: socket address too long (max '' @ nat_dec maxLen @ '' chars)'')
      else if HasPrefix addr ''unix://'' then
        (if Contains (TrimPrefix addr ''unix://'') ''..''
         then Some (''SPIFFE: socket path must not contain path traversal: '' @ quoted env addr)
         else None)
      else if HasPrefix addr ''tcp://'' then None
      else Some (''SPIFFE: socket address must use unix:// or tcp:// scheme, got '' @ quoted env addr))"

definition spire :: "(nat \<Rightarrow> gerr + 'a) \<Rightarrow> 'a act" where
  "spire f = (\<lambda>w. (f (ticks w), w\<lparr>ticks := Suc (ticks w)\<rparr>))"

definition fetchSPIFFEJWT :: "env \<Rightarrow> string \<Rightarrow> string \<Rightarrow> string \<Rightarrow> string act" where
  "fetchSPIFFEJWT env socketAddr audience trustDomain =
     check (audience = [])
       ''SPIFFE: audience is required for JWT-SVID fetch (set VAULT_SPIFFE_AUDIENCE)''
     (attempt (spire (\<lambda>t. case spire_connect env t socketAddr of Some e \<Rightarrow> Inl e | None \<Rightarrow> Inr ()))
       (\<lambda>e. ''SPIFFE: connect to workload API at '' @ socketAddr @ '': '' @ e) (\<lambda>_.
     attempt (spire (\<lambda>t. spire_fetch env t socketAddr audience))
       (\<lambda>e. ''SPIFFE: fetch JWT-SVID (audience='' @ audience @ ''): '' @ e) (\<lambda>svid.
     check (trustDomain \<noteq> [] \<and> svid_trust_domain svid \<noteq> trustDomain)
       (''SPIFFE: SVID trust domain '' @ quoted env (svid_trust_domain svid) @
        '' does not match expected '' @ quoted env trustDomain @ '' '' @ em_dash @ '' rejecting'')
     (ret (svid_token svid)))))"

definition approle_login :: "env \<Rightarrow> vault_config \<Rightarrow> unit act" where
  "approle_login env cfg =
     attempt (vault_do env (VWrite ''auth/approle/login''
         [(''role_id'', GStr (vc_RoleID cfg)), (''secret_id'', GStr (vc_SecretID cfg))]))
       (\<lambda>e. ''vault: AppRole login: '' @ e) (\<lambda>secret.
     take_auth secret ''vault: AppRole login returned empty auth'')"

text \<open>The \<open>switch\<close> of \<open>New\<close>: the first method that is configured is the one used.\<close>

definition authenticate :: "env \<Rightarrow> vault_config \<Rightarrow> unit act" where
  "authenticate env cfg =
     (if vc_Token cfg \<noteq> [] then SetToken (vc_Token cfg)
      else if vc_SPIFFESocket cfg \<noteq> [] then
        (case validateSPIFFESocket env (vc_SPIFFESocket cfg) of
           Some e \<Rightarrow> fail e
         | None \<Rightarrow>
             attempt (fetchSPIFFEJWT env (vc_SPIFFESocket cfg) (vc_SPIFFEAudience cfg)
                 (vc_SPIFFETrustDomain cfg))
               (\<lambda>e. ''vault: SPIFFE JWT-SVID: '' @ e)
               (\<lambda>jwt. loginJWT env (vc_JWTMountPath cfg) (vc_JWTRole cfg) jwt))
      else if vc_JWTToken cfg \<noteq> [] then
        loginJWT env (vc_JWTMountPath cfg) (vc_JWTRole cfg) (vc_JWTToken cfg)
      else if vc_RoleID cfg \<noteq> [] \<and> vc_SecretID cfg \<noteq> [] then approle_login env cfg
      else fail (''vault: must supply VAULT_TOKEN, SPIFFE_ENDPOINT_SOCKET, VAULT_JWT_TOKEN, or ''
             @ ''VAULT_APPROLE_ROLE_ID+VAULT_APPROLE_SECRET_ID''))"

definition vault_New :: "env \<Rightarrow> vault_config \<Rightarrow> vault_client act" where
  "vault_New env cfg =
     (case (if vc_CACertPath cfg = [] then None else vault_tls_err env (vc_CACertPath cfg)) of
        Some e \<Rightarrow> fail (''vault: configure TLS: '' @ e)
      | None \<Rightarrow>
          (case vault_client_err env (vc_Address cfg) of
             Some e \<Rightarrow> fail (''vault: new client: '' @ e)
           | None \<Rightarrow> attempt (authenticate env cfg) (\<lambda>e. e) (\<lambda>_. ret \<lparr>vcl_authCfg = cfg\<rparr>)))"

section \<open>Transit\<close>

definition nil_dereference :: string where
  "nil_dereference = ''runtime error: invalid memory address or nil pointer dereference''"

definition TransitEncrypt :: "env \<Rightarrow> string \<Rightarrow> string \<Rightarrow> string outcome act" where
  "TransitEncrypt env keyName plaintext =
     attempt (vault_do env (VWrite (''transit/encrypt/'' @ keyName)
         [(''plaintext'', GStr (EncodeToString plaintext))]))
       (\<lambda>e. ''vault transit encrypt: '' @ e) (\<lambda>secret.
     case secret of
       None \<Rightarrow> ret (Panics nil_dereference)
     | Some s \<Rightarrow>
         let ct = as_string (data_field s ''ciphertext'')
         in check (ct = []) ''vault transit encrypt: missing ciphertext in response''
            (ret (Done ct)))"

definition TransitDecrypt :: "env \<Rightarrow> string \<Rightarrow> string \<Rightarrow> string outcome act" where
  "TransitDecrypt env keyName ciphertext =
     attempt (vault_do env (VWrite (''transit/decrypt/'' @ keyName)
         [(''ciphertext'', GStr ciphertext)]))
       (\<lambda>e. ''vault transit decrypt: '' @ e) (\<lambda>secret.
     case secret of
       None \<Rightarrow> ret (Panics nil_dereference)
     | Some s \<Rightarrow>
         let encoded = as_string (data_field s ''plaintext'')
         in check (encoded = []) ''vault transit decrypt: missing plaintext in response''
            (of_option (DecodeString encoded)
              (''vault transit decrypt: base64 decode: '' @ base64_err env encoded)
              (\<lambda>raw. ret (Done raw))))"

section \<open>KV\<close>

definition KVGet :: "env \<Rightarrow> string \<Rightarrow> (string \<times> goval) list act" where
  "KVGet env path =
     attempt (vault_do env (VRead path)) (\<lambda>e. ''vault kv get '' @ path @ '': '' @ e) (\<lambda>secret.
     of_option secret (''vault kv get '' @ path @ '': not found'') (\<lambda>s.
     ret (case data_field s ''data'' of
            Some (GMap d) \<Rightarrow> d
          | _ \<Rightarrow> (case secret_data s of Some d \<Rightarrow> d | None \<Rightarrow> []))))"

definition KVGetString :: "env \<Rightarrow> string \<Rightarrow> string \<Rightarrow> string act" where
  "KVGetString env path field =
     attempt (KVGet env path) (\<lambda>e. e) (\<lambda>data.
     case map_of data field of
       None \<Rightarrow> fail (''vault kv get '' @ path @ '': field '' @ quoted env field @ '' not found'')
     | Some (GStr s) \<Rightarrow> ret s
     | Some _ \<Rightarrow> fail (''vault kv get '' @ path @ '': field '' @ quoted env field @ '' is not a string''))"

text \<open>\<open>fmt\<close>'s \<open>%T\<close>.\<close>

fun go_type :: "goval \<Rightarrow> string" where
  "go_type GNil = ''<nil>''"
| "go_type (GBool _) = ''bool''"
| "go_type (GStr _) = ''string''"
| "go_type (GNum _) = ''json.Number''"
| "go_type (GFloat _) = ''float64''"
| "go_type (GMap _) = ''map[string]interface {}''"
| "go_type (GList _) = ''[]interface {}''"

definition StringField :: "env \<Rightarrow> (string \<times> goval) list \<Rightarrow> string \<Rightarrow> gerr + string" where
  "StringField env data key = (case map_of data key of
     None \<Rightarrow> Inl (''field '' @ quoted env key @ '' not present'')
   | Some (GStr s) \<Rightarrow> Inr s
   | Some v \<Rightarrow> Inl (''field '' @ quoted env key @ '' is not a string (got '' @ go_type v @ '')''))"

definition MustStringField :: "env \<Rightarrow> (string \<times> goval) list \<Rightarrow> string \<Rightarrow> string" where
  "MustStringField env data key = (case StringField env data key of Inl _ \<Rightarrow> [] | Inr s \<Rightarrow> s)"

section \<open>PKI\<close>

record IssuedCert =
  ic_Certificate :: string
  ic_PrivateKey :: string
  ic_CAChain :: string

definition newline :: char where
  "newline = CHR 0x0A"

definition ca_bundle :: "secret \<Rightarrow> string" where
  "ca_bundle s =
     (let chain = (case data_field s ''ca_chain'' of
            Some (GList vs) \<Rightarrow> concat (map (\<lambda>v. case v of GStr c \<Rightarrow> c @ [newline] | _ \<Rightarrow> []) vs)
          | _ \<Rightarrow> [])
      in case data_field s ''issuing_ca'' of
           Some (GStr ca) \<Rightarrow> if chain = [] then ca else chain
         | _ \<Rightarrow> chain)"

definition IssuePKICert :: "env \<Rightarrow> string \<Rightarrow> string \<Rightarrow> string list \<Rightarrow> IssuedCert act" where
  "IssuePKICert env role commonName altNames =
     (let params = [(''common_name'', GStr commonName), (''ttl'', GStr ''24h'')]
            @ (if altNames \<noteq> [] then [(''alt_names'', GList (map GStr altNames))] else [])
      in attempt (vault_do env (VWrite (''pki/issue/'' @ role) params))
       (\<lambda>e. ''vault pki issue '' @ role @ '': '' @ e) (\<lambda>secret.
     of_option secret (''vault pki issue '' @ role @ '': empty response'') (\<lambda>s.
     let cert = as_string (data_field s ''certificate'');
         key = as_string (data_field s ''private_key'')
     in check (cert = [] \<or> key = [])
          (''vault pki issue '' @ role @ '': missing certificate or private_key in response'')
        (ret \<lparr>ic_Certificate = cert, ic_PrivateKey = key, ic_CAChain = ca_bundle s\<rparr>))))"

definition LoadCACertPool :: "env \<Rightarrow> string \<Rightarrow> gerr + string" where
  "LoadCACertPool env caPath = (case read_clean env caPath of
     Inl e \<Rightarrow> Inl (''load CA cert: '' @ e)
   | Inr pem \<Rightarrow> if pem_ok env pem then Inr pem else Inl ''load CA cert: no valid PEM blocks found'')"

datatype client_auth = NoClientCert | RequireAndVerifyClientCert

record tls_config =
  tc_Certificate :: "string \<times> string"
  tc_ClientCAs :: string
  tc_ClientAuth :: client_auth
  tc_MinVersion :: nat

definition TLSConfigFromIssuedCert :: "env \<Rightarrow> IssuedCert \<Rightarrow> string \<Rightarrow> gerr + tls_config" where
  "TLSConfigFromIssuedCert env cert caPool =
     (case keypair_err env (ic_Certificate cert) (ic_PrivateKey cert) of
        Some e \<Rightarrow> Inl (''parse server cert/key: '' @ e)
      | None \<Rightarrow> Inr \<lparr>tc_Certificate = (ic_Certificate cert, ic_PrivateKey cert), tc_ClientCAs = caPool,
          tc_ClientAuth = RequireAndVerifyClientCert, tc_MinVersion = VersionTLS13\<rparr>)"

section \<open>Token renewal\<close>

text \<open>
  \<open>json.Number.Int64\<close> with its error dropped: \<open>ParseInt\<close> returns 0 for a text that is
  no integer, and the nearest bound for one out of range.
\<close>

definition number_Int64 :: "string \<Rightarrow> int" where
  "number_Int64 s =
     (let neg = (s \<noteq> [] \<and> hd s = CHR ''-'');
          ds = (if s \<noteq> [] \<and> (hd s = CHR ''-'' \<or> hd s = CHR ''+'') then tl s else s)
      in case ParseInt64 s of
           Some i \<Rightarrow> i
         | None \<Rightarrow> if ds = [] \<or> \<not> list_all is_digit ds then 0
                   else if neg then - (2 ^ 63) else 2 ^ 63 - 1)"

definition tokenTTL :: "env \<Rightarrow> int act" where
  "tokenTTL env =
     attempt (vault_do env VLookupSelf) (\<lambda>e. ''token lookup-self: '' @ e) (\<lambda>secret.
     of_option secret ''token lookup-self: empty response'' (\<lambda>s.
     of_option (data_field s ''ttl'') ''token lookup-self: ttl field missing'' (\<lambda>raw.
     case raw of
       GNum n \<Rightarrow> ret (dur_seconds (number_Int64 n))
     | GFloat i \<Rightarrow> ret (dur_seconds i)
     | _ \<Rightarrow> fail (''token lookup-self: ttl has unexpected type '' @ go_type raw))))"

text \<open>
  \<open>time.Duration(float64(ttl) * 0.70)\<close> for a positive \<open>ttl\<close>, in IEEE double arithmetic:
  \<open>round53\<close> rounds a natural number to 53 significant bits, ties to even, and the
  double 0.70 is \<open>6305039478318694 / 2 ^ 53\<close>.
\<close>

fun bit_length :: "nat \<Rightarrow> nat" where
  "bit_length n = (if n = 0 then 0 else Suc (bit_length (n div 2)))"

declare bit_length.simps [simp del]

definition round53 :: "nat \<Rightarrow> nat" where
  "round53 n =
     (let e = bit_length n - 53; q = n div 2 ^ e; r = n mod 2 ^ e
      in if e = 0 then n
         else if 2 * r > 2 ^ e \<or> (2 * r = 2 ^ e \<and> odd q) then (q + 1) * 2 ^ e else q * 2 ^ e)"

definition renew_interval :: "int \<Rightarrow> int" where
  "renew_interval ttl = int (round53 (round53 (nat ttl) * 6305039478318694) div 2 ^ 53)"

definition fallbackInterval :: int where
  "fallbackInterval = 4 * Minute"

datatype renewal = Stopped | Failed gerr | Renewed

text \<open>One turn of the loop of \<open>spiffeRenewer\<close>; no turn of it is an error of the process.\<close>

definition renew_once :: "env \<Rightarrow> vault_client \<Rightarrow> world \<Rightarrow> renewal \<times> world" where
  "renew_once env c w =
     (let cfg = vcl_authCfg c;
          (ttl, w) = tokenTTL env w;
          interval = (case ttl of Inr d \<Rightarrow> if d > 0 then renew_interval d else fallbackInterval
                                | Inl _ \<Rightarrow> fallbackInterval);
          w' = w\<lparr>ticks := Suc (ticks w)\<rparr>
      in if ctx_done env (ticks w) interval then (Stopped, w')
         else case fetchSPIFFEJWT env (vc_SPIFFESocket cfg) (vc_SPIFFEAudience cfg)
                (vc_SPIFFETrustDomain cfg) w' of
           (Inl e, w'') \<Rightarrow> (Failed (''SPIFFE renewer: fetch JWT-SVID: '' @ e), w'')
         | (Inr jwt, w'') \<Rightarrow>
             (case loginJWT env (vc_JWTMountPath cfg) (vc_JWTRole cfg) jwt w'' of
                (Inl e, w3) \<Rightarrow> (Failed (''SPIFFE renewer: re-auth to Vault: '' @ e), w3)
              | (Inr _, w3) \<Rightarrow> (Renewed, w3)))"

text \<open>
  The loop runs until the process stops or a renewal fails, so it may run forever: it is
  a partial function.  The result is the argument \<open>onError\<close> was called with, if it was.
\<close>

partial_function (option) spiffeRenewer ::
  "env \<Rightarrow> vault_client \<Rightarrow> world \<Rightarrow> (gerr option \<times> world) option"
where
  "spiffeRenewer env c w =
     (case renew_once env c w of
        (Stopped, w') \<Rightarrow> Some (None, w')
      | (Failed e, w') \<Rightarrow> Some (Some e, w')
      | (Renewed, w') \<Rightarrow> spiffeRenewer env c w')"

definition StartRenewer :: "env \<Rightarrow> vault_client \<Rightarrow> world \<Rightarrow> (gerr option \<times> world) option" where
  "StartRenewer env c w =
     (if vc_SPIFFESocket (vcl_authCfg c) = [] then Some (None, w) else spiffeRenewer env c w)"

section \<open>What the client does to the token\<close>

lemma vault_do_token [simp]: "vault_token (snd (vault_do env op w)) = vault_token w"
  by (simp add: vault_do_def)

lemma take_auth_eq:
  "take_auth r e w = (case Option.bind r secret_auth of
     None \<Rightarrow> (Inl e, w) | Some t \<Rightarrow> (Inr (), w\<lparr>vault_token := t\<rparr>))"
  by (simp add: take_auth_def of_option_def SetToken_def split: option.split)

definition login_reply :: "gerr + secret option \<Rightarrow> string option" where
  "login_reply r = (case r of Inl _ \<Rightarrow> None | Inr s \<Rightarrow> Option.bind s secret_auth)"

text \<open>A login changes the token exactly when the reply carries one.\<close>

lemma login_eq:
  fixes op e1 e2
  defines "m env \<equiv> attempt (vault_do env op) e1 (\<lambda>secret. take_auth secret e2)"
  shows "case login_reply (vault env (trace w) (vault_token w) op) of
      None \<Rightarrow> (\<exists>e. fst (m env w) = Inl e) \<and> vault_token (snd (m env w)) = vault_token w
    | Some t \<Rightarrow> fst (m env w) = Inr () \<and> vault_token (snd (m env w)) = t"
  by (auto simp: m_def attempt_def vault_do_def login_reply_def take_auth_eq split: sum.split option.split)

lemma login_failed_gen:
  "fst (attempt (vault_do env op) e1 (\<lambda>s. take_auth s e2) w) = Inl e \<Longrightarrow>
   vault_token (snd (attempt (vault_do env op) e1 (\<lambda>s. take_auth s e2) w)) = vault_token w"
  by (auto simp: attempt_def vault_do_def take_auth_eq split: sum.splits option.splits)

lemma login_failed:
  "fst (loginJWT env mp role jwt w) = Inl e \<Longrightarrow> vault_token (snd (loginJWT env mp role jwt w)) = vault_token w"
  unfolding loginJWT_def by (rule login_failed_gen)

lemma approle_failed:
  "fst (approle_login env cfg w) = Inl e \<Longrightarrow> vault_token (snd (approle_login env cfg w)) = vault_token w"
  unfolding approle_login_def by (rule login_failed_gen)

lemma fetch_token_unchanged: "vault_token (snd (fetchSPIFFEJWT env a b c w)) = vault_token w"
  by (simp add: fetchSPIFFEJWT_def check_def attempt_def spire_def split: sum.split option.split)

lemma emits_spire [trace_mono]: "emits P (spire f)"
  by (simp add: emits_def spire_def)

lemma emits_fetchSPIFFEJWT [trace_mono]: "emits P (fetchSPIFFEJWT env a b c)"
  unfolding fetchSPIFFEJWT_def by (intro trace_mono)

lemma fetch_pinned:
  "fetchSPIFFEJWT env a aud td w = (Inr jwt, w') \<Longrightarrow>
   aud \<noteq> [] \<and> (\<exists>t svid. spire_fetch env t a aud = Inr svid \<and> svid_token svid = jwt
     \<and> (td \<noteq> [] \<longrightarrow> svid_trust_domain svid = td))"
  by (auto simp: fetchSPIFFEJWT_def act_eq_Inr spire_def)

lemma authenticate_failed:
  assumes "fst (authenticate env cfg w) = Inl e"
  shows "vault_token (snd (authenticate env cfg w)) = vault_token w"
proof (cases "vc_Token cfg = [] \<and> vc_SPIFFESocket cfg \<noteq> []
    \<and> validateSPIFFESocket env (vc_SPIFFESocket cfg) = None")
  case True
  let ?f = "fetchSPIFFEJWT env (vc_SPIFFESocket cfg) (vc_SPIFFEAudience cfg) (vc_SPIFFETrustDomain cfg)"
  obtain r w1 where f: "?f w = (r, w1)" by fastforce
  then have w1: "vault_token w1 = vault_token w"
    using fetch_token_unchanged [of env _ _ _ w] by (metis snd_conv)
  show ?thesis
  proof (cases r)
    case (Inr jwt)
    with assms True f w1 show ?thesis by (auto simp: authenticate_def dest: login_failed)
  qed (use True f w1 in \<open>simp add: authenticate_def\<close>)
next
  case False
  with assms show ?thesis
    by (auto simp: authenticate_def SetToken_def dest: login_failed approle_failed
      split: if_splits option.splits)
qed

section \<open>When the renewer renews\<close>

lemma bit_length_bound: "0 < n \<Longrightarrow> 2 ^ (bit_length n - 1) \<le> n \<and> n < 2 ^ bit_length n"
proof (induction n rule: bit_length.induct)
  case (1 n)
  show ?case
  proof (cases "n div 2 = 0")
    case True
    with 1 have "n = 1" by auto
    then show ?thesis by (simp add: bit_length.simps)
  next
    case False
    then have IH: "2 ^ (bit_length (n div 2) - 1) \<le> n div 2" "n div 2 < 2 ^ bit_length (n div 2)"
      using 1 by auto
    have pos: "bit_length (n div 2) \<noteq> 0" using False by (simp add: bit_length.simps)
    have len: "bit_length n = Suc (bit_length (n div 2))" using 1 by (subst bit_length.simps) simp
    have "(2::nat) ^ bit_length (n div 2) = 2 * 2 ^ (bit_length (n div 2) - 1)"
      using pos by (simp flip: power_Suc)
    moreover have "n = 2 * (n div 2) + n mod 2" "n mod 2 < 2" by simp_all
    ultimately show ?thesis using IH len by (simp only: power_Suc diff_Suc_1) linarith
  qed
qed

text \<open>Rounding to 53 bits is off by at most one part in \<open>2 ^ 53\<close>.\<close>

lemma round53_close: "round53 n * 2 ^ 53 \<le> n * (2 ^ 53 + 1)"
proof (cases "bit_length n - 53 = 0")
  case False
  define e where "e = bit_length n - 53"
  have e: "e \<noteq> 0" "bit_length n = e + 53" using False by (simp_all add: e_def)
  then have "n \<noteq> 0" by (metis add_is_0 bit_length.simps zero_neq_numeral)
  then have big: "2 ^ (e + 52) \<le> n" using bit_length_bound [of n] e by (simp add: add.commute)
  have n: "n = n div 2 ^ e * 2 ^ e + n mod 2 ^ e" by (rule div_mult_mod_eq [symmetric])
  let ?q = "n div 2 ^ e" and ?r = "n mod 2 ^ e"
  have "2 * round53 n \<le> 2 * n + 2 ^ e"
  proof (cases "2 * ?r > 2 ^ e \<or> (2 * ?r = 2 ^ e \<and> odd ?q)")
    case True
    then have "round53 n = ?q * 2 ^ e + 2 ^ e" "2 ^ e \<le> 2 * ?r"
      using e by (auto simp: round53_def Let_def)
    with n show ?thesis by linarith
  next
    case False
    then have "round53 n = ?q * 2 ^ e" using e by (auto simp: round53_def Let_def)
    with n show ?thesis by linarith
  qed
  then have "2 * round53 n * 2 ^ 52 \<le> 2 * n * 2 ^ 52 + 2 ^ e * 2 ^ 52"
    by (metis add_mult_distrib mult_le_mono1)
  with big show ?thesis by (simp add: power_add)
qed (simp add: round53_def)

lemma renew_interval_bound:
  assumes "0 < ttl"
  shows "0 \<le> renew_interval ttl \<and> renew_interval ttl < ttl"
proof
  show "0 \<le> renew_interval ttl" by (simp add: renew_interval_def)
  define n where "n = nat ttl"
  define f where "f = round53 n"
  define a where "a = round53 (f * 6305039478318694)"
  have n: "0 < n" "ttl = int n" using assms by (simp_all add: n_def)
  have "f * 2 ^ 53 \<le> n * (2 ^ 53 + 1)" unfolding f_def by (rule round53_close)
  moreover have "a * 2 ^ 53 \<le> f * 6305039478318694 * (2 ^ 53 + 1)" unfolding a_def by (rule round53_close)
  ultimately have "a < n * 2 ^ 53" using n(1) by simp
  then have "a div 2 ^ 53 < n" by (simp add: less_mult_imp_div_less)
  then show "renew_interval ttl < ttl"
    by (simp add: renew_interval_def n flip: f_def a_def)
qed

section \<open>When the renewer returns\<close>

fun renew_turns :: "env \<Rightarrow> vault_client \<Rightarrow> nat \<Rightarrow> world \<Rightarrow> world option" where
  "renew_turns env c 0 w = Some w"
| "renew_turns env c (Suc n) w =
     (case renew_once env c w of (Renewed, w') \<Rightarrow> renew_turns env c n w' | _ \<Rightarrow> None)"

lemma spiffeRenewer_Renewed:
  "renew_once env c w = (Renewed, w') \<Longrightarrow> spiffeRenewer env c w = spiffeRenewer env c w'"
  by (subst spiffeRenewer.simps) simp

lemma renewer_after_turns:
  "renew_turns env c n w = Some w1 \<Longrightarrow> spiffeRenewer env c w = spiffeRenewer env c w1"
proof (induction n arbitrary: w)
  case (Suc n)
  then obtain w' where "renew_once env c w = (Renewed, w')" "renew_turns env c n w' = Some w1"
    by (auto split: prod.splits renewal.splits)
  with Suc.IH show ?case by (simp add: spiffeRenewer_Renewed)
qed simp

definition ends_with :: "env \<Rightarrow> vault_client \<Rightarrow> world \<Rightarrow> gerr option \<times> world \<Rightarrow> bool" where
  "ends_with env c w y \<longleftrightarrow> (\<exists>n w1. renew_turns env c n w = Some w1 \<and>
     renew_once env c w1 = (case fst y of None \<Rightarrow> Stopped | Some e \<Rightarrow> Failed e, snd y))"

lemma renewer_turns_if_returns:
  assumes "spiffeRenewer env c w = Some y"
  shows "ends_with env c w y"
proof (rule spiffeRenewer.raw_induct [where P = ends_with, OF _ assms])
  fix ren env c w y
  assume IH: "\<And>env c w y. ren env c w = Some y \<Longrightarrow> ends_with env c w y"
    and step: "(case renew_once env c w of (Stopped, w') \<Rightarrow> Some (None, w')
      | (Failed e, w') \<Rightarrow> Some (Some e, w') | (Renewed, w') \<Rightarrow> ren env c w') = Some y"
  obtain t w' where t: "renew_once env c w = (t, w')" by fastforce
  show "ends_with env c w y"
  proof (cases t)
    case Renewed
    with t step have "ends_with env c w' y" by (intro IH) simp
    then obtain n w1 where "renew_turns env c n w' = Some w1"
      "renew_once env c w1 = (case fst y of None \<Rightarrow> Stopped | Some e \<Rightarrow> Failed e, snd y)"
      by (auto simp: ends_with_def)
    with t Renewed show ?thesis
      unfolding ends_with_def by (intro exI [of _ "Suc n"] exI [of _ w1]) simp
  qed (use t step in \<open>auto simp: ends_with_def intro!: exI [of _ 0]\<close>)
qed

lemma renewer_returns_if_ends:
  assumes "ends_with env c w y"
  shows "spiffeRenewer env c w = Some y"
proof -
  obtain n w1 where n: "renew_turns env c n w = Some w1"
    and e: "renew_once env c w1 = (case fst y of None \<Rightarrow> Stopped | Some e \<Rightarrow> Failed e, snd y)"
    using assms by (auto simp: ends_with_def)
  have "spiffeRenewer env c w1 = Some y"
    using e by (subst spiffeRenewer.simps) (cases y, auto split: option.splits)
  then show ?thesis by (simp add: renewer_after_turns [OF n])
qed

section \<open>Properties\<close>

lemma login_ok:
  assumes "attempt (vault_do env op) e1 (\<lambda>s. take_auth s e2) w = (Inr u, w')"
  shows "trace w' = trace w @ [EVault (vault_token w) op]
    \<and> login_reply (vault env (trace w) (vault_token w) op) = Some (vault_token w')"
  using assms by (auto simp: attempt_eq_Inr vault_do_def take_auth_eq login_reply_def split: option.splits)

lemmas loginJWT_ok = login_ok [where u = "()", folded loginJWT_def]

lemma fetch_trace: "fetchSPIFFEJWT env a aud td w = (r, w') \<Longrightarrow> trace w' = trace w \<and> vault_token w' = vault_token w"
  by (auto simp: fetchSPIFFEJWT_def check_def attempt_def spire_def split: sum.splits option.splits if_splits)

lemma authenticate_ok:
  assumes "authenticate env cfg w = (Inr u, w')" "vc_Token cfg = []"
  shows "\<exists>op. trace w' = trace w @ [EVault (vault_token w) op]
    \<and> login_reply (vault env (trace w) (vault_token w) op) = Some (vault_token w')"
proof (cases "vc_SPIFFESocket cfg = []")
  case True
  with assms show ?thesis
    by (auto simp: authenticate_def loginJWT_def approle_login_def dest!: login_ok split: if_splits)
next
  case False
  with assms obtain jwt w1 where f: "fetchSPIFFEJWT env (vc_SPIFFESocket cfg) (vc_SPIFFEAudience cfg)
      (vc_SPIFFETrustDomain cfg) w = (Inr jwt, w1)"
    and l: "loginJWT env (vc_JWTMountPath cfg) (vc_JWTRole cfg) jwt w1 = (Inr u, w')"
    by (auto simp: authenticate_def attempt_eq_Inr split: option.splits)
  from l fetch_trace [OF f] show ?thesis
    by (auto simp: loginJWT_def dest!: login_ok)
qed

text \<open>
  C33. Authentication fails without touching the client's token, or leaves it holding exactly
  the token that was configured, or exactly the one Vault returned in the \<open>Auth\<close> block of
  the single login request that was made; a configured token is used without any request.
\<close>

theorem authenticate_token:
  "case authenticate env cfg w of
     (Inl _, w') \<Rightarrow> vault_token w' = vault_token w
   | (Inr _, w') \<Rightarrow>
       if vc_Token cfg \<noteq> [] then vault_token w' = vc_Token cfg \<and> trace w' = trace w
       else (\<exists>op. trace w' = trace w @ [EVault (vault_token w) op]
         \<and> login_reply (vault env (trace w) (vault_token w) op) = Some (vault_token w'))"
proof -
  obtain r w' where a: "authenticate env cfg w = (r, w')" by fastforce
  show ?thesis
  proof (cases r)
    case (Inl e)
    with a show ?thesis using authenticate_failed [of env cfg w e] by simp
  next
    case (Inr u)
    with a have "authenticate env cfg w = (Inr u, w')" by simp
    note ok = authenticate_ok [OF this]
    show ?thesis
    proof (cases "vc_Token cfg = []")
      case True
      with ok a Inr show ?thesis by simp
    next
      case False
      with a Inr show ?thesis by (auto simp: authenticate_def SetToken_def)
    qed
  qed
qed

text \<open>
  C34. With a trust domain configured, a SPIFFE login that succeeds has sent Vault one request,
  with the token of an SVID of exactly that trust domain, fetched for the configured
  audience, which was not empty.
\<close>

theorem spiffe_login_pinned:
  assumes "authenticate env cfg w = (Inr u, w')"
    and "vc_Token cfg = []" "vc_SPIFFESocket cfg \<noteq> []" "vc_SPIFFETrustDomain cfg \<noteq> []"
  shows "\<exists>t svid kvs. spire_fetch env t (vc_SPIFFESocket cfg) (vc_SPIFFEAudience cfg) = Inr svid
    \<and> svid_trust_domain svid = vc_SPIFFETrustDomain cfg \<and> vc_SPIFFEAudience cfg \<noteq> []
    \<and> trace w' = trace w @ [EVault (vault_token w)
        (VWrite (vc_JWTMountPath cfg) ((''jwt'', GStr (svid_token svid)) # kvs))]"
proof -
  obtain jwt w1 where f: "fetchSPIFFEJWT env (vc_SPIFFESocket cfg) (vc_SPIFFEAudience cfg)
      (vc_SPIFFETrustDomain cfg) w = (Inr jwt, w1)"
    and l: "loginJWT env (vc_JWTMountPath cfg) (vc_JWTRole cfg) jwt w1 = (Inr u, w')"
    using assms by (auto simp: authenticate_def attempt_eq_Inr split: option.splits)
  from l have "trace w' = trace w1 @ [EVault (vault_token w1) (VWrite (vc_JWTMountPath cfg)
      ((''jwt'', GStr jwt) # (if vc_JWTRole cfg \<noteq> [] then [(''role'', GStr (vc_JWTRole cfg))] else [])))]"
    unfolding loginJWT_def using login_ok by blast
  with fetch_trace [OF f] fetch_pinned [OF f] assms(4) show ?thesis by fastforce
qed

definition spiffe_config :: vault_config where
  "spiffe_config = \<lparr>vc_Address = ''http://127.0.0.1:8200'', vc_Token = [], vc_JWTMountPath = ''auth/jwt/login'',
     vc_JWTRole = ''broker'', vc_JWTToken = [], vc_SPIFFESocket = ''unix:///run/spire.sock'',
     vc_SPIFFEAudience = ''vault'', vc_SPIFFETrustDomain = ''example.org'', vc_RoleID = [],
     vc_SecretID = [], vc_CACertPath = []\<rparr>"

definition login_env :: env where
  "login_env = calm_env\<lparr>vault := (\<lambda>_ _ _. Inr (Some \<lparr>secret_data = None, secret_auth = Some ''s.1''\<rparr>))\<rparr>"

theorem spiffe_login_pinned_witness:
  "\<exists>t svid kvs w'. authenticate login_env spiffe_config fresh_world = (Inr (), w')
    \<and> spire_fetch login_env t (vc_SPIFFESocket spiffe_config) (vc_SPIFFEAudience spiffe_config) = Inr svid
    \<and> svid_trust_domain svid = vc_SPIFFETrustDomain spiffe_config \<and> vc_SPIFFEAudience spiffe_config \<noteq> []
    \<and> trace w' = trace fresh_world @ [EVault (vault_token fresh_world)
        (VWrite (vc_JWTMountPath spiffe_config) ((''jwt'', GStr (svid_token svid)) # kvs))]"
proof -
  have "\<exists>w'. authenticate login_env spiffe_config fresh_world = (Inr (), w')"
    by (simp add: authenticate_def spiffe_config_def validateSPIFFESocket_def maxLen_def HasPrefix_def
        TrimPrefix_def fetchSPIFFEJWT_def loginJWT_def attempt_def spire_def login_env_def vault_do_def
        take_auth_eq)
  then obtain w' where w': "authenticate login_env spiffe_config fresh_world = (Inr (), w')" by blast
  from spiffe_login_pinned [OF w'] w' show ?thesis by (simp add: spiffe_config_def)
qed


lemma round53_close_below: "n * (2 ^ 53 - 1) \<le> round53 n * 2 ^ 53"
proof (cases "bit_length n - 53 = 0")
  case False
  define e where "e = bit_length n - 53"
  have e: "e \<noteq> 0" "bit_length n = e + 53" using False by (simp_all add: e_def)
  then have "n \<noteq> 0" by (metis add_is_0 bit_length.simps zero_neq_numeral)
  then have big: "2 ^ (e + 52) \<le> n" using bit_length_bound [of n] e by (simp add: add.commute)
  have n: "n = n div 2 ^ e * 2 ^ e + n mod 2 ^ e" by (rule div_mult_mod_eq [symmetric])
  let ?q = "n div 2 ^ e" and ?r = "n mod 2 ^ e"
  have "2 * n \<le> 2 * round53 n + 2 ^ e"
  proof (cases "2 * ?r > 2 ^ e \<or> (2 * ?r = 2 ^ e \<and> odd ?q)")
    case True
    then have "round53 n = ?q * 2 ^ e + 2 ^ e" using e by (auto simp: round53_def Let_def)
    moreover have "?r < 2 ^ e" by simp
    ultimately show ?thesis using n by linarith
  next
    case False
    then have "round53 n = ?q * 2 ^ e" "2 * ?r \<le> 2 ^ e" using e by (auto simp: round53_def Let_def)
    with n show ?thesis by linarith
  qed
  then have "2 * n * 2 ^ 52 \<le> 2 * round53 n * 2 ^ 52 + 2 ^ e * 2 ^ 52"
    by (metis add_mult_distrib mult_le_mono1)
  moreover have "2 ^ e * 2 ^ 52 \<le> n" using big by (simp add: power_add)
  ultimately show ?thesis by (simp add: diff_mult_distrib2)
qed (simp add: round53_def)

text \<open>
  C36. The renewer waits for a time within the token's remaining life: at least half of it
  (rounded down), and strictly less than all of it, whatever the rounding of the
  floating-point product does.
\<close>

theorem renew_interval_within_ttl:
  assumes "0 < ttl"
  shows "ttl div 2 \<le> renew_interval ttl \<and> renew_interval ttl < ttl"
proof
  show "renew_interval ttl < ttl" using renew_interval_bound [OF assms] by simp
  define n where "n = nat ttl"
  define f where "f = round53 n"
  define a where "a = round53 (f * 6305039478318694)"
  have n: "ttl = int n" using assms by (simp add: n_def)
  have "n * (2 ^ 53 - 1) \<le> f * 2 ^ 53" unfolding f_def by (rule round53_close_below)
  moreover have "f * 6305039478318694 * (2 ^ 53 - 1) \<le> a * 2 ^ 53"
    unfolding a_def by (rule round53_close_below)
  ultimately have "n div 2 * 2 ^ 53 \<le> a" by simp
  then have "n div 2 \<le> a div 2 ^ 53" by (simp add: less_eq_div_iff_mult_less_eq)
  then show "ttl div 2 \<le> renew_interval ttl"
    by (simp add: renew_interval_def n zdiv_int [of n 2, simplified, symmetric] flip: f_def a_def)
qed

theorem renew_interval_within_ttl_witness:
  "(3600 * Second) div 2 \<le> renew_interval (3600 * Second) \<and> renew_interval (3600 * Second) < 3600 * Second"
  by (rule renew_interval_within_ttl) (simp add: Second_def)


section \<open>Transit round trip\<close>

text \<open>Vault's documented Transit behaviour: it decrypts what it encrypted to the same text.\<close>

definition one_field :: "string \<Rightarrow> string \<Rightarrow> secret option" where
  "one_field k v = Some \<lparr>secret_data = Some [(k, GStr v)], secret_auth = None\<rparr>"

definition transit_ok :: "env \<Rightarrow> string \<Rightarrow> (string \<Rightarrow> string) \<Rightarrow> bool" where
  "transit_ok env key enc \<longleftrightarrow> (\<forall>pt. enc pt \<noteq> []) \<and> (\<forall>tr tok pt.
     vault env tr tok (VWrite (''transit/encrypt/'' @ key) [(''plaintext'', GStr pt)])
       = Inr (one_field ''ciphertext'' (enc pt)) \<and>
     vault env tr tok (VWrite (''transit/decrypt/'' @ key) [(''ciphertext'', GStr (enc pt))])
       = Inr (one_field ''plaintext'' pt))"

lemma transit_okD:
  assumes "transit_ok env key enc"
  shows "enc pt \<noteq> []"
    "vault env tr tok (VWrite (''transit/encrypt/'' @ key) [(''plaintext'', GStr pt)])
       = Inr (one_field ''ciphertext'' (enc pt))"
    "vault env tr tok (VWrite (''transit/decrypt/'' @ key) [(''ciphertext'', GStr (enc pt))])
       = Inr (one_field ''plaintext'' pt)"
  using assms by (auto simp only: transit_ok_def)

lemma data_field_one [simp]: "one_field k v = Some s \<Longrightarrow> as_string (data_field s k) = v"
  by (auto simp: one_field_def data_field_def as_string_def)

lemma TransitEncrypt_ok:
  assumes "transit_ok env key enc"
  shows "TransitEncrypt env key p w = (Inr (Done (enc (EncodeToString p))),
    w\<lparr>trace := trace w @ [EVault (vault_token w)
      (VWrite (''transit/encrypt/'' @ key) [(''plaintext'', GStr (EncodeToString p))])]\<rparr>)"
proof -
  note v = transit_okD [OF assms]
  have "vault_do env (VWrite (''transit/encrypt/'' @ key) [(''plaintext'', GStr (EncodeToString p))]) w
    = (Inr (one_field ''ciphertext'' (enc (EncodeToString p))),
       w\<lparr>trace := trace w @ [EVault (vault_token w)
         (VWrite (''transit/encrypt/'' @ key) [(''plaintext'', GStr (EncodeToString p))])]\<rparr>)"
    by (simp only: vault_do_def v)
  then show ?thesis
    unfolding TransitEncrypt_def using v(1)
    by (cases "one_field ''ciphertext'' (enc (EncodeToString p))") (auto simp: one_field_def data_field_def as_string_def)
qed


definition transit_vault :: "string \<Rightarrow> env" where
  "transit_vault key = calm_env\<lparr>vault := (\<lambda>_ _ op. case op of
     VWrite p [(k, GStr v)] \<Rightarrow>
       if p = ''transit/encrypt/'' @ key then Inr (one_field ''ciphertext'' (''vault:v1:'' @ v))
       else if p = ''transit/decrypt/'' @ key then Inr (one_field ''plaintext'' (drop 9 v))
       else Inr None
   | _ \<Rightarrow> Inr None)\<rparr>"

lemma transit_vault_ok: "transit_ok (transit_vault key) key (\<lambda>v. ''vault:v1:'' @ v)"
  by (simp add: transit_ok_def transit_vault_def)


end
