(* ===== verification/Server.thy ===== *)
theory Server
  imports Adapter Vault_Client
begin

text \<open>
  The HTTP server (server/server.go, server/handlers.go): construction, the middleware
  chain \<open>requestLogger(concurrencyLimiter(certAuthz(mux)))\<close>, routing, the four handlers
  and graceful shutdown.  A handler maps a request and a world to a response and a world,
  or panics; \<open>net/http\<close> then drops the connection.  The locales \<open>served_registry\<close> and
  \<open>drained_registry\<close> hold what the handlers and the shutdown do over adapters that keep
  their contract.
\<close>

section \<open>Requests and responses\<close>

record cert =
  CommonName :: string
  SerialNumber :: int

text \<open>
  \<open>r_EscapedPath\<close> is \<open>r.URL.EscapedPath()\<close>, of which \<open>r.URL.Path\<close> is the decoded form;
  \<open>r_TLS\<close> holds the peer certificates of the handshake, if there was one.
\<close>

record request =
  r_Method :: string
  r_EscapedPath :: string
  r_RawQuery :: string
  r_Body :: string
  r_RemoteAddr :: string
  r_TLS :: "cert list option"

definition URL_Path :: "request \<Rightarrow> string" where
  "URL_Path r = (case PathUnescape (r_EscapedPath r) of Some p \<Rightarrow> p | None \<Rightarrow> [])"

record response =
  w_Status :: nat
  w_Headers :: "(string \<times> string) list"
  w_Body :: string

type_synonym handler = "request \<Rightarrow> world \<Rightarrow> response outcome \<times> world"

text \<open>\<open>url.ParseQuery\<close>, with its errors dropped as \<open>URL.Query\<close> does; \<open>Get\<close> takes the first value.\<close>

fun QueryUnescape :: "string \<Rightarrow> string option" where
  "QueryUnescape [] = Some []"
| "QueryUnescape (c # s) =
     (if c = CHR ''%'' then
        (case s of
           h # l # t \<Rightarrow>
             (case (hex_val h, hex_val l) of
                (Some a, Some b) \<Rightarrow> map_option ((#) (char_of (16 * a + b))) (QueryUnescape t)
              | _ \<Rightarrow> None)
         | _ \<Rightarrow> None)
      else map_option ((#) (if c = CHR ''+'' then CHR '' '' else c)) (QueryUnescape s))"

definition query_pair :: "string \<Rightarrow> (string \<times> string) option" where
  "query_pair part =
     (if part = [] \<or> CHR '';'' \<in> set part then None
      else let k = takeWhile (\<lambda>c. c \<noteq> CHR ''='') part;
               v = drop (length k + 1) part
           in case (QueryUnescape k, QueryUnescape v) of
                (Some k', Some v') \<Rightarrow> Some (k', v') | _ \<Rightarrow> None)"

definition ParseQuery :: "string \<Rightarrow> (string \<times> string) list" where
  "ParseQuery q = List.map_filter query_pair (Split q (CHR ''&''))"

definition Query_Get :: "request \<Rightarrow> string \<Rightarrow> string" where
  "Query_Get r k = (case map_of (ParseQuery (r_RawQuery r)) k of Some v \<Rightarrow> v | None \<Rightarrow> [])"

section \<open>Writing JSON\<close>

definition json_header :: "(string \<times> string) list" where
  "json_header = [(''Content-Type'', ''application/json'')]"

text \<open>
  \<open>jsonOK\<close>: the value is \<open>None\<close> when it does not marshal (a time beyond year 9999); the
  status is then 200 all the same, with an empty body.
\<close>

definition year_error :: string where
  "year_error = ''json: error calling MarshalJSON for type time.Time: ''
     @ ''Time.MarshalJSON: year outside of range [0,9999]''"

definition jsonOK :: "json option \<Rightarrow> world \<Rightarrow> response outcome \<times> world" where
  "jsonOK v w = (case v of
     Some j \<Rightarrow> (Done \<lparr>w_Status = 200, w_Headers = json_header, w_Body = json_print j @ [newline]\<rparr>, w)
   | None \<Rightarrow> (Done \<lparr>w_Status = 200, w_Headers = json_header, w_Body = []\<rparr>,
       log LError ''encode response'' [(''err'', AStr year_error)] w))"

definition error_response :: "nat \<Rightarrow> string \<Rightarrow> response" where
  "error_response code msg = \<lparr>w_Status = code, w_Headers = json_header,
     w_Body = json_print (JObj [(''error'', JStr msg)]) @ [newline]\<rparr>"

definition jsonError :: "nat \<Rightarrow> string \<Rightarrow> world \<Rightarrow> response outcome \<times> world" where
  "jsonError code msg w = (Done (error_response code msg), w)"

definition time_json :: "int \<Rightarrow> json option" where
  "time_json t = (if year_ok t then Some (JStr (fmt_rfc3339nano t)) else None)"

definition RotateResponse_json :: "RotateResponse \<Rightarrow> json option" where
  "RotateResponse_json r = map_option (\<lambda>t. JObj
     [(''provider_id'', JStr (rs_ProviderID r)), (''encrypted_value'', JStr (rs_EncryptedValue r)),
      (''rotated_at'', t)]) (time_json (rs_RotatedAt r))"

definition CredentialStatus_json :: "CredentialStatus \<Rightarrow> json option" where
  "CredentialStatus_json s = map_option (\<lambda>t. JObj
     [(''provider_id'', JStr (cs_ProviderID s)), (''credential_id'', JStr (cs_CredentialID s)),
      (''active'', JBool (cs_Active s)), (''checked_at'', t)]) (time_json (cs_CheckedAt s))"

section \<open>Handlers\<close>

record handlers =
  hd_registry :: registry
  hd_transitKeyName :: string

definition handlerTimeout :: int where
  "handlerTimeout = 25 * Second"

definition handler_ctx :: ctx where
  "handler_ctx = WithTimeout RequestCtx handlerTimeout"

definition decode_rotateRequest :: "string \<Rightarrow> (string \<times> string \<times> (string \<rightharpoonup> string)) option" where
  "decode_rotateRequest s = do {
     v \<leftarrow> Decode s;
     ms \<leftarrow> dec_struct v;
     let fs = [''provider'', ''provider_id'', ''meta''];
     p \<leftarrow> dec_field dec_str (key_for fs ''provider'') [] ms;
     i \<leftarrow> dec_field dec_str (key_for fs ''provider_id'') [] ms;
     m \<leftarrow> dec_map_field (key_for fs ''meta'') Map.empty ms;
     Some (p, i, m) }"

definition decode_revokeRequest :: "string \<Rightarrow> (string \<times> string \<times> string) option" where
  "decode_revokeRequest s = do {
     v \<leftarrow> Decode s;
     ms \<leftarrow> dec_struct v;
     let fs = [''provider'', ''provider_id'', ''credential_id''];
     p \<leftarrow> dec_field dec_str (key_for fs ''provider'') [] ms;
     i \<leftarrow> dec_field dec_str (key_for fs ''provider_id'') [] ms;
     c \<leftarrow> dec_field dec_str (key_for fs ''credential_id'') [] ms;
     Some (p, i, c) }"

text \<open>The log line of a failed call: the provider cut to 64 runes, the error to 256.\<close>

definition log_failed :: "env \<Rightarrow> string \<Rightarrow> string \<Rightarrow> gerr \<Rightarrow> world \<Rightarrow> world" where
  "log_failed env msg provider e =
     log LError msg [(''provider'', AStr (go_quote_prec (isprint env) 64 provider)),
       (''err'', AStr (go_quote_prec (isprint env) 256 e))]"

definition Handlers_Rotate :: "env \<Rightarrow> handlers \<Rightarrow> handler" where
  "Handlers_Rotate env h r w =
     (case decode_rotateRequest (r_Body r) of
        None \<Rightarrow> jsonError 400 ''invalid JSON body'' w
      | Some (provider, providerID, meta) \<Rightarrow>
          if provider = [] \<or> providerID = []
          then jsonError 400 ''provider and provider_id are required'' w
          else case Get env (hd_registry h) provider of
            Inl e \<Rightarrow> jsonError 404 e w
          | Inr a \<Rightarrow>
              (case Rotate a handler_ctx \<lparr>rq_ProviderID = providerID, rq_Meta = meta\<rparr> w of
                 (Inl e, w') \<Rightarrow>
                   jsonError 502 (''rotation failed: '' @ e)
                     (log_failed env ''adapter rotate failed'' provider e w')
               | (Inr result, w') \<Rightarrow>
                   (case TransitEncrypt env (hd_transitKeyName h) (res_Credential result) w' of
                      (Inl e, w'') \<Rightarrow>
                        jsonError 500 ''encryption failed''
                          (log_failed env ''transit encrypt failed'' provider e w'')
                    | (Inr (Panics p), w'') \<Rightarrow> (Panics p, w'')
                    | (Inr (Done ciphertext), w'') \<Rightarrow>
                        jsonOK (RotateResponse_json
                          \<lparr>rs_ProviderID = res_ProviderID result, rs_EncryptedValue = ciphertext,
                           rs_RotatedAt = res_RotatedAt result\<rparr>) w'')))"

definition Handlers_Revoke :: "env \<Rightarrow> handlers \<Rightarrow> handler" where
  "Handlers_Revoke env h r w =
     (case decode_revokeRequest (r_Body r) of
        None \<Rightarrow> jsonError 400 ''invalid JSON body'' w
      | Some (provider, providerID, credentialID) \<Rightarrow>
          if provider = [] \<or> providerID = []
          then jsonError 400 ''provider and provider_id are required'' w
          else case Get env (hd_registry h) provider of
            Inl e \<Rightarrow> jsonError 404 e w
          | Inr a \<Rightarrow>
              (case Revoke a handler_ctx \<lparr>rv_ProviderID = providerID, rv_CredentialID = credentialID\<rparr> w of
                 (Inl e, w') \<Rightarrow>
                   jsonError 502 (''revocation failed: '' @ e)
                     (log_failed env ''adapter revoke failed'' provider e w')
               | (Inr _, w') \<Rightarrow> jsonOK (Some (marshal_map [(''status'', JStr ''revoked'')])) w'))"

definition Handlers_Status :: "env \<Rightarrow> handlers \<Rightarrow> handler" where
  "Handlers_Status env h r w =
     (let provider = Query_Get r ''provider''; credentialID = Query_Get r ''credential_id''
      in if provider = [] \<or> credentialID = []
         then jsonError 400 ''provider and credential_id query params are required'' w
         else case Get env (hd_registry h) provider of
           Inl e \<Rightarrow> jsonError 404 e w
         | Inr a \<Rightarrow>
             (case Status a handler_ctx credentialID w of
                (Inl e, w') \<Rightarrow>
                  jsonError 502 (''status check failed: '' @ e)
                    (log_failed env ''adapter status failed'' provider e w')
              | (Inr st, w') \<Rightarrow> jsonOK (CredentialStatus_json st) w'))"

definition Handlers_Health :: "env \<Rightarrow> handler" where
  "Handlers_Health env r w =
     jsonOK (Some (marshal_map [(''status'', JStr ''ok''),
       (''time'', JStr (fmt_rfc3339 (clock env (ticks w))))])) (w\<lparr>ticks := Suc (ticks w)\<rparr>)"

section \<open>Routing\<close>

text \<open>
  \<open>http.ServeMux\<close> on the four patterns: a path is cleaned first (and redirected when that
  changes it), its segments are unescaped one by one, and a \<open>GET\<close> pattern also serves
  \<open>HEAD\<close>.  The body of a redirect is left out.
\<close>

fun clean_segs :: "string list \<Rightarrow> string list \<Rightarrow> string list" where
  "clean_segs acc [] = rev acc"
| "clean_segs acc (s # ss) =
     (if s = [] \<or> s = ''.'' then clean_segs acc ss
      else if s = ''..'' then clean_segs (drop 1 acc) ss
      else clean_segs (s # acc) ss)"

definition cleanPath :: "string \<Rightarrow> string" where
  "cleanPath p =
     (let p' = (if p = [] \<or> hd p \<noteq> CHR ''/'' then CHR ''/'' # p else p);
          body = concat (map (\<lambda>s. CHR ''/'' # s) (clean_segs [] (Split p' (CHR ''/''))));
          np = (if body = [] then ''/'' else body)
      in if last p' = CHR ''/'' \<and> np \<noteq> ''/'' then np @ ''/'' else np)"

definition segments :: "string \<Rightarrow> string list option" where
  "segments p = those (map PathUnescape (Split p (CHR ''/'')))"

datatype endpoint = EP_Rotate | EP_Revoke | EP_Status | EP_Health

fun ep_method :: "endpoint \<Rightarrow> string" where
  "ep_method EP_Rotate = ''POST''"
| "ep_method EP_Revoke = ''POST''"
| "ep_method EP_Status = ''GET''"
| "ep_method EP_Health = ''GET''"

fun ep_path :: "endpoint \<Rightarrow> string" where
  "ep_path EP_Rotate = ''/v1/credentials/rotate''"
| "ep_path EP_Revoke = ''/v1/credentials/revoke''"
| "ep_path EP_Status = ''/v1/credentials/status''"
| "ep_path EP_Health = ''/healthz''"

definition endpoints :: "endpoint list" where
  "endpoints = [EP_Rotate, EP_Revoke, EP_Status, EP_Health]"

definition serves_method :: "endpoint \<Rightarrow> string \<Rightarrow> bool" where
  "serves_method ep m \<longleftrightarrow> m = ep_method ep \<or> (ep_method ep = ''GET'' \<and> m = ''HEAD'')"

definition at_path :: "request \<Rightarrow> endpoint \<Rightarrow> bool" where
  "at_path r ep \<longleftrightarrow> segments (r_EscapedPath r) = Some (Split (ep_path ep) (CHR ''/''))"

fun allow_header :: "string \<Rightarrow> string" where
  "allow_header m = (if m = ''GET'' then ''GET, HEAD'' else m)"

datatype route = Serve endpoint | Redirect string | MethodNotAllowed string | NotFound

definition route_of :: "request \<Rightarrow> route" where
  "route_of r =
     (if r_Method r \<noteq> ''CONNECT'' \<and> cleanPath (r_EscapedPath r) \<noteq> r_EscapedPath r
      then Redirect (cleanPath (r_EscapedPath r))
      else case find (at_path r) endpoints of
        None \<Rightarrow> NotFound
      | Some ep \<Rightarrow> if serves_method ep (r_Method r) then Serve ep
                  else MethodNotAllowed (allow_header (ep_method ep)))"

definition text_headers :: "(string \<times> string) list" where
  "text_headers = [(''Content-Type'', ''text/plain; charset=utf-8''), (''X-Content-Type-Options'', ''nosniff'')]"

definition endpoint_handler :: "env \<Rightarrow> handlers \<Rightarrow> endpoint \<Rightarrow> handler" where
  "endpoint_handler env h ep =
     (case ep of EP_Rotate \<Rightarrow> Handlers_Rotate env h | EP_Revoke \<Rightarrow> Handlers_Revoke env h
       | EP_Status \<Rightarrow> Handlers_Status env h | EP_Health \<Rightarrow> Handlers_Health env)"

definition mux :: "env \<Rightarrow> handlers \<Rightarrow> handler" where
  "mux env h r w = (case route_of r of
     Serve ep \<Rightarrow> endpoint_handler env h ep r w
   | Redirect p \<Rightarrow> (Done \<lparr>w_Status = redirect_status env, w_Headers = [(''Location'', p)], w_Body = []\<rparr>, w)
   | MethodNotAllowed ms \<Rightarrow> (Done \<lparr>w_Status = 405, w_Headers = (''Allow'', ms) # text_headers,
       w_Body = ''Method Not Allowed'' @ [newline]\<rparr>, w)
   | NotFound \<Rightarrow> (Done \<lparr>w_Status = 404, w_Headers = text_headers,
       w_Body = ''404 page not found'' @ [newline]\<rparr>, w))"

section \<open>Middleware\<close>

text \<open>\<open>big.Int.Text(16)\<close>\<close>

fun nat_hex :: "nat \<Rightarrow> string" where
  "nat_hex n = (if n < 16 then [hex_lower n] else nat_hex (n div 16) @ [hex_lower (n mod 16)])"

declare nat_hex.simps [simp del]

definition int_hex :: "int \<Rightarrow> string" where
  "int_hex i = (if i < 0 then CHR ''-'' # nat_hex (nat (- i)) else nat_hex (nat i))"

definition clientCertIdentity :: "request \<Rightarrow> string \<times> string" where
  "clientCertIdentity r = (case r_TLS r of
     Some (c # _) \<Rightarrow> (CommonName c, int_hex (SerialNumber c))
   | _ \<Rightarrow> (''none'', ''none''))"

type_synonym allowlist = "(string \<times> string list) list"

definition forbidden :: response where
  "forbidden = \<lparr>w_Status = 403, w_Headers = json_header, w_Body = ''{\"error\":\"forbidden\"}''\<rparr>"

definition certAuthz :: "env \<Rightarrow> allowlist \<Rightarrow> handler \<Rightarrow> handler" where
  "certAuthz env allow next r w =
     (if allow = [] then next r w
      else case map_of allow (r_Method r @ '' '' @ URL_Path r) of
        None \<Rightarrow> next r w
      | Some allowed \<Rightarrow>
          let cn = fst (clientCertIdentity r)
          in if cn \<in> set allowed then next r w
             else (Done forbidden, log LWarn ''cert authz denied''
               [(''path'', AStr (quoted env (URL_Path r))), (''cert_cn'', AStr (quoted env cn))] w))"

definition overloaded_response :: response where
  "overloaded_response = \<lparr>w_Status = 503, w_Headers = json_header @ [(''Retry-After'', ''1'')],
     w_Body = ''{\"error\":\"server overloaded, retry after 1s\"}''\<rparr>"

text \<open>
  \<open>inFlight\<close> counts the requests inside the limiter, this one and the concurrent ones;
  the deferred decrement runs on a panic too.
\<close>

definition concurrencyLimiter :: "env \<Rightarrow> int \<Rightarrow> handler \<Rightarrow> handler" where
  "concurrencyLimiter env limit next r w =
     (let w = w\<lparr>inFlight := inFlight w + 1\<rparr>
      in if inFlight w > limit
         then (Done overloaded_response, log LWarn ''request rejected: concurrency limit reached''
             [(''limit'', AInt limit), (''path'', AStr (quoted env (URL_Path r)))]
             (w\<lparr>inFlight := inFlight w - 1\<rparr>))
         else case next r w of (out, w') \<Rightarrow> (out, w'\<lparr>inFlight := inFlight w' - 1\<rparr>))"

definition log_request :: "env \<Rightarrow> request \<Rightarrow> nat \<Rightarrow> world \<Rightarrow> world" where
  "log_request env r status =
     log LInfo ''request''
       [(''method'', AStr (r_Method r)), (''path'', AStr (quoted env (URL_Path r))),
        (''status'', AInt (int status)), (''remote'', AStr (quoted env (r_RemoteAddr r))),
        (''cert_cn'', AStr (quoted env (fst (clientCertIdentity r)))),
        (''cert_serial'', AStr (snd (clientCertIdentity r)))]"

definition requestLogger :: "env \<Rightarrow> handler \<Rightarrow> handler" where
  "requestLogger env next r w = (case next r w of
     (Done resp, w') \<Rightarrow> (Done resp, log_request env r (w_Status resp) w')
   | (Panics p, w') \<Rightarrow> (Panics p, w'))"

section \<open>Construction and shutdown\<close>

definition defaultMaxConcurrency :: int where
  "defaultMaxConcurrency = 100"

record server_config =
  sv_Addr :: string
  sv_TLSConfig :: "tls_config option"
  sv_Registry :: "registry option"
  sv_VaultClient :: "vault_client option"
  sv_TransitKeyName :: string
  sv_CertAllowlist :: allowlist
  sv_MaxConcurrentRequests :: int

record server =
  srv_Addr :: string
  srv_handler :: handler
  srv_tlsConfig :: tls_config
  srv_registry :: registry
  srv_ReadTimeout :: int
  srv_WriteTimeout :: int
  srv_IdleTimeout :: int

definition server_New :: "env \<Rightarrow> server_config \<Rightarrow> gerr + server" where
  "server_New env cfg =
     (case sv_TLSConfig cfg of None \<Rightarrow> Inl ''server: TLSConfig is required'' | Some tlsc \<Rightarrow>
     (case sv_Registry cfg of None \<Rightarrow> Inl ''server: Registry is required'' | Some reg \<Rightarrow>
     (case sv_VaultClient cfg of None \<Rightarrow> Inl ''server: VaultClient is required'' | Some _ \<Rightarrow>
      if sv_TransitKeyName cfg = [] then Inl ''server: TransitKeyName is required''
      else
        let maxConcurrent = (if sv_MaxConcurrentRequests cfg \<le> 0 then defaultMaxConcurrency
              else sv_MaxConcurrentRequests cfg);
            h = \<lparr>hd_registry = reg, hd_transitKeyName = sv_TransitKeyName cfg\<rparr>
        in Inr \<lparr>srv_Addr = sv_Addr cfg,
             srv_handler = requestLogger env (concurrencyLimiter env maxConcurrent
               (certAuthz env (sv_CertAllowlist cfg) (mux env h))),
             srv_tlsConfig = tlsc, srv_registry = reg,
             srv_ReadTimeout = 10 * Second, srv_WriteTimeout = 30 * Second,
             srv_IdleTimeout = 60 * Second\<rparr>)))"

text \<open>
  \<open>listen\<close> is the outcome of \<open>tls.Listen\<close>, with the address of the listener (none for a nil
  listener), and \<open>ended\<close> the error with which \<open>http.Serve\<close> ends; it always has one.
\<close>

definition listenerAddr :: "string option \<Rightarrow> string" where
  "listenerAddr ln = (case ln of None \<Rightarrow> ''unknown'' | Some addr \<Rightarrow> addr)"

definition ListenAndServeTLS :: "(string \<Rightarrow> gerr + string option) \<Rightarrow> gerr \<Rightarrow> server \<Rightarrow> unit act" where
  "ListenAndServeTLS listen ended s =
     (case listen (srv_Addr s) of
        Inl e \<Rightarrow> fail (''server listen: '' @ e)
      | Inr ln \<Rightarrow> then_do (log LInfo ''cred-rotation-api listening''
            [(''addr'', AStr (listenerAddr ln)), (''tls_min_version'', AStr ''TLS 1.3''),
             (''client_auth'', AStr ''RequireAndVerifyClientCert'')])
          (fail ended))"

definition shutdownTimeout :: int where
  "shutdownTimeout = 15 * Second"

text \<open>The loop of \<open>Shutdown\<close> over the names of the registry.\<close>

fun drain_all :: "env \<Rightarrow> ctx \<Rightarrow> registry \<Rightarrow> string list \<Rightarrow> world \<Rightarrow> world" where
  "drain_all env c reg [] w = w"
| "drain_all env c reg (n # ns) w =
     drain_all env c reg ns
       (case Get env reg n of
          Inl _ \<Rightarrow> w
        | Inr a \<Rightarrow>
            (case Drain a of
               None \<Rightarrow> w
             | Some drain \<Rightarrow>
                 (case drain c w of
                    (Inr _, w') \<Rightarrow> w'
                  | (Inl e, w') \<Rightarrow> log LWarn ''adapter drain timed out''
                      [(''adapter'', AStr n), (''err'', AStr e)] w')))"

definition Shutdown :: "env \<Rightarrow> (string list \<Rightarrow> string list) \<Rightarrow> server \<Rightarrow> ctx \<Rightarrow> unit act" where
  "Shutdown env order s c = (\<lambda>w.
     let c = WithTimeout c shutdownTimeout; w' = w\<lparr>ticks := Suc (ticks w)\<rparr>
     in case http_shutdown env (ticks w) of
          Some e \<Rightarrow> (Inl e, w')
        | None \<Rightarrow> (Inr (), drain_all env c (srv_registry s) (Names order (srv_registry s)) w'))"

section \<open>Routing and authorization\<close>

lemma at_path_URL: "at_path r ep \<Longrightarrow> URL_Path r = ep_path ep"
  using PathUnescape_join [of "Split (r_EscapedPath r) (CHR ''/'')" "Split (ep_path ep) (CHR ''/'')"]
  by (simp add: at_path_def segments_def URL_Path_def)

lemma route_of_Serve:
  assumes "route_of r = Serve ep"
  shows "URL_Path r = ep_path ep" "serves_method ep (r_Method r)"
proof -
  have f: "find (at_path r) endpoints = Some ep \<and> serves_method ep (r_Method r)"
    using assms by (auto simp: route_of_def split: if_splits option.splits)
  then have "at_path r ep" by (auto simp: find_Some_iff)
  then show "URL_Path r = ep_path ep" by (rule at_path_URL)
  show "serves_method ep (r_Method r)" using f by simp
qed

lemma Split_no_sep: "c \<notin> set p \<Longrightarrow> Split p c = [p]"
  by (induction p) auto

lemma Split_sep: "c \<notin> set p \<Longrightarrow> Split (p @ c # s) c = p # Split s c"
  by (induction p) auto

fun ep_segments :: "endpoint \<Rightarrow> string list" where
  "ep_segments EP_Rotate = [[], ''v1'', ''credentials'', ''rotate'']"
| "ep_segments EP_Revoke = [[], ''v1'', ''credentials'', ''revoke'']"
| "ep_segments EP_Status = [[], ''v1'', ''credentials'', ''status'']"
| "ep_segments EP_Health = [[], ''healthz'']"

lemma Split_join: "ss \<noteq> [] \<Longrightarrow> list_all (\<lambda>s. c \<notin> set s) ss \<Longrightarrow> Split (join c ss) c = ss"
proof (induction ss)
  case (Cons s ss)
  then show ?case by (cases ss) (simp_all add: Split_no_sep Split_sep)
qed simp

lemma ep_path_join: "ep_path ep = join (CHR ''/'') (ep_segments ep)"
  by (cases ep) simp_all

lemma Split_ep_path: "Split (ep_path ep) (CHR ''/'') = ep_segments ep"
  unfolding ep_path_join by (rule Split_join) (cases ep; simp)+

lemma segments_ep_path: "segments (ep_path ep) = Some (ep_segments ep)"
  unfolding segments_def Split_ep_path by (cases ep) simp_all

lemma cleanPath_ep_path: "cleanPath (ep_path ep) = ep_path ep"
proof -
  have "ep_path ep \<noteq> []" "hd (ep_path ep) = CHR ''/''" "last (ep_path ep) \<noteq> CHR ''/''" by (cases ep; simp)+
  then have "cleanPath (ep_path ep) = (let body = concat (map (\<lambda>s. CHR ''/'' # s)
      (clean_segs [] (ep_segments ep))) in if body = [] then ''/'' else body)"
    unfolding cleanPath_def Let_def by (simp add: Split_ep_path)
  then show ?thesis by (cases ep) (simp_all add: Let_def)
qed

lemma find_endpoint:
  assumes "r_EscapedPath r = ep_path ep"
  shows "find (at_path r) endpoints = Some ep"
proof -
  have "at_path r ep' \<longleftrightarrow> ep' = ep" for ep'
    unfolding at_path_def assms segments_ep_path Split_ep_path by (cases ep; cases ep') simp_all
  then have "at_path r = (\<lambda>ep'. ep' = ep)" by blast
  then show ?thesis by (cases ep) (simp_all add: endpoints_def)
qed

lemma route_canonical:
  assumes "r_EscapedPath r = ep_path ep"
  shows "route_of r = (if serves_method ep (r_Method r) then Serve ep
    else MethodNotAllowed (allow_header (ep_method ep)))"
  by (simp add: route_of_def assms cleanPath_ep_path find_endpoint [OF assms] del: allow_header.simps)

lemma certAuthz_denied:
  assumes "allow \<noteq> []" "map_of allow (r_Method r @ '' '' @ URL_Path r) = Some allowed"
    and "fst (clientCertIdentity r) \<notin> set allowed"
  shows "fst (certAuthz env allow next r w) = Done forbidden"
    and "\<exists>l. snd (certAuthz env allow next r w) = w\<lparr>logs := logs w @ [l]\<rparr>"
  using assms by (simp_all add: certAuthz_def Let_def log_def) (intro exI, rule refl)

lemma certAuthz_passes:
  assumes "map_of allow (r_Method r @ '' '' @ URL_Path r) = None"
  shows "certAuthz env allow next r w = next r w"
  using assms by (simp add: certAuthz_def)

section \<open>The limiter and the log\<close>

lemma inFlight_log [simp]: "inFlight (log l m as w) = inFlight w"
  by (simp add: log_def)

lemma limiter_rejects:
  assumes "inFlight w \<ge> limit"
  shows "fst (concurrencyLimiter env limit next r w) = Done overloaded_response"
    and "inFlight (snd (concurrencyLimiter env limit next r w)) = inFlight w"
    and "trace (snd (concurrencyLimiter env limit next r w)) = trace w"
  using assms by (simp_all add: concurrencyLimiter_def Let_def)

lemma limiter_serves:
  assumes "inFlight w < limit"
  shows "concurrencyLimiter env limit next r w =
    (let (out, w') = next r (w\<lparr>inFlight := inFlight w + 1\<rparr>) in (out, w'\<lparr>inFlight := inFlight w' - 1\<rparr>))"
  using assms by (simp add: concurrencyLimiter_def Let_def)

section \<open>What leaves the process\<close>

text \<open>
  The Transit call of a rotation is one Vault write of the base64 of the credential; the
  result is the ciphertext of the reply.
\<close>

definition transit_event :: "string \<Rightarrow> string \<Rightarrow> string \<Rightarrow> event" where
  "transit_event tok keyName plaintext =
     EVault tok (VWrite (''transit/encrypt/'' @ keyName) [(''plaintext'', GStr (EncodeToString plaintext))])"

lemma TransitEncrypt_trace:
  "trace (snd (TransitEncrypt env k p w)) = trace w @ [transit_event (vault_token w) k p]"
  by (simp add: TransitEncrypt_def attempt_def vault_do_def transit_event_def check_def Let_def
    split: sum.split option.split)

lemma TransitEncrypt_spawned: "spawned (snd (TransitEncrypt env k p w)) = spawned w"
  by (simp add: TransitEncrypt_def attempt_def vault_do_def check_def Let_def
    split: sum.split option.split)

lemma as_string_nonempty: "as_string v = s \<Longrightarrow> s \<noteq> [] \<Longrightarrow> v = Some (GStr s)"
  by (auto simp: as_string_def split: option.splits goval.splits)

lemma TransitEncrypt_Done:
  assumes "TransitEncrypt env k p w = (Inr (Done ct), w')"
  shows "ct \<noteq> [] \<and> (\<exists>s. vault env (trace w) (vault_token w)
      (VWrite (''transit/encrypt/'' @ k) [(''plaintext'', GStr (EncodeToString p))]) = Inr (Some s)
    \<and> data_field s ''ciphertext'' = Some (GStr ct))"
proof -
  obtain r w1 where v: "vault env (trace w) (vault_token w)
      (VWrite (''transit/encrypt/'' @ k) [(''plaintext'', GStr (EncodeToString p))]) = Inr r"
    and k: "(case r of None \<Rightarrow> ret (Panics nil_dereference) | Some s \<Rightarrow>
         let ct = as_string (data_field s ''ciphertext'')
         in check (ct = []) ''vault transit encrypt: missing ciphertext in response''
            (ret (Done ct))) w1 = (Inr (Done ct), w')"
    using assms unfolding TransitEncrypt_def attempt_eq_Inr by (auto simp: vault_do_def)
  show ?thesis
  proof (cases r)
    case (Some s)
    with k have "ct \<noteq> []" "as_string (data_field s ''ciphertext'') = ct"
      by (auto simp: Let_def check_eq_Inr)
    then have "data_field s ''ciphertext'' = Some (GStr ct)" by (intro as_string_nonempty)
    with v Some \<open>ct \<noteq> []\<close> show ?thesis by blast
  qed (use k in simp)
qed

lemma TransitEncrypt_panics_iff:
  "(\<exists>p'. fst (TransitEncrypt env k p w) = Inr (Panics p')) \<longleftrightarrow>
    vault env (trace w) (vault_token w)
      (VWrite (''transit/encrypt/'' @ k) [(''plaintext'', GStr (EncodeToString p))]) = Inr None"
  by (auto simp: TransitEncrypt_def attempt_def vault_do_def check_def Let_def
    split: sum.split option.split)

lemma trace_jsonOK [simp]: "trace (snd (jsonOK v w)) = trace w"
  by (simp add: jsonOK_def split: option.split)

lemma spawned_jsonOK [simp]: "spawned (snd (jsonOK v w)) = spawned w"
  by (simp add: jsonOK_def split: option.split)

lemma jsonError_simps [simp]: "snd (jsonError c m w) = w" "fst (jsonError c m w) = Done (error_response c m)"
  by (simp_all add: jsonError_def)

lemma log_failed_simps [simp]:
  "trace (log_failed env m p e w) = trace w" "spawned (log_failed env m p e w) = spawned w"
  by (simp_all add: log_failed_def)

lemma status_error_response [simp]: "w_Status (error_response c m) = c"
  by (simp add: error_response_def)

section \<open>Handlers over adapters that keep the contract\<close>

text \<open>
  The client's side of \<open>credential_adapter\<close>: every adapter of the registry keeps the
  contract, with the requests \<open>mine n\<close> and the clean-ups \<open>own n\<close> of the provider \<open>n\<close>.
\<close>

locale served_registry =
  fixes reg :: registry and mine :: "string \<Rightarrow> event \<Rightarrow> bool" and own :: "string \<Rightarrow> cleanup \<Rightarrow> bool"
  assumes contract: "(n, a) \<in> set reg \<Longrightarrow> credential_adapter a (mine n) (own n)"
begin

lemma get_contract: "Get env reg n = Inr a \<Longrightarrow> credential_adapter a (mine n) (own n)"
  by (rule contract) (rule Get_member)

text \<open>
  A rotation answered with 200: the provider id is echoed and the value is the Transit
  ciphertext of a non-empty credential the adapter returned.
\<close>

lemma rotate_ok:
  assumes "Handlers_Rotate env \<lparr>hd_registry = reg, hd_transitKeyName = key\<rparr> r w = (Done resp, w')"
    and "w_Status resp = 200"
  obtains provider pid meta a res w1 ct w2 where
    "decode_rotateRequest (r_Body r) = Some (provider, pid, meta)"
    "Get env reg provider = Inr a"
    "Rotate a handler_ctx \<lparr>rq_ProviderID = pid, rq_Meta = meta\<rparr> w = (Inr res, w1)"
    "res_ProviderID res = pid" "res_Credential res \<noteq> []"
    "TransitEncrypt env key (res_Credential res) w1 = (Inr (Done ct), w2)"
    "(Done resp, w') = jsonOK (RotateResponse_json
       \<lparr>rs_ProviderID = pid, rs_EncryptedValue = ct, rs_RotatedAt = res_RotatedAt res\<rparr>) w2"
proof -
  obtain provider pid meta where d: "decode_rotateRequest (r_Body r) = Some (provider, pid, meta)"
    using assms by (auto simp: Handlers_Rotate_def jsonError_def split: option.splits)
  with assms have ne: "provider \<noteq> []" "pid \<noteq> []"
    by (auto simp: Handlers_Rotate_def jsonError_def)
  with assms d obtain a where g: "Get env reg provider = Inr a"
    by (auto simp: Handlers_Rotate_def jsonError_def split: sum.splits)
  obtain res w1 where rot: "Rotate a handler_ctx \<lparr>rq_ProviderID = pid, rq_Meta = meta\<rparr> w = (Inr res, w1)"
    using assms d ne g by (auto simp: Handlers_Rotate_def jsonError_def split: sum.splits prod.splits)
  note c = get_contract [OF g]
  have res: "res_ProviderID res = pid" "res_Credential res \<noteq> []"
    using credential_adapter.rotate_echo [OF c rot] credential_adapter.rotate_credential [OF c rot] by simp_all
  obtain ct w2 where t: "TransitEncrypt env key (res_Credential res) w1 = (Inr (Done ct), w2)"
    using assms d ne g rot
    by (auto simp: Handlers_Rotate_def jsonError_def split: sum.splits prod.splits outcome.splits)
  have "(Done resp, w') = jsonOK (RotateResponse_json
       \<lparr>rs_ProviderID = pid, rs_EncryptedValue = ct, rs_RotatedAt = res_RotatedAt res\<rparr>) w2"
    using assms d ne g rot t res by (simp add: Handlers_Rotate_def)
  then show thesis using that d g rot res t by blast
qed

text \<open>
  All a rotation sends: requests of that provider's adapter, then at most one Transit
  write; and whatever the handler answers, it starts only clean-ups of that adapter.
\<close>

lemma rotate_trace:
  "case decode_rotateRequest (r_Body r) of
     None \<Rightarrow> trace (snd (Handlers_Rotate env \<lparr>hd_registry = reg, hd_transitKeyName = key\<rparr> r w)) = trace w
   | Some (provider, _, _) \<Rightarrow> \<exists>es us.
       trace (snd (Handlers_Rotate env \<lparr>hd_registry = reg, hd_transitKeyName = key\<rparr> r w)) = trace w @ es @ us
       \<and> list_all (mine provider) es
       \<and> (us = [] \<or> (\<exists>tok cred. cred \<noteq> [] \<and> us = [transit_event tok key cred]))"
proof (cases "\<exists>provider pid meta a. decode_rotateRequest (r_Body r) = Some (provider, pid, meta)
    \<and> provider \<noteq> [] \<and> pid \<noteq> [] \<and> Get env reg provider = Inr a")
  case False
  then have "trace (snd (Handlers_Rotate env \<lparr>hd_registry = reg, hd_transitKeyName = key\<rparr> r w)) = trace w"
    by (auto simp: Handlers_Rotate_def split: option.splits sum.splits)
  then show ?thesis by (auto split: option.split intro!: exI [of _ "[]"])
next
  case True
  then obtain provider pid meta a where g: "decode_rotateRequest (r_Body r) = Some (provider, pid, meta)"
    "provider \<noteq> []" "pid \<noteq> []" "Get env reg provider = Inr a" by blast
  note c = get_contract [OF g(4)]
  let ?req = "\<lparr>rq_ProviderID = pid, rq_Meta = meta\<rparr>"
  obtain x w1 where rot: "Rotate a handler_ctx ?req w = (x, w1)" by fastforce
  obtain es where es: "trace w1 = trace w @ es" "list_all (mine provider) es"
    using emitsD [OF credential_adapter.rotate_emits [OF c], of handler_ctx ?req w] rot by auto
  show ?thesis
  proof (cases x)
    case (Inl e)
    then have "trace (snd (Handlers_Rotate env \<lparr>hd_registry = reg, hd_transitKeyName = key\<rparr> r w)) = trace w1"
      using g rot by (simp add: Handlers_Rotate_def)
    with es g(1) show ?thesis by simp (intro exI [of _ es] exI [of _ "[]"], simp)
  next
    case (Inr res)
    then have "res_Credential res \<noteq> []" using credential_adapter.rotate_credential [OF c] rot by blast
    moreover have "trace (snd (Handlers_Rotate env \<lparr>hd_registry = reg, hd_transitKeyName = key\<rparr> r w)) =
        trace (snd (TransitEncrypt env key (res_Credential res) w1))"
      using g rot Inr by (auto simp: Handlers_Rotate_def split: sum.split prod.split outcome.split)
    ultimately show ?thesis
      using es g(1) by simp (intro exI [of _ es]
          exI [of _ "[transit_event (vault_token w1) key (res_Credential res)]"], auto simp: TransitEncrypt_trace)
  qed
qed

lemma revoke_needs_id:
  assumes "decode_revokeRequest (r_Body r) = Some (provider, pid, [])"
  shows "\<exists>resp. fst (Handlers_Revoke env \<lparr>hd_registry = reg, hd_transitKeyName = key\<rparr> r w) = Done resp
      \<and> w_Status resp \<in> {400, 404, 502}"
    and "trace (snd (Handlers_Revoke env \<lparr>hd_registry = reg, hd_transitKeyName = key\<rparr> r w)) = trace w"
proof -
  have "\<exists>e. Revoke a handler_ctx \<lparr>rv_ProviderID = pid, rv_CredentialID = []\<rparr> w = (Inl e, w)"
    if "Get env reg provider = Inr a" for a
    using credential_adapter.revoke_empty [OF get_contract [OF that]] by simp
  then show "\<exists>resp. fst (Handlers_Revoke env \<lparr>hd_registry = reg, hd_transitKeyName = key\<rparr> r w) = Done resp
      \<and> w_Status resp \<in> {400, 404, 502}"
    and "trace (snd (Handlers_Revoke env \<lparr>hd_registry = reg, hd_transitKeyName = key\<rparr> r w)) = trace w"
    using assms by (fastforce simp: Handlers_Revoke_def split: sum.split)+
qed

end

section \<open>Draining a registry of adapters that keep the contract\<close>

text \<open>
  The client of \<open>drainer\<close>: a registry whose adapters with a \<open>Drain\<close> keep its law, seen
  from the loop of \<open>Shutdown\<close>.
\<close>

locale drained_registry = served_registry reg mine own
  for reg :: registry and mine :: "string \<Rightarrow> event \<Rightarrow> bool" and own :: "string \<Rightarrow> cleanup \<Rightarrow> bool" +
  fixes env :: env and sent :: "string \<Rightarrow> cleanup \<Rightarrow> event \<Rightarrow> bool"
  assumes draining: "(n, a) \<in> set reg \<Longrightarrow> drainer env a n (sent n)"
begin

lemma get_drainer: "Get env reg n = Inr a \<Longrightarrow> drainer env a n (sent n)"
  by (rule draining) (rule Get_member)

text \<open>One turn of the loop.\<close>

lemma drain_one:
  assumes "\<And>t n. drain_wait env t n = None" "\<And>u. url_err env u = None"
    and w1_def: "w1 = drain_all env c reg [n] w"
  shows "set (trace w) \<subseteq> set (trace w1) \<and> set (spawned w1) \<subseteq> set (spawned w)
    \<and> (\<forall>cl \<in> set (spawned w). cl_adapter cl \<noteq> n \<longrightarrow> cl \<in> set (spawned w1))
    \<and> (\<forall>a d. Get env reg n = Inr a \<longrightarrow> Drain a = Some d \<longrightarrow>
        (\<forall>cl \<in> set (spawned w). cl_adapter cl = n \<longrightarrow>
          cl \<notin> set (spawned w1) \<and> (\<exists>e \<in> set (trace w1). sent n cl e)))"
proof (cases "\<exists>a d. Get env reg n = Inr a \<and> Drain a = Some d")
  case False
  then have "w1 = w" by (auto simp: w1_def split: sum.split option.split)
  with False show ?thesis by auto
next
  case True
  then obtain a d where a: "Get env reg n = Inr a" "Drain a = Some d" by blast
  from drainer.drains [OF get_drainer [OF a(1)] a(2) assms(1,2), of c w]
  obtain w' where w': "d c w = (Inr (), w')"
    "spawned w' = filter (\<lambda>cl. cl_adapter cl \<noteq> n) (spawned w)" "set (trace w) \<subseteq> set (trace w')"
    "\<forall>cl \<in> set (spawned w). cl_adapter cl = n \<longrightarrow> (\<exists>e \<in> set (trace w'). sent n cl e)" by blast
  then have "w1 = w'" using a by (simp add: w1_def)
  with w' show ?thesis by auto
qed

lemma drain_all_effect:
  assumes "\<And>t n. drain_wait env t n = None" "\<And>u. url_err env u = None"
  shows "set (trace w) \<subseteq> set (trace (drain_all env c reg ns w))
    \<and> set (spawned (drain_all env c reg ns w)) \<subseteq> set (spawned w)
    \<and> (\<forall>n \<in> set ns. \<forall>a d. Get env reg n = Inr a \<longrightarrow> Drain a = Some d \<longrightarrow>
        (\<forall>cl \<in> set (spawned w). cl_adapter cl = n \<longrightarrow>
          cl \<notin> set (spawned (drain_all env c reg ns w))
          \<and> (\<exists>e \<in> set (trace (drain_all env c reg ns w)). sent n cl e)))"
proof (induction ns arbitrary: w)
  case (Cons m ns)
  define w1 where "w1 = drain_all env c reg [m] w"
  note one = drain_one [OF assms w1_def]
  have step: "drain_all env c reg (m # ns) w = drain_all env c reg ns w1"
    by (simp add: w1_def)
  have "cl \<notin> set (spawned (drain_all env c reg ns w1))
      \<and> (\<exists>e \<in> set (trace (drain_all env c reg ns w1)). sent n cl e)"
    if h: "n \<in> set (m # ns)" "Get env reg n = Inr a" "Drain a = Some d" "cl \<in> set (spawned w)" "cl_adapter cl = n"
    for n a d cl
  proof (cases "cl \<in> set (spawned w1)")
    case True
    then have "n \<noteq> m" using one h by blast
    with h True Cons.IH [of w1] show ?thesis by simp
  next
    case False
    show ?thesis
    proof (cases "n = m")
      case True
      then obtain e where "e \<in> set (trace w1)" "sent n cl e" using one h by blast
      with False Cons.IH [of w1] show ?thesis by blast
    next
      case other: False
      have "cl \<in> set (spawned w1)" using one h other by blast
      with False show ?thesis by simp
    qed
  qed
  moreover have "set (trace w) \<subseteq> set (trace (drain_all env c reg ns w1))"
    "set (spawned (drain_all env c reg ns w1)) \<subseteq> set (spawned w)"
    using one Cons.IH [of w1] by (meson subset_trans)+
  ultimately show ?case unfolding step by simp
qed simp

end

end
