(* ===== verification/Startup.thy ===== *)
theory Startup
  imports Auth0_Adapter Splunk_Adapter Github_Adapter Datadog_Adapter Sonarqube_Adapter
    Pagerduty_Adapter Server
begin

text \<open>
  main.go: the loaders that read each adapter's configuration from KV and decrypt its
  secrets with Transit, the TLS configuration, and \<open>run\<close>, which wires the six adapters
  into the registry and the server.  Transit decryption may panic, so these are actions
  with an \<open>outcome\<close>.  The registry \<open>run\<close> builds interprets \<open>drained_registry\<close>; the last
  section has surroundings in which the broker starts.
\<close>

section \<open>Sequencing actions that may panic\<close>

definition attempt_p :: "'a outcome act \<Rightarrow> (gerr \<Rightarrow> gerr) \<Rightarrow> ('a \<Rightarrow> 'b outcome act) \<Rightarrow> 'b outcome act" where
  "attempt_p m wrap k = attempt m wrap (\<lambda>x. case x of Panics e \<Rightarrow> ret (Panics e) | Done y \<Rightarrow> k y)"

definition lift_sum :: "gerr + 'a \<Rightarrow> (gerr \<Rightarrow> gerr) \<Rightarrow> ('a \<Rightarrow> 'b act) \<Rightarrow> 'b act" where
  "lift_sum r wrap k = (case r of Inl e \<Rightarrow> fail (wrap e) | Inr x \<Rightarrow> k x)"

lemma attempt_p_eq_Done:
  "attempt_p m f k w = (Inr (Done y), w'') \<longleftrightarrow>
     (\<exists>x w'. m w = (Inr (Done x), w') \<and> k x w' = (Inr (Done y), w''))"
proof -
  have "(case x of Panics e \<Rightarrow> ret (Panics e) | Done z \<Rightarrow> k z) w' = (Inr (Done y), w'') \<longleftrightarrow>
      (\<exists>z. x = Done z \<and> k z w' = (Inr (Done y), w''))" for x w'
    by (cases x) simp_all
  then show ?thesis by (auto simp: attempt_p_def attempt_eq_Inr)
qed

lemma lift_sum_eq_Inr: "lift_sum r f k w = (Inr y, w') \<longleftrightarrow> (\<exists>x. r = Inr x \<and> k x w = (Inr y, w'))"
  by (cases r) (simp_all add: lift_sum_def)

section \<open>Loaders\<close>

definition kv_path :: "string \<Rightarrow> string" where
  "kv_path provider = ''secret/data/cred-rotation-api/adapters/'' @ provider"

definition read_config :: "env \<Rightarrow> string \<Rightarrow> ((string \<times> goval) list \<Rightarrow> 'a act) \<Rightarrow> 'a act" where
  "read_config env provider k =
     attempt (KVGet env (kv_path provider)) (\<lambda>e. ''kv read '' @ kv_path provider @ '': '' @ e) k"

definition field :: "env \<Rightarrow> (string \<times> goval) list \<Rightarrow> string \<Rightarrow> (string \<Rightarrow> 'a act) \<Rightarrow> 'a act" where
  "field env data k = lift_sum (StringField env data k) (\<lambda>e. e)"

definition decrypt :: "env \<Rightarrow> string \<Rightarrow> string \<Rightarrow> string \<Rightarrow> (string \<Rightarrow> 'a outcome act) \<Rightarrow> 'a outcome act" where
  "decrypt env key what ct =
     attempt_p (TransitDecrypt env key ct) (\<lambda>e. ''transit decrypt '' @ what @ '': '' @ e)"

definition loadAuth0Config :: "env \<Rightarrow> string \<Rightarrow> auth0_config outcome act" where
  "loadAuth0Config env key =
     read_config env ''auth0'' (\<lambda>data.
     field env data ''domain'' (\<lambda>domain.
     field env data ''mgmt_client_id'' (\<lambda>clientID.
     field env data ''mgmt_audience'' (\<lambda>audience.
     field env data ''mgmt_client_secret_encrypted'' (\<lambda>encryptedSecret.
     decrypt env key ''client_secret'' encryptedSecret (\<lambda>plainSecret.
     ret (Done \<lparr>ac_Domain = domain, ac_ClientID = clientID, ac_ClientSecret = plainSecret,
       ac_Audience = audience\<rparr>)))))))"

definition loadSplunkConfig :: "env \<Rightarrow> string \<Rightarrow> sp_config outcome act" where
  "loadSplunkConfig env key =
     read_config env ''splunk'' (\<lambda>data.
     field env data ''base_url'' (\<lambda>baseURL.
     field env data ''auth_token_encrypted'' (\<lambda>encryptedToken.
     decrypt env key ''auth_token'' encryptedToken (\<lambda>plainToken.
     ret (Done \<lparr>sc_BaseURL = baseURL, sc_AuthToken = plainToken,
       sc_CACert = MustStringField env data ''ca_cert'', sc_Insecure = False,
       sc_DefaultIndex = MustStringField env data ''default_index'',
       sc_DefaultSourcetype = MustStringField env data ''default_sourcetype''\<rparr>)))))"

definition loadGitHubConfig :: "env \<Rightarrow> string \<Rightarrow> gh_config outcome act" where
  "loadGitHubConfig env key =
     read_config env ''github'' (\<lambda>data.
     field env data ''admin_pat_encrypted'' (\<lambda>encryptedPAT.
     decrypt env key ''admin_pat'' encryptedPAT (\<lambda>plainPAT.
     ret (Done \<lparr>gc_BaseURL = MustStringField env data ''base_url'', gc_AdminPAT = plainPAT\<rparr>))))"

definition loadDatadogConfig :: "env \<Rightarrow> string \<Rightarrow> dd_config outcome act" where
  "loadDatadogConfig env key =
     read_config env ''datadog'' (\<lambda>data.
     field env data ''admin_api_key_encrypted'' (\<lambda>encryptedAPIKey.
     field env data ''admin_app_key_encrypted'' (\<lambda>encryptedAppKey.
     decrypt env key ''admin_api_key'' encryptedAPIKey (\<lambda>plainAPIKey.
     decrypt env key ''admin_app_key'' encryptedAppKey (\<lambda>plainAppKey.
     ret (Done \<lparr>dc_AdminAPIKey = plainAPIKey, dc_AdminAppKey = plainAppKey,
       dc_BaseURL = MustStringField env data ''base_url'',
       dc_KeyType = MustStringField env data ''key_type''\<rparr>))))))"

definition loadSonarQubeConfig :: "env \<Rightarrow> string \<Rightarrow> sq_config outcome act" where
  "loadSonarQubeConfig env key =
     read_config env ''sonarqube'' (\<lambda>data.
     field env data ''base_url'' (\<lambda>baseURL.
     field env data ''admin_token_encrypted'' (\<lambda>encryptedToken.
     decrypt env key ''admin_token'' encryptedToken (\<lambda>plainToken.
     ret (Done \<lparr>qc_BaseURL = baseURL, qc_AdminToken = plainToken\<rparr>)))))"

definition loadPagerDutyConfig :: "env \<Rightarrow> string \<Rightarrow> pd_config outcome act" where
  "loadPagerDutyConfig env key =
     read_config env ''pagerduty'' (\<lambda>data.
     field env data ''api_key_encrypted'' (\<lambda>encryptedAPIKey.
     field env data ''email'' (\<lambda>email.
     decrypt env key ''api_key'' encryptedAPIKey (\<lambda>plainAPIKey.
     ret (Done \<lparr>pc_APIKey = plainAPIKey, pc_Email = email,
       pc_BaseURL = MustStringField env data ''base_url''\<rparr>)))))"

section \<open>TLS\<close>

definition buildTLSConfig :: "env \<Rightarrow> tls_config act" where
  "buildTLSConfig env =
     (if getenv env ''VAULT_SKIP_PKI'' = ''true''
      then then_do (log LWarn (''VAULT_SKIP_PKI=true: mTLS disabled '' @ em_dash @ '' for development only'') [])
        (fail (''VAULT_SKIP_PKI set but full TLS bypass not implemented; ''
           @ ''remove the flag and run phase2-setup.sh''))
      else
        let caPath = envOr env ''VAULT_CACERT'' ''vault/certs/internal-ca.crt'';
            commonName = envOr env ''TLS_COMMON_NAME'' ''cred-rotation-api.internal''
        in lift_sum (LoadCACertPool env caPath)
             (\<lambda>e. ''load CA cert pool from '' @ caPath @ '': '' @ e) (\<lambda>caPool.
           attempt (IssuePKICert env ''internal-mtls-server'' commonName [])
             (\<lambda>e. ''issue PKI server cert: '' @ e) (\<lambda>cert.
           then_do (log LInfo ''PKI server certificate issued'' [(''common_name'', AStr commonName)])
           (lift_sum (TLSConfigFromIssuedCert env cert caPool)
             (\<lambda>e. ''build TLS config from issued cert: '' @ e) ret))))"

section \<open>Wiring\<close>

text \<open>
  The six adapters, in the order \<open>run\<close> loads and builds them; \<open>load\<close> and \<open>build\<close> stand
  for the pair of error checks each of them has.
\<close>

definition load_adapter ::
  "string \<Rightarrow> 'c outcome act \<Rightarrow> ('c \<Rightarrow> gerr + 'a) \<Rightarrow> ('a \<Rightarrow> 'b outcome act) \<Rightarrow> 'b outcome act"
where
  "load_adapter n load build k =
     attempt_p load (\<lambda>e. ''load '' @ n @ '' config: '' @ e) (\<lambda>cfg.
     lift_sum (build cfg) (\<lambda>e. ''build '' @ n @ '' adapter: '' @ e) k)"

definition load_adapters :: "env \<Rightarrow> string \<Rightarrow> adapter list outcome act" where
  "load_adapters env key =
     load_adapter ''auth0'' (loadAuth0Config env key) (\<lambda>c. auth0_New c []) (\<lambda>auth0A.
     load_adapter ''splunk'' (loadSplunkConfig env key) (\<lambda>c. sp_New env c [sp_WithLogger]) (\<lambda>splunkA.
     load_adapter ''github'' (loadGitHubConfig env key) (\<lambda>c. gh_New c []) (\<lambda>githubA.
     load_adapter ''datadog'' (loadDatadogConfig env key) (\<lambda>c. dd_New env c [dd_WithLogger]) (\<lambda>datadogA.
     load_adapter ''sonarqube'' (loadSonarQubeConfig env key) (\<lambda>c. sq_New c [sq_WithLogger]) (\<lambda>sonarqubeA.
     load_adapter ''pagerduty'' (loadPagerDutyConfig env key) (\<lambda>c. pd_New c [pd_WithLogger]) (\<lambda>pagerdutyA.
     ret (Done [auth0 env auth0A, splunk env splunkA, github env githubA, datadog env datadogA,
       sonarqube env sonarqubeA, pagerduty env pagerdutyA])))))))"

text \<open>
  What \<open>run\<close> does before it listens, one step after the other.  The goroutine that
  \<open>StartRenewer\<close> starts meanwhile is \<open>spiffeRenewer\<close> of theory \<open>Vault_Client\<close>.
\<close>

definition startup :: "env \<Rightarrow> (string list \<Rightarrow> string list) \<Rightarrow> server outcome act" where
  "startup env order =
     (let cfg = NewFromEnv env; key = envOr env ''VAULT_TRANSIT_KEY'' ''cred-rotation-key''
      in attempt (vault_New env cfg) (\<lambda>e. ''vault client: '' @ e) (\<lambda>vc.
         then_do (log LInfo ''authenticated to Vault'' [(''addr'', AStr (vc_Address cfg))])
         (attempt_p (load_adapters env key) (\<lambda>e. e) (\<lambda>as.
          case Register_all env as NewRegistry of
            Panics p \<Rightarrow> ret (Panics p)
          | Done reg \<Rightarrow>
              then_do (log LInfo ''adapters registered'' [(''providers'', AList (Names order reg))])
              (attempt (buildTLSConfig env) (\<lambda>e. ''build TLS config: '' @ e) (\<lambda>tlsConfig.
               lift_sum (server_New env
                   \<lparr>sv_Addr = envOr env ''LISTEN_ADDR'' '':8443'', sv_TLSConfig = Some tlsConfig,
                    sv_Registry = Some reg, sv_VaultClient = Some vc, sv_TransitKeyName = key,
                    sv_CertAllowlist = [], sv_MaxConcurrentRequests = 0\<rparr>)
                 (\<lambda>e. ''build server: '' @ e) (\<lambda>srv. ret (Done srv))))))))"

text \<open>\<open>ended\<close>: how serving ended, with the listener's error or (\<open>None\<close>) on a signal.\<close>

definition run :: "env \<Rightarrow> (string list \<Rightarrow> string list) \<Rightarrow> gerr option \<Rightarrow> unit outcome act" where
  "run env order ended =
     attempt_p (startup env order) (\<lambda>e. e) (\<lambda>srv.
     case ended of
       Some e \<Rightarrow> fail (''server: '' @ e)
     | None \<Rightarrow> then_do (log LInfo ''shutdown signal received'' [])
         (attempt (Shutdown env order srv Background) (\<lambda>e. e) (\<lambda>_. ret (Done ()))))"

text \<open>
  \<open>main\<close>: the exit code, and what is written to the standard output, of which the handler
  keeps the lines from level Info on.
\<close>

definition broker_main ::
  "env \<Rightarrow> (string list \<Rightarrow> string list) \<Rightarrow> gerr option \<Rightarrow> world \<Rightarrow> nat \<times> world"
where
  "broker_main env order ended w = (case run env order ended w of
     (Inl e, w') \<Rightarrow> (1, log LError ''startup failed'' [(''err'', AStr e)] w')
   | (Inr (Done _), w') \<Rightarrow> (0, w')
   | (Inr (Panics _), w') \<Rightarrow> (2, w'))"

definition log_output :: "world \<Rightarrow> log_entry list" where
  "log_output w = filter (\<lambda>l. LInfo \<le> log_level l) (logs w)"

lemma level_least [simp]: "LInfo \<le> l"
  by (cases l) (simp_all add: less_eq_level_def)

lemma log_output_all: "log_output w = logs w"
  by (simp add: log_output_def)

text \<open>The broker exits with 0 only after a signal and a shutdown that went through.\<close>

lemma broker_main_exit_0:
  assumes "broker_main env order ended w = (0, w')"
  obtains s w1 where "startup env order w = (Inr (Done s), w1)" "ended = None"
    "Shutdown env order s Background (log LInfo ''shutdown signal received'' [] w1) = (Inr (), w')"
  using assms
  by (auto simp: broker_main_def run_def attempt_p_def attempt_def then_do_def fail_def
      split: prod.splits sum.splits outcome.splits option.splits)

section \<open>The registry of the broker\<close>

definition broker_registry ::
  "env \<Rightarrow> auth0_adapter \<Rightarrow> sp_adapter \<Rightarrow> gh_adapter \<Rightarrow> dd_adapter \<Rightarrow> sq_adapter \<Rightarrow> pd_adapter \<Rightarrow> registry"
where
  "broker_registry env a0 sp gh dd sq pd =
     map (\<lambda>a. (Name a, a)) [auth0 env a0, splunk env sp, github env gh, datadog env dd,
       sonarqube env sq, pagerduty env pd]"

definition broker_mine ::
  "auth0_adapter \<Rightarrow> sp_adapter \<Rightarrow> gh_adapter \<Rightarrow> dd_adapter \<Rightarrow> sq_adapter \<Rightarrow> pd_adapter
   \<Rightarrow> string \<Rightarrow> event \<Rightarrow> bool"
where
  "broker_mine a0 sp gh dd sq pd n =
     (if n = auth0_name then auth0_mine a0 else if n = sp_name then sp_mine sp
      else if n = gh_name then gh_mine gh else if n = dd_name then dd_mine dd
      else if n = sq_name then sq_mine sq else pd_mine pd)"

definition broker_own :: "string \<Rightarrow> cleanup \<Rightarrow> bool" where
  "broker_own n = (if n = auth0_name \<or> n = gh_name then (\<lambda>_. False) else cleanup_of n)"

lemmas provider_names = auth0_name_def sp_name_def gh_name_def dd_name_def sq_name_def pd_name_def

lemma provider_names_distinct:
  "distinct [auth0_name, sp_name, gh_name, dd_name, sq_name, pd_name]"
  by (simp add: provider_names)

lemma broker_at [simp]:
  "broker_mine a0 sp gh dd sq pd auth0_name = auth0_mine a0"
  "broker_mine a0 sp gh dd sq pd sp_name = sp_mine sp"
  "broker_mine a0 sp gh dd sq pd gh_name = gh_mine gh"
  "broker_mine a0 sp gh dd sq pd dd_name = dd_mine dd"
  "broker_mine a0 sp gh dd sq pd sq_name = sq_mine sq"
  "broker_mine a0 sp gh dd sq pd pd_name = pd_mine pd"
  "broker_own auth0_name = (\<lambda>_. False)" "broker_own gh_name = (\<lambda>_. False)"
  "broker_own sp_name = cleanup_of sp_name" "broker_own dd_name = cleanup_of dd_name"
  "broker_own sq_name = cleanup_of sq_name" "broker_own pd_name = cleanup_of pd_name"
  by (simp_all add: broker_mine_def broker_own_def provider_names)

text \<open>The requests that the clean-ups of each adapter make.\<close>

definition broker_sent ::
  "sp_adapter \<Rightarrow> dd_adapter \<Rightarrow> sq_adapter \<Rightarrow> pd_adapter \<Rightarrow> string \<Rightarrow> cleanup \<Rightarrow> event \<Rightarrow> bool"
where
  "broker_sent sp dd sq pd n =
     (if n = sp_name then sp_sent sp else if n = dd_name then dd_sent dd
      else if n = sq_name then sq_sent sq else pd_sent pd)"

lemma broker_sent_at [simp]:
  "broker_sent sp dd sq pd sp_name = sp_sent sp" "broker_sent sp dd sq pd dd_name = dd_sent dd"
  "broker_sent sp dd sq pd sq_name = sq_sent sq" "broker_sent sp dd sq pd pd_name = pd_sent pd"
  by (simp_all add: broker_sent_def provider_names)

lemma broker_registry_cases:
  assumes "(n, a) \<in> set (broker_registry env a0 sp gh dd sq pd)"
  obtains "n = auth0_name" "a = auth0 env a0" | "n = sp_name" "a = splunk env sp"
    | "n = gh_name" "a = github env gh" | "n = dd_name" "a = datadog env dd"
    | "n = sq_name" "a = sonarqube env sq" | "n = pd_name" "a = pagerduty env pd"
  using assms by (auto simp: broker_registry_def)

interpretation broker: drained_registry "broker_registry env a0 sp gh dd sq pd"
    "broker_mine a0 sp gh dd sq pd" broker_own env "broker_sent sp dd sq pd"
proof (intro drained_registry.intro served_registry.intro drained_registry_axioms.intro, goal_cases)
  case (1 n a)
  then show "credential_adapter a (broker_mine a0 sp gh dd sq pd n) (broker_own n)"
    by (cases rule: broker_registry_cases)
      (simp_all add: auth0.credential_adapter_axioms splunk.credential_adapter_axioms
        github.credential_adapter_axioms datadog.credential_adapter_axioms
        sonarqube.credential_adapter_axioms pagerduty.credential_adapter_axioms)
next
  case (2 n a)
  then show "drainer env a n (broker_sent sp dd sq pd n)"
    by (cases rule: broker_registry_cases)
      (simp_all add: sp_drainer.drainer_axioms dd_drainer.drainer_axioms sq_drainer.drainer_axioms
        pd_drainer.drainer_axioms drainer_without_Drain)
qed

section \<open>What startup builds\<close>

lemma certAuthz_nil: "certAuthz env [] h = h"
  by (intro ext) (simp add: certAuthz_def)

lemma load_adapter_Done:
  "load_adapter n load build k w = (Inr (Done y), w'') \<longleftrightarrow> (\<exists>cfg w' a.
     load w = (Inr (Done cfg), w') \<and> build cfg = Inr a \<and> k a w' = (Inr (Done y), w''))"
  by (auto simp: load_adapter_def attempt_p_eq_Done lift_sum_eq_Inr)

lemma loadSplunkConfig_secure: "loadSplunkConfig env key w = (Inr (Done c), w') \<Longrightarrow> \<not> sc_Insecure c"
  by (auto simp: loadSplunkConfig_def read_config_def field_def decrypt_def act_eq_Inr attempt_p_eq_Done
      lift_sum_eq_Inr)

lemma load_adapters_Done:
  assumes "load_adapters env key w = (Inr (Done as), w')"
  obtains a0 sp gh dd sq pd where
    "as = [auth0 env a0, splunk env sp, github env gh, datadog env dd, sonarqube env sq, pagerduty env pd]"
    "\<exists>c. auth0_New c [] = Inr a0" "\<exists>c. \<not> sc_Insecure c \<and> sp_New env c [sp_WithLogger] = Inr sp"
    "\<exists>c. gh_New c [] = Inr gh" "\<exists>c. dd_New env c [dd_WithLogger] = Inr dd"
    "\<exists>c. sq_New c [sq_WithLogger] = Inr sq" "\<exists>c. pd_New c [pd_WithLogger] = Inr pd"
  using assms unfolding load_adapters_def
  by (auto simp: load_adapter_Done dest!: loadSplunkConfig_secure) blast

lemma Register_six:
  "Register_all env [auth0 env a0, splunk env sp, github env gh, datadog env dd, sonarqube env sq,
     pagerduty env pd] NewRegistry = Done (broker_registry env a0 sp gh dd sq pd)"
  by (subst Register_all_Done)
    (simp_all add: NewRegistry_def broker_registry_def provider_names)

lemma buildTLSConfig_Inr:
  assumes "buildTLSConfig env w = (Inr tc, w')"
  shows "tc_ClientAuth tc = RequireAndVerifyClientCert \<and> tc_MinVersion tc = VersionTLS13
    \<and> pem_ok env (tc_ClientCAs tc) \<and> getenv env ''VAULT_SKIP_PKI'' \<noteq> ''true''"
  using assms unfolding buildTLSConfig_def
  by (auto simp: Let_def act_eq_Inr lift_sum_eq_Inr then_do_def LoadCACertPool_def
      TLSConfigFromIssuedCert_def split: if_splits sum.splits option.splits)

lemma New_clients:
  "auth0_New c0 [] = Inr a0 \<Longrightarrow> \<not> hc_InsecureSkipVerify (a0_client a0) \<and> hc_MinVersion (a0_client a0) = VersionTLS13"
  "\<not> sc_Insecure c1 \<Longrightarrow> sp_New env c1 [sp_WithLogger] = Inr sp \<Longrightarrow>
    \<not> hc_InsecureSkipVerify (sp_client sp) \<and> hc_MinVersion (sp_client sp) = VersionTLS12"
  "gh_New c2 [] = Inr gh \<Longrightarrow> \<not> hc_InsecureSkipVerify (gh_client gh) \<and> hc_MinVersion (gh_client gh) = VersionTLS13"
  "dd_New env c3 [dd_WithLogger] = Inr dd \<Longrightarrow>
    \<not> hc_InsecureSkipVerify (dd_client dd) \<and> hc_MinVersion (dd_client dd) = VersionTLS13"
  "sq_New c4 [sq_WithLogger] = Inr sq \<Longrightarrow>
    \<not> hc_InsecureSkipVerify (sq_client sq) \<and> hc_MinVersion (sq_client sq) = VersionTLS13"
  "pd_New c5 [pd_WithLogger] = Inr pd \<Longrightarrow>
    \<not> hc_InsecureSkipVerify (pd_client pd) \<and> hc_MinVersion (pd_client pd) = VersionTLS13"
  by (auto simp: auth0_New_def sp_New_def gh_New_def dd_New_def sq_New_def pd_New_def sp_WithLogger_def
      dd_WithLogger_def sq_WithLogger_def pd_WithLogger_def Let_def split: if_splits)

text \<open>
  C19. A broker that starts serves exactly the six providers, verifies the certificates of all
  of them and speaks at least TLS 1.2 to Splunk and TLS 1.3 to the others; it demands a
  verified client certificate and TLS 1.3 of its own clients, and never starts with
  \<open>VAULT_SKIP_PKI\<close> set.  Its handler is the limiter of the default size around the routes: no
  allowlist restricts which client may call which of them.
\<close>

theorem startup_wires_broker:
  assumes "startup env order w = (Inr (Done s), w')"
  shows "\<exists>a0 sp gh dd sq pd. srv_registry s = broker_registry env a0 sp gh dd sq pd
    \<and> srv_handler s = requestLogger env (concurrencyLimiter env defaultMaxConcurrency (mux env
        \<lparr>hd_registry = broker_registry env a0 sp gh dd sq pd,
         hd_transitKeyName = envOr env ''VAULT_TRANSIT_KEY'' ''cred-rotation-key''\<rparr>))
    \<and> list_all (\<lambda>c. \<not> hc_InsecureSkipVerify c \<and> hc_MinVersion c = VersionTLS13)
        [a0_client a0, gh_client gh, dd_client dd, sq_client sq, pd_client pd]
    \<and> \<not> hc_InsecureSkipVerify (sp_client sp) \<and> hc_MinVersion (sp_client sp) = VersionTLS12
    \<and> tc_ClientAuth (srv_tlsConfig s) = RequireAndVerifyClientCert
    \<and> tc_MinVersion (srv_tlsConfig s) = VersionTLS13
    \<and> pem_ok env (tc_ClientCAs (srv_tlsConfig s)) \<and> getenv env ''VAULT_SKIP_PKI'' \<noteq> ''true''"
proof -
  let ?key = "envOr env ''VAULT_TRANSIT_KEY'' ''cred-rotation-key''"
  obtain as w1 w2 where l: "load_adapters env ?key w1 = (Inr (Done as), w2)"
    and k: "(case Register_all env as NewRegistry of Panics p \<Rightarrow> ret (Panics p)
          | Done reg \<Rightarrow>
              then_do (log LInfo ''adapters registered'' [(''providers'', AList (Names order reg))])
              (attempt (buildTLSConfig env) (\<lambda>e. ''build TLS config: '' @ e) (\<lambda>tlsConfig.
               lift_sum (server_New env
                   \<lparr>sv_Addr = envOr env ''LISTEN_ADDR'' '':8443'', sv_TLSConfig = Some tlsConfig,
                    sv_Registry = Some reg, sv_VaultClient = Some \<lparr>vcl_authCfg = NewFromEnv env\<rparr>,
                    sv_TransitKeyName = ?key,
                    sv_CertAllowlist = [], sv_MaxConcurrentRequests = 0\<rparr>)
                 (\<lambda>e. ''build server: '' @ e) (\<lambda>srv. ret (Done srv))))) w2 = (Inr (Done s), w')"
    using assms unfolding startup_def Let_def
    by (auto simp: attempt_eq_Inr attempt_p_eq_Done then_do_def vault_New_def split: option.splits if_splits)
  from l obtain a0 sp gh dd sq pd where as:
    "as = [auth0 env a0, splunk env sp, github env gh, datadog env dd, sonarqube env sq, pagerduty env pd]"
    and new: "\<exists>c. auth0_New c [] = Inr a0" "\<exists>c. \<not> sc_Insecure c \<and> sp_New env c [sp_WithLogger] = Inr sp"
    "\<exists>c. gh_New c [] = Inr gh" "\<exists>c. dd_New env c [dd_WithLogger] = Inr dd"
    "\<exists>c. sq_New c [sq_WithLogger] = Inr sq" "\<exists>c. pd_New c [pd_WithLogger] = Inr pd"
    by (rule load_adapters_Done)
  from k [unfolded as Register_six outcome.case] obtain tc w3 w4 where tls: "buildTLSConfig env w3 = (Inr tc, w4)"
    and s: "srv_registry s = broker_registry env a0 sp gh dd sq pd" "srv_tlsConfig s = tc"
    "srv_handler s = requestLogger env (concurrencyLimiter env defaultMaxConcurrency (mux env
        \<lparr>hd_registry = broker_registry env a0 sp gh dd sq pd, hd_transitKeyName = ?key\<rparr>))"
    by (auto simp: then_do_def attempt_eq_Inr lift_sum_eq_Inr server_New_def Let_def certAuthz_nil
        split: if_splits)
  from s buildTLSConfig_Inr [OF tls] new show ?thesis
    by (intro exI [of _ a0] exI [of _ sp] exI [of _ gh] exI [of _ dd] exI [of _ sq] exI [of _ pd])
       (auto dest: New_clients)
qed

section \<open>A broker that starts\<close>

text \<open>A Vault in which every reply carries every field that is asked for.\<close>

definition boot_data :: "(string \<times> goval) list" where
  "boot_data = [(''domain'', GStr ''t.auth0.com''), (''mgmt_client_id'', GStr ''c''),
     (''mgmt_audience'', GStr ''a''), (''mgmt_client_secret_encrypted'', GStr ''v''),
     (''base_url'', GStr ''https://h''), (''auth_token_encrypted'', GStr ''v''),
     (''admin_pat_encrypted'', GStr ''v''), (''admin_api_key_encrypted'', GStr ''v''),
     (''admin_app_key_encrypted'', GStr ''v''), (''admin_token_encrypted'', GStr ''v''),
     (''api_key_encrypted'', GStr ''v''), (''email'', GStr ''e''), (''plaintext'', GStr (EncodeToString ''pw'')),
     (''certificate'', GStr ''crt''), (''private_key'', GStr ''key'')]"

definition boot_env :: env where
  "boot_env = calm_env\<lparr>vault := (\<lambda>_ _ _. Inr (Some \<lparr>secret_data = Some boot_data, secret_auth = None\<rparr>)),
     getenv := (\<lambda>v. if v = ''VAULT_TOKEN'' then ''t'' else [])\<rparr>"

lemma boot_vault [simp]:
  "vault boot_env tr tok op = Inr (Some \<lparr>secret_data = Some boot_data, secret_auth = None\<rparr>)"
  by (simp add: boot_env_def)

lemma boot_getenv [simp]: "getenv boot_env v = (if v = ''VAULT_TOKEN'' then ''t'' else [])"
  by (simp add: boot_env_def)

lemma boot_env_sel [simp]:
  "pem_ok boot_env p = True" "keypair_err boot_env p q = None" "vault_tls_err boot_env p = None"
  "vault_client_err boot_env p = None" "read_clean boot_env p = Inr ''pem''"
  by (simp_all add: boot_env_def)

lemma boot_fields:
  "map_of boot_data ''domain'' = Some (GStr ''t.auth0.com'')" "map_of boot_data ''mgmt_client_id'' = Some (GStr ''c'')"
  "map_of boot_data ''mgmt_audience'' = Some (GStr ''a'')"
  "map_of boot_data ''mgmt_client_secret_encrypted'' = Some (GStr ''v'')"
  "map_of boot_data ''base_url'' = Some (GStr ''https://h'')"
  "map_of boot_data ''auth_token_encrypted'' = Some (GStr ''v'')"
  "map_of boot_data ''admin_pat_encrypted'' = Some (GStr ''v'')"
  "map_of boot_data ''admin_api_key_encrypted'' = Some (GStr ''v'')"
  "map_of boot_data ''admin_app_key_encrypted'' = Some (GStr ''v'')"
  "map_of boot_data ''admin_token_encrypted'' = Some (GStr ''v'')"
  "map_of boot_data ''api_key_encrypted'' = Some (GStr ''v'')" "map_of boot_data ''email'' = Some (GStr ''e'')"
  "map_of boot_data ''plaintext'' = Some (GStr (EncodeToString ''pw''))"
  "map_of boot_data ''certificate'' = Some (GStr ''crt'')" "map_of boot_data ''private_key'' = Some (GStr ''key'')"
  "map_of boot_data ''data'' = None" "map_of boot_data ''ca_cert'' = None" "map_of boot_data ''key_type'' = None"
  by (simp_all add: boot_data_def)

lemma boot_KVGet: "yields (KVGet boot_env path) boot_data"
  unfolding KVGet_def
  by (rule yields_attempt [OF yields_vault [where r = "Some \<lparr>secret_data = Some boot_data, secret_auth = None\<rparr>"]])
     (auto simp: data_field_def boot_fields intro!: yields_intro)

lemma boot_read [yields_intro]: "yields (k boot_data) x \<Longrightarrow> yields (read_config boot_env provider k) x"
  unfolding read_config_def by (rule yields_attempt [OF boot_KVGet])

lemma boot_field [yields_intro]:
  "map_of boot_data k = Some (GStr v) \<Longrightarrow> yields (f v) x \<Longrightarrow> yields (field boot_env boot_data k f) x"
  by (simp add: field_def StringField_def lift_sum_def)

lemma boot_plaintext: "yields (TransitDecrypt boot_env key ct) (Done ''pw'')"
proof -
  have ne: "EncodeToString ''pw'' \<noteq> []" by simp
  show ?thesis
    unfolding TransitDecrypt_def
    by (rule yields_attempt [OF yields_vault [where r = "Some \<lparr>secret_data = Some boot_data, secret_auth = None\<rparr>"]])
       (auto simp: ne data_field_def as_string_def boot_fields DecodeString_EncodeToString Let_def
         simp del: EncodeToString.simps intro!: yields_intro)
qed

lemma boot_decrypt [yields_intro]: "yields (f ''pw'') x \<Longrightarrow> yields (decrypt boot_env key what ct f) x"
  unfolding decrypt_def attempt_p_def by (auto intro: yields_attempt [OF boot_plaintext])

lemma boot_adapter [yields_intro]:
  "yields load (Done c) \<Longrightarrow> build c = Inr a \<Longrightarrow> yields (k a) x \<Longrightarrow> yields (load_adapter n load build k) x"
  unfolding load_adapter_def attempt_p_def lift_sum_def by (auto intro: yields_attempt)

lemma boot_loadAuth0:
  "yields (loadAuth0Config boot_env key) (Done \<lparr>ac_Domain = ''t.auth0.com'', ac_ClientID = ''c'',
     ac_ClientSecret = ''pw'', ac_Audience = ''a''\<rparr>)"
  unfolding loadAuth0Config_def
  by (rule boot_read, rule boot_field [OF boot_fields(1)], rule boot_field [OF boot_fields(2)], rule boot_field [OF boot_fields(3)], rule boot_field [OF boot_fields(4)], rule boot_decrypt, rule yields_ret)

lemma boot_loadSplunk:
  "yields (loadSplunkConfig boot_env key) (Done \<lparr>sc_BaseURL = ''https://h'', sc_AuthToken = ''pw'',
     sc_CACert = MustStringField boot_env boot_data ''ca_cert'', sc_Insecure = False,
     sc_DefaultIndex = MustStringField boot_env boot_data ''default_index'',
     sc_DefaultSourcetype = MustStringField boot_env boot_data ''default_sourcetype''\<rparr>)"
  unfolding loadSplunkConfig_def
  by (rule boot_read, rule boot_field [OF boot_fields(5)], rule boot_field [OF boot_fields(6)], rule boot_decrypt, rule yields_ret)

lemma boot_loadGitHub:
  "yields (loadGitHubConfig boot_env key)
     (Done \<lparr>gc_BaseURL = MustStringField boot_env boot_data ''base_url'', gc_AdminPAT = ''pw''\<rparr>)"
  unfolding loadGitHubConfig_def
  by (rule boot_read, rule boot_field [OF boot_fields(7)], rule boot_decrypt, rule yields_ret)

lemma boot_loadDatadog:
  "yields (loadDatadogConfig boot_env key) (Done \<lparr>dc_AdminAPIKey = ''pw'', dc_AdminAppKey = ''pw'',
     dc_BaseURL = MustStringField boot_env boot_data ''base_url'',
     dc_KeyType = MustStringField boot_env boot_data ''key_type''\<rparr>)"
  unfolding loadDatadogConfig_def
  by (rule boot_read, rule boot_field [OF boot_fields(8)], rule boot_field [OF boot_fields(9)], rule boot_decrypt, rule boot_decrypt, rule yields_ret)

lemma boot_loadSonarQube:
  "yields (loadSonarQubeConfig boot_env key) (Done \<lparr>qc_BaseURL = ''https://h'', qc_AdminToken = ''pw''\<rparr>)"
  unfolding loadSonarQubeConfig_def
  by (rule boot_read, rule boot_field [OF boot_fields(5)], rule boot_field [OF boot_fields(10)], rule boot_decrypt, rule yields_ret)

lemma boot_loadPagerDuty:
  "yields (loadPagerDutyConfig boot_env key) (Done \<lparr>pc_APIKey = ''pw'', pc_Email = ''e'',
     pc_BaseURL = MustStringField boot_env boot_data ''base_url''\<rparr>)"
  unfolding loadPagerDutyConfig_def
  by (rule boot_read, rule boot_field [OF boot_fields(11)], rule boot_field [OF boot_fields(12)], rule boot_decrypt, rule yields_ret)

lemmas boot_loads =
  boot_loadAuth0 boot_loadSplunk boot_loadGitHub boot_loadDatadog boot_loadSonarQube boot_loadPagerDuty

lemma boot_adapters:
  "\<exists>a0 sp gh dd sq pd. yields (load_adapters boot_env key) (Done [auth0 boot_env a0, splunk boot_env sp,
     github boot_env gh, datadog boot_env dd, sonarqube boot_env sq, pagerduty boot_env pd])"
proof -
  let ?b = "MustStringField boot_env boot_data ''base_url''"
  have opt: "MustStringField boot_env boot_data ''ca_cert'' = []" "MustStringField boot_env boot_data ''key_type'' = []"
    by (simp_all add: MustStringField_def StringField_def boot_fields)
  have "\<exists>a. auth0_New \<lparr>ac_Domain = ''t.auth0.com'', ac_ClientID = ''c'', ac_ClientSecret = ''pw'',
      ac_Audience = ''a''\<rparr> [] = Inr a" by (simp add: auth0_New_def Let_def)
  moreover have "\<exists>a. sp_New boot_env \<lparr>sc_BaseURL = ''https://h'', sc_AuthToken = ''pw'',
     sc_CACert = MustStringField boot_env boot_data ''ca_cert'', sc_Insecure = False,
     sc_DefaultIndex = MustStringField boot_env boot_data ''default_index'',
     sc_DefaultSourcetype = MustStringField boot_env boot_data ''default_sourcetype''\<rparr> [sp_WithLogger] = Inr a"
    by (simp add: sp_New_def opt Let_def)
  moreover have "\<exists>a. gh_New \<lparr>gc_BaseURL = ?b, gc_AdminPAT = ''pw''\<rparr> [] = Inr a"
    by (simp add: gh_New_def Let_def)
  moreover have "\<exists>a. dd_New boot_env \<lparr>dc_AdminAPIKey = ''pw'', dc_AdminAppKey = ''pw'', dc_BaseURL = ?b,
      dc_KeyType = MustStringField boot_env boot_data ''key_type''\<rparr> [dd_WithLogger] = Inr a"
    by (simp add: dd_New_def opt Let_def)
  moreover have "\<exists>a. sq_New \<lparr>qc_BaseURL = ''https://h'', qc_AdminToken = ''pw''\<rparr> [sq_WithLogger] = Inr a"
    by (simp add: sq_New_def Let_def)
  moreover have "\<exists>a. pd_New \<lparr>pc_APIKey = ''pw'', pc_Email = ''e'', pc_BaseURL = ?b\<rparr> [pd_WithLogger] = Inr a"
    by (simp add: pd_New_def Let_def)
  ultimately show ?thesis
    unfolding load_adapters_def
    by (elim exE) (intro exI, rule boot_adapter [OF boot_loadAuth0], assumption,
      rule boot_adapter [OF boot_loadSplunk], assumption, rule boot_adapter [OF boot_loadGitHub], assumption,
      rule boot_adapter [OF boot_loadDatadog], assumption, rule boot_adapter [OF boot_loadSonarQube], assumption,
      rule boot_adapter [OF boot_loadPagerDuty], assumption, rule yields_ret)
qed

lemma boot_tls: "\<exists>tc. yields (buildTLSConfig boot_env) tc"
proof -
  let ?c = "\<lparr>ic_Certificate = ''crt'', ic_PrivateKey = ''key'',
    ic_CAChain = ca_bundle \<lparr>secret_data = Some boot_data, secret_auth = None\<rparr>\<rparr>"
  have issue: "yields (IssuePKICert boot_env role cn alt) ?c" for role cn alt
    unfolding IssuePKICert_def Let_def
    by (rule yields_attempt [OF yields_vault [where r = "Some \<lparr>secret_data = Some boot_data, secret_auth = None\<rparr>"]])
       (auto simp: data_field_def as_string_def boot_fields intro!: yields_intro)
  show ?thesis
    unfolding buildTLSConfig_def Let_def
    by (auto simp: lift_sum_def LoadCACertPool_def TLSConfigFromIssuedCert_def
      intro!: exI yields_attempt [OF issue] yields_intro)
qed

lemma boot_vault_New: "yields (vault_New boot_env (NewFromEnv boot_env)) \<lparr>vcl_authCfg = NewFromEnv boot_env\<rparr>"
  unfolding vault_New_def authenticate_def
  by (simp add: NewFromEnv_def envOr_def yields_def attempt_def SetToken_def ret_def)

lemma boot_startup: "\<exists>s. yields (startup boot_env order) (Done s)"
proof -
  let ?key = "envOr boot_env ''VAULT_TRANSIT_KEY'' ''cred-rotation-key''"
  obtain a0 sp gh dd sq pd where as: "yields (load_adapters boot_env ?key) (Done [auth0 boot_env a0,
      splunk boot_env sp, github boot_env gh, datadog boot_env dd, sonarqube boot_env sq, pagerduty boot_env pd])"
    using boot_adapters by blast
  obtain tc where tc: "yields (buildTLSConfig boot_env) tc" using boot_tls by blast
  obtain s where s: "server_New boot_env
      \<lparr>sv_Addr = envOr boot_env ''LISTEN_ADDR'' '':8443'', sv_TLSConfig = Some tc,
       sv_Registry = Some (broker_registry boot_env a0 sp gh dd sq pd),
       sv_VaultClient = Some \<lparr>vcl_authCfg = NewFromEnv boot_env\<rparr>, sv_TransitKeyName = ?key,
       sv_CertAllowlist = [], sv_MaxConcurrentRequests = 0\<rparr> = Inr s"
    by (simp add: server_New_def envOr_def Let_def)
  have "yields (startup boot_env order) (Done s)"
    unfolding startup_def Let_def attempt_p_def
    by (rule yields_attempt [OF boot_vault_New], rule yields_then_do, rule yields_attempt [OF as])
      (simp only: outcome.case Register_six lift_sum_def s sum.case yields_then_do yields_attempt [OF tc] yields_ret)
  then show ?thesis by blast
qed

theorem startup_wires_broker_witness:
  "\<exists>s w'. startup boot_env (\<lambda>ns. ns) fresh_world = (Inr (Done s), w') \<and> (\<exists>a0 sp gh dd sq pd.
     srv_registry s = broker_registry boot_env a0 sp gh dd sq pd
     \<and> \<not> hc_InsecureSkipVerify (sp_client sp) \<and> tc_ClientAuth (srv_tlsConfig s) = RequireAndVerifyClientCert)"
proof -
  from boot_startup obtain s w' where s: "startup boot_env (\<lambda>ns. ns) fresh_world = (Inr (Done s), w')"
    by (meson yieldsD)
  from startup_wires_broker [OF s] s show ?thesis by blast
qed

end
