(* ===== verification/Broker.thy ===== *)
theory Broker
  imports Startup
begin

text \<open>
  The properties of the broker as a whole: the handlers over the registry of the six
  adapters that \<open>startup\<close> builds, behind the middleware of the server.
\<close>

section \<open>A broker at work\<close>

text \<open>
  Concrete surroundings: every provider answers as SonarQube does to a token request, and
  Vault's Transit works.  The concrete instances of the properties run in them.
\<close>

definition demo_env :: "string \<Rightarrow> env" where
  "demo_env key = (transit_vault key)\<lparr>net :=
     (\<lambda>_ _. Inr \<lparr>resp_status = 200, resp_body = json_print token_reply\<rparr>)\<rparr>"

lemma demo_env_answers: "answers (demo_env key) 200 token_reply"
  by (simp add: answers_def demo_env_def transit_vault_def)

lemma demo_env_transit: "transit_ok (demo_env key) key (\<lambda>v. ''vault:v1:'' @ v)"
  by (simp add: transit_ok_def demo_env_def transit_vault_def)

lemma demo_env_clock [simp]: "clock (demo_env key) t = 0"
  by (simp add: demo_env_def transit_vault_def)

definition sp_example :: sp_adapter where
  "sp_example = \<lparr>sp_baseURL = ''https://sp'', sp_authToken = ''k'', sp_client =
     \<lparr>hc_Timeout = 0, hc_MinVersion = VersionTLS12, hc_InsecureSkipVerify = False, hc_RootCAs = None\<rparr>,
     sp_logger = False, sp_defaultIndex = [], sp_defaultSourcetype = []\<rparr>"

definition dd_example :: dd_adapter where
  "dd_example = \<lparr>dd_baseURL = ''https://dd'', dd_adminAPIKey = ''k'', dd_adminAppKey = ''k'',
     dd_keyType = KeyTypeAPI, dd_client =
     \<lparr>hc_Timeout = 0, hc_MinVersion = VersionTLS13, hc_InsecureSkipVerify = False, hc_RootCAs = None\<rparr>,
     dd_logger = False\<rparr>"

definition demo_registry :: "env \<Rightarrow> registry" where
  "demo_registry env =
     broker_registry env auth0_example sp_example gh_example dd_example sq_example pd_example"

definition demo_request :: "string \<Rightarrow> string \<Rightarrow> json \<Rightarrow> request" where
  "demo_request method path body = \<lparr>r_Method = method, r_EscapedPath = path, r_RawQuery = [],
     r_Body = json_print body, r_RemoteAddr = ''10.0.0.1:1000'',
     r_TLS = Some [\<lparr>CommonName = ''ci'', SerialNumber = 1\<rparr>]\<rparr>"

definition rotate_json :: json where
  "rotate_json = JObj [(''provider'', JStr ''sonarqube''), (''provider_id'', JStr ''bot'')]"

lemma demo_request_body [simp]: "r_Body (demo_request m p b) = json_print b"
  by (simp add: demo_request_def)

lemma decode_rotate_json:
  "decode_rotateRequest (json_print rotate_json) = Some (''sonarqube'', ''bot'', Map.empty)"
proof -
  have "Decode (json_print rotate_json) = Some rotate_json"
    using Decode_print [of rotate_json "[]"] by (simp add: rotate_json_def)
  then show ?thesis
    by (simp add: decode_rotateRequest_def rotate_json_def dec_struct_def dec_str_def key_for_other)
qed

lemma broker_Get_sonarqube:
  "Get env (broker_registry env a0 sp gh dd sq pd) sq_name = Inr (sonarqube env sq)"
  by (simp add: Get_def broker_registry_def provider_names)

text \<open>A SonarQube rotation that goes through, whatever the SonarQube adapter.\<close>

lemma rotate_goes_through:
  assumes "answers env 200 token_reply" "transit_ok env key enc" "\<And>t. clock env t = T" "year_ok T"
    and "decode_rotateRequest (r_Body r) = Some (sq_name, pid, meta)" "pid \<noteq> []"
  shows "\<exists>w'. Handlers_Rotate env \<lparr>hd_registry = broker_registry env a0 sp gh dd sq pd,
      hd_transitKeyName = key\<rparr> r w = (Done \<lparr>w_Status = 200, w_Headers = json_header,
        w_Body = json_print (JObj [(''provider_id'', JStr pid),
          (''encrypted_value'', JStr (enc (EncodeToString ''t1''))),
          (''rotated_at'', JStr (fmt_rfc3339nano T))]) @ [newline]\<rparr>, w')"
proof -
  let ?req = "\<lparr>rq_ProviderID = pid, rq_Meta = meta\<rparr>"
  have "succeeds (sq_Rotate env sq handler_ctx ?req) w"
    using assms(6) by (intro sq_answers_Rotate [OF assms(1)]) simp
  then obtain res w1 where rot: "sq_Rotate env sq handler_ctx ?req w = (Inr res, w1)"
    by (rule succeedsE)
  have res: "res_Credential res = ''t1''" "res_RotatedAt res = T" "res_ProviderID res = pid"
    using sq_answers_Rotate_result [OF assms(1) rot] sq_Rotate_result [OF rot] assms(3) by auto
  have "sq_name \<noteq> []" by (simp add: sq_name_def)
  then show ?thesis
    using assms(4-6) rot broker_Get_sonarqube TransitEncrypt_ok [OF assms(2)]
    by (simp add: Handlers_Rotate_def res jsonOK_def RotateResponse_json_def time_json_def)
qed

section \<open>Rotation\<close>

text \<open>
  C3. All that a rotation sends, whatever happens: requests of the named provider's adapter,
  each under that adapter's configured base URL and with its credentials, and after them
  at most one Transit write, of the base64 of a non-empty credential.  A request body that
  does not decode sends nothing.
\<close>

theorem rotate_sends_only:
  "case decode_rotateRequest (r_Body r) of
     None \<Rightarrow> trace (snd (Handlers_Rotate env \<lparr>hd_registry = broker_registry env a0 sp gh dd sq pd,
         hd_transitKeyName = key\<rparr> r w)) = trace w
   | Some (provider, _, _) \<Rightarrow> \<exists>es us.
       trace (snd (Handlers_Rotate env \<lparr>hd_registry = broker_registry env a0 sp gh dd sq pd,
         hd_transitKeyName = key\<rparr> r w)) = trace w @ es @ us
       \<and> list_all (broker_mine a0 sp gh dd sq pd provider) es
       \<and> (us = [] \<or> (\<exists>tok cred. cred \<noteq> [] \<and> us = [transit_event tok key cred]))"
  by (rule broker.rotate_trace)

text \<open>
  C4. A rotation answered with 200 has taken a non-empty credential from the adapter named in
  the request; what it answers is the request's provider id, the time of the rotation and
  the ciphertext Vault's Transit returned for the base64 of that credential, and nothing
  else (no body at all when the time cannot be marshalled).
\<close>

theorem rotate_answers_ciphertext:
  assumes "Handlers_Rotate env \<lparr>hd_registry = broker_registry env a0 sp gh dd sq pd,
      hd_transitKeyName = key\<rparr> r w = (Done resp, w')"
    and "w_Status resp = 200"
  shows "\<exists>provider pid meta a res w1 s ct.
    decode_rotateRequest (r_Body r) = Some (provider, pid, meta)
    \<and> Get env (broker_registry env a0 sp gh dd sq pd) provider = Inr a
    \<and> Rotate a handler_ctx \<lparr>rq_ProviderID = pid, rq_Meta = meta\<rparr> w = (Inr res, w1)
    \<and> res_Credential res \<noteq> []
    \<and> vault env (trace w1) (vault_token w1) (VWrite (''transit/encrypt/'' @ key)
        [(''plaintext'', GStr (EncodeToString (res_Credential res)))]) = Inr (Some s)
    \<and> data_field s ''ciphertext'' = Some (GStr ct) \<and> ct \<noteq> []
    \<and> w_Body resp = (if year_ok (res_RotatedAt res) then json_print (JObj
        [(''provider_id'', JStr pid), (''encrypted_value'', JStr ct),
         (''rotated_at'', JStr (fmt_rfc3339nano (res_RotatedAt res)))]) @ [newline] else [])"
proof -
  obtain provider pid meta a res w1 ct w2 where
    d: "decode_rotateRequest (r_Body r) = Some (provider, pid, meta)"
    and g: "Get env (broker_registry env a0 sp gh dd sq pd) provider = Inr a"
    and rot: "Rotate a handler_ctx \<lparr>rq_ProviderID = pid, rq_Meta = meta\<rparr> w = (Inr res, w1)"
    and res: "res_ProviderID res = pid" "res_Credential res \<noteq> []"
    and t: "TransitEncrypt env key (res_Credential res) w1 = (Inr (Done ct), w2)"
    and out: "(Done resp, w') = jsonOK (RotateResponse_json
       \<lparr>rs_ProviderID = pid, rs_EncryptedValue = ct, rs_RotatedAt = res_RotatedAt res\<rparr>) w2"
    using assms by (rule broker.rotate_ok)
  have body: "w_Body resp = (if year_ok (res_RotatedAt res) then json_print (JObj
        [(''provider_id'', JStr pid), (''encrypted_value'', JStr ct),
         (''rotated_at'', JStr (fmt_rfc3339nano (res_RotatedAt res)))]) @ [newline] else [])"
    using out by (auto simp: jsonOK_def RotateResponse_json_def time_json_def split: if_splits option.splits)
  from TransitEncrypt_Done [OF t] obtain s where "ct \<noteq> []"
    "vault env (trace w1) (vault_token w1) (VWrite (''transit/encrypt/'' @ key)
        [(''plaintext'', GStr (EncodeToString (res_Credential res)))]) = Inr (Some s)"
    "data_field s ''ciphertext'' = Some (GStr ct)" by blast
  with d g rot res(2) body show ?thesis by blast
qed

theorem rotate_answers_ciphertext_witness:
  "\<exists>(resp :: response) provider pid meta a (res :: Result) w1 s ct.
    decode_rotateRequest (json_print rotate_json) = Some (provider, pid, meta)
    \<and> Get (demo_env ''k'') (demo_registry (demo_env ''k'')) provider = Inr a
    \<and> Rotate a handler_ctx \<lparr>rq_ProviderID = pid, rq_Meta = meta\<rparr> fresh_world = (Inr res, w1)
    \<and> res_Credential res \<noteq> []
    \<and> vault (demo_env ''k'') (trace w1) (vault_token w1) (VWrite (''transit/encrypt/'' @ ''k'')
        [(''plaintext'', GStr (EncodeToString (res_Credential res)))]) = Inr (Some s)
    \<and> data_field s ''ciphertext'' = Some (GStr ct) \<and> ct \<noteq> []
    \<and> w_Body resp = (if year_ok (res_RotatedAt res) then json_print (JObj
        [(''provider_id'', JStr pid), (''encrypted_value'', JStr ct),
         (''rotated_at'', JStr (fmt_rfc3339nano (res_RotatedAt res)))]) @ [newline] else [])"
proof -
  let ?r = "demo_request ''POST'' ''/v1/credentials/rotate'' rotate_json"
  obtain w' where run: "Handlers_Rotate (demo_env ''k'') \<lparr>hd_registry = demo_registry (demo_env ''k''),
      hd_transitKeyName = ''k''\<rparr> ?r fresh_world = (Done \<lparr>w_Status = 200, w_Headers = json_header,
        w_Body = json_print (JObj [(''provider_id'', JStr ''bot''),
          (''encrypted_value'', JStr (''vault:v1:'' @ EncodeToString ''t1'')),
          (''rotated_at'', JStr (fmt_rfc3339nano 0))]) @ [newline]\<rparr>, w')"
    using rotate_goes_through [OF demo_env_answers demo_env_transit demo_env_clock year_ok_0, of ?r "''bot''"]
      decode_rotate_json unfolding demo_registry_def sq_name_def demo_request_body by blast
  show ?thesis
    unfolding demo_registry_def
    by (rule exI) (rule rotate_answers_ciphertext [OF run [unfolded demo_registry_def],
          unfolded demo_request_body], simp)
qed

section \<open>Requests with no effect\<close>

text \<open>
  A request answered with 400 (malformed) or 404 (unknown provider) has had no effect:
  nothing was sent, started, logged or counted by the handler.
\<close>

lemma rejected_without_effect:
  assumes "f \<in> {Handlers_Rotate env h, Handlers_Revoke env h, Handlers_Status env h}"
    and "f r w = (Done resp, w')" "w_Status resp \<in> {400, 404}"
  shows "w' = w"
  using assms
  by (auto simp: Handlers_Rotate_def Handlers_Revoke_def Handlers_Status_def jsonError_def jsonOK_def Let_def
      error_response_def split: option.splits prod.splits sum.splits if_splits outcome.splits)

text \<open>
  A revocation that names no credential never succeeds and sends nothing, whichever the
  provider: no adapter takes an empty id to mean that there is nothing to revoke.
\<close>

lemma revoke_needs_credential_id:
  assumes "decode_revokeRequest (r_Body r) = Some (provider, pid, [])"
  shows "(\<exists>resp. fst (Handlers_Revoke env \<lparr>hd_registry = broker_registry env a0 sp gh dd sq pd,
        hd_transitKeyName = key\<rparr> r w) = Done resp \<and> w_Status resp \<in> {400, 404, 502})
    \<and> trace (snd (Handlers_Revoke env \<lparr>hd_registry = broker_registry env a0 sp gh dd sq pd,
        hd_transitKeyName = key\<rparr> r w)) = trace w"
  using broker.revoke_needs_id [OF assms] by blast

section \<open>Authorization\<close>

definition limit_of :: "server_config \<Rightarrow> int" where
  "limit_of cfg = (if sv_MaxConcurrentRequests cfg \<le> 0 then defaultMaxConcurrency
     else sv_MaxConcurrentRequests cfg)"

lemma server_New_Inr:
  assumes "server_New env cfg = Inr s"
  shows "\<exists>reg. sv_Registry cfg = Some reg \<and> srv_registry s = reg \<and>
    srv_handler s = requestLogger env (concurrencyLimiter env (limit_of cfg)
      (certAuthz env (sv_CertAllowlist cfg)
        (mux env \<lparr>hd_registry = reg, hd_transitKeyName = sv_TransitKeyName cfg\<rparr>)))"
  using assms by (auto simp: server_New_def Let_def limit_of_def split: option.splits if_splits)

lemma log_simps [simp]:
  "inFlight (log_request env r c w) = inFlight w" "trace (log_request env r c w) = trace w"
  "spawned (log_request env r c w) = spawned w"
  by (simp_all add: log_request_def)

text \<open>
  C5. A client certificate whose common name is not on the allow-list of the endpoint gets no
  further than the middleware: the answer is 403, or 503 when the server is full, and
  nothing has been sent or started.
\<close>

theorem authz_enforced:
  assumes "server_New env cfg = Inr s"
    and "map_of (sv_CertAllowlist cfg) (r_Method r @ '' '' @ URL_Path r) = Some allowed"
    and "fst (clientCertIdentity r) \<notin> set allowed"
  shows "\<exists>resp w'. srv_handler s r w = (Done resp, w') \<and> resp \<in> {forbidden, overloaded_response}
    \<and> w_Status resp \<in> {403, 503} \<and> trace w' = trace w \<and> spawned w' = spawned w \<and> inFlight w' = inFlight w"
proof -
  obtain reg where h: "srv_handler s = requestLogger env (concurrencyLimiter env (limit_of cfg)
      (certAuthz env (sv_CertAllowlist cfg)
        (mux env \<lparr>hd_registry = reg, hd_transitKeyName = sv_TransitKeyName cfg\<rparr>)))"
    using server_New_Inr [OF assms(1)] by blast
  have ne: "sv_CertAllowlist cfg \<noteq> []" using assms(2) by auto
  have cert: "certAuthz env (sv_CertAllowlist cfg) next r v = (Done forbidden, log LWarn ''cert authz denied''
      [(''path'', AStr (quoted env (URL_Path r))), (''cert_cn'', AStr (quoted env (fst (clientCertIdentity r))))] v)"
    for "next" v using assms(2,3) ne by (simp add: certAuthz_def Let_def)
  show ?thesis
  proof (cases "inFlight w < limit_of cfg")
    case True
    then show ?thesis by (simp add: h requestLogger_def limiter_serves cert forbidden_def)
  next
    case False
    then show ?thesis
      by (simp add: h requestLogger_def concurrencyLimiter_def Let_def overloaded_response_def)
  qed
qed

definition demo_tls :: tls_config where
  "demo_tls = \<lparr>tc_Certificate = (''c'', ''k''), tc_ClientCAs = ''pem'',
     tc_ClientAuth = RequireAndVerifyClientCert, tc_MinVersion = VersionTLS13\<rparr>"

definition demo_config :: "env \<Rightarrow> allowlist \<Rightarrow> server_config" where
  "demo_config env allow = \<lparr>sv_Addr = '':8443'', sv_TLSConfig = Some demo_tls,
     sv_Registry = Some (demo_registry env), sv_VaultClient = Some \<lparr>vcl_authCfg = spiffe_config\<rparr>,
     sv_TransitKeyName = ''k'', sv_CertAllowlist = allow, sv_MaxConcurrentRequests = 0\<rparr>"

lemma demo_server: "\<exists>s. server_New env (demo_config env allow) = Inr s \<and> srv_registry s = demo_registry env"
  by (simp add: server_New_def demo_config_def Let_def)

theorem authz_enforced_witness:
  "\<exists>s (resp :: response) w'. server_New (demo_env ''k'') (demo_config (demo_env ''k'') [(''POST /v1/credentials/rotate'', [''ops''])])
      = Inr s
    \<and> srv_handler s (demo_request ''POST'' ''/v1/credentials/rotate'' rotate_json) fresh_world = (Done resp, w')
    \<and> resp \<in> {forbidden, overloaded_response} \<and> w_Status resp \<in> {403, 503} \<and> trace w' = trace fresh_world
    \<and> spawned w' = spawned fresh_world \<and> inFlight w' = inFlight fresh_world"
proof -
  let ?allow = "[(''POST /v1/credentials/rotate'', [''ops''])]"
  let ?r = "demo_request ''POST'' ''/v1/credentials/rotate'' rotate_json"
  obtain s where s: "server_New (demo_env ''k'') (demo_config (demo_env ''k'') ?allow) = Inr s"
    using demo_server by blast
  have "map_of (sv_CertAllowlist (demo_config (demo_env ''k'') ?allow)) (r_Method ?r @ '' '' @ URL_Path ?r)
      = Some [''ops'']"
    by (simp add: demo_config_def demo_request_def URL_Path_def)
  moreover have "fst (clientCertIdentity ?r) \<notin> set [''ops'']"
    by (simp add: demo_request_def clientCertIdentity_def)
  ultimately show ?thesis using authz_enforced [OF s, of ?r "[''ops'']" fresh_world] s by blast
qed

text \<open>
  The allow-list does not cover \<open>HEAD\<close>: a list that admits nobody to the status endpoint
  still lets every certificate reach its handler with a \<open>HEAD\<close> request, because the route
  serves \<open>HEAD\<close> too and the list is looked up by the method of the request.
\<close>

lemma head_bypasses_allowlist:
  "certAuthz env [(''GET /v1/credentials/status'', [])] (mux env h)
     (r\<lparr>r_Method := ''HEAD'', r_EscapedPath := ''/v1/credentials/status''\<rparr>) w =
   Handlers_Status env h (r\<lparr>r_Method := ''HEAD'', r_EscapedPath := ''/v1/credentials/status''\<rparr>) w"
proof -
  let ?r = "r\<lparr>r_Method := ''HEAD'', r_EscapedPath := ''/v1/credentials/status''\<rparr>"
  have "r_EscapedPath ?r = ep_path EP_Status" by simp
  from route_canonical [OF this] have "route_of ?r = Serve EP_Status"
    by (simp add: serves_method_def)
  then have "mux env h ?r w = Handlers_Status env h ?r w"
    by (simp add: mux_def endpoint_handler_def)
  moreover have "certAuthz env [(''GET /v1/credentials/status'', [])] (mux env h) ?r w = mux env h ?r w"
    by (rule certAuthz_passes) simp
  ultimately show ?thesis by simp
qed

section \<open>Shutdown\<close>

text \<open>The clean-ups an adapter of the broker can have started.\<close>

definition of_broker :: "cleanup \<Rightarrow> bool" where
  "of_broker cl \<longleftrightarrow> cl_adapter cl \<in> {sp_name, dd_name, sq_name, pd_name}"

lemma broker_drainers:
  assumes "of_broker cl"
  shows "cl_adapter cl \<in> fst ` set (broker_registry env a0 sp gh dd sq pd)"
    "\<exists>a d. Get env (broker_registry env a0 sp gh dd sq pd) (cl_adapter cl) = Inr a \<and> Drain a = Some d"
  using assms by (auto simp: of_broker_def broker_registry_def Get_def provider_names)

text \<open>
  C18. A graceful shutdown leaves no old credential behind: when the listener closes and no
  wait is cut short, \<open>Shutdown\<close> succeeds, no clean-up is pending any more, and for each one
  that was, the request that deletes or revokes the old credential has been made, on a
  context that does not end with the request that started it, in whatever order Go ranges
  over the registry.
\<close>

theorem shutdown_deletes_old:
  assumes "srv_registry s = broker_registry env a0 sp gh dd sq pd"
    and "http_shutdown env (ticks w) = None" "\<And>t n. drain_wait env t n = None"
    and "\<And>u. url_err env u = None" "\<And>ns. set (order ns) = set ns"
    and "list_all of_broker (spawned w)"
  shows "\<exists>w'. Shutdown env order s c w = (Inr (), w') \<and> spawned w' = []
    \<and> (\<forall>cl \<in> set (spawned w). \<exists>e \<in> set (trace w'). broker_sent sp dd sq pd (cl_adapter cl) cl e)"
proof -
  let ?reg = "broker_registry env a0 sp gh dd sq pd"
  let ?w = "w\<lparr>ticks := Suc (ticks w)\<rparr>"
  define w' where "w' = drain_all env (WithTimeout c shutdownTimeout) ?reg (Names order ?reg) ?w"
  have "Shutdown env order s c w = (Inr (), w')"
    using assms(1,2) by (simp add: Shutdown_def Let_def w'_def)
  moreover have names: "set (Names order ?reg) = fst ` set ?reg" by (simp add: Names_def assms(5))
  note eff = broker.drain_all_effect [where w = ?w and c = "WithTimeout c shutdownTimeout"
      and ns = "Names order ?reg" and env = env and sp = sp and dd = dd and sq = sq and pd = pd
      and ?a0.0 = a0 and gh = gh, OF assms(3,4), folded w'_def]
  have each: "cl \<notin> set (spawned w') \<and> (\<exists>e \<in> set (trace w'). broker_sent sp dd sq pd (cl_adapter cl) cl e)"
    if "cl \<in> set (spawned w)" for cl
  proof -
    have "of_broker cl" using that assms(6) by (simp add: list_all_iff)
    note d = broker_drainers [OF this, of env a0 sp gh dd sq pd]
    from d(2) obtain a d where "Get env ?reg (cl_adapter cl) = Inr a" "Drain a = Some d" by blast
    moreover have "cl_adapter cl \<in> set (Names order ?reg)" using d(1) names by simp
    moreover have "cl \<in> set (spawned ?w)" using that by simp
    ultimately show ?thesis using eff by blast
  qed
  moreover have "set (spawned w') \<subseteq> set (spawned w)" using eff by simp
  ultimately show ?thesis by (intro exI [of _ w']) (cases "spawned w'", auto)
qed

definition pending :: "cleanup list" where
  "pending = [\<lparr>cl_adapter = sq_name, cl_target = ''bot-1'', cl_provider = ''bot''\<rparr>,
     \<lparr>cl_adapter = dd_name, cl_target = ''k1'', cl_provider = ''svc''\<rparr>]"

theorem shutdown_deletes_old_witness:
  "\<exists>s w'. server_New (demo_env ''k'') (demo_config (demo_env ''k'') []) = Inr s
    \<and> Shutdown (demo_env ''k'') rev s Background (fresh_world\<lparr>spawned := pending\<rparr>) = (Inr (), w')
    \<and> spawned w' = []
    \<and> (\<exists>e \<in> set (trace w'). broker_sent sp_example dd_example sq_example pd_example sq_name (hd pending) e)"
proof -
  obtain s where s: "server_New (demo_env ''k'') (demo_config (demo_env ''k'') []) = Inr s"
    "srv_registry s = demo_registry (demo_env ''k'')" using demo_server by blast
  have env: "http_shutdown (demo_env ''k'') t = None" "drain_wait (demo_env ''k'') t n = None"
    "url_err (demo_env ''k'') u = None" for t n u
    by (simp_all add: demo_env_def transit_vault_def)
  have "list_all of_broker (spawned (fresh_world\<lparr>spawned := pending\<rparr>))"
    by (simp add: pending_def of_broker_def)
  from shutdown_deletes_old [OF s(2) [unfolded demo_registry_def] env(1) env(2) env(3) _ this, of rev Background]
  obtain w' where w': "Shutdown (demo_env ''k'') rev s Background (fresh_world\<lparr>spawned := pending\<rparr>) = (Inr (), w')"
    "spawned w' = []" and sent: "\<forall>cl \<in> set (spawned (fresh_world\<lparr>spawned := pending\<rparr>)).
      \<exists>e \<in> set (trace w'). broker_sent sp_example dd_example sq_example pd_example (cl_adapter cl) cl e"
    by auto
  have "hd pending \<in> set (spawned (fresh_world\<lparr>spawned := pending\<rparr>))" "cl_adapter (hd pending) = sq_name"
    by (simp_all add: pending_def)
  with sent have "\<exists>e \<in> set (trace w'). broker_sent sp_example dd_example sq_example pd_example sq_name (hd pending) e"
    by metis
  with s(1) w' show ?thesis by blast
qed

section \<open>Revocation\<close>

lemma broker_Revoke_answered:
  assumes "Get env (broker_registry env a0 sp gh dd sq pd) n = Inr a" "Revoke a c rv w = (Inr u, w')"
  shows "\<exists>st \<in> {200, 204, 404}. answered env w w' st"
  using Get_member [OF assms(1)]
proof (cases rule: broker_registry_cases)
  case 1
  with assms(2) show ?thesis by (simp add: auth0_Revoke_def)
qed (use assms(2) in \<open>auto dest: sp_Revoke_answered gh_Revoke_answered dd_Revoke_answered
  sq_Revoke_answered pd_Revoke_answered\<close>)

text \<open>
  C17. A revocation reported as done has been confirmed by the provider: exactly one request
  was made, by the adapter of the named provider and for a credential id that is not
  empty, and the provider answered that the credential was deleted (200 or 204) or does
  not exist any more (404).
\<close>

theorem revoke_confirmed:
  assumes "Handlers_Revoke env \<lparr>hd_registry = broker_registry env a0 sp gh dd sq pd,
      hd_transitKeyName = key\<rparr> r w = (Done resp, w')"
    and "w_Status resp = 200"
  shows "\<exists>provider pid cid q reply. decode_revokeRequest (r_Body r) = Some (provider, pid, cid) \<and> cid \<noteq> []
    \<and> trace w' = trace w @ [EHttp q] \<and> broker_mine a0 sp gh dd sq pd provider (EHttp q)
    \<and> net env (trace w) q = Inr reply \<and> resp_status reply \<in> {200, 204, 404}"
proof -
  let ?reg = "broker_registry env a0 sp gh dd sq pd"
  obtain provider pid cid where d: "decode_revokeRequest (r_Body r) = Some (provider, pid, cid)"
    using assms by (auto simp: Handlers_Revoke_def jsonError_def split: option.splits)
  with assms have ne: "provider \<noteq> []" "pid \<noteq> []"
    by (auto simp: Handlers_Revoke_def jsonError_def)
  with assms d obtain a where g: "Get env ?reg provider = Inr a"
    by (auto simp: Handlers_Revoke_def jsonError_def split: sum.splits)
  let ?rv = "\<lparr>rv_ProviderID = pid, rv_CredentialID = cid\<rparr>"
  obtain x w1 where rev: "Revoke a handler_ctx ?rv w = (x, w1)" by fastforce
  from assms d ne g rev obtain u where u: "x = Inr u" and w1: "w' = w1"
    by (auto simp: Handlers_Revoke_def jsonError_def jsonOK_def split: sum.splits)
  note c = broker.get_contract [OF g]
  have "cid \<noteq> []" using credential_adapter.revoke_done [OF c] rev u by fastforce
  have "Revoke a handler_ctx ?rv w = (Inr u, w1)" using rev u by simp
  from broker_Revoke_answered [OF g this]
  obtain st where st: "st \<in> {200, 204, 404}" "answered env w w1 st" ..
  then obtain q reply where q: "trace w1 = trace w @ [EHttp q]"
    "net env (trace w) q = Inr reply" "resp_status reply = st"
    by (auto simp only: answered_def)
  from emitsD [OF credential_adapter.revoke_emits [OF c], of handler_ctx ?rv w]
  have "broker_mine a0 sp gh dd sq pd provider (EHttp q)" using rev q(1) by auto
  with d \<open>cid \<noteq> []\<close> w1 q(1,2) st(1) [folded q(3)] show ?thesis by (intro exI conjI) simp_all
qed

definition gone_env :: env where
  "gone_env = answering 404 (JObj [])"

lemma dd_gone_Revoke:
  assumes "rv_CredentialID rv \<noteq> []"
  shows "succeeds (dd_Revoke gone_env a c rv) w"
  using assms by (simp add: succeeds_def dd_Revoke_def dd_deleteKey_def dd_do_def NewRequest_def Let_def
      attempt_def Do_def gone_env_def)

definition revoke_k1 :: json where
  "revoke_k1 = JObj [(''provider'', JStr ''datadog''), (''provider_id'', JStr ''svc''),
     (''credential_id'', JStr ''k1'')]"

lemma decode_revoke_k1: "decode_revokeRequest (json_print revoke_k1) = Some (''datadog'', ''svc'', ''k1'')"
proof -
  have "Decode (json_print revoke_k1) = Some revoke_k1"
    using Decode_print [of revoke_k1 "[]"] by (simp add: revoke_k1_def)
  then show ?thesis
    by (simp add: decode_revokeRequest_def revoke_k1_def dec_struct_def dec_str_def key_for_other)
qed

lemma broker_Get_datadog:
  "Get env (broker_registry env a0 sp gh dd sq pd) dd_name = Inr (datadog env dd)"
  by (simp add: Get_def broker_registry_def provider_names)

lemma revoke_goes_through:
  assumes "decode_revokeRequest (r_Body r) = Some (provider, pid, cid)" "provider \<noteq> []" "pid \<noteq> []"
    and "Get env reg provider = Inr a"
    and "Revoke a handler_ctx \<lparr>rv_ProviderID = pid, rv_CredentialID = cid\<rparr> w = (Inr (), w')"
  shows "\<exists>resp. Handlers_Revoke env \<lparr>hd_registry = reg, hd_transitKeyName = key\<rparr> r w = (Done resp, w')
    \<and> w_Status resp = 200"
  using assms by (simp add: Handlers_Revoke_def jsonOK_def)

theorem revoke_confirmed_witness:
  "\<exists>resp w' provider pid cid q reply.
    Handlers_Revoke gone_env \<lparr>hd_registry = broker_registry gone_env auth0_example sp_example gh_example
        dd_example sq_example pd_example, hd_transitKeyName = ''k''\<rparr>
      (demo_request ''POST'' ''/v1/credentials/revoke'' revoke_k1) fresh_world = (Done (resp :: response), w')
    \<and> decode_revokeRequest (json_print revoke_k1) = Some (provider, pid, cid) \<and> cid \<noteq> []
    \<and> trace w' = trace fresh_world @ [EHttp q]
    \<and> broker_mine auth0_example sp_example gh_example dd_example sq_example pd_example provider (EHttp q)
    \<and> net gone_env (trace fresh_world) q = Inr reply \<and> resp_status reply \<in> {200, 204, 404}"
proof -
  let ?reg = "broker_registry gone_env auth0_example sp_example gh_example dd_example sq_example pd_example"
  let ?r = "demo_request ''POST'' ''/v1/credentials/revoke'' revoke_k1"
  have "succeeds (dd_Revoke gone_env dd_example handler_ctx \<lparr>rv_ProviderID = ''svc'', rv_CredentialID = ''k1''\<rparr>)
      fresh_world" by (rule dd_gone_Revoke) simp
  then obtain w' where "Revoke (datadog gone_env dd_example) handler_ctx
      \<lparr>rv_ProviderID = ''svc'', rv_CredentialID = ''k1''\<rparr> fresh_world = (Inr (), w')" unfolding datadog_sel succeeds_def by auto
  moreover have "decode_revokeRequest (r_Body ?r) = Some (dd_name, ''svc'', ''k1'')"
    unfolding demo_request_body decode_revoke_k1 dd_name_def ..
  moreover have "dd_name \<noteq> []" "''svc'' \<noteq> []" by (simp_all add: dd_name_def)
  ultimately obtain resp where run: "Handlers_Revoke gone_env \<lparr>hd_registry = ?reg, hd_transitKeyName = ''k''\<rparr> ?r
      fresh_world = (Done resp, w')" and ok: "w_Status resp = 200"
    using revoke_goes_through [OF _ _ _ broker_Get_datadog] by blast
  from revoke_confirmed [OF run ok] run show ?thesis unfolding demo_request_body by blast
qed

section \<open>Failures after the provider has rotated\<close>

text \<open>
  When Vault answers the encryption with neither an error nor a reply, the handler
  panics after the provider has already issued the new credential: the credential is lost,
  and the middleware that writes the audit line writes none.
\<close>

lemma nil_reply_loses_credential:
  assumes "decode_rotateRequest (r_Body r) = Some (provider, pid, meta)" "provider \<noteq> []" "pid \<noteq> []"
    and "Get env reg provider = Inr a"
    and "Rotate a handler_ctx \<lparr>rq_ProviderID = pid, rq_Meta = meta\<rparr> w = (Inr res, w1)"
    and "vault env (trace w1) (vault_token w1) (VWrite (''transit/encrypt/'' @ key)
        [(''plaintext'', GStr (EncodeToString (res_Credential res)))]) = Inr None"
  shows "\<exists>w'. requestLogger env (Handlers_Rotate env \<lparr>hd_registry = reg, hd_transitKeyName = key\<rparr>) r w
      = (Panics nil_dereference, w') \<and> logs w' = logs w1"
proof -
  have "TransitEncrypt env key (res_Credential res) w1 = (Inr (Panics nil_dereference),
      w1\<lparr>trace := trace w1 @ [transit_event (vault_token w1) key (res_Credential res)]\<rparr>)"
    using assms(6) by (simp add: TransitEncrypt_def attempt_def vault_do_def transit_event_def)
  with assms(1-5) show ?thesis by (simp add: requestLogger_def Handlers_Rotate_def)
qed

text \<open>
  A provider's reply with an unexpected status is handed to the client word for word in
  the 502 answer: when Datadog answers the creation of a key with any status but 201, whatever
  its body holds, the new key included, ends the error text of the answer.
\<close>

lemma rotate_error_shows_body:
  assumes "\<And>tr q. net env tr q = Inr \<lparr>resp_status = st, resp_body = b\<rparr>" "\<And>u. url_err env u = None"
    and "\<And>t c. acquire env t c = None" "\<And>t n. \<exists>x. entropy env t n = Inr x" "st \<noteq> 201" "length b \<le> bodyLimit"
    and "decode_rotateRequest (r_Body r) = Some (dd_name, pid, meta)" "pid \<noteq> []"
  shows "\<exists>pre w'. Handlers_Rotate env \<lparr>hd_registry = broker_registry env a0 sp gh dd sq pd,
      hd_transitKeyName = key\<rparr> r w = (Done (error_response 502 (''rotation failed: '' @ pre @ b)), w')"
proof -
  obtain pre w' where "dd_Rotate env dd handler_ctx \<lparr>rq_ProviderID = pid, rq_Meta = meta\<rparr> w = (Inl (pre @ b), w')"
    using dd_Rotate_unexpected [OF assms(1-6)] by blast
  moreover have "dd_name \<noteq> []" by (simp add: dd_name_def)
  ultimately have "Handlers_Rotate env \<lparr>hd_registry = broker_registry env a0 sp gh dd sq pd,
      hd_transitKeyName = key\<rparr> r w = (Done (error_response 502 (''rotation failed: '' @ pre @ b)),
        log_failed env ''adapter rotate failed'' dd_name (pre @ b) w')"
    using assms(7,8) broker_Get_datadog by (simp add: Handlers_Rotate_def jsonError_def)
  then show ?thesis by blast
qed

definition dd_rotate_json :: json where
  "dd_rotate_json = JObj [(''provider'', JStr ''datadog''), (''provider_id'', JStr ''svc'')]"

lemma decode_dd_rotate_json:
  "decode_rotateRequest (json_print dd_rotate_json) = Some (dd_name, ''svc'', Map.empty)"
proof -
  have "Decode (json_print dd_rotate_json) = Some dd_rotate_json"
    using Decode_print [of dd_rotate_json "[]"] by (simp add: dd_rotate_json_def)
  then show ?thesis
    by (simp add: decode_rotateRequest_def dd_rotate_json_def dec_struct_def dec_str_def key_for_other dd_name_def)
qed

end
