(* ===== verification/Concurrency.thy ===== *)
theory Concurrency
  imports Adapter
begin

text \<open>
  The three places where requests interleave: the semaphore and the wait group of an
  adapter with clean-up goroutines (\<open>Rotate\<close> and \<open>Drain\<close> of datadog.go; splunk.go,
  sonarqube.go and pagerduty.go have the same), the atomic counter of the server's
  \<open>concurrencyLimiter\<close>, and the double-checked locking of Auth0's \<open>managementToken\<close>.
  Each is a labelled step function on the shared state, an executable partial function
  that says which steps are enabled; a run is any sequence of enabled steps.
\<close>

section \<open>Runs\<close>

inductive runs :: "('l \<Rightarrow> 's \<Rightarrow> 's option) \<Rightarrow> 's \<Rightarrow> 'l list \<Rightarrow> 's \<Rightarrow> bool"
  for step :: "'l \<Rightarrow> 's \<Rightarrow> 's option" where
  runs_Nil: "runs step s [] s"
| runs_snoc: "runs step s ls t \<Longrightarrow> step l t = Some u \<Longrightarrow> runs step s (ls @ [l]) u"

lemma runs_append: "runs step t ls u \<Longrightarrow> runs step s ks t \<Longrightarrow> runs step s (ks @ ls) u"
  by (induction rule: runs.induct) (auto intro: runs_snoc simp flip: append_assoc)

fun exec :: "('l \<Rightarrow> 's \<Rightarrow> 's option) \<Rightarrow> 'l list \<Rightarrow> 's \<Rightarrow> 's option" where
  "exec step [] s = Some s"
| "exec step (l # ls) s = Option.bind (step l s) (exec step ls)"

lemma exec_append: "exec step (ls @ ks) s = Option.bind (exec step ls s) (exec step ks)"
proof (induction ls arbitrary: s)
  case (Cons l ls)
  then show ?case by (cases "step l s") simp_all
qed simp

lemma runs_single: "step l s = Some t \<Longrightarrow> runs step s [l] t"
  using runs_snoc [OF runs_Nil, of step l s t] by simp

lemma exec_runs: "exec step ls s = Some t \<Longrightarrow> runs step s ls t"
proof (induction ls arbitrary: s)
  case (Cons l ls)
  then obtain u where "step l s = Some u" "runs step u ls t"
    by (auto simp: bind_eq_Some_conv)
  then show ?case using runs_append [of step u ls t s "[l]"] runs_single by fastforce
qed (simp add: runs_Nil)

text \<open>
  A machine: a step function with an initial state and an invariant of its steps, which every
  reachable state then has.  Each state machine of this development is one.
\<close>

locale machine =
  fixes step :: "'l \<Rightarrow> 's \<Rightarrow> 's option" and init :: 's and ok :: "'s \<Rightarrow> bool"
  assumes ok_init: "ok init"
    and ok_step: "ok s \<Longrightarrow> step l s = Some t \<Longrightarrow> ok t"
begin

lemma stays_ok: "runs step s ls t \<Longrightarrow> ok s \<Longrightarrow> ok t"
  by (induction rule: runs.induct) (auto intro: ok_step)

lemma reachable_ok: "runs step init ls s \<Longrightarrow> ok s"
  using stays_ok ok_init by blast

end

section \<open>Rotations, clean-ups and Drain\<close>

text \<open>
  \<open>blocked\<close> rotations wait in \<open>sem.Acquire\<close>, \<open>holding\<close> ones have a slot;
  \<open>cleaning\<close> are the goroutines started, \<open>wg\<close> the counter of \<open>cleanupWg\<close>; \<open>closed\<close>
  is set once \<open>http.Shutdown\<close> has returned, when no request is left, and \<open>drained\<close> once
  \<open>Drain\<close> has returned nil.  The semaphore is used by its documented contract: \<open>Acquire\<close>
  succeeds only while fewer than its size are held, and may fail when its context ends.
\<close>

record slots =
  blocked :: "nat list"
  holding :: "nat list"
  started :: "nat list"
  cleaning :: "nat list"
  wg :: nat
  closed :: bool
  drained :: bool

definition slots_init :: slots where
  "slots_init = \<lparr>blocked = [], holding = [], started = [], cleaning = [], wg = 0,
     closed = False, drained = False\<rparr>"

datatype slot_label =
    Call nat        \<comment> \<open>a request enters \<open>Rotate\<close>\<close>
  | Acquired nat    \<comment> \<open>\<open>sem.Acquire\<close> returns nil\<close>
  | Cancelled nat   \<comment> \<open>\<open>sem.Acquire\<close> returns the context's error\<close>
  | Start nat       \<comment> \<open>\<open>cleanupWg.Add(1)\<close> and \<open>go func()\<close>\<close>
  | Release nat     \<comment> \<open>the deferred \<open>sem.Release(1)\<close>\<close>
  | Cleaned nat     \<comment> \<open>the deferred \<open>cleanupWg.Done()\<close>\<close>
  | HttpShutdown    \<comment> \<open>\<open>http.Server.Shutdown\<close> returns nil\<close>
  | DrainNil        \<comment> \<open>\<open>Drain\<close> sees \<open>done\<close> closed after \<open>cleanupWg.Wait()\<close>\<close>

fun slot_step :: "slot_label \<Rightarrow> slots \<Rightarrow> slots option" where
  "slot_step (Call r) s =
     (if \<not> closed s \<and> r \<notin> set (blocked s) \<and> r \<notin> set (holding s) \<and> r \<notin> set (started s)
      then Some (s\<lparr>blocked := blocked s @ [r]\<rparr>) else None)"
| "slot_step (Acquired r) s =
     (if r \<in> set (blocked s) \<and> length (holding s) < defaultSemLimit
      then Some (s\<lparr>blocked := remove1 r (blocked s), holding := r # holding s\<rparr>) else None)"
| "slot_step (Cancelled r) s =
     (if r \<in> set (blocked s) then Some (s\<lparr>blocked := remove1 r (blocked s)\<rparr>) else None)"
| "slot_step (Start r) s =
     (if r \<in> set (holding s) \<and> r \<notin> set (started s)
      then Some (s\<lparr>started := r # started s, cleaning := r # cleaning s, wg := wg s + 1\<rparr>) else None)"
| "slot_step (Release r) s =
     (if r \<in> set (holding s) then Some (s\<lparr>holding := remove1 r (holding s)\<rparr>) else None)"
| "slot_step (Cleaned r) s =
     (if r \<in> set (cleaning s) then Some (s\<lparr>cleaning := remove1 r (cleaning s), wg := wg s - 1\<rparr>) else None)"
| "slot_step HttpShutdown s =
     (if blocked s = [] \<and> holding s = [] then Some (s\<lparr>closed := True\<rparr>) else None)"
| "slot_step DrainNil s =
     (if closed s \<and> wg s = 0 then Some (s\<lparr>drained := True\<rparr>) else None)"

definition slots_ok :: "slots \<Rightarrow> bool" where
  "slots_ok s \<longleftrightarrow> length (holding s) \<le> defaultSemLimit \<and> wg s = length (cleaning s)
     \<and> distinct (cleaning s) \<and> set (cleaning s) \<subseteq> set (started s)
     \<and> (closed s \<longrightarrow> blocked s = [] \<and> holding s = [])
     \<and> (drained s \<longrightarrow> closed s \<and> cleaning s = [])"

lemma slots_ok_init: "slots_ok slots_init"
  by (simp add: slots_ok_def slots_init_def)

lemma slots_ok_step: "slots_ok s \<Longrightarrow> slot_step l s = Some t \<Longrightarrow> slots_ok t"
  by (cases l) (auto simp: slots_ok_def length_remove1 split: if_splits dest: notin_set_remove1
    set_remove1_subset [THEN subsetD])

interpretation slots_machine: machine slot_step slots_init slots_ok
  by unfold_locales (rule slots_ok_init, rule slots_ok_step)

text \<open>From any state an in-flight clean-up can finish, so draining is never stuck.\<close>

lemma cleanups_can_finish:
  assumes "slots_ok s" "closed s"
  shows "\<exists>ls t. runs slot_step s (ls @ [DrainNil]) t \<and> set ls \<subseteq> Cleaned ` set (cleaning s) \<and> drained t"
  using assms
proof (induction "length (cleaning s)" arbitrary: s)
  case 0
  then have "slot_step DrainNil s = Some (s\<lparr>drained := True\<rparr>)" by (simp add: slots_ok_def)
  then have "runs slot_step s ([] @ [DrainNil]) (s\<lparr>drained := True\<rparr>)" by (simp add: runs_single)
  then show ?case by (intro exI [of _ "[]"] exI [of _ "s\<lparr>drained := True\<rparr>"]) simp
next
  case (Suc n)
  then obtain r rs where r: "cleaning s = r # rs" by (cases "cleaning s") auto
  let ?t = "s\<lparr>cleaning := remove1 r (cleaning s), wg := wg s - 1\<rparr>"
  have st: "slot_step (Cleaned r) s = Some ?t" using r by simp
  have "slots_ok ?t" by (rule slots_ok_step [OF Suc.prems(1) st])
  moreover have "closed ?t" "n = length (cleaning ?t)" using Suc r by simp_all
  ultimately obtain ls u where u: "runs slot_step ?t (ls @ [DrainNil]) u" "drained u"
    "set ls \<subseteq> Cleaned ` set (cleaning ?t)" using Suc.hyps(1) by blast
  have "runs slot_step s ((Cleaned r # ls) @ [DrainNil]) u"
    using runs_append [OF u(1) runs_single [where step = slot_step, OF st]] by simp
  moreover have "set (Cleaned r # ls) \<subseteq> Cleaned ` set (cleaning s)" using u(3) r by auto
  ultimately show ?case using u(2) by blast
qed

section \<open>The server's concurrency limiter\<close>

text \<open>
  \<open>count\<close> is \<open>inFlight\<close>; a request that enters gets \<open>n := inFlight.Add(1)\<close> and is then
  either \<open>rejecting\<close> (it has still to subtract its 1 again) or \<open>serving\<close>.
\<close>

record limiter =
  count :: int
  rejecting :: "nat list"
  serving :: "nat list"

definition limiter_init :: limiter where
  "limiter_init = \<lparr>count = 0, rejecting = [], serving = []\<rparr>"

datatype limiter_label = Enter nat | Rejected nat | Served nat

fun limiter_step :: "int \<Rightarrow> limiter_label \<Rightarrow> limiter \<Rightarrow> limiter option" where
  "limiter_step limit (Enter r) s =
     (if r \<in> set (rejecting s) \<or> r \<in> set (serving s) then None
      else if count s + 1 > limit
      then Some (s\<lparr>count := count s + 1, rejecting := r # rejecting s\<rparr>)
      else Some (s\<lparr>count := count s + 1, serving := r # serving s\<rparr>))"
| "limiter_step limit (Rejected r) s =
     (if r \<in> set (rejecting s)
      then Some (s\<lparr>count := count s - 1, rejecting := remove1 r (rejecting s)\<rparr>) else None)"
| "limiter_step limit (Served r) s =
     (if r \<in> set (serving s)
      then Some (s\<lparr>count := count s - 1, serving := remove1 r (serving s)\<rparr>) else None)"

definition limiter_ok :: "int \<Rightarrow> limiter \<Rightarrow> bool" where
  "limiter_ok limit s \<longleftrightarrow> count s = int (length (rejecting s)) + int (length (serving s))
     \<and> int (length (serving s)) \<le> max 0 limit"

lemma limiter_ok_step: "limiter_ok limit s \<Longrightarrow> limiter_step limit l s = Some t \<Longrightarrow> limiter_ok limit t"
proof (cases l)
  case (Rejected r)
  assume ok: "limiter_ok limit s" and st: "limiter_step limit l s = Some t"
  with Rejected have "int (length (rejecting s) - 1) = int (length (rejecting s)) - 1"
    by (cases "rejecting s") (auto split: if_splits)
  with Rejected ok st show ?thesis by (auto simp: limiter_ok_def length_remove1 split: if_splits)
next
  case (Served r)
  assume ok: "limiter_ok limit s" and st: "limiter_step limit l s = Some t"
  with Served have "int (length (serving s) - 1) = int (length (serving s)) - 1"
    by (cases "serving s") (auto split: if_splits)
  with Served ok st show ?thesis by (auto simp: limiter_ok_def length_remove1 split: if_splits)
qed (auto simp: limiter_ok_def split: if_splits)

lemma limiter_ok_init: "limiter_ok limit limiter_init"
  by (simp add: limiter_ok_def limiter_init_def)

interpretation limiter_machine: machine "limiter_step limit" limiter_init "limiter_ok limit"
  by unfold_locales (rule limiter_ok_init, rule limiter_ok_step)

section \<open>Double-checked locking of the token cache\<close>

text \<open>
  Threads of \<open>managementToken\<close>, while a token once stored stays valid: \<open>AtLock\<close> threads
  found no valid token and wait for the write lock; the one that holds it checks again,
  and fetches or returns.  \<open>fetches\<close> counts the requests to the token endpoint that
  returned a token.
\<close>

datatype thread = Fresh | AtLock | InLock | Fetching | Returned

record cache =
  threads :: "nat \<Rightarrow> thread"
  lock :: "nat option"
  valid :: bool
  fetches :: nat

definition cache_init :: cache where
  "cache_init = \<lparr>threads = (\<lambda>_. Fresh), lock = None, valid = False, fetches = 0\<rparr>"

datatype cache_label = FastPath nat | TakeLock nat | Check nat | Store nat | FetchFailed nat

fun cache_step :: "cache_label \<Rightarrow> cache \<Rightarrow> cache option" where
  "cache_step (FastPath i) s =
     (if threads s i = Fresh \<and> lock s = None
      then Some (s\<lparr>threads := (threads s)(i := if valid s then Returned else AtLock)\<rparr>) else None)"
| "cache_step (TakeLock i) s =
     (if threads s i = AtLock \<and> lock s = None
      then Some (s\<lparr>threads := (threads s)(i := InLock), lock := Some i\<rparr>) else None)"
| "cache_step (Check i) s =
     (if threads s i = InLock
      then Some (if valid s then s\<lparr>threads := (threads s)(i := Returned), lock := None\<rparr>
                 else s\<lparr>threads := (threads s)(i := Fetching)\<rparr>) else None)"
| "cache_step (Store i) s =
     (if threads s i = Fetching
      then Some (s\<lparr>threads := (threads s)(i := Returned), lock := None, valid := True,
             fetches := fetches s + 1\<rparr>) else None)"
| "cache_step (FetchFailed i) s =
     (if threads s i = Fetching
      then Some (s\<lparr>threads := (threads s)(i := Returned), lock := None\<rparr>) else None)"

definition cache_ok :: "cache \<Rightarrow> bool" where
  "cache_ok s \<longleftrightarrow> (\<forall>i. threads s i \<in> {InLock, Fetching} \<longrightarrow> lock s = Some i)
     \<and> (valid s \<longrightarrow> (\<forall>i. threads s i \<noteq> Fetching)) \<and> fetches s = (if valid s then 1 else 0)"

lemma cache_ok_step: "cache_ok s \<Longrightarrow> cache_step l s = Some t \<Longrightarrow> cache_ok t"
  by (cases l) (auto simp: cache_ok_def split: if_splits; metis option.inject)+

lemma cache_ok_init: "cache_ok cache_init"
  by (simp add: cache_ok_def cache_init_def)

interpretation cache_machine: machine cache_step cache_init cache_ok
  by unfold_locales (rule cache_ok_init, rule cache_ok_step)

section \<open>What every interleaving keeps\<close>

lemma runs_split: "runs step s (ks @ ls) u \<Longrightarrow> \<exists>t. runs step s ks t \<and> runs step t ls u"
proof (induction ls arbitrary: u rule: rev_induct)
  case (snoc l ls)
  then have "runs step s ((ks @ ls) @ [l]) u" by simp
  then obtain v where "runs step s (ks @ ls) v" "step l v = Some u"
    by (cases rule: runs.cases) auto
  with snoc.IH show ?case by (blast intro: runs_snoc)
qed (auto intro: runs_Nil)

lemma runs_ConsE:
  assumes "runs step s (l # ls) u"
  obtains t where "step l s = Some t" "runs step t ls u"
proof -
  obtain t where t: "runs step s [l] t" "runs step t ls u"
    using runs_split [of step s "[l]" ls u] assms by auto
  from t(1) have "step l s = Some t"
  proof (cases rule: runs.cases)
    case (runs_snoc ls' t' l')
    then show ?thesis by (cases rule: runs.cases [OF runs_snoc(2)]) auto
  qed
  with t(2) that show thesis by blast
qed

lemma drained_steps:
  "slots_ok s \<Longrightarrow> drained s \<Longrightarrow> slot_step l s = Some t \<Longrightarrow> l \<in> {HttpShutdown, DrainNil} \<and> drained t"
  by (cases l) (auto simp: slots_ok_def split: if_splits)

lemma drained_stays:
  assumes "runs slot_step s ls t" "slots_ok s" "drained s"
  shows "set ls \<subseteq> {HttpShutdown, DrainNil} \<and> drained t \<and> slots_ok t"
  using assms by (induction rule: runs.induct) (auto dest: drained_steps slots_ok_step)

definition slots_example :: "slot_label list" where
  "slots_example = [Call 1, Acquired 1, Call 2, Start 1, Release 1, Cancelled 2, HttpShutdown]"

definition slots_closed :: slots where
  "slots_closed = \<lparr>blocked = [], holding = [], started = [1], cleaning = [1], wg = 1,
     closed = True, drained = False\<rparr>"

lemma slots_example_runs: "runs slot_step slots_init slots_example slots_closed"
  by (rule exec_runs) (simp add: slots_example_def slots_init_def slots_closed_def defaultSemLimit_def)

text \<open>
  C20. In every interleaving of rotations, clean-ups and shutdown, at most ten rotations of an
  adapter hold a slot at once, the wait group counts exactly the clean-ups that are
  running, and when \<open>Drain\<close> has returned nil none is.
\<close>

theorem slots_bounded:
  assumes "runs slot_step slots_init ls s"
  shows "length (holding s) \<le> 10 \<and> wg s = length (cleaning s) \<and> (drained s \<longrightarrow> cleaning s = [])"
  using slots_machine.reachable_ok [OF assms] by (simp add: slots_ok_def defaultSemLimit_def)

theorem slots_bounded_witness:
  "\<exists>s. runs slot_step slots_init (slots_example @ [Cleaned 1, DrainNil]) s \<and> drained s
    \<and> length (holding s) \<le> 10 \<and> wg s = length (cleaning s) \<and> cleaning s = []"
proof -
  let ?s = "slots_closed\<lparr>cleaning := [], wg := 0, drained := True\<rparr>"
  have r: "runs slot_step slots_init (slots_example @ [Cleaned 1, DrainNil]) ?s"
    by (rule exec_runs) (simp add: slots_example_def slots_init_def slots_closed_def defaultSemLimit_def)
  have "drained ?s" by simp
  with slots_bounded [OF r] r show ?thesis by blast
qed

text \<open>
  C21. Nothing is left behind by a graceful shutdown: after \<open>Drain\<close> has returned nil, no step of
  any later interleaving is a rotation, a clean-up or its end, so no goroutine of the
  adapter runs when the process exits.
\<close>

theorem drained_is_final:
  assumes "runs slot_step slots_init (ks @ DrainNil # ls) s"
  shows "set ls \<subseteq> {HttpShutdown, DrainNil} \<and> cleaning s = [] \<and> holding s = [] \<and> blocked s = []"
proof -
  obtain t where t: "runs slot_step slots_init ks t" "runs slot_step t (DrainNil # ls) s"
    using runs_split [OF assms] by blast
  obtain u where u: "slot_step DrainNil t = Some u" "runs slot_step u ls s"
    using t(2) by (rule runs_ConsE)
  have "slots_ok u" using slots_ok_step [OF slots_machine.reachable_ok [OF t(1)] u(1)] .
  moreover have "drained u" using u(1) by (auto split: if_splits)
  ultimately have "set ls \<subseteq> {HttpShutdown, DrainNil} \<and> drained s \<and> slots_ok s"
    by (rule drained_stays [OF u(2)])
  then show ?thesis by (simp add: slots_ok_def)
qed

theorem drained_is_final_witness:
  "\<exists>s. runs slot_step slots_init ((slots_example @ [Cleaned 1]) @ DrainNil # [HttpShutdown]) s
     \<and> set [HttpShutdown] \<subseteq> {HttpShutdown, DrainNil} \<and> cleaning s = [] \<and> holding s = [] \<and> blocked s = []"
proof -
  let ?s = "slots_closed\<lparr>cleaning := [], wg := 0, drained := True\<rparr>"
  have r: "runs slot_step slots_init ((slots_example @ [Cleaned 1]) @ DrainNil # [HttpShutdown]) ?s"
    by (rule exec_runs) (simp add: slots_example_def slots_init_def slots_closed_def defaultSemLimit_def)
  from drained_is_final [OF r] r show ?thesis by blast
qed



section \<open>The limiter under load\<close>

lemma limiter_fills:
  "n \<le> m \<Longrightarrow> runs (limiter_step (int m)) limiter_init (map Enter [0..<n])
     \<lparr>count = int n, rejecting = [], serving = rev [0..<n]\<rparr>"
proof (induction n)
  case 0
  then show ?case using runs_Nil [of "limiter_step (int m)" limiter_init] by (simp add: limiter_init_def)
next
  case (Suc n)
  then have "runs (limiter_step (int m)) limiter_init (map Enter [0..<n])
     \<lparr>count = int n, rejecting = [], serving = rev [0..<n]\<rparr>" by simp
  from runs_snoc [OF this, of "Enter n"] Suc.prems show ?case by (simp add: add.commute)
qed

text \<open>
  C23. In every interleaving the limiter lets at most \<open>limit\<close> requests be served at once, and
  its counter is the number of requests inside it.
\<close>

theorem limiter_bounded:
  assumes "runs (limiter_step limit) limiter_init ls s"
  shows "int (length (serving s)) \<le> max 0 limit
    \<and> count s = int (length (rejecting s)) + int (length (serving s))"
  using limiter_machine.reachable_ok [OF assms] by (simp add: limiter_ok_def)

theorem limiter_bounded_witness:
  "int (length (serving \<lparr>count = 2, rejecting = [], serving = [1, 0]\<rparr>)) \<le> max 0 2
    \<and> count \<lparr>count = 2, rejecting = [], serving = [1, 0]\<rparr>
      = int (length (rejecting \<lparr>count = 2, rejecting = [], serving = [1, 0]\<rparr>))
        + int (length (serving \<lparr>count = 2, rejecting = [], serving = [1, 0]\<rparr>))"
  by (rule limiter_bounded [where ls = "[Enter 0, Enter 1]"])
     (rule exec_runs, simp add: limiter_init_def)

text \<open>
  The limiter may turn a request away although fewer than \<open>limit\<close> requests are being
  served, for any limit: a request that is being rejected counts until it has subtracted
  itself again.
\<close>

lemma limiter_over_rejects:
  "\<exists>ls s t. runs (limiter_step (int (Suc n))) limiter_init ls s \<and> length (serving s) < Suc n
     \<and> limiter_step (int (Suc n)) (Enter (n + 2)) s = Some t \<and> n + 2 \<in> set (rejecting t)"
proof -
  let ?full = "\<lparr>count = int (Suc n), rejecting = [], serving = rev [0..<Suc n]\<rparr>"
  let ?turned = "?full\<lparr>count := int n + 2, rejecting := [Suc n]\<rparr>"
  let ?s = "?turned\<lparr>count := int n + 1, serving := rev [0..<n]\<rparr>"
  have "limiter_step (int (Suc n)) (Enter (Suc n)) ?full = Some ?turned" by simp
  moreover have "limiter_step (int (Suc n)) (Served n) ?turned = Some ?s" by simp
  ultimately have "runs (limiter_step (int (Suc n))) limiter_init
      ((map Enter [0..<Suc n] @ [Enter (Suc n)]) @ [Served n]) ?s"
    by (intro runs_snoc [OF runs_snoc [OF limiter_fills]]) (rule le_refl)
  moreover have "length (serving ?s) < Suc n" by simp
  moreover have "limiter_step (int (Suc n)) (Enter (n + 2)) ?s
      = Some (?s\<lparr>count := int n + 2, rejecting := [n + 2, Suc n]\<rparr>)" by simp
  moreover have "n + 2 \<in> set (rejecting (?s\<lparr>count := int n + 2, rejecting := [n + 2, Suc n]\<rparr>))" by simp
  ultimately show ?thesis by blast
qed



end
