(* ===== verification/Engine.thy ===== *)
theory Engine
  imports Vault_Client
begin

text \<open>
  What both Vault plugins use of the plugin SDK: field data, responses, the storage entry
  \<open>config/connection\<close>, and the path tables the SDK dispatches on.  A storage entry is kept
  decoded, as the map that was stored, for \<open>DecodeJSON\<close> inverts \<open>StorageEntryJSON\<close> on
  maps of strings.  \<open>sealed_writes\<close> says which part of the storage an action may change.
\<close>

text \<open>\<open>fd_err k\<close> is the conversion error \<open>GetOkErr\<close> reports for a field.\<close>

record field_data =
  fd_raw :: "string \<rightharpoonup> string"
  fd_err :: "string \<Rightarrow> gerr option"

definition field_Get :: "field_data \<Rightarrow> string \<Rightarrow> string \<Rightarrow> string" where
  "field_Get d k dflt = (case fd_raw d k of Some v \<Rightarrow> v | None \<Rightarrow> dflt)"

datatype logical_response =
    NilResponse
  | ErrorResponse string
  | DataResponse "(string \<times> goval) list"
  | SecretResponse string "(string \<times> goval) list" "(string \<times> goval) list"

definition config_key :: string where
  "config_key = ''config/connection''"

definition storage_Get :: "env \<Rightarrow> string \<Rightarrow> (string \<times> goval) list option act" where
  "storage_Get env k = (\<lambda>w.
     let w' = w\<lparr>ticks := Suc (ticks w)\<rparr>
     in case storage_get env (ticks w) of Some e \<Rightarrow> (Inl e, w') | None \<Rightarrow> (Inr (storage w k), w'))"

definition storage_Put :: "env \<Rightarrow> string \<Rightarrow> (string \<times> goval) list \<Rightarrow> unit act" where
  "storage_Put env k v = (\<lambda>w.
     let w' = w\<lparr>ticks := Suc (ticks w)\<rparr>
     in case storage_put env (ticks w) of
          Some e \<Rightarrow> (Inl e, w') | None \<Rightarrow> (Inr (), w'\<lparr>storage := (storage w')(k \<mapsto> v)\<rparr>))"

definition configExists :: "env \<Rightarrow> bool act" where
  "configExists env = attempt (storage_Get env config_key) (\<lambda>e. e) (\<lambda>entry. ret (entry \<noteq> None))"

definition getConfig :: "env \<Rightarrow> (string \<times> goval) list option act" where
  "getConfig env =
     attempt (storage_Get env config_key) (\<lambda>e. ''read config: '' @ e) (\<lambda>entry.
     case entry of
       None \<Rightarrow> ret None
     | Some cfg \<Rightarrow> (\<lambda>w. case storage_decode env (ticks w) of
         Some e \<Rightarrow> (Inl (''decode config: '' @ e), w\<lparr>ticks := Suc (ticks w)\<rparr>)
       | None \<Rightarrow> (Inr (Some cfg), w\<lparr>ticks := Suc (ticks w)\<rparr>)))"

text \<open>\<open>x, _ := cfg[k].(string)\<close>\<close>

definition cfg_string :: "(string \<times> goval) list \<Rightarrow> string \<Rightarrow> string" where
  "cfg_string cfg k = as_string (map_of cfg k)"

definition cfg_value :: "(string \<times> goval) list \<Rightarrow> string \<Rightarrow> goval" where
  "cfg_value cfg k = (case map_of cfg k of Some v \<Rightarrow> v | None \<Rightarrow> GNil)"

section \<open>Path tables\<close>

text \<open>
  The tables a backend hands to the SDK (\<open>framework.Path\<close>), without help texts and the
  flags for replicated clusters: the pattern, whose parameters are the SDK's generic names,
  the schema of the fields, and the handler of each operation.  \<open>logical.Paths\<close> is the list of storage prefixes to seal-wrap.
\<close>

datatype operation = CreateOperation | UpdateOperation | ReadOperation

datatype pattern = Exact string | WithName string string | WithNameAt string string
  | WithTwoNames string string string

record field_schema =
  fs_Required :: bool
  fs_Default :: "string option"

definition fs_plain :: field_schema where
  "fs_plain = \<lparr>fs_Required = False, fs_Default = None\<rparr>"

definition fs_required :: field_schema where
  "fs_required = \<lparr>fs_Required = True, fs_Default = None\<rparr>"

definition fs_default :: "string \<Rightarrow> field_schema" where
  "fs_default v = \<lparr>fs_Required = False, fs_Default = Some v\<rparr>"

record engine_path =
  pt_Pattern :: pattern
  pt_Fields :: "(string \<times> field_schema) list"
  pt_ExistenceCheck :: "bool act option"
  pt_Operations :: "(operation \<times> (field_data \<Rightarrow> logical_response act)) list"

record backend =
  be_Paths :: "engine_path list"
  be_SealWrapStorage :: "string list"
  be_RunningVersion :: string

text \<open>An action that writes only to storage that is seal-wrapped.\<close>

definition sealed_writes :: "string list \<Rightarrow> 'a act \<Rightarrow> bool" where
  "sealed_writes ps m \<longleftrightarrow> (\<forall>w k. storage (snd (m w)) k \<noteq> storage w k \<longrightarrow> list_ex (\<lambda>p. HasPrefix k p) ps)"

lemma getConfig_storage [simp]: "storage (snd (getConfig env w)) = storage w"
  by (simp add: getConfig_def attempt_def storage_Get_def Let_def split: option.split)

lemma getConfig_trace [simp]: "trace (snd (getConfig env w)) = trace w"
  by (simp add: getConfig_def attempt_def storage_Get_def Let_def split: option.split)

lemma getConfig_Some:
  "getConfig env w = (Inr (Some cfg), w') \<Longrightarrow> storage w config_key = Some cfg"
  by (auto simp: getConfig_def attempt_eq_Inr storage_Get_def Let_def split: option.splits)

lemma sealed_writesD:
  "sealed_writes ps m \<Longrightarrow> storage (snd (m w)) k \<noteq> storage w k \<Longrightarrow> list_ex (\<lambda>p. HasPrefix k p) ps"
  unfolding sealed_writes_def by blast

lemma sealed_writes_cases [trace_mono]:
  "sealed_writes ps (ret x)" "sealed_writes ps (fail e)" "sealed_writes ps (getConfig env)"
  "sealed_writes ps (Do env r)" "sealed_writes ps (vault_do env op)"
  by (simp_all add: sealed_writes_def Do_def vault_do_def)

lemma sealed_writes_attempt [trace_mono]:
  "sealed_writes ps m \<Longrightarrow> (\<And>x. sealed_writes ps (k x)) \<Longrightarrow> sealed_writes ps (attempt m f k)"
  by (auto simp: sealed_writes_def attempt_def split: prod.split sum.split) (metis snd_conv)+

lemma sealed_writes_on_result [trace_mono]:
  "sealed_writes ps m \<Longrightarrow> (\<And>x. sealed_writes ps (k x)) \<Longrightarrow> sealed_writes ps (on_result m k)"
  by (auto simp: sealed_writes_def on_result_def split: prod.split) (metis snd_conv)

lemma sealed_writes_state:
  assumes "\<And>v. sealed_writes ps (m v)" "\<And>w. storage (f w) = storage w"
  shows "sealed_writes ps (\<lambda>w. m (g w) (f w))"
  using assms unfolding sealed_writes_def by metis

lemma sealed_writes_Now [trace_mono]:
  "(\<And>t. sealed_writes ps (k t)) \<Longrightarrow> sealed_writes ps (Now env k)"
  unfolding Now_def by (rule sealed_writes_state) simp_all

lemma sealed_writes_wrap [trace_mono]:
  "(\<And>r. sealed_writes ps (k2 r)) \<Longrightarrow> sealed_writes ps (NewRequest env c m u b f k2)"
  "sealed_writes ps n \<Longrightarrow> sealed_writes ps (check p e n)"
  "(\<And>x. sealed_writes ps (k3 x)) \<Longrightarrow> sealed_writes ps (of_option r e k3)"
  by (simp_all add: sealed_writes_def NewRequest_def check_def of_option_def split: option.split)

lemma sealed_writes_Put [trace_mono]:
  "list_ex (\<lambda>p. HasPrefix key p) ps \<Longrightarrow> sealed_writes ps (storage_Put env key v)"
  by (auto simp: sealed_writes_def storage_Put_def Let_def split: option.splits if_splits)

lemma getConfig_ok:
  assumes "storage_get env (ticks w) = None" "storage_decode env (Suc (ticks w)) = None"
    and "storage w config_key = Some cfg"
  shows "getConfig env w = (Inr (Some cfg), w\<lparr>ticks := Suc (Suc (ticks w))\<rparr>)"
  using assms by (simp add: getConfig_def attempt_def storage_Get_def Let_def)

end
