(* ===== verification/Rest_Engine.thy ===== *)
theory Rest_Engine
  imports Engine
begin

text \<open>
  The plugin vault-rest-engine (backend/paths.go): \<open>config/connection\<close> and
  \<open>creds/<provider>/<provider_id>\<close>, which calls the broker and decrypts its answer.
\<close>

section \<open>Configuration\<close>

definition rest_writeConfig :: "env \<Rightarrow> field_data \<Rightarrow> logical_response act" where
  "rest_writeConfig env d =
     (case fd_err d ''api_url'' of
        Some e \<Rightarrow> ret (ErrorResponse (''api_url: '' @ e))
      | None \<Rightarrow>
          (case fd_raw d ''api_url'' of
             None \<Rightarrow> ret (ErrorResponse ''api_url is required'')
           | Some apiURL \<Rightarrow>
               if apiURL = [] then ret (ErrorResponse ''api_url is required'')
               else attempt (storage_Put env config_key
                   [(''api_url'', GStr apiURL),
                    (''transit_key'', GStr (field_Get d ''transit_key'' ''cred-rotation-key'')),
                    (''tls_ca_cert'', GStr (field_Get d ''tls_ca_cert'' [])),
                    (''tls_client_cert'', GStr (field_Get d ''tls_client_cert'' [])),
                    (''tls_client_key'', GStr (field_Get d ''tls_client_key'' []))])
                 (\<lambda>e. ''store config: '' @ e) (\<lambda>_. ret NilResponse)))"

definition rest_readConfig :: "env \<Rightarrow> logical_response act" where
  "rest_readConfig env =
     attempt (getConfig env) (\<lambda>e. e) (\<lambda>cfg.
     case cfg of
       None \<Rightarrow> ret (ErrorResponse (''config not found '' @ em_dash @ '' write config/connection first''))
     | Some cfg \<Rightarrow> ret (DataResponse
         [(''api_url'', cfg_value cfg ''api_url''), (''transit_key'', cfg_value cfg ''transit_key'')]))"

section \<open>Calling the broker\<close>

record mtls_client = http_client +
  hc_Certificate :: "(string \<times> string) option"

definition buildHTTPClient :: "env \<Rightarrow> (string \<times> goval) list \<Rightarrow> gerr + mtls_client" where
  "buildHTTPClient env cfg =
     (let ca = cfg_string cfg ''tls_ca_cert'';
          clientCert = cfg_string cfg ''tls_client_cert'';
          clientKey = cfg_string cfg ''tls_client_key'';
          client = \<lparr>hc_Timeout = 30 * Second, hc_MinVersion = VersionTLS13,
            hc_InsecureSkipVerify = False, hc_RootCAs = (if ca = [] then None else Some ca),
            hc_Certificate = None\<rparr>
      in if ca \<noteq> [] \<and> \<not> pem_ok env ca then Inl ''build http client: invalid CA cert PEM''
         else if clientCert \<noteq> [] \<and> clientKey \<noteq> [] then
           (case keypair_err env clientCert clientKey of
              Some e \<Rightarrow> Inl (''build http client: parse client cert/key: '' @ e)
            | None \<Rightarrow> Inr (client\<lparr>hc_Certificate := Some (clientCert, clientKey)\<rparr>))
         else Inr client)"

text \<open>The zero \<open>time.Time\<close>, in nanoseconds since 1970.\<close>

definition zero_time :: int where
  "zero_time = - 62135596800 * Second"

definition rest_decode :: "string \<Rightarrow> (string \<times> string \<times> int) option" where
  "rest_decode s = do {
     ms \<leftarrow> dec_root s;
     let fs = [''provider_id'', ''encrypted_value'', ''rotated_at''];
     pid \<leftarrow> dec_field dec_str (key_for fs ''provider_id'') [] ms;
     enc \<leftarrow> dec_field dec_str (key_for fs ''encrypted_value'') [] ms;
     t \<leftarrow> dec_field (\<lambda>v. case v of JStr x \<Rightarrow> parse_strict_rfc3339 x | _ \<Rightarrow> None)
           (key_for fs ''rotated_at'') zero_time ms;
     Some (pid, enc, t) }"

definition rest_body :: "env \<Rightarrow> string \<Rightarrow> string \<Rightarrow> string" where
  "rest_body env provider providerID =
     ''{\"provider\":'' @ quoted env provider @ '',\"provider_id\":'' @ quoted env providerID @ ''}''"

definition callRotateAPI :: "env \<Rightarrow> ctx \<Rightarrow> string \<Rightarrow> string \<Rightarrow> string \<Rightarrow> (string \<times> string \<times> int) act" where
  "callRotateAPI env c apiURL provider providerID =
     NewRequest env c ''POST'' (apiURL @ ''/v1/credentials/rotate'')
         (Some (rest_body env provider providerID))
       (\<lambda>e. ''build request: '' @ e) (\<lambda>req.
     attempt (Do env (set_header ''Content-Type'' ''application/json'' req))
       (\<lambda>e. ''http: '' @ e) (\<lambda>resp.
     let raw = read_limited (2 ^ 20) resp
     in check (resp_status resp \<noteq> 200)
          (''API status '' @ nat_dec (resp_status resp) @ '': '' @ raw)
        (of_option (rest_decode raw)
          (''parse response: '' @ json_err env ''rotateAPIResponse'' raw) (\<lambda>(pid, enc, t).
        check (enc = []) ''empty encrypted_value in response''
        (ret (pid, enc, t))))))"

definition transitDecrypt :: "env \<Rightarrow> string \<Rightarrow> string \<Rightarrow> string act" where
  "transitDecrypt env keyName ciphertext =
     (case vault_client_err env (getenv env ''VAULT_ADDR'') of
        Some e \<Rightarrow> fail (''new vault client: '' @ e)
      | None \<Rightarrow>
     attempt (vault_do env (VWrite (''transit/decrypt/'' @ keyName) [(''ciphertext'', GStr ciphertext)]))
       (\<lambda>e. ''vault transit/decrypt: '' @ e) (\<lambda>secret.
     of_option secret ''transit/decrypt: empty response'' (\<lambda>s.
     let encoded = as_string (data_field s ''plaintext'')
     in check (encoded = []) ''transit/decrypt: missing plaintext in response''
        (of_option (DecodeString encoded)
          (''transit/decrypt: base64 decode: '' @ base64_err env encoded) ret))))"

section \<open>creds/<provider>/<provider_id>\<close>

text \<open>The context is the one of Vault's request.\<close>

definition rest_rotateCreds :: "env \<Rightarrow> field_data \<Rightarrow> logical_response act" where
  "rest_rotateCreds env d =
     attempt (getConfig env) (\<lambda>e. e) (\<lambda>cfg.
     case cfg of
       None \<Rightarrow> ret (ErrorResponse (''plugin not configured '' @ em_dash @ '' write config/connection first''))
     | Some cfg \<Rightarrow>
         let provider = field_Get d ''provider'' []; providerID = field_Get d ''provider_id'' []
         in case buildHTTPClient env cfg of
              Inl e \<Rightarrow> fail (''build http client: '' @ e)
            | Inr _ \<Rightarrow>
                let apiURL = TrimRight (cfg_string cfg ''api_url'') (CHR ''/'');
                    key = cfg_string cfg ''transit_key'';
                    transitKey = (if key = [] then ''cred-rotation-key'' else key)
                in on_result (callRotateAPI env RequestCtx apiURL provider providerID) (\<lambda>r.
                   case r of
                     Inl e \<Rightarrow> ret (ErrorResponse (''rotation API call failed: '' @ e))
                   | Inr (_, enc, t) \<Rightarrow>
                       attempt (transitDecrypt env transitKey enc) (\<lambda>e. ''transit decrypt: '' @ e)
                       (\<lambda>plaintext. ret (DataResponse
                         [(''credential'', GStr plaintext), (''provider'', GStr provider),
                          (''provider_id'', GStr providerID), (''rotated_at'', GStr (fmt_rfc3339 t))]))))"

section \<open>The backend\<close>

definition rest_pathConfig :: "env \<Rightarrow> engine_path" where
  "rest_pathConfig env = \<lparr>pt_Pattern = Exact ''config/connection'',
     pt_Fields = [(''api_url'', fs_required), (''transit_key'', fs_default ''cred-rotation-key''),
       (''tls_ca_cert'', fs_plain), (''tls_client_cert'', fs_plain), (''tls_client_key'', fs_plain)],
     pt_ExistenceCheck = Some (configExists env),
     pt_Operations = [(CreateOperation, rest_writeConfig env), (UpdateOperation, rest_writeConfig env),
       (ReadOperation, \<lambda>_. rest_readConfig env)]\<rparr>"

definition rest_pathCredentials :: "env \<Rightarrow> engine_path" where
  "rest_pathCredentials env = \<lparr>pt_Pattern = WithTwoNames ''creds/'' ''provider'' ''provider_id'',
     pt_Fields = [(''provider'', fs_plain), (''provider_id'', fs_plain)], pt_ExistenceCheck = None,
     pt_Operations = [(ReadOperation, rest_rotateCreds env)]\<rparr>"

definition rest_paths :: "env \<Rightarrow> engine_path list" where
  "rest_paths env = [rest_pathConfig env, rest_pathCredentials env]"

definition rest_backend :: "env \<Rightarrow> backend" where
  "rest_backend env = \<lparr>be_Paths = rest_paths env,
     be_SealWrapStorage = [''config/''], be_RunningVersion = ''v0.1.0''\<rparr>"

text \<open>
  \<open>setup\<close> is the outcome of the SDK's \<open>Backend.Setup\<close>, and \<open>serve\<close> the error with which
  \<open>plugin.Serve\<close> ends, if it does; \<open>main\<close> makes the exit code of it.
\<close>

definition rest_Factory :: "env \<Rightarrow> (backend \<Rightarrow> gerr option) \<Rightarrow> gerr + backend" where
  "rest_Factory env setup = (let b = rest_backend env in case setup b of
     Some e \<Rightarrow> Inl (''vault-rest-engine setup: '' @ e)
   | None \<Rightarrow> Inr b)"

definition rest_main :: "(((backend \<Rightarrow> gerr option) \<Rightarrow> gerr + backend) \<Rightarrow> gerr option) \<Rightarrow> env \<Rightarrow> nat" where
  "rest_main serve env = (case serve (rest_Factory env) of Some _ \<Rightarrow> 1 | None \<Rightarrow> 0)"

end
