(* ===== verification/Auth0_Engine.thy ===== *)
theory Auth0_Engine
  imports Engine Auth0_Adapter
begin

text \<open>
  The plugin vault-auth0-engine: its Management API client (backend/auth0.go) and its paths
  (backend/paths.go).  Every request makes a new client, whose token cache is empty: the
  part \<open>mgmtToken\<close> of the world, reset by \<open>newAuth0Client\<close>.
\<close>

section \<open>The client\<close>

definition newAuth0Client ::
  "string \<Rightarrow> string \<Rightarrow> string \<Rightarrow> string \<Rightarrow> (auth0_adapter \<Rightarrow> 'a act) \<Rightarrow> 'a act"
where
  "newAuth0Client domain clientID clientSecret audience k = (\<lambda>w.
     k \<lparr>a0_domain = domain, a0_clientID = clientID, a0_clientSecret = clientSecret,
        a0_audience = audience, a0_baseURL = ''https://'' @ domain,
        a0_client = \<lparr>hc_Timeout = 15 * Second, hc_MinVersion = VersionTLS13,
                     hc_InsecureSkipVerify = False, hc_RootCAs = None\<rparr>\<rparr>
       (w\<lparr>mgmtToken := [], tokenExpiry := - 62135596800 * Second\<rparr>))"

definition engine_fetch_token :: "env \<Rightarrow> auth0_adapter \<Rightarrow> ctx \<Rightarrow> string act" where
  "engine_fetch_token env a c =
     NewRequest env c ''POST'' (a0_baseURL a @ ''/oauth/token'') (Some (token_body env a))
       (\<lambda>e. ''build token request: '' @ e) (\<lambda>req.
     attempt (Do env (set_header ''Content-Type'' ''application/json'' req))
       (\<lambda>e. ''token request: '' @ e) (\<lambda>resp.
     let raw = read_limited (2 ^ 16) resp in
     check (resp_status resp \<noteq> 200)
       (''token endpoint status '' @ nat_dec (resp_status resp) @ '': '' @ raw)
     (of_option (decode_token raw)
       (''parse token response: '' @ json_err env ''auth0 token'' raw) (\<lambda>(tok, n).
     check (tok = []) ''empty access_token in token response''
       (store_token env tok n)))))"

definition engine_managementToken :: "env \<Rightarrow> auth0_adapter \<Rightarrow> ctx \<Rightarrow> string act" where
  "engine_managementToken env a c =
     token_valid env (\<lambda>ok. if ok then (\<lambda>w. ret (mgmtToken w) w)
       else token_valid env (\<lambda>ok. if ok then (\<lambda>w. ret (mgmtToken w) w) else engine_fetch_token env a c))"

definition rotateSecret :: "env \<Rightarrow> auth0_adapter \<Rightarrow> ctx \<Rightarrow> string \<Rightarrow> string act" where
  "rotateSecret env a c clientID =
     attempt (engine_managementToken env a c) (\<lambda>e. ''auth0: get management token: '' @ e) (\<lambda>token.
     NewRequest env c ''POST'' (a0_baseURL a @ ''/api/v2/clients/'' @ clientID @ ''/rotate-secret'') None
       (\<lambda>e. ''auth0: build rotate request: '' @ e) (\<lambda>req.
     attempt (Do env (set_header ''Content-Type'' ''application/json''
         (set_header ''Authorization'' (''Bearer '' @ token) req)))
       (\<lambda>e. ''auth0: rotate http: '' @ e) (\<lambda>resp.
     let body = read_limited (2 ^ 20) resp in
     check (resp_status resp \<noteq> 200)
       (''auth0: rotate status '' @ nat_dec (resp_status resp) @ '': '' @ body)
     (of_option (decode_client_secret body)
       (''auth0: parse rotate response: '' @ json_err env ''auth0 rotate'' body) (\<lambda>secret.
     check (secret = []) ''auth0: empty client_secret in rotate response''
     (ret secret))))))"

definition appActive :: "env \<Rightarrow> auth0_adapter \<Rightarrow> ctx \<Rightarrow> string \<Rightarrow> bool act" where
  "appActive env a c clientID =
     attempt (engine_managementToken env a c) (\<lambda>e. ''auth0: get management token: '' @ e) (\<lambda>token.
     NewRequest env c ''GET''
         (a0_baseURL a @ ''/api/v2/clients/'' @ clientID @ ''?fields=client_id&include_fields=true'') None
       (\<lambda>e. ''auth0: build status request: '' @ e) (\<lambda>req.
     attempt (Do env (set_header ''Authorization'' (''Bearer '' @ token) req))
       (\<lambda>e. ''auth0: status http: '' @ e) (\<lambda>resp. ret (resp_status resp = 200))))"

section \<open>Configuration\<close>

text \<open>A required field: its conversion error, and the check that it is not empty.\<close>

definition required_field :: "field_data \<Rightarrow> string \<Rightarrow> (string \<Rightarrow> logical_response act) \<Rightarrow> logical_response act"
where
  "required_field d k go =
     (case fd_err d k of
        Some e \<Rightarrow> ret (ErrorResponse (k @ '': '' @ e))
      | None \<Rightarrow> if field_Get d k [] = [] then ret (ErrorResponse (k @ '' is required''))
                else go (field_Get d k []))"

definition a0e_writeConfig :: "env \<Rightarrow> field_data \<Rightarrow> logical_response act" where
  "a0e_writeConfig env d =
     required_field d ''domain'' (\<lambda>domain.
     required_field d ''client_id'' (\<lambda>clientID.
     required_field d ''client_secret'' (\<lambda>clientSecret.
     required_field d ''audience'' (\<lambda>audience.
     attempt (storage_Put env config_key
         [(''domain'', GStr domain), (''client_id'', GStr clientID),
          (''client_secret'', GStr clientSecret), (''audience'', GStr audience),
          (''transit_key'', GStr (field_Get d ''transit_key'' []))])
       (\<lambda>e. ''store config: '' @ e) (\<lambda>_. ret NilResponse)))))"

definition not_configured :: string where
  "not_configured = ''not configured '' @ em_dash @ '' write config/connection first''"

definition a0e_readConfig :: "env \<Rightarrow> logical_response act" where
  "a0e_readConfig env =
     attempt (getConfig env) (\<lambda>e. e) (\<lambda>cfg.
     case cfg of
       None \<Rightarrow> ret (ErrorResponse not_configured)
     | Some cfg \<Rightarrow> ret (DataResponse
         [(''domain'', cfg_value cfg ''domain''), (''client_id'', cfg_value cfg ''client_id''),
          (''audience'', cfg_value cfg ''audience''), (''transit_key'', cfg_value cfg ''transit_key'')]))"

text \<open>The client each path builds from the configuration.\<close>

definition with_client :: "(string \<times> goval) list \<Rightarrow> (auth0_adapter \<Rightarrow> 'a act) \<Rightarrow> 'a act" where
  "with_client cfg = newAuth0Client (cfg_string cfg ''domain'') (cfg_string cfg ''client_id'')
     (cfg_string cfg ''client_secret'') (cfg_string cfg ''audience'')"

definition cfg_set :: "(string \<times> goval) list \<Rightarrow> string \<Rightarrow> goval \<Rightarrow> (string \<times> goval) list" where
  "cfg_set cfg k v = (k, v) # filter (\<lambda>kv. fst kv \<noteq> k) cfg"

definition rotate_root_message :: string where
  "rotate_root_message = ''Management API client_secret rotated and stored. ''
     @ ''The previous secret is permanently invalidated.''"

definition rotateRoot :: "env \<Rightarrow> logical_response act" where
  "rotateRoot env =
     attempt (getConfig env) (\<lambda>e. e) (\<lambda>cfg.
     case cfg of
       None \<Rightarrow> ret (ErrorResponse not_configured)
     | Some cfg \<Rightarrow>
         with_client cfg (\<lambda>client.
         attempt (rotateSecret env client RequestCtx (cfg_string cfg ''client_id''))
           (\<lambda>e. ''rotate-root: Auth0 rotation failed: '' @ e) (\<lambda>newSecret.
         attempt (storage_Put env config_key (cfg_set cfg ''client_secret'' (GStr newSecret)))
           (\<lambda>e. ''rotate-root: store updated config: '' @ e) (\<lambda>_.
         Now env (\<lambda>t. ret (DataResponse
           [(''rotated_at'', GStr (fmt_rfc3339 t)),
            (''client_id'', GStr (cfg_string cfg ''client_id'')),
            (''message'', GStr rotate_root_message)]))))))"

section \<open>Credentials, leases and status\<close>

definition transitEncrypt :: "env \<Rightarrow> string \<Rightarrow> string \<Rightarrow> string act" where
  "transitEncrypt env keyName plaintext =
     (case vault_client_err env (getenv env ''VAULT_ADDR'') of
        Some e \<Rightarrow> fail (''new vault client: '' @ e)
      | None \<Rightarrow>
     attempt (vault_do env (VWrite (''transit/encrypt/'' @ keyName)
         [(''plaintext'', GStr (EncodeToString plaintext))]))
       (\<lambda>e. ''vault transit/encrypt: '' @ e) (\<lambda>secret.
     of_option secret ''transit/encrypt: empty response'' (\<lambda>s.
     let ciphertext = as_string (data_field s ''ciphertext'')
     in check (ciphertext = []) ''transit/encrypt: missing ciphertext in response''
        (ret ciphertext))))"

definition secret_type :: string where
  "secret_type = ''auth0_creds''"

definition creds_response :: "string \<Rightarrow> int \<Rightarrow> (string \<times> goval) list \<Rightarrow> logical_response" where
  "creds_response appID t cred = SecretResponse secret_type
     ([(''application_client_id'', GStr appID), (''rotated_at'', GStr (fmt_rfc3339 t))] @ cred)
     [(''application_client_id'', GStr appID)]"

definition a0e_rotateCreds :: "env \<Rightarrow> field_data \<Rightarrow> logical_response act" where
  "a0e_rotateCreds env d =
     attempt (getConfig env) (\<lambda>e. e) (\<lambda>cfg.
     case cfg of
       None \<Rightarrow> ret (ErrorResponse not_configured)
     | Some cfg \<Rightarrow>
         let appID = field_Get d ''application_client_id'' []
         in if appID = [] then ret (ErrorResponse ''application_client_id is required'')
            else
              let transitKey = cfg_string cfg ''transit_key''
              in with_client cfg (\<lambda>client.
                 on_result (rotateSecret env client RequestCtx appID) (\<lambda>r.
                 case r of
                   Inl e \<Rightarrow> ret (ErrorResponse (''rotation failed: '' @ e))
                 | Inr newSecret \<Rightarrow> Now env (\<lambda>t.
                     if transitKey \<noteq> [] then
                       attempt (transitEncrypt env transitKey newSecret)
                         (\<lambda>e. ''transit encrypt: '' @ e) (\<lambda>ciphertext.
                       ret (creds_response appID t
                         [(''credential_ciphertext'', GStr ciphertext), (''transit_key'', GStr transitKey)]))
                     else ret (creds_response appID t [(''credential'', GStr newSecret)])))))"

text \<open>Revoking a lease, given the internal data of its secret.\<close>

definition revokeCreds :: "env \<Rightarrow> (string \<times> goval) list \<Rightarrow> logical_response act" where
  "revokeCreds env internal =
     (let appID = cfg_string internal ''application_client_id''
      in check (appID = [])
           (''revoke: missing application_client_id in internal data '' @ em_dash
             @ '' refusing to skip revocation'')
         (attempt (getConfig env) (\<lambda>e. e) (\<lambda>cfg.
          case cfg of
            None \<Rightarrow> fail ''revoke: plugin not configured''
          | Some cfg \<Rightarrow>
              with_client cfg (\<lambda>client.
              attempt (rotateSecret env client RequestCtx appID)
                (\<lambda>e. ''revoke: Auth0 rotation to invalidate credential failed: '' @ e)
                (\<lambda>_. ret NilResponse)))))"

definition checkStatus :: "env \<Rightarrow> field_data \<Rightarrow> logical_response act" where
  "checkStatus env d =
     attempt (getConfig env) (\<lambda>e. e) (\<lambda>cfg.
     case cfg of
       None \<Rightarrow> ret (ErrorResponse not_configured)
     | Some cfg \<Rightarrow>
         let appID = field_Get d ''application_client_id'' []
         in if appID = [] then ret (ErrorResponse ''application_client_id is required'')
            else with_client cfg (\<lambda>client.
                 on_result (appActive env client RequestCtx appID) (\<lambda>r.
                 case r of
                   Inl e \<Rightarrow> ret (ErrorResponse (''status check failed: '' @ e))
                 | Inr active \<Rightarrow> Now env (\<lambda>t. ret (DataResponse
                     [(''application_client_id'', GStr appID), (''active'', GBool active),
                      (''checked_at'', GStr (fmt_rfc3339 t))])))))"

section \<open>The backend\<close>

definition a0e_pathConfig :: "env \<Rightarrow> engine_path" where
  "a0e_pathConfig env = \<lparr>pt_Pattern = Exact ''config/connection'',
     pt_Fields = [(''domain'', fs_required), (''client_id'', fs_required), (''client_secret'', fs_required),
       (''audience'', fs_required), (''transit_key'', fs_default [])],
     pt_ExistenceCheck = Some (configExists env),
     pt_Operations = [(CreateOperation, a0e_writeConfig env), (UpdateOperation, a0e_writeConfig env),
       (ReadOperation, \<lambda>_. a0e_readConfig env)]\<rparr>"

definition a0e_pathRotateRoot :: "env \<Rightarrow> engine_path" where
  "a0e_pathRotateRoot env = \<lparr>pt_Pattern = Exact ''config/rotate-root'', pt_Fields = [],
     pt_ExistenceCheck = None, pt_Operations = [(UpdateOperation, \<lambda>_. rotateRoot env)]\<rparr>"

definition a0e_pathCreds :: "env \<Rightarrow> engine_path" where
  "a0e_pathCreds env = \<lparr>pt_Pattern = WithNameAt ''creds/'' ''application_client_id'',
     pt_Fields = [(''application_client_id'', fs_plain)], pt_ExistenceCheck = None,
     pt_Operations = [(ReadOperation, a0e_rotateCreds env)]\<rparr>"

definition a0e_pathStatus :: "env \<Rightarrow> engine_path" where
  "a0e_pathStatus env = \<lparr>pt_Pattern = WithNameAt ''status/'' ''application_client_id'',
     pt_Fields = [(''application_client_id'', fs_plain)], pt_ExistenceCheck = None,
     pt_Operations = [(ReadOperation, checkStatus env)]\<rparr>"

definition a0e_paths :: "env \<Rightarrow> engine_path list" where
  "a0e_paths env = [a0e_pathConfig env, a0e_pathRotateRoot env, a0e_pathCreds env, a0e_pathStatus env]"

text \<open>
  The kind of lease.  \<open>lease_extend\<close> is the SDK's \<open>framework.LeaseExtend\<close>, from the increment and
  the maximal lifetime (0 for those of the mount) to the handler of a renewal.
\<close>

type_synonym lease_handler = "(string \<times> goval) list \<Rightarrow> logical_response act"

definition renewCreds :: "(int \<Rightarrow> int \<Rightarrow> lease_handler) \<Rightarrow> lease_handler" where
  "renewCreds lease_extend = lease_extend 0 0"

record lease_type =
  lt_Type :: string
  lt_Fields :: "string list"
  lt_DefaultDuration :: int
  lt_Renew :: lease_handler
  lt_Revoke :: lease_handler

definition secretAuth0Creds :: "env \<Rightarrow> (int \<Rightarrow> int \<Rightarrow> lease_handler) \<Rightarrow> lease_type" where
  "secretAuth0Creds env lease_extend = \<lparr>lt_Type = secret_type,
     lt_Fields = [''application_client_id'', ''credential'', ''credential_ciphertext'', ''transit_key'', ''rotated_at''],
     lt_DefaultDuration = 24 * 60 * Minute, lt_Renew = renewCreds lease_extend, lt_Revoke = revokeCreds env\<rparr>"

record lease_backend = backend +
  be_Secrets :: "lease_type list"

text \<open>
  \<open>setup\<close> is the outcome of the SDK's \<open>Backend.Setup\<close>, and \<open>serve\<close> the error with which
  \<open>plugin.Serve\<close> ends, if it does; \<open>main\<close> makes the exit code of it.
\<close>

definition a0e_backend :: "env \<Rightarrow> (int \<Rightarrow> int \<Rightarrow> lease_handler) \<Rightarrow> lease_backend" where
  "a0e_backend env lease_extend = \<lparr>be_Paths = a0e_paths env, be_SealWrapStorage = [''config/''],
     be_RunningVersion = ''v0.1.0'', be_Secrets = [secretAuth0Creds env lease_extend]\<rparr>"

definition a0e_Factory ::
  "env \<Rightarrow> (int \<Rightarrow> int \<Rightarrow> lease_handler) \<Rightarrow> (lease_backend \<Rightarrow> gerr option) \<Rightarrow> gerr + lease_backend"
where
  "a0e_Factory env lease_extend setup = (let b = a0e_backend env lease_extend in case setup b of
     Some e \<Rightarrow> Inl (''vault-auth0-engine setup: '' @ e)
   | None \<Rightarrow> Inr b)"

definition a0e_main :: "(((lease_backend \<Rightarrow> gerr option) \<Rightarrow> gerr + lease_backend) \<Rightarrow> gerr option)
    \<Rightarrow> env \<Rightarrow> (int \<Rightarrow> int \<Rightarrow> lease_handler) \<Rightarrow> nat" where
  "a0e_main serve env lease_extend = (case serve (a0e_Factory env lease_extend) of Some _ \<Rightarrow> 1 | None \<Rightarrow> 0)"

section \<open>What is written to the storage\<close>

lemma sealed_writes_client [trace_mono]:
  "(\<And>a. sealed_writes ps (k a)) \<Longrightarrow> sealed_writes ps (with_client cfg k)"
  unfolding with_client_def newAuth0Client_def by (rule sealed_writes_state) simp_all

lemma sealed_writes_token [trace_mono]:
  "sealed_writes ps (store_token env tok n)" "sealed_writes ps (\<lambda>w. (Inr (f w), w))"
  by (simp_all add: sealed_writes_def store_token_def Now_def)

lemma sealed_writes_token_valid [trace_mono]:
  assumes "\<And>b. sealed_writes ps (k b)"
  shows "sealed_writes ps (token_valid env k)"
  unfolding sealed_writes_def
proof (intro allI impI)
  fix w x
  assume x: "storage (snd (token_valid env k w)) x \<noteq> storage w x"
  show "list_ex (\<lambda>p. HasPrefix x p) ps"
  proof (cases "mgmtToken w = []")
    case True
    with x have "storage (snd (k False w)) x \<noteq> storage w x" by (simp add: token_valid_def)
    with assms show ?thesis by (rule sealed_writesD)
  next
    case False
    let ?m = "Now env (\<lambda>t. k (tokenExpiry w - t > tokenRefreshBuf))"
    from x False have "storage (snd (?m w)) x \<noteq> storage w x" by (simp add: token_valid_def)
    moreover have "sealed_writes ps ?m" by (rule sealed_writes_Now) (rule assms)
    ultimately show ?thesis by (blast dest: sealed_writesD)
  qed
qed

lemma sealed_writes_requests [trace_mono]:
  "sealed_writes ps (engine_managementToken env a c)" "sealed_writes ps (rotateSecret env a c cid)"
  "sealed_writes ps (appActive env a c cid)" "sealed_writes ps (transitEncrypt env key p)"
  unfolding rotateSecret_def appActive_def engine_managementToken_def engine_fetch_token_def transitEncrypt_def Let_def
  by (auto intro!: trace_mono split: prod.split option.split)

section \<open>Every request starts with a token of its own\<close>

definition client_of :: "(string \<times> goval) list \<Rightarrow> auth0_adapter" where
  "client_of cfg = \<lparr>a0_domain = cfg_string cfg ''domain'', a0_clientID = cfg_string cfg ''client_id'',
     a0_clientSecret = cfg_string cfg ''client_secret'', a0_audience = cfg_string cfg ''audience'',
     a0_baseURL = ''https://'' @ cfg_string cfg ''domain'', a0_client = \<lparr>hc_Timeout = 15 * Second,
       hc_MinVersion = VersionTLS13, hc_InsecureSkipVerify = False, hc_RootCAs = None\<rparr>\<rparr>"

definition no_token :: "world \<Rightarrow> world" where
  "no_token w = w\<lparr>mgmtToken := [], tokenExpiry := - 62135596800 * Second\<rparr>"

lemma no_token_simps [simp]:
  "mgmtToken (no_token w) = []" "trace (no_token w) = trace w" "storage (no_token w) = storage w"
  "ticks (no_token w) = ticks w"
  by (simp_all add: no_token_def)

lemma with_client_eq: "with_client cfg k w = k (client_of cfg) (no_token w)"
  by (simp add: with_client_def newAuth0Client_def client_of_def no_token_def)

definition token_request :: "env \<Rightarrow> auth0_adapter \<Rightarrow> http_request" where
  "token_request env a = set_header ''Content-Type'' ''application/json''
     \<lparr>hr_ctx = RequestCtx, hr_method = ''POST'', hr_url = a0_baseURL a @ ''/oauth/token'', hr_headers = [],
      hr_body = Some (token_body env a)\<rparr>"

definition rotate_request :: "auth0_adapter \<Rightarrow> string \<Rightarrow> string \<Rightarrow> http_request" where
  "rotate_request a tok cid = set_header ''Content-Type'' ''application/json''
     (set_header ''Authorization'' (''Bearer '' @ tok)
       \<lparr>hr_ctx = RequestCtx, hr_method = ''POST'',
        hr_url = a0_baseURL a @ ''/api/v2/clients/'' @ cid @ ''/rotate-secret'', hr_headers = [],
        hr_body = None\<rparr>)"

lemma engine_fetch_token_Inr:
  assumes "engine_fetch_token env a RequestCtx w = (Inr tok, w')"
  shows "tok \<noteq> [] \<and> trace w' = trace w @ [EHttp (token_request env a)] \<and> storage w' = storage w"
  using assms unfolding engine_fetch_token_def token_request_def
  by (auto simp: Let_def act_eq_Inr Do_def store_token_def)

lemma engine_managementToken_fresh:
  "mgmtToken w = [] \<Longrightarrow> engine_managementToken env a c w = engine_fetch_token env a c w"
  by (simp add: engine_managementToken_def token_valid_def)

text \<open>The two requests of a rotation, and where the secret comes from.\<close>

lemma rotateSecret_Inr:
  assumes "rotateSecret env a RequestCtx cid w = (Inr s, w')" "mgmtToken w = []"
  obtains tok resp where "s \<noteq> []" "storage w' = storage w"
    "trace w' = trace w @ [EHttp (token_request env a), EHttp (rotate_request a tok cid)]"
    "net env (trace w @ [EHttp (token_request env a)]) (rotate_request a tok cid) = Inr resp"
    "resp_status resp = 200" "decode_client_secret (read_limited (2 ^ 20) resp) = Some s"
proof -
  obtain tok w1 where t: "engine_fetch_token env a RequestCtx w = (Inr tok, w1)"
    using assms by (auto simp: rotateSecret_def attempt_eq_Inr engine_managementToken_fresh)
  note t1 = engine_fetch_token_Inr [OF t]
  obtain resp where r: "s \<noteq> []" "w' = w1\<lparr>trace := trace w1 @ [EHttp (rotate_request a tok cid)]\<rparr>"
    "net env (trace w1) (rotate_request a tok cid) = Inr resp"
    "resp_status resp = 200" "decode_client_secret (read_limited (2 ^ 20) resp) = Some s"
    using assms t unfolding rotate_request_def
    by (auto simp: rotateSecret_def engine_managementToken_fresh Let_def act_eq_Inr Do_def)
  with t1 show thesis by (intro that [of tok resp]) simp_all
qed

section \<open>rotate-root\<close>

lemma cfg_set_same: "map_of (cfg_set cfg k v) k = Some v"
  by (simp add: cfg_set_def)

lemma cfg_set_other: "k' \<noteq> k \<Longrightarrow> map_of (cfg_set cfg k v) k' = map_of cfg k'"
  by (induction cfg) (auto simp: cfg_set_def)

text \<open>
  C25. When \<open>config/rotate-root\<close> succeeds, the storage holds exactly the secret that Auth0 returned
  for the plugin's own application, every other setting as before, and the response does not
  contain it.
\<close>

theorem rotateRoot_stores_secret:
  assumes "rotateRoot env w = (Inr (DataResponse data), w')"
  shows "\<exists>cfg cid s tok resp cfg' t. storage w config_key = Some cfg \<and> cid = cfg_string cfg ''client_id''
    \<and> trace w' = trace w @ [EHttp (token_request env (client_of cfg)), EHttp (rotate_request (client_of cfg) tok cid)]
    \<and> net env (trace w @ [EHttp (token_request env (client_of cfg))]) (rotate_request (client_of cfg) tok cid) = Inr resp
    \<and> resp_status resp = 200 \<and> decode_client_secret (read_limited (2 ^ 20) resp) = Some s \<and> s \<noteq> []
    \<and> storage w' = (storage w)(config_key \<mapsto> cfg') \<and> cfg_string cfg' ''client_secret'' = s
    \<and> (\<forall>k. k \<noteq> ''client_secret'' \<longrightarrow> map_of cfg' k = map_of cfg k)
    \<and> data = [(''rotated_at'', GStr (fmt_rfc3339 t)), (''client_id'', GStr cid), (''message'', GStr rotate_root_message)]"
proof -
  obtain cfg w1 where g: "getConfig env w = (Inr (Some cfg), w1)"
    using assms by (auto simp: rotateRoot_def attempt_eq_Inr split: option.splits)
  let ?cid = "cfg_string cfg ''client_id''"
  obtain s w2 w3 t where r: "rotateSecret env (client_of cfg) RequestCtx ?cid (no_token w1) = (Inr s, w2)"
    and p: "storage_Put env config_key (cfg_set cfg ''client_secret'' (GStr s)) w2 = (Inr (), w3)"
    and d: "data = [(''rotated_at'', GStr (fmt_rfc3339 t)), (''client_id'', GStr ?cid), (''message'', GStr rotate_root_message)]"
    and w': "w' = w3\<lparr>ticks := Suc (ticks w3)\<rparr>"
    using assms g by (auto simp: rotateRoot_def with_client_eq attempt_eq_Inr Now_eq_Inr)
  have g': "storage w1 = storage w" "trace w1 = trace w"
    using getConfig_storage [of env w] getConfig_trace [of env w] g by simp_all
  have p': "storage w3 = (storage w2)(config_key \<mapsto> cfg_set cfg ''client_secret'' (GStr s))" "trace w3 = trace w2"
    using p by (auto simp: storage_Put_def Let_def split: option.splits)
  from r obtain tok resp where "s \<noteq> []" "storage w2 = storage (no_token w1)"
    "trace w2 = trace (no_token w1) @ [EHttp (token_request env (client_of cfg)),
       EHttp (rotate_request (client_of cfg) tok ?cid)]"
    "net env (trace (no_token w1) @ [EHttp (token_request env (client_of cfg))])
       (rotate_request (client_of cfg) tok ?cid) = Inr resp"
    "resp_status resp = 200" "decode_client_secret (read_limited (2 ^ 20) resp) = Some s"
    by (rule rotateSecret_Inr) simp_all
  moreover have "cfg_string (cfg_set cfg ''client_secret'' (GStr s)) ''client_secret'' = s"
    by (simp add: cfg_string_def cfg_set_same as_string_def)
  ultimately show ?thesis
    using getConfig_Some [OF g] g' p' d w' cfg_set_other [of _ "''client_secret''" cfg "GStr s"]
    by (intro exI conjI allI impI) (assumption | rule refl | simp)+
qed

text \<open>An Auth0 that answers every request, as the concrete instances need it.\<close>

definition auth0_reply :: json where
  "auth0_reply = JObj [(''access_token'', JStr ''tk''), (''client_secret'', JStr ''new'')]"

lemma auth0_reply_short: "short_json 65536 auth0_reply" "short_json 1048576 auth0_reply"
  by (simp_all add: short_json_def auth0_reply_def json_quote_def json_esc_def ascii_def)

lemma auth0_reply_dec:
  "decode_token (json_print auth0_reply) = Some (''tk'', 0)"
  "decode_client_secret (json_print auth0_reply) = Some ''new''"
proof -
  have "dec_root (json_print auth0_reply) = dec_struct auth0_reply"
    by (rule dec_root_short [OF auth0_reply_short(1)])
  then show "decode_token (json_print auth0_reply) = Some (''tk'', 0)"
    "decode_client_secret (json_print auth0_reply) = Some ''new''"
    by (simp_all add: decode_token_def decode_client_secret_def auth0_reply_def dec_struct_def dec_str_def
        token_fields_def key_for_def same_fold_def runes_def del: json_print.simps)
qed

lemma rotateSecret_answers:
  assumes "answers env 200 auth0_reply" "mgmtToken w = []"
  shows "\<exists>w'. rotateSecret env a c cid w = (Inr ''new'', w')"
  using assms(2)
  by (simp add: rotateSecret_def engine_managementToken_fresh engine_fetch_token_def answersD [OF assms(1)]
      NewRequest_def attempt_def Do_def Let_def store_token_def Now_def auth0_reply_short auth0_reply_dec)

definition auth0_config_example :: "(string \<times> goval) list" where
  "auth0_config_example = [(''domain'', GStr ''t.auth0.com''), (''client_id'', GStr ''m2m''),
     (''client_secret'', GStr ''old''), (''audience'', GStr ''aud''), (''transit_key'', GStr ''k'')]"

definition configured :: world where
  "configured = fresh_world\<lparr>storage := [config_key \<mapsto> auth0_config_example]\<rparr>"

lemma configured_sel [simp]:
  "storage configured = [config_key \<mapsto> auth0_config_example]" "ticks configured = 0" "trace configured = []"
  by (simp_all add: configured_def)

definition auth0_env :: env where
  "auth0_env = answering 200 auth0_reply"

lemma auth0_env_sel [simp]:
  "storage_get auth0_env t = None" "storage_put auth0_env t = None" "storage_decode auth0_env t = None"
  "clock auth0_env t = 0"
  by (simp_all add: auth0_env_def answering_def)

lemma auth0_env_getConfig:
  "getConfig (auth0_env\<lparr>storage_put := f\<rparr>) configured = (Inr (Some auth0_config_example), configured\<lparr>ticks := 2\<rparr>)"
  "getConfig auth0_env configured = (Inr (Some auth0_config_example), configured\<lparr>ticks := 2\<rparr>)"
  by (subst getConfig_ok; simp add: numeral_2_eq_2)+

lemma auth0_env_rotateSecret:
  "\<exists>w'. rotateSecret (auth0_env\<lparr>storage_put := f\<rparr>) a c cid (no_token w) = (Inr ''new'', w')"
  "\<exists>w'. rotateSecret auth0_env a c cid (no_token w) = (Inr ''new'', w')"
  by (rule rotateSecret_answers; simp add: answers_def auth0_env_def)+

lemma auth0_env_rotateRoot: "\<exists>data w'. rotateRoot auth0_env configured = (Inr (DataResponse data), w')"
proof -
  obtain w1 where "rotateSecret auth0_env (client_of auth0_config_example) RequestCtx
      (cfg_string auth0_config_example ''client_id'') (no_token (configured\<lparr>ticks := 2\<rparr>)) = (Inr ''new'', w1)"
    using auth0_env_rotateSecret(2) by blast
  then show ?thesis
    by (simp add: rotateRoot_def attempt_def auth0_env_getConfig with_client_eq storage_Put_def Let_def Now_def)
qed

theorem rotateRoot_stores_secret_witness:
  "\<exists>data w' s cfg'. rotateRoot auth0_env configured = (Inr (DataResponse data), w') \<and> s \<noteq> []
    \<and> storage w' = (storage configured)(config_key \<mapsto> cfg') \<and> cfg_string cfg' ''client_secret'' = s
    \<and> map_of cfg' ''domain'' = Some (GStr ''t.auth0.com'')"
proof -
  obtain data w' where run: "rotateRoot auth0_env configured = (Inr (DataResponse data), w')"
    using auth0_env_rotateRoot by blast
  from rotateRoot_stores_secret [OF run] obtain cfg s cfg' where
    "storage configured config_key = Some cfg" "s \<noteq> []" "storage w' = (storage configured)(config_key \<mapsto> cfg')"
    "cfg_string cfg' ''client_secret'' = s" "\<forall>k. k \<noteq> ''client_secret'' \<longrightarrow> map_of cfg' k = map_of cfg k"
    by blast
  moreover from this have "map_of cfg' ''domain'' = Some (GStr ''t.auth0.com'')"
    by (auto simp: auth0_config_example_def)
  ultimately show ?thesis using run by blast
qed

text \<open>
  C40. When the storage refuses the write after Auth0 has rotated, \<open>config/rotate-root\<close> fails and
  the configuration keeps the secret that Auth0 has just invalidated; the new one, which the
  answer held, is in no part of the result.
\<close>

theorem rotateRoot_loses_secret:
  assumes "getConfig env w = (Inr (Some cfg), w1)"
    and "rotateSecret env (client_of cfg) RequestCtx (cfg_string cfg ''client_id'') (no_token w1) = (Inr s, w2)"
    and "storage_put env (ticks w2) = Some e"
  shows "rotateRoot env w = (Inl (''rotate-root: store updated config: '' @ e), w2\<lparr>ticks := Suc (ticks w2)\<rparr>)
    \<and> storage w2 = storage w \<and> (\<exists>tok. last (trace w2) = EHttp (rotate_request (client_of cfg) tok (cfg_string cfg ''client_id'')))"
proof -
  have "storage w1 = storage w" using getConfig_storage [of env w] assms(1) by simp
  moreover obtain tok where "storage w2 = storage w1"
    "last (trace w2) = EHttp (rotate_request (client_of cfg) tok (cfg_string cfg ''client_id''))"
    using assms(2) by (rule rotateSecret_Inr) auto
  ultimately show ?thesis
    using assms by (auto simp: rotateRoot_def attempt_def with_client_eq storage_Put_def Let_def)
qed

theorem rotateRoot_loses_secret_witness:
  "\<exists>w'. rotateRoot (auth0_env\<lparr>storage_put := (\<lambda>_. Some ''sealed'')\<rparr>) configured
      = (Inl (''rotate-root: store updated config: '' @ ''sealed''), w') \<and> storage w' = storage configured"
proof -
  let ?env = "auth0_env\<lparr>storage_put := (\<lambda>_. Some ''sealed'')\<rparr>"
  obtain w2 where r: "rotateSecret ?env (client_of auth0_config_example) RequestCtx
      (cfg_string auth0_config_example ''client_id'') (no_token (configured\<lparr>ticks := 2\<rparr>)) = (Inr ''new'', w2)"
    using auth0_env_rotateSecret(1) by blast
  have "storage_put ?env (ticks w2) = Some ''sealed''" by simp
  from rotateRoot_loses_secret [OF auth0_env_getConfig(1) r this] show ?thesis by auto
qed

section \<open>Leases\<close>

lemma transitEncrypt_Inr:
  assumes "transitEncrypt env key p w = (Inr ct, w')"
  obtains s where "vault env (trace w) (vault_token w) (VWrite (''transit/encrypt/'' @ key)
      [(''plaintext'', GStr (EncodeToString p))]) = Inr (Some s)"
    "data_field s ''ciphertext'' = Some (GStr ct)" "ct \<noteq> []" "storage w' = storage w"
    "trace w' = trace w @ [EVault (vault_token w) (VWrite (''transit/encrypt/'' @ key)
      [(''plaintext'', GStr (EncodeToString p))])]"
proof -
  from assms obtain s where "vault_do env (VWrite (''transit/encrypt/'' @ key)
      [(''plaintext'', GStr (EncodeToString p))]) w = (Inr (Some s), w')"
    and c: "as_string (data_field s ''ciphertext'') = ct" "ct \<noteq> []"
    by (auto simp: transitEncrypt_def Let_def act_eq_Inr split: option.splits)
  moreover from c have "data_field s ''ciphertext'' = Some (GStr ct)"
    by (auto simp: as_string_def split: option.splits goval.splits)
  ultimately show thesis using c by (intro that [of s]) (auto simp: vault_do_def)
qed

text \<open>
  C26. With a Transit key configured, a lease on an Auth0 application carries the ciphertext
  that Vault made of the secret Auth0 returned for that application, never the secret; its
  internal data is the application's id, and the storage is as before.
\<close>

theorem leased_secret_encrypted:
  assumes "a0e_rotateCreds env d w = (Inr (SecretResponse ty data internal), w')"
    and "storage w config_key = Some cfg" "cfg_string cfg ''transit_key'' = key" "key \<noteq> []"
    and "app = field_Get d ''application_client_id'' []"
  shows "\<exists>tok resp s sec vtok ct t. app \<noteq> []
    \<and> net env (trace w @ [EHttp (token_request env (client_of cfg))]) (rotate_request (client_of cfg) tok app) = Inr resp
    \<and> resp_status resp = 200 \<and> decode_client_secret (read_limited (2 ^ 20) resp) = Some s
    \<and> trace w' = trace w @ [EHttp (token_request env (client_of cfg)), EHttp (rotate_request (client_of cfg) tok app),
        EVault vtok (VWrite (''transit/encrypt/'' @ key) [(''plaintext'', GStr (EncodeToString s))])]
    \<and> vault env (butlast (trace w')) vtok (VWrite (''transit/encrypt/'' @ key)
        [(''plaintext'', GStr (EncodeToString s))]) = Inr (Some sec)
    \<and> data_field sec ''ciphertext'' = Some (GStr ct)
    \<and> data = [(''application_client_id'', GStr app), (''rotated_at'', GStr (fmt_rfc3339 t)),
        (''credential_ciphertext'', GStr ct), (''transit_key'', GStr key)]
    \<and> internal = [(''application_client_id'', GStr app)] \<and> storage w' = storage w"
proof -
  obtain w1 where g: "getConfig env w = (Inr (Some cfg), w1)"
    using assms(1) getConfig_Some assms(2) unfolding a0e_rotateCreds_def
    by (fastforce simp: attempt_eq_Inr split: option.splits)
  have g': "storage w1 = storage w" "trace w1 = trace w"
    using getConfig_storage [of env w] getConfig_trace [of env w] g by simp_all
  obtain r w2 where r: "rotateSecret env (client_of cfg) RequestCtx app (no_token w1) = (r, w2)" by fastforce
  obtain s ct t w3 where s: "r = Inr s" and app: "app \<noteq> []"
    and e: "transitEncrypt env key s w3 = (Inr ct, w')" and w3: "w3 = w2\<lparr>ticks := Suc (ticks w2)\<rparr>"
    and out: "data = [(''application_client_id'', GStr app), (''rotated_at'', GStr (fmt_rfc3339 t)),
        (''credential_ciphertext'', GStr ct), (''transit_key'', GStr key)]"
      "internal = [(''application_client_id'', GStr app)]"
    using assms g r
    by (cases r) (auto simp: a0e_rotateCreds_def with_client_eq attempt_eq_Inr on_result_def Let_def
        Now_eq_Inr creds_response_def split: if_splits)
  obtain tok resp where rot: "storage w2 = storage w" "trace w2 = trace w @
      [EHttp (token_request env (client_of cfg)), EHttp (rotate_request (client_of cfg) tok app)]"
    "net env (trace w @ [EHttp (token_request env (client_of cfg))]) (rotate_request (client_of cfg) tok app) = Inr resp"
    "resp_status resp = 200" "decode_client_secret (read_limited (2 ^ 20) resp) = Some s"
    using rotateSecret_Inr [OF r [unfolded s]] g' by (metis no_token_simps(1-3))
  show ?thesis
    by (rule transitEncrypt_Inr [OF e], intro exI conjI)
      (use app rot out w3 in \<open>(assumption | rule refl | simp add: butlast_append)+\<close>)
qed

text \<open>
  Revoking a lease succeeds only when Auth0 has rotated the secret of the application once
  more, and leaves the storage alone; all that matters of the lease is the application's id,
  so that revoking an older lease invalidates the secret of a newer one.
\<close>

lemma revoke_rotates_again:
  assumes "revokeCreds env internal w = (Inr r, w')"
    and "cfg_string internal ''application_client_id'' = app"
  shows "r = NilResponse \<and> app \<noteq> [] \<and> storage w' = storage w
    \<and> (\<exists>cfg tok resp. storage w config_key = Some cfg
      \<and> trace w' = trace w @ [EHttp (token_request env (client_of cfg)), EHttp (rotate_request (client_of cfg) tok app)]
      \<and> net env (trace w @ [EHttp (token_request env (client_of cfg))]) (rotate_request (client_of cfg) tok app) = Inr resp
      \<and> resp_status resp = 200)
    \<and> revokeCreds env [(''application_client_id'', GStr app)] w = (Inr r, w')"
proof -
  obtain cfg w1 where g: "getConfig env w = (Inr (Some cfg), w1)" and app: "app \<noteq> []"
    using assms by (auto simp: revokeCreds_def check_eq_Inr attempt_eq_Inr split: option.splits)
  have g': "storage w1 = storage w" "trace w1 = trace w"
    using getConfig_storage [of env w] getConfig_trace [of env w] g by simp_all
  obtain s where r: "rotateSecret env (client_of cfg) RequestCtx app (no_token w1) = (Inr s, w')"
    and nil: "r = NilResponse"
    using assms g by (auto simp: revokeCreds_def check_eq_Inr attempt_eq_Inr with_client_eq)
  have "revokeCreds env [(''application_client_id'', GStr app)] w = (Inr r, w')"
    using assms by (simp add: revokeCreds_def cfg_string_def as_string_def)
  then show ?thesis
    using rotateSecret_Inr [OF r] getConfig_Some [OF g] nil app g'
    by (metis no_token_simps(1-3))
qed

text \<open>An Auth0 and a Vault that answer.\<close>

definition lease_env :: env where
  "lease_env = auth0_env\<lparr>vault := vault (transit_vault ''k'')\<rparr>"

definition app_field :: field_data where
  "app_field = \<lparr>fd_raw = [''application_client_id'' \<mapsto> ''app1''], fd_err = (\<lambda>_. None)\<rparr>"

lemma app_field_Get [simp]: "field_Get app_field ''application_client_id'' [] = ''app1''"
  by (simp add: app_field_def field_Get_def)

lemma lease_env_answers: "answers lease_env 200 auth0_reply" "transit_ok lease_env ''k'' (\<lambda>v. ''vault:v1:'' @ v)"
  by (simp_all add: answers_def lease_env_def auth0_env_def transit_ok_def transit_vault_def)

lemma lease_env_getConfig: "getConfig lease_env configured = (Inr (Some auth0_config_example), configured\<lparr>ticks := 2\<rparr>)"
  by (subst getConfig_ok; simp add: numeral_2_eq_2 lease_env_def)

lemma transitEncrypt_answers:
  assumes "transit_ok env ''k'' (\<lambda>v. ''vault:v1:'' @ v)" "\<And>u. vault_client_err env u = None"
  shows "\<exists>ct w'. transitEncrypt env ''k'' p w = (Inr ct, w')"
proof -
  obtain w2 where d: "vault_do env (VWrite (''transit/encrypt/'' @ ''k'') [(''plaintext'', GStr (EncodeToString p))]) w
      = (Inr (one_field ''ciphertext'' (''vault:v1:'' @ EncodeToString p)), w2)"
    by (simp only: vault_do_def transit_okD [OF assms(1)])
  with assms(2) show ?thesis
    by (simp add: transitEncrypt_def attempt_def one_field_def data_field_def as_string_def Let_def)
qed

lemma lease_env_encrypt: "\<exists>ct w'. transitEncrypt lease_env ''k'' p w = (Inr ct, w')"
  by (rule transitEncrypt_answers [OF lease_env_answers(2)]) (simp add: lease_env_def auth0_env_def answering_def)

theorem leased_secret_encrypted_witness:
  "\<exists>ty data internal w' ct t. a0e_rotateCreds lease_env app_field configured = (Inr (SecretResponse ty data internal), w')
    \<and> data = [(''application_client_id'', GStr ''app1''), (''rotated_at'', GStr (fmt_rfc3339 t)),
        (''credential_ciphertext'', GStr ct), (''transit_key'', GStr ''k'')]
    \<and> storage w' = storage configured"
proof -
  have key: "cfg_string auth0_config_example ''transit_key'' = ''k''"
    by (simp add: auth0_config_example_def cfg_string_def as_string_def)
  obtain w1 where r: "rotateSecret lease_env (client_of auth0_config_example) RequestCtx ''app1''
      (no_token (configured\<lparr>ticks := 2\<rparr>)) = (Inr ''new'', w1)"
    using rotateSecret_answers [OF lease_env_answers(1)] by fastforce
  obtain ct w2 where e: "transitEncrypt lease_env ''k'' ''new'' (w1\<lparr>ticks := Suc (ticks w1)\<rparr>) = (Inr ct, w2)"
    using lease_env_encrypt by blast
  obtain ty data internal where run:
    "a0e_rotateCreds lease_env app_field configured = (Inr (SecretResponse ty data internal), w2)"
    using r e key by (simp add: a0e_rotateCreds_def attempt_def lease_env_getConfig with_client_eq on_result_def
        Let_def Now_def creds_response_def)
  from leased_secret_encrypted [OF run _ key _ refl] run show ?thesis by (simp add: configured_def) blast
qed

end
