(* ===== verification/Plugins.thy ===== *)
theory Plugins
  imports Broker Rest_Engine Auth0_Engine
begin

text \<open>
  The properties of the two Vault plugins: the REST engine in front of the broker, from the
  request body it writes to the credential it returns, and what the Auth0 engine keeps in
  Vault's storage.
\<close>

section \<open>The plugin and the broker\<close>

text \<open>The request of \<open>callRotateAPI\<close>, as the broker's server reads it.\<close>

definition received :: "http_request \<Rightarrow> cert list \<Rightarrow> string \<Rightarrow> request" where
  "received q certs path = \<lparr>r_Method = hr_method q, r_EscapedPath = path, r_RawQuery = [],
     r_Body = (case hr_body q of Some b \<Rightarrow> b | None \<Rightarrow> []), r_RemoteAddr = ''10.0.0.2:1000'',
     r_TLS = Some certs\<rparr>"

definition rotate_call :: "env \<Rightarrow> string \<Rightarrow> string \<Rightarrow> string \<Rightarrow> http_request" where
  "rotate_call env apiURL provider pid = set_header ''Content-Type'' ''application/json''
     \<lparr>hr_ctx = RequestCtx, hr_method = ''POST'', hr_url = apiURL @ ep_path EP_Rotate, hr_headers = [],
      hr_body = Some (rest_body env provider pid)\<rparr>"

lemma mux_received:
  "mux env h (received (rotate_call penv u p i) certs (ep_path EP_Rotate)) w =
     Handlers_Rotate env h (received (rotate_call penv u p i) certs (ep_path EP_Rotate)) w"
proof -
  let ?r = "received (rotate_call penv u p i) certs (ep_path EP_Rotate)"
  have "r_EscapedPath ?r = ep_path EP_Rotate" by (simp add: received_def)
  from route_canonical [OF this] have "route_of ?r = Serve EP_Rotate"
    by (simp add: serves_method_def received_def rotate_call_def)
  then show ?thesis by (simp add: mux_def endpoint_handler_def)
qed

text \<open>The body the plugin writes is the request the broker reads.\<close>

lemma rest_body_members:
  "rest_body env p i = CHR ''{'' # dq # ''provider'' @ dq # CHR '':'' # quoted env p @ CHR '','' #
     dq # ''provider_id'' @ dq # CHR '':'' # quoted env i @ [CHR ''}'']"
  by (simp add: rest_body_def)

lemma decode_rest_body:
  assumes "printable p" "printable i"
  shows "decode_rotateRequest (rest_body env p i) = Some (p, i, Map.empty)"
proof -
  have q: "parse_value (quoted env v @ t) = Some (JStr v, t)" if "printable v" for v t
    unfolding quoted_def using that by (rule parse_go_quote)
  have k: "plain_key ''provider''" "plain_key ''provider_id''"
    by (simp_all add: plain_key_def)
  have m2: "parse_members (dq # ''provider_id'' @ dq # CHR '':'' # quoted env i @ [CHR ''}''])
      = Some ([(''provider_id'', JStr i)], [])"
    by (rule parse_member_end [OF k(2) q [OF assms(2)]])
  have "Decode (rest_body env p i) = Some (JObj [(''provider'', JStr p), (''provider_id'', JStr i)])"
    unfolding rest_body_members
    by (rule Decode_members) (simp only: parse_member_comma [OF k(1) q [OF assms(1)]] m2 option.map prod.case)
  then show ?thesis
    by (simp add: decode_rotateRequest_def dec_struct_def dec_str_def key_for_other)
qed

text \<open>The body the broker writes is the answer the plugin reads.\<close>

lemma rest_decode_response:
  assumes "ascii pid" "ascii ct" "year_ok t"
  shows "rest_decode (json_print (JObj [(''provider_id'', JStr pid), (''encrypted_value'', JStr ct),
    (''rotated_at'', JStr (fmt_rfc3339nano t))]) @ [newline]) = Some (pid, ct, t)"
proof -
  let ?v = "JObj [(''provider_id'', JStr pid), (''encrypted_value'', JStr ct),
    (''rotated_at'', JStr (fmt_rfc3339nano t))]"
  have a: "ascii_json ?v" using assms fmt_rfc3339nano_shape [OF assms(3)] by (simp add: ascii_def)
  have "[newline] = [char_of (10::nat)]" by (simp add: newline_def char_of_def bit_Suc_0_iff)
  then have "dec_root (json_print ?v @ [newline]) = dec_struct ?v"
    by (simp only: dec_root_def Unmarshal_print_newline [OF a] bind.bind_lunit)
  then show ?thesis
    unfolding rest_decode_def
    by (simp add: dec_struct_def dec_str_def key_for_other parse_strict_fmt_rfc3339nano [OF assms(3)]
      del: json_print.simps)
qed

text \<open>What each of the two calls of the plugin returns.\<close>

lemma callRotateAPI_Inr:
  assumes "callRotateAPI env RequestCtx u p i w = (Inr (x, e, t), w')"
  obtains resp where "net env (trace w) (rotate_call env u p i) = Inr resp" "resp_status resp = 200"
    "rest_decode (read_limited (2 ^ 20) resp) = Some (x, e, t)"
  using assms unfolding callRotateAPI_def rotate_call_def
  by (auto simp: Let_def act_eq_Inr Do_def)

lemma transitDecrypt_Inr:
  assumes "transit_ok env key enc" "transitDecrypt env key (enc (EncodeToString p)) w = (Inr x, w')"
  shows "x = p"
proof -
  obtain w2 where d: "vault_do env (VWrite (''transit/decrypt/'' @ key) [(''ciphertext'', GStr (enc (EncodeToString p)))]) w
      = (Inr (one_field ''plaintext'' (EncodeToString p)), w2)"
    by (simp only: vault_do_def transit_okD [OF assms(1)])
  with assms(2) show ?thesis
    unfolding transitDecrypt_def
    by (cases "one_field ''plaintext'' (EncodeToString p)")
      (auto simp: Let_def act_eq_Inr DecodeString_EncodeToString split: option.splits)
qed

lemma rest_rotateCreds_data:
  assumes "rest_rotateCreds env d w = (Inr (DataResponse data), w')" "storage w config_key = Some cfg"
    and "cfg_string cfg ''transit_key'' = key" "key \<noteq> []"
  obtains w1 pid enc t w2 plain where
    "callRotateAPI env RequestCtx (TrimRight (cfg_string cfg ''api_url'') (CHR ''/''))
       (field_Get d ''provider'' []) (field_Get d ''provider_id'' []) w1 = (Inr (pid, enc, t), w2)"
    "transitDecrypt env key enc w2 = (Inr plain, w')"
    "data = [(''credential'', GStr plain), (''provider'', GStr (field_Get d ''provider'' [])),
       (''provider_id'', GStr (field_Get d ''provider_id'' [])), (''rotated_at'', GStr (fmt_rfc3339 t))]"
proof -
  obtain w1 where g: "getConfig env w = (Inr (Some cfg), w1)"
    using assms(1) getConfig_Some assms(2) unfolding rest_rotateCreds_def
    by (fastforce simp: attempt_eq_Inr split: option.splits)
  obtain r w2 where r: "callRotateAPI env RequestCtx (TrimRight (cfg_string cfg ''api_url'') (CHR ''/''))
       (field_Get d ''provider'' []) (field_Get d ''provider_id'' []) w1 = (r, w2)"
    by fastforce
  obtain p e t plain where k: "r = Inr (p, e, t)" "transitDecrypt env key e w2 = (Inr plain, w')"
    "data = [(''credential'', GStr plain), (''provider'', GStr (field_Get d ''provider'' [])),
       (''provider_id'', GStr (field_Get d ''provider_id'' [])), (''rotated_at'', GStr (fmt_rfc3339 t))]"
    using assms(1,3,4) g r unfolding rest_rotateCreds_def
    by (cases r) (auto simp: Let_def attempt_eq_Inr on_result_def r split: sum.splits)
  from that [OF r [unfolded k(1)] k(2,3)] show thesis .
qed

text \<open>When the broker and Vault answer, the plugin returns.\<close>

lemma callRotateAPI_ok:
  assumes "url_err env (u @ ep_path EP_Rotate) = None" "\<And>tr q. net env tr q = Inr \<lparr>resp_status = 200, resp_body = b\<rparr>"
    and "length b \<le> 2 ^ 20" "rest_decode b = Some (x, e, t)" "e \<noteq> []"
  shows "\<exists>w'. callRotateAPI env c u p i w = (Inr (x, e, t), w')"
  using assms by (simp add: callRotateAPI_def NewRequest_def Do_def attempt_def read_limited_def Let_def)

lemma transitDecrypt_ok:
  assumes "transit_ok env key enc" "p \<noteq> []" "vault_client_err env (getenv env ''VAULT_ADDR'') = None"
  shows "\<exists>w'. transitDecrypt env key (enc (EncodeToString p)) w = (Inr p, w')"
proof -
  obtain w2 where d: "vault_do env (VWrite (''transit/decrypt/'' @ key) [(''ciphertext'', GStr (enc (EncodeToString p)))]) w
      = (Inr (one_field ''plaintext'' (EncodeToString p)), w2)"
    by (simp only: vault_do_def transit_okD [OF assms(1)])
  with assms(2,3) show ?thesis
    unfolding transitDecrypt_def
    by (cases "one_field ''plaintext'' (EncodeToString p)")
      (auto simp: one_field_def data_field_def as_string_def Let_def DecodeString_EncodeToString
        simp del: EncodeToString.simps)
qed

lemma rest_rotateCreds_ok:
  assumes "getConfig env w = (Inr (Some cfg), w1)" "buildHTTPClient env cfg = Inr cl"
    and "cfg_string cfg ''transit_key'' = key" "key \<noteq> []"
    and "\<And>v. \<exists>v'. callRotateAPI env RequestCtx (TrimRight (cfg_string cfg ''api_url'') (CHR ''/''))
       (field_Get d ''provider'' []) (field_Get d ''provider_id'' []) v = (Inr (x, e, t), v')"
    and "\<And>v. \<exists>v'. transitDecrypt env key e v = (Inr plain, v')"
  shows "\<exists>w'. rest_rotateCreds env d w = (Inr (DataResponse [(''credential'', GStr plain),
    (''provider'', GStr (field_Get d ''provider'' [])), (''provider_id'', GStr (field_Get d ''provider_id'' [])),
    (''rotated_at'', GStr (fmt_rfc3339 t))]), w')"
proof -
  from assms(5) obtain v where c: "callRotateAPI env RequestCtx (TrimRight (cfg_string cfg ''api_url'') (CHR ''/''))
       (field_Get d ''provider'' []) (field_Get d ''provider_id'' []) w1 = (Inr (x, e, t), v)" by blast
  from assms(6) obtain v' where "transitDecrypt env key e v = (Inr plain, v')" by blast
  with assms(1-4) c show ?thesis
    by (simp add: rest_rotateCreds_def Let_def attempt_def on_result_def)
qed

text \<open>What the broker answered, read back by the plugin, is the ciphertext and the time of the adapter's result.\<close>

lemma answer_read_back:
  assumes "Handlers_Rotate benv \<lparr>hd_registry = broker_registry benv a0 sp gh dd sq pd, hd_transitKeyName = key\<rparr> r bw
      = (Done resp, bw')"
    and "w_Status resp = 200" "decode_rotateRequest (r_Body r) = Some (p, i, Map.empty)" "ascii i"
    and "transit_ok benv key enc" "\<And>x. ascii (enc (EncodeToString x))"
    and "rest_decode (w_Body resp) = Some (x, e, t)"
  obtains a res bw1 where "Get benv (broker_registry benv a0 sp gh dd sq pd) p = Inr a"
    "Rotate a handler_ctx \<lparr>rq_ProviderID = i, rq_Meta = Map.empty\<rparr> bw = (Inr res, bw1)"
    "e = enc (EncodeToString (res_Credential res))" "t = res_RotatedAt res"
    "trace bw' = trace bw1 @ [transit_event (vault_token bw1) key (res_Credential res)]"
proof -
  obtain a res bw1 ct bw2 where get: "Get benv (broker_registry benv a0 sp gh dd sq pd) p = Inr a"
    and rot: "Rotate a handler_ctx \<lparr>rq_ProviderID = i, rq_Meta = Map.empty\<rparr> bw = (Inr res, bw1)"
    and encr: "TransitEncrypt benv key (res_Credential res) bw1 = (Inr (Done ct), bw2)"
    and resp: "(Done resp, bw') = jsonOK (RotateResponse_json \<lparr>rs_ProviderID = i, rs_EncryptedValue = ct,
      rs_RotatedAt = res_RotatedAt res\<rparr>) bw2"
    using broker.rotate_ok [OF assms(1,2)] assms(3) by (smt (verit, best) option.inject prod.inject)
  have ct: "ct = enc (EncodeToString (res_Credential res))"
    using encr TransitEncrypt_ok [OF assms(5)] by simp
  have year: "year_ok (res_RotatedAt res)"
    using resp assms(7) by (auto simp: jsonOK_def RotateResponse_json_def time_json_def rest_decode_def
        dec_root_def Unmarshal_def split: if_splits)
  from resp year have "rest_decode (w_Body resp) = Some (i, ct, res_RotatedAt res)"
    using rest_decode_response [OF assms(4) _ year, of ct] assms(6) ct
    by (simp add: jsonOK_def RotateResponse_json_def time_json_def)
  moreover have "trace bw' = trace bw1 @ [transit_event (vault_token bw1) key (res_Credential res)]"
    using TransitEncrypt_trace [of benv key "res_Credential res" bw1] encr trace_jsonOK [of _ bw2] resp
    by (metis snd_conv)
  ultimately show thesis using assms(7) ct get rot that by simp
qed

lemma plugin_credential:
  assumes "rest_rotateCreds env d w = (Inr (DataResponse data), w')"
    and "storage w config_key = Some cfg" "cfg_string cfg ''transit_key'' = key" "key \<noteq> []"
    and "printable (field_Get d ''provider'' [])" "printable (field_Get d ''provider_id'' [])"
    and "mux benv \<lparr>hd_registry = broker_registry benv a0 sp gh dd sq pd, hd_transitKeyName = key\<rparr>
      (received (rotate_call env (TrimRight (cfg_string cfg ''api_url'') (CHR ''/''))
        (field_Get d ''provider'' []) (field_Get d ''provider_id'' [])) certs (ep_path EP_Rotate)) bw
      = (Done resp, bw')"
    and "\<And>tr q. net env tr q = Inr \<lparr>resp_status = w_Status resp, resp_body = w_Body resp\<rparr>"
    and "length (w_Body resp) \<le> 2 ^ 20"
    and "transit_ok benv key enc" "transit_ok env key enc" "\<And>x. ascii (enc (EncodeToString x))"
  shows "\<exists>a res bw1. Get benv (broker_registry benv a0 sp gh dd sq pd) (field_Get d ''provider'' []) = Inr a
    \<and> Rotate a handler_ctx \<lparr>rq_ProviderID = field_Get d ''provider_id'' [], rq_Meta = Map.empty\<rparr> bw = (Inr res, bw1)
    \<and> data = [(''credential'', GStr (res_Credential res)), (''provider'', GStr (field_Get d ''provider'' [])),
        (''provider_id'', GStr (field_Get d ''provider_id'' [])),
        (''rotated_at'', GStr (fmt_rfc3339 (res_RotatedAt res)))]
    \<and> trace bw' = trace bw1 @ [transit_event (vault_token bw1) key (res_Credential res)]"
proof -
  let ?p = "field_Get d ''provider'' []" and ?i = "field_Get d ''provider_id'' []"
  let ?u = "TrimRight (cfg_string cfg ''api_url'') (CHR ''/'')"
  let ?r = "received (rotate_call env ?u ?p ?i) certs (ep_path EP_Rotate)"
  from assms(1-4) obtain w1 x e t w2 plain where
    call: "callRotateAPI env RequestCtx ?u ?p ?i w1 = (Inr (x, e, t), w2)"
    and dec: "transitDecrypt env key e w2 = (Inr plain, w')"
    and data: "data = [(''credential'', GStr plain), (''provider'', GStr ?p), (''provider_id'', GStr ?i),
      (''rotated_at'', GStr (fmt_rfc3339 t))]"
    by (rule rest_rotateCreds_data)
  from call assms(8,9) have ok: "w_Status resp = 200" and ans: "rest_decode (w_Body resp) = Some (x, e, t)"
    by (auto elim!: callRotateAPI_Inr simp: read_limited_def)
  have body: "decode_rotateRequest (r_Body ?r) = Some (?p, ?i, Map.empty)"
    using decode_rest_body [OF assms(5,6)] by (simp add: received_def rotate_call_def)
  have run: "Handlers_Rotate benv \<lparr>hd_registry = broker_registry benv a0 sp gh dd sq pd,
      hd_transitKeyName = key\<rparr> ?r bw = (Done resp, bw')"
    using assms(7) by (simp only: mux_received)
  obtain a res bw1 where get: "Get benv (broker_registry benv a0 sp gh dd sq pd) ?p = Inr a"
    and rot: "Rotate a handler_ctx \<lparr>rq_ProviderID = ?i, rq_Meta = Map.empty\<rparr> bw = (Inr res, bw1)"
    and e: "e = enc (EncodeToString (res_Credential res))" and t: "t = res_RotatedAt res"
    and tr: "trace bw' = trace bw1 @ [transit_event (vault_token bw1) key (res_Credential res)]"
    using answer_read_back [OF run ok body printable_ascii [OF assms(6)] assms(10,12) ans] by metis
  have "plain = res_Credential res" by (rule transitDecrypt_Inr [OF assms(11) dec [unfolded e]])
  with data t get rot tr show ?thesis by blast
qed


text \<open>A plugin in front of the broker of \<open>demo_env\<close>.\<close>

definition broker_answer :: "string \<Rightarrow> string \<Rightarrow> string" where
  "broker_answer i s = json_print (JObj [(''provider_id'', JStr i),
     (''encrypted_value'', JStr (''vault:v1:'' @ EncodeToString s)),
     (''rotated_at'', JStr (fmt_rfc3339nano 0))]) @ [newline]"

definition answered_env :: "string \<Rightarrow> env" where
  "answered_env b = (demo_env ''k'')\<lparr>net := (\<lambda>_ _. Inr \<lparr>resp_status = 200, resp_body = b\<rparr>)\<rparr>"

abbreviation demo_answer :: string where
  "demo_answer \<equiv> broker_answer ''bot'' ''t1''"

abbreviation plugin_env :: env where
  "plugin_env \<equiv> answered_env demo_answer"

definition demo_connection :: "(string \<times> goval) list" where
  "demo_connection = [(''api_url'', GStr ''https://api/''), (''transit_key'', GStr ''k'')]"

definition demo_fields :: field_data where
  "demo_fields = \<lparr>fd_raw = [''provider'' \<mapsto> ''sonarqube'', ''provider_id'' \<mapsto> ''bot''], fd_err = (\<lambda>_. None)\<rparr>"

lemma plugin_env_sel [simp]:
  "net (answered_env b) tr q = Inr \<lparr>resp_status = 200, resp_body = b\<rparr>" "url_err (answered_env b) u = None"
  "vault_client_err (answered_env b) u = None" "storage_get (answered_env b) t = None"
  "storage_decode (answered_env b) t = None" "isprint (answered_env b) r = (0x20 \<le> r \<and> r < 0x7f)"
  by (simp_all add: answered_env_def demo_env_def transit_vault_def)

lemma plugin_env_transit: "transit_ok (answered_env b) ''k'' (\<lambda>v. ''vault:v1:'' @ v)"
  by (simp add: transit_ok_def answered_env_def demo_env_def transit_vault_def)

lemma demo_fields_Get [simp]:
  "field_Get demo_fields ''provider'' [] = ''sonarqube''" "field_Get demo_fields ''provider_id'' [] = ''bot''"
  by (simp_all add: demo_fields_def field_Get_def)

lemma demo_connection_sel [simp]:
  "cfg_string demo_connection ''transit_key'' = ''k''" "cfg_string demo_connection ''api_url'' = ''https://api/''"
  "buildHTTPClient (answered_env b) demo_connection = Inr
     \<lparr>hc_Timeout = 30 * Second, hc_MinVersion = VersionTLS13, hc_InsecureSkipVerify = False,
      hc_RootCAs = None, hc_Certificate = None\<rparr>"
  by (simp_all add: demo_connection_def cfg_string_def as_string_def buildHTTPClient_def)

lemma ascii_EncodeToString: "ascii (EncodeToString s)"
proof -
  have "byte (b64_char n) < 128" if "n < 64" for n
    using that by (auto simp: byte_b64_char)
  then show ?thesis by (induction s rule: EncodeToString.induct) (auto simp: ascii_def)
qed

lemma ascii_ciphertext: "ascii (''vault:v1:'' @ EncodeToString s)"
  by (simp add: ascii_append_iff ascii_EncodeToString del: EncodeToString.simps)

lemma broker_answer_ok:
  assumes "ascii i" "length i \<le> 3" "length (EncodeToString s) \<le> 8"
  shows "rest_decode (broker_answer i s) = Some (i, ''vault:v1:'' @ EncodeToString s, 0)"
    and "length (broker_answer i s) \<le> 2 ^ 20"
proof -
  show "rest_decode (broker_answer i s) = Some (i, ''vault:v1:'' @ EncodeToString s, 0)"
    unfolding broker_answer_def by (intro rest_decode_response assms(1) ascii_ciphertext) simp
  have q: "length (json_quote s) \<le> 6 * n + 2" if "ascii s" "length s \<le> n" for s n
    using length_json_quote [OF that(1)] that(2) by linarith
  have t: "length (json_quote (fmt_rfc3339nano 0)) \<le> 6 * 30 + 2"
    by (rule q) (use fmt_rfc3339nano_shape [of 0] in simp_all)
  have e: "length (json_quote (''vault:v1:'' @ EncodeToString s)) \<le> 6 * 17 + 2"
    by (rule q [OF ascii_ciphertext]) (use assms(3) in \<open>simp del: EncodeToString.simps\<close>)
  have k: "length (json_quote ''provider_id'') \<le> 6 * 11 + 2" "length (json_quote ''encrypted_value'') \<le> 6 * 15 + 2"
    "length (json_quote ''rotated_at'') \<le> 6 * 10 + 2" "length (json_quote i) \<le> 6 * 3 + 2"
    by (rule q; use assms in \<open>simp add: ascii_def\<close>)+
  show "length (broker_answer i s) \<le> 2 ^ 20"
    unfolding broker_answer_def using t e k by (simp del: append.simps EncodeToString.simps)
qed

lemma demo_answer_ok:
  "rest_decode demo_answer = Some (''bot'', ''vault:v1:'' @ EncodeToString ''t1'', 0)" "length demo_answer \<le> 2 ^ 20"
  by (rule broker_answer_ok; simp add: ascii_def)+


section \<open>Settings\<close>

text \<open>
  C28. Reading the configuration of either engine discloses nothing of its secrets: two
  configurations that agree on the public settings read the same, whatever client secret,
  private key or other setting they hold.
\<close>

theorem config_reads_hide_secrets:
  assumes "storage w1 config_key = Some cfg" "storage w2 config_key = Some cfg'" "ticks w1 = ticks w2"
    and "\<forall>k \<in> {''api_url'', ''domain'', ''client_id'', ''audience'', ''transit_key''}. map_of cfg k = map_of cfg' k"
  shows "fst (rest_readConfig env w1) = fst (rest_readConfig env w2)
    \<and> fst (a0e_readConfig env w1) = fst (a0e_readConfig env w2)"
proof -
  have v: "cfg_value cfg k = cfg_value cfg' k"
    if "k \<in> {''api_url'', ''domain'', ''client_id'', ''audience'', ''transit_key''}" for k
    unfolding cfg_value_def bspec [OF assms(4) that] by (rule refl)
  show ?thesis
    using assms(1-3) by (simp add: rest_readConfig_def a0e_readConfig_def getConfig_def storage_Get_def
        attempt_def Let_def v split: option.split)
qed

theorem config_reads_hide_secrets_witness:
  "fst (rest_readConfig calm_env configured) = fst (rest_readConfig calm_env
      (configured\<lparr>storage := [config_key \<mapsto> cfg_set auth0_config_example ''client_secret'' (GStr ''other'')]\<rparr>))
    \<and> fst (a0e_readConfig calm_env configured) = fst (a0e_readConfig calm_env
      (configured\<lparr>storage := [config_key \<mapsto> cfg_set auth0_config_example ''client_secret'' (GStr ''other'')]\<rparr>))"
  by (rule config_reads_hide_secrets [where cfg = auth0_config_example
      and cfg' = "cfg_set auth0_config_example ''client_secret'' (GStr ''other'')"])
    (simp_all add: cfg_set_other)

text \<open>What the client of the REST engine is built from.\<close>

lemma buildHTTPClient_spec:
  "case buildHTTPClient env cfg of
     Inl e \<Rightarrow> cfg_string cfg ''tls_ca_cert'' \<noteq> [] \<or> cfg_string cfg ''tls_client_cert'' \<noteq> []
   | Inr cl \<Rightarrow> hc_MinVersion cl = VersionTLS13 \<and> \<not> hc_InsecureSkipVerify cl
      \<and> hc_RootCAs cl = (if cfg_string cfg ''tls_ca_cert'' = [] then None else Some (cfg_string cfg ''tls_ca_cert''))
      \<and> hc_Certificate cl = (if cfg_string cfg ''tls_client_cert'' = [] \<or> cfg_string cfg ''tls_client_key'' = []
          then None else Some (cfg_string cfg ''tls_client_cert'', cfg_string cfg ''tls_client_key''))"
  by (simp add: buildHTTPClient_def Let_def split: option.split)

text \<open>
  C30. The settings written to the REST engine are the ones its client is built from: the CA and
  the client certificate given with the write, and no other.  A write replaces the whole
  configuration, so that one which only changes the URL drops the certificates stored before.
\<close>

theorem config_write_sets_client:
  assumes "rest_writeConfig env d w = (Inr NilResponse, w1)"
    and "\<And>t. storage_get env t = None" "\<And>t. storage_decode env t = None"
  shows "\<exists>url cfg w2. fd_raw d ''api_url'' = Some url \<and> url \<noteq> []
    \<and> getConfig env w1 = (Inr (Some cfg), w2) \<and> cfg_string cfg ''api_url'' = url
    \<and> cfg_string cfg ''transit_key'' = field_Get d ''transit_key'' ''cred-rotation-key''
    \<and> (case buildHTTPClient env cfg of
         Inl e \<Rightarrow> field_Get d ''tls_ca_cert'' [] \<noteq> [] \<or> field_Get d ''tls_client_cert'' [] \<noteq> []
       | Inr cl \<Rightarrow> hc_MinVersion cl = VersionTLS13 \<and> \<not> hc_InsecureSkipVerify cl
          \<and> hc_RootCAs cl = (if field_Get d ''tls_ca_cert'' [] = [] then None else Some (field_Get d ''tls_ca_cert'' []))
          \<and> hc_Certificate cl = (if field_Get d ''tls_client_cert'' [] = [] \<or> field_Get d ''tls_client_key'' [] = []
              then None else Some (field_Get d ''tls_client_cert'' [], field_Get d ''tls_client_key'' [])))"
proof -
  let ?cfg = "[(''api_url'', GStr (the (fd_raw d ''api_url''))),
    (''transit_key'', GStr (field_Get d ''transit_key'' ''cred-rotation-key'')),
    (''tls_ca_cert'', GStr (field_Get d ''tls_ca_cert'' [])),
    (''tls_client_cert'', GStr (field_Get d ''tls_client_cert'' [])),
    (''tls_client_key'', GStr (field_Get d ''tls_client_key'' []))]"
  have w: "fd_raw d ''api_url'' \<noteq> None" "the (fd_raw d ''api_url'') \<noteq> []" "storage w1 config_key = Some ?cfg"
    using assms(1) by (auto simp: rest_writeConfig_def attempt_eq_Inr storage_Put_def Let_def
        split: option.splits if_splits)
  have c: "cfg_string ?cfg ''api_url'' = the (fd_raw d ''api_url'')"
    "cfg_string ?cfg ''transit_key'' = field_Get d ''transit_key'' ''cred-rotation-key''"
    "cfg_string ?cfg ''tls_ca_cert'' = field_Get d ''tls_ca_cert'' []"
    "cfg_string ?cfg ''tls_client_cert'' = field_Get d ''tls_client_cert'' []"
    "cfg_string ?cfg ''tls_client_key'' = field_Get d ''tls_client_key'' []"
    by (simp_all add: cfg_string_def as_string_def)
  obtain w2 where g: "getConfig env w1 = (Inr (Some ?cfg), w2)"
    using getConfig_ok [OF assms(2,3) w(3)] by blast
  note client = buildHTTPClient_spec [where env = env and cfg = ?cfg, unfolded c]
  show ?thesis
    by (intro exI conjI, rule option.collapse [symmetric], rule w(1), rule w(2), rule g, rule c(1), rule c(2), rule client)
qed

theorem config_write_sets_client_witness:
  "\<exists>w1 cfg w2 cl. rest_writeConfig calm_env \<lparr>fd_raw = [''api_url'' \<mapsto> ''https://b''], fd_err = (\<lambda>_. None)\<rparr>
      (fresh_world\<lparr>storage := [config_key \<mapsto> [(''tls_ca_cert'', GStr ''pem'')]]\<rparr>) = (Inr NilResponse, w1)
    \<and> getConfig calm_env w1 = (Inr (Some cfg), w2) \<and> buildHTTPClient calm_env cfg = Inr cl
    \<and> hc_RootCAs cl = None"
proof -
  let ?d = "\<lparr>fd_raw = [''api_url'' \<mapsto> ''https://b''], fd_err = (\<lambda>_. None)\<rparr>"
  let ?w = "fresh_world\<lparr>storage := [config_key \<mapsto> [(''tls_ca_cert'', GStr ''pem'')]]\<rparr>"
  obtain w1 where run: "rest_writeConfig calm_env ?d ?w = (Inr NilResponse, w1)"
    by (simp add: rest_writeConfig_def attempt_def storage_Put_def Let_def)
  have d: "field_Get ?d ''tls_ca_cert'' [] = []" "field_Get ?d ''tls_client_cert'' [] = []"
    by (simp_all add: field_Get_def)
  have st: "storage_get calm_env t = None" "storage_decode calm_env t = None" for t
    by simp_all
  from config_write_sets_client [OF run st, unfolded d] obtain cfg w2 where
    g: "getConfig calm_env w1 = (Inr (Some cfg), w2)"
    and b: "case buildHTTPClient calm_env cfg of Inl e \<Rightarrow> [] \<noteq> ([] :: string) \<or> [] \<noteq> ([] :: string)
       | Inr cl \<Rightarrow> hc_RootCAs cl = None"
    by (elim exE conjE) (rule that, assumption, simp split: sum.splits)
  from b obtain cl where "buildHTTPClient calm_env cfg = Inr cl" "hc_RootCAs cl = None"
    by (auto split: sum.splits)
  with run g show ?thesis by blast
qed

section \<open>Storage\<close>

lemma config_key_sealed: "list_ex (\<lambda>p. HasPrefix config_key p) [''config/'']"
  by (simp add: config_key_def HasPrefix_def)

lemma rest_handlers_sealed:
  "sealed_writes [''config/''] (rest_writeConfig env d)" "sealed_writes [''config/''] (rest_readConfig env)"
  "sealed_writes [''config/''] (rest_rotateCreds env d)"
  unfolding rest_writeConfig_def rest_readConfig_def rest_rotateCreds_def callRotateAPI_def transitDecrypt_def Let_def
  using config_key_sealed
  by (auto intro!: trace_mono split: option.split sum.split prod.split)

lemma a0e_handlers_sealed:
  "sealed_writes [''config/''] (a0e_writeConfig env d)" "sealed_writes [''config/''] (a0e_readConfig env)"
  "sealed_writes [''config/''] (rotateRoot env)" "sealed_writes [''config/''] (a0e_rotateCreds env d)"
  "sealed_writes [''config/''] (revokeCreds env internal)" "sealed_writes [''config/''] (checkStatus env d)"
  unfolding a0e_writeConfig_def a0e_readConfig_def rotateRoot_def a0e_rotateCreds_def revokeCreds_def
    checkStatus_def required_field_def Let_def
  using config_key_sealed
  by (auto intro!: trace_mono split: option.split sum.split prod.split)

text \<open>
  C27. Whatever a handler of either engine does, on any input and whatever the outcome, it changes
  the storage only under the prefixes the engine has Vault seal-wrap; so do lease revocations.
\<close>

theorem engine_writes_sealed:
  "(case rest_Factory env setup of Inl _ \<Rightarrow> True | Inr b \<Rightarrow>
     list_all (\<lambda>pt. list_all (\<lambda>(op, h). \<forall>d. sealed_writes (be_SealWrapStorage b) (h d)) (pt_Operations pt))
       (be_Paths b))
   \<and> (case a0e_Factory env lease_extend setup' of Inl _ \<Rightarrow> True | Inr b \<Rightarrow>
     list_all (\<lambda>pt. list_all (\<lambda>(op, h). \<forall>d. sealed_writes (be_SealWrapStorage b) (h d)) (pt_Operations pt))
       (be_Paths b)
     \<and> list_all (\<lambda>lt. \<forall>internal. sealed_writes (be_SealWrapStorage b) (lt_Revoke lt internal)) (be_Secrets b))"
  by (simp add: rest_Factory_def rest_backend_def rest_paths_def rest_pathConfig_def rest_pathCredentials_def
      a0e_Factory_def a0e_backend_def a0e_paths_def a0e_pathConfig_def a0e_pathRotateRoot_def a0e_pathCreds_def
      a0e_pathStatus_def secretAuth0Creds_def Let_def rest_handlers_sealed a0e_handlers_sealed split: option.split)

end
