(* ===== verification/Chaos.thy ===== *)
theory Chaos
  imports Concurrency Complex_Main "HOL-Library.Word"
begin

text \<open>
  The mock provider of the chaos package (chaos/mock_provider.go): faults that are set while
  requests run, a channel that requests wait on, and counters.  A step is a call of one of its
  methods, each of which holds the mutex throughout, or a step of one request inside \<open>wrap\<close>.
  The sleep of the latency is no step of its own.  \<open>fadd\<close> is the addition of
  \<open>float64\<close> values, whose rounding no statement depends on.
\<close>

section \<open>State\<close>

record faults =
  fl_latency :: int
  fl_errRate :: rat
  fl_rate429 :: rat

datatype reply = GatewayTimeout | TooManyRequests | InternalServerError | Passed

datatype phase =
    Counted              \<comment> \<open>after \<open>TotalRequests.Add(1)\<close>\<close>
  | Waiting faults nat   \<comment> \<open>in the \<open>select\<close>, on the channel it has seen\<close>
  | Rolling faults       \<comment> \<open>past it, with the faults it has seen\<close>

text \<open>
  Channels are numbered as they are made.  \<open>mp_serving\<close> and \<open>mp_answered\<close> are the requests in
  progress and the replies written so far.
\<close>

record mock =
  mp_faults :: faults
  blockCh :: "nat option"
  channels :: nat
  closedChs :: "nat list"
  TotalRequests :: "64 word"
  Rejected429 :: "64 word"
  ServerErrors :: "64 word"
  SuccessResponses :: "64 word"
  mp_serving :: "nat \<rightharpoonup> phase"
  mp_answered :: "(nat \<times> reply) list"

definition no_faults :: faults where
  "no_faults = \<lparr>fl_latency = 0, fl_errRate = 0, fl_rate429 = 0\<rparr>"

definition NewMockProvider :: mock where
  "NewMockProvider = \<lparr>mp_faults = no_faults, blockCh = None, channels = 0, closedChs = [],
     TotalRequests = 0, Rejected429 = 0, ServerErrors = 0, SuccessResponses = 0,
     mp_serving = Map.empty, mp_answered = []\<rparr>"

section \<open>Methods\<close>

definition SetLatency :: "int \<Rightarrow> mock \<Rightarrow> mock" where
  "SetLatency d s = s\<lparr>mp_faults := (mp_faults s)\<lparr>fl_latency := d\<rparr>\<rparr>"

definition SetErrRate :: "rat \<Rightarrow> mock \<Rightarrow> mock" where
  "SetErrRate r s = s\<lparr>mp_faults := (mp_faults s)\<lparr>fl_errRate := r\<rparr>\<rparr>"

definition SetRate429 :: "rat \<Rightarrow> mock \<Rightarrow> mock" where
  "SetRate429 r s = s\<lparr>mp_faults := (mp_faults s)\<lparr>fl_rate429 := r\<rparr>\<rparr>"

definition mp_Block :: "mock \<Rightarrow> mock" where
  "mp_Block s = s\<lparr>blockCh := Some (channels s), channels := Suc (channels s)\<rparr>"

text \<open>Closing a closed channel panics: \<open>None\<close>.\<close>

definition close_block :: "mock \<Rightarrow> mock option" where
  "close_block s = (case blockCh s of
     None \<Rightarrow> Some s
   | Some c \<Rightarrow> if c \<in> set (closedChs s) then None
               else Some (s\<lparr>closedChs := c # closedChs s, blockCh := None\<rparr>))"

definition mp_Unblock :: "mock \<Rightarrow> mock option" where
  "mp_Unblock s = close_block s"

definition mp_Reset :: "mock \<Rightarrow> mock option" where
  "mp_Reset s = close_block (s\<lparr>mp_faults := no_faults\<rparr>)"

section \<open>Requests\<close>

definition reply_with :: "nat \<Rightarrow> reply \<Rightarrow> mock \<Rightarrow> mock" where
  "reply_with r a s = s\<lparr>mp_serving := (mp_serving s)(r := None), mp_answered := (r, a) # mp_answered s\<rparr>"

definition wrap_arrive :: "nat \<Rightarrow> mock \<Rightarrow> mock" where
  "wrap_arrive r s = s\<lparr>TotalRequests := TotalRequests s + 1, mp_serving := (mp_serving s)(r \<mapsto> Counted)\<rparr>"

text \<open>The block that reads the faults and the channel under the mutex.\<close>

definition wrap_look :: "nat \<Rightarrow> mock \<Rightarrow> mock" where
  "wrap_look r s = s\<lparr>mp_serving := (mp_serving s)(r \<mapsto>
     (case blockCh s of None \<Rightarrow> Rolling (mp_faults s) | Some c \<Rightarrow> Waiting (mp_faults s) c))\<rparr>"

text \<open>\<open>roll\<close> and the three outcomes.\<close>

definition wrap_roll :: "(rat \<Rightarrow> rat \<Rightarrow> rat) \<Rightarrow> nat \<Rightarrow> faults \<Rightarrow> rat \<Rightarrow> mock \<Rightarrow> mock" where
  "wrap_roll fadd r f roll s =
     (if roll < fl_rate429 f then reply_with r TooManyRequests (s\<lparr>Rejected429 := Rejected429 s + 1\<rparr>)
      else if roll < fadd (fl_rate429 f) (fl_errRate f)
        then reply_with r InternalServerError (s\<lparr>ServerErrors := ServerErrors s + 1\<rparr>)
      else reply_with r Passed (s\<lparr>SuccessResponses := SuccessResponses s + 1\<rparr>))"

datatype mock_label =
    Set_latency int | Set_err_rate rat | Set_rate429 rat | Call_Block | Call_Unblock | Call_Reset
  | Arrive nat | Look nat
  | Wake nat          \<comment> \<open>\<open><-blockCh\<close>\<close>
  | Give_up nat       \<comment> \<open>\<open><-r.Context().Done()\<close>\<close>
  | Roll nat rat

fun mock_step :: "(rat \<Rightarrow> rat \<Rightarrow> rat) \<Rightarrow> mock_label \<Rightarrow> mock \<Rightarrow> mock option" where
  "mock_step fadd (Set_latency d) s = Some (SetLatency d s)"
| "mock_step fadd (Set_err_rate x) s = Some (SetErrRate x s)"
| "mock_step fadd (Set_rate429 x) s = Some (SetRate429 x s)"
| "mock_step fadd Call_Block s = Some (mp_Block s)"
| "mock_step fadd Call_Unblock s = mp_Unblock s"
| "mock_step fadd Call_Reset s = mp_Reset s"
| "mock_step fadd (Arrive r) s =
     (if mp_serving s r = None \<and> r \<notin> fst ` set (mp_answered s) then Some (wrap_arrive r s) else None)"
| "mock_step fadd (Look r) s = (if mp_serving s r = Some Counted then Some (wrap_look r s) else None)"
| "mock_step fadd (Wake r) s = (case mp_serving s r of
     Some (Waiting f c) \<Rightarrow> if c \<in> set (closedChs s)
       then Some (s\<lparr>mp_serving := (mp_serving s)(r \<mapsto> Rolling f)\<rparr>) else None
   | _ \<Rightarrow> None)"
| "mock_step fadd (Give_up r) s = (case mp_serving s r of
     Some (Waiting f c) \<Rightarrow> Some (reply_with r GatewayTimeout s) | _ \<Rightarrow> None)"
| "mock_step fadd (Roll r x) s = (case mp_serving s r of
     Some (Rolling f) \<Rightarrow> if 0 \<le> x \<and> x < 1 then Some (wrap_roll fadd r f x s) else None
   | _ \<Rightarrow> None)"

lemmas mock_ops = SetLatency_def SetErrRate_def SetRate429_def mp_Block_def close_block_def mp_Unblock_def
  mp_Reset_def reply_with_def wrap_arrive_def wrap_look_def wrap_roll_def

text \<open>The handler that is used when none is given: status and body.\<close>

definition defaultHandler :: "string \<Rightarrow> nat \<times> string" where
  "defaultHandler m = (if m = ''DELETE'' then (204, [])
     else (200, json_print (marshal_map [(''id'', JStr ''mock-cred-id''),
       (''token'', JStr ''mock-token-value''), (''key'', JStr ''mock-key-value'')]) @ [char_of (10::nat)]))"

section \<open>Accounting\<close>

definition replies :: "reply \<Rightarrow> mock \<Rightarrow> nat" where
  "replies a s = length (filter (\<lambda>(r, b). b = a) (mp_answered s))"

definition accounts_ok :: "mock \<Rightarrow> bool" where
  "accounts_ok s \<longleftrightarrow> finite (dom (mp_serving s))
     \<and> TotalRequests s = of_nat (card (dom (mp_serving s)) + length (mp_answered s))
     \<and> Rejected429 s = of_nat (replies TooManyRequests s)
     \<and> ServerErrors s = of_nat (replies InternalServerError s)
     \<and> SuccessResponses s = of_nat (replies Passed s)"

text \<open>Every channel is made before it is waited on or closed, and the one to wait on is open.\<close>

definition channels_ok :: "mock \<Rightarrow> bool" where
  "channels_ok s \<longleftrightarrow> (\<forall>c. blockCh s = Some c \<longrightarrow> c < channels s \<and> c \<notin> set (closedChs s))
     \<and> (\<forall>c \<in> set (closedChs s). c < channels s)
     \<and> (\<forall>r f c. mp_serving s r = Some (Waiting f c) \<longrightarrow> c < channels s)"

lemma accounts_same:
  assumes "accounts_ok s" "dom (mp_serving t) = dom (mp_serving s)" "mp_answered t = mp_answered s"
    and "TotalRequests t = TotalRequests s" "Rejected429 t = Rejected429 s"
    and "ServerErrors t = ServerErrors s" "SuccessResponses t = SuccessResponses s"
  shows "accounts_ok t"
  using assms by (simp add: accounts_ok_def replies_def)

lemma card_dom_remove: "finite (dom m) \<Longrightarrow> m r \<noteq> None \<Longrightarrow> card (dom m) = Suc (card (dom m - {r}))"
  by (metis card.remove domIff)

lemma accounts_reply:
  assumes "accounts_ok s" "mp_serving s r \<noteq> None"
    and "mp_serving t = (mp_serving s)(r := None)" "mp_answered t = (r, a) # mp_answered s"
    and "TotalRequests t = TotalRequests s" "Rejected429 t = Rejected429 s + of_bool (a = TooManyRequests)"
    and "ServerErrors t = ServerErrors s + of_bool (a = InternalServerError)"
    and "SuccessResponses t = SuccessResponses s + of_bool (a = Passed)"
  shows "accounts_ok t"
  using assms card_dom_remove [of "mp_serving s" r] by (auto simp: accounts_ok_def replies_def)

lemma accounts_roll:
  assumes "accounts_ok s" "mp_serving s r \<noteq> None"
  shows "accounts_ok (wrap_roll fadd r f x s)"
  using assms by (auto simp: wrap_roll_def reply_with_def intro: accounts_reply)

lemma accounts_arrive:
  assumes "accounts_ok s" "mp_serving s r = None"
  shows "accounts_ok (wrap_arrive r s)"
proof -
  have "r \<notin> dom (mp_serving s)" using assms(2) by auto
  with assms show ?thesis by (simp add: accounts_ok_def wrap_arrive_def replies_def)
qed

lemma accounts_phase:
  assumes "accounts_ok s" "mp_serving s r \<noteq> None"
  shows "accounts_ok (s\<lparr>mp_serving := (mp_serving s)(r \<mapsto> p)\<rparr>)"
proof -
  have "dom ((mp_serving s)(r \<mapsto> p)) = dom (mp_serving s)" using assms(2) by auto
  with assms show ?thesis by (intro accounts_same [OF assms(1)]) simp_all
qed

lemma accounts_frame [simp]:
  "accounts_ok (s\<lparr>mp_faults := f\<rparr>) = accounts_ok s" "accounts_ok (s\<lparr>blockCh := b\<rparr>) = accounts_ok s"
  "accounts_ok (s\<lparr>channels := n\<rparr>) = accounts_ok s" "accounts_ok (s\<lparr>closedChs := cs\<rparr>) = accounts_ok s"
  by (simp_all add: accounts_ok_def replies_def)

lemma accounts_close: "accounts_ok s \<Longrightarrow> close_block s = Some t \<Longrightarrow> accounts_ok t"
  by (auto simp: close_block_def split: option.splits if_splits)

lemma accounts_timeout:
  "accounts_ok s \<Longrightarrow> mp_serving s r \<noteq> None \<Longrightarrow> accounts_ok (reply_with r GatewayTimeout s)"
  by (erule accounts_reply [where a = GatewayTimeout]) (simp_all add: reply_with_def)

lemma accounts_step:
  assumes "accounts_ok s" "mock_step fadd l s = Some t"
  shows "accounts_ok t"
proof (cases l)
  case (Look r)
  with assms show ?thesis by (auto simp: wrap_look_def intro: accounts_phase split: if_splits)
next
  case (Wake r)
  with assms show ?thesis by (auto intro: accounts_phase split: option.splits phase.splits if_splits)
next
  case (Give_up r)
  with assms show ?thesis
    by (auto intro: accounts_timeout split: option.splits phase.splits)
next
  case (Roll r x)
  with assms show ?thesis by (auto intro: accounts_roll split: option.splits phase.splits if_splits)
next
  case Call_Reset
  with assms have "close_block (s\<lparr>mp_faults := no_faults\<rparr>) = Some t" by (simp add: mp_Reset_def)
  then show ?thesis by (rule accounts_close [rotated]) (simp add: assms(1))
qed (use assms in \<open>auto simp: mock_ops(1-4) mp_Unblock_def intro: accounts_arrive accounts_close
       split: if_splits\<close>)

lemma channels_step:
  assumes "channels_ok s" "mock_step fadd l s = Some t"
  shows "channels_ok t"
  using assms
  by (cases l) (auto simp: channels_ok_def mock_ops less_Suc_eq split: if_splits option.splits phase.splits)

lemma mock_init_ok: "accounts_ok NewMockProvider" "channels_ok NewMockProvider"
  by (simp_all add: accounts_ok_def channels_ok_def replies_def NewMockProvider_def)

lemma close_block_open: "channels_ok s \<Longrightarrow> close_block s \<noteq> None"
  by (auto simp: channels_ok_def close_block_def split: option.split)

definition mock_ok :: "mock \<Rightarrow> bool" where
  "mock_ok s \<longleftrightarrow> accounts_ok s \<and> channels_ok s"

interpretation mock_machine: machine "mock_step fadd" NewMockProvider mock_ok
  by unfold_locales (auto simp: mock_ok_def mock_init_ok intro: accounts_step channels_step)

text \<open>
  C39. However requests and method calls interleave, the counters of the mock provider account for
  every request: each counted one is in progress or answered, and 429, 500 and passed replies are
  counted by kind (a wait given up is counted in the total alone); and neither \<open>Unblock\<close> nor
  \<open>Reset\<close> ever closes a closed channel, which would panic.
\<close>

theorem mock_accounts:
  assumes "runs (mock_step fadd) NewMockProvider ls s"
  shows "TotalRequests s = of_nat (card (dom (mp_serving s)) + length (mp_answered s))
    \<and> Rejected429 s = of_nat (replies TooManyRequests s) \<and> ServerErrors s = of_nat (replies InternalServerError s)
    \<and> SuccessResponses s = of_nat (replies Passed s)
    \<and> mock_step fadd Call_Unblock s \<noteq> None \<and> mock_step fadd Call_Reset s \<noteq> None"
proof -
  from mock_machine.reachable_ok [OF assms] have a: "accounts_ok s" and c: "channels_ok s"
    by (simp_all add: mock_ok_def)
  from c have "channels_ok (s\<lparr>mp_faults := no_faults\<rparr>)" by (simp add: channels_ok_def)
  with a c show ?thesis
    using close_block_open [OF c] close_block_open [of "s\<lparr>mp_faults := no_faults\<rparr>"]
    by (simp add: accounts_ok_def mp_Unblock_def mp_Reset_def)
qed

lemma mock_example:
  "\<exists>s. exec (mock_step fadd) [Call_Block, Arrive 1, Look 1, Call_Unblock, Wake 1, Set_rate429 1, Arrive 2, Look 2,
     Roll 2 0] NewMockProvider = Some s \<and> Rejected429 s = 1 \<and> mp_serving s 1 = Some (Rolling no_faults)"
  by (simp add: NewMockProvider_def mock_ops no_faults_def)

theorem mock_accounts_witness:
  "\<exists>s. TotalRequests s = of_nat (card (dom (mp_serving s)) + length (mp_answered s)) \<and> Rejected429 s = 1
    \<and> 1 = (of_nat (replies TooManyRequests s) :: 64 word) \<and> mock_step (+) Call_Unblock s \<noteq> None"
proof -
  obtain s where s: "exec (mock_step (+)) [Call_Block, Arrive 1, Look 1, Call_Unblock, Wake 1, Set_rate429 1, Arrive 2,
      Look 2, Roll 2 0] NewMockProvider = Some s" "Rejected429 s = 1"
    using mock_example by blast
  from mock_accounts [OF exec_runs [OF s(1)]] s(2) show ?thesis by metis
qed

section \<open>Blocking twice\<close>

text \<open>A request that waits on a channel that is neither closed nor the current one.\<close>

definition stranded :: "nat \<Rightarrow> mock \<Rightarrow> bool" where
  "stranded r s \<longleftrightarrow> (\<exists>f c. mp_serving s r = Some (Waiting f c) \<and> c < channels s
     \<and> c \<notin> set (closedChs s) \<and> blockCh s \<noteq> Some c)"

lemma stranded_step:
  assumes "stranded r s" "mock_step fadd l s = Some t" "l \<noteq> Give_up r"
  shows "stranded r t"
  using assms
  by (cases l) (auto simp: stranded_def mock_ops split: if_splits option.splits phase.splits)

lemma stranded_runs:
  assumes "runs (mock_step fadd) s ls t" "stranded r s" "Give_up r \<notin> set ls"
  shows "stranded r t"
  using assms by (induction rule: runs.induct) (auto intro: stranded_step)

text \<open>
  When \<open>Block\<close> is called a second time, a request that waits since the first can never go on,
  whatever is called afterwards, \<open>Unblock\<close> and \<open>Reset\<close> included: the channel it waits on is lost
  open.  Only the end of its own context ends it.
\<close>

lemma block_twice_strands:
  assumes "exec (mock_step fadd) [Call_Block, Arrive r, Look r, Call_Block] NewMockProvider = Some s"
    and "runs (mock_step fadd) s ls t" "Give_up r \<notin> set ls"
  shows "mp_serving t r \<noteq> None \<and> mock_step fadd (Wake r) t = None"
proof -
  have "stranded r s"
    using assms(1) by (auto simp: NewMockProvider_def mock_ops stranded_def)
  then have "stranded r t" by (rule stranded_runs [OF assms(2) _ assms(3)])
  then show ?thesis by (auto simp: stranded_def)
qed

end
