(* ===== verification/Request_Log.thy ===== *)
theory Request_Log
  imports Broker Log_Sanitizer
begin

text \<open>
  What the broker writes to its log while it serves requests: which lines, and that no
  line holds a control character, whatever the client or the provider sends.  The rest of
  the theory is about rotations that go wrong: what is left behind when the provider's call
  fails, and when the encryption after it does.
\<close>

section \<open>Safe log lines\<close>

definition safe_attr :: "attr \<Rightarrow> bool" where
  "safe_attr v = (case v of AStr s \<Rightarrow> log_safe s | AInt _ \<Rightarrow> True | AList ss \<Rightarrow> list_all log_safe ss)"

definition safe_entry :: "log_entry \<Rightarrow> bool" where
  "safe_entry l \<longleftrightarrow> log_safe (log_msg l) \<and> list_all (\<lambda>(k, v). safe_attr v) (log_attrs l)"

lemma log_safe_simps [simp]:
  "log_safe []" "log_safe (c # s) \<longleftrightarrow> loggable (byte c) \<and> log_safe s"
  "log_safe (s @ t) \<longleftrightarrow> log_safe s \<and> log_safe t"
  by (simp_all add: log_safe_def)

lemma safe_attr_simps [simp]: "safe_attr (AStr s) = log_safe s" "safe_attr (AInt i)"
  by (simp_all add: safe_attr_def)

lemma loggable_hex [simp]: "d < 16 \<Longrightarrow> loggable (byte (hex_lower d))"
  by (simp add: byte_hex_lower loggable_def)

lemma log_safe_hexn [simp]: "log_safe (hexn w n)"
  by (induction w arbitrary: n) simp_all

lemma log_safe_high: "list_all (\<lambda>c. 0x80 \<le> byte c) s \<Longrightarrow> log_safe s"
  by (auto simp: log_safe_def loggable_def list_all_iff)

text \<open>
  The verb \<open>%q\<close> leaves nothing but printable ASCII and bytes above it, whatever the
  table of printable runes says.
\<close>

lemma log_safe_quote_rune:
  assumes "seg_ok (r, bs)"
  shows "log_safe (quote_rune p (r, bs))"
proof -
  have lit: "log_safe bs" if "r < 0x80" "0x20 \<le> r" "r < 0x7f"
    using assms that by (auto simp: seg_ok_def utf8_enc_def RuneError_def loggable_def)
  have high: "log_safe bs" if "\<not> r < 0x80"
    using assms that by (intro log_safe_high) (rule seg_high)
  have esc: "loggable (byte bslash)" by (simp add: loggable_def)
  show ?thesis
    unfolding quote_rune_def by (auto simp: esc lit high loggable_def)
qed

lemma log_safe_go_quote: "log_safe (go_quote p s)"
proof -
  have "log_safe (concat (map (quote_rune p) segs))" if "list_all seg_ok segs" for segs
    using that
  proof (induction segs)
    case (Cons sg segs)
    then show ?case by (cases sg) (simp add: log_safe_quote_rune)
  qed simp
  from this [OF utf8_segs_ok] show ?thesis by (simp add: go_quote_def loggable_def)
qed

lemma log_safe_quoted [simp]: "log_safe (quoted env s)" "log_safe (go_quote_prec p n s)"
  by (simp_all add: quoted_def go_quote_prec_def log_safe_go_quote)

lemma log_safe_nat_hex [simp]: "log_safe (nat_hex n)"
proof (induction n rule: nat_hex.induct)
  case (1 n)
  then show ?case by (subst nat_hex.simps) simp
qed

lemma log_safe_int_hex [simp]: "log_safe (int_hex i)"
  by (simp add: int_hex_def loggable_def)

lemma log_safe_serial [simp]: "log_safe (snd (clientCertIdentity r))"
  by (auto simp: clientCertIdentity_def loggable_def split: option.split list.split)

section \<open>The lines of a handler\<close>

text \<open>
  \<open>audits w out w'\<close>: at most one line was written, a safe one, and none when the answer is
  a 200 with a body.
\<close>

definition audits :: "world \<Rightarrow> response outcome \<Rightarrow> world \<Rightarrow> bool" where
  "audits w out w' \<longleftrightarrow> (\<exists>ls. logs w' = logs w @ ls \<and> length ls \<le> 1 \<and> list_all safe_entry ls
     \<and> (case out of Done resp \<Rightarrow> w_Status resp = 200 \<longrightarrow> w_Body resp \<noteq> [] \<longrightarrow> ls = []
        | Panics _ \<Rightarrow> ls = []))"

lemma audits_silent: "logs w' = logs w \<Longrightarrow> audits w out w'"
  by (simp add: audits_def split: outcome.split)

lemma audits_from: "logs w1 = logs w \<Longrightarrow> audits w1 out w' \<Longrightarrow> audits w out w'"
  by (simp add: audits_def)

lemma audits_line:
  assumes "safe_entry \<lparr>log_level = l, log_msg = m, log_attrs = as\<rparr>" "w_Status resp = 200 \<Longrightarrow> w_Body resp = []"
  shows "audits w (Done resp) (log l m as w)"
  using assms by (auto simp: audits_def log_def)

lemma safe_log_failed:
  "log_safe msg \<Longrightarrow> code \<noteq> 200 \<Longrightarrow> audits w (Done (error_response code e)) (log_failed env msg p d w)"
  unfolding log_failed_def by (rule audits_line) (simp_all add: safe_entry_def)

lemma audits_jsonOK: "audits w (fst (jsonOK v w)) (snd (jsonOK v w))"
proof (cases v)
  case None
  have "audits w (Done \<lparr>w_Status = 200, w_Headers = json_header, w_Body = []\<rparr>)
      (log LError ''encode response'' [(''err'', AStr year_error)] w)"
    by (rule audits_line) (simp_all add: safe_entry_def year_error_def loggable_def)
  with None show ?thesis by (simp add: jsonOK_def)
qed (simp add: jsonOK_def audits_silent)

lemma TransitEncrypt_logs: "logs (snd (TransitEncrypt env k p w)) = logs w"
  by (simp add: TransitEncrypt_def attempt_def vault_do_def check_def Let_def
    split: sum.split option.split)

lemma safe_messages:
  "log_safe ''adapter rotate failed''" "log_safe ''transit encrypt failed''"
  "log_safe ''adapter revoke failed''" "log_safe ''adapter status failed''"
  by (simp_all add: loggable_def)

context served_registry
begin

lemma rotate_audits:
  "audits w (fst (Handlers_Rotate env \<lparr>hd_registry = reg, hd_transitKeyName = key\<rparr> r w))
     (snd (Handlers_Rotate env \<lparr>hd_registry = reg, hd_transitKeyName = key\<rparr> r w))"
proof (cases "\<exists>provider pid meta a. decode_rotateRequest (r_Body r) = Some (provider, pid, meta)
    \<and> provider \<noteq> [] \<and> pid \<noteq> [] \<and> Get env reg provider = Inr a")
  case False
  then show ?thesis by (auto simp: Handlers_Rotate_def audits_silent split: option.splits sum.splits)
next
  case True
  then obtain provider pid meta a where g: "decode_rotateRequest (r_Body r) = Some (provider, pid, meta)"
    "provider \<noteq> []" "pid \<noteq> []" "Get env reg provider = Inr a" by blast
  let ?req = "\<lparr>rq_ProviderID = pid, rq_Meta = meta\<rparr>"
  obtain x w1 where rot: "Rotate a handler_ctx ?req w = (x, w1)" by fastforce
  have q: "logs w1 = logs w"
    using quietD [OF credential_adapter.rotate_quiet [OF get_contract [OF g(4)]], of handler_ctx ?req w] rot by simp
  show ?thesis
  proof (cases x)
    case (Inl e)
    then show ?thesis
      using g rot audits_from [OF q safe_log_failed [OF safe_messages(1)]] by (simp add: Handlers_Rotate_def)
  next
    case (Inr res)
    obtain y w2 where t: "TransitEncrypt env key (res_Credential res) w1 = (y, w2)" by fastforce
    have q2: "logs w2 = logs w" using TransitEncrypt_logs [of env key "res_Credential res" w1] t q by simp
    show ?thesis
    proof (cases y)
      case (Inl e)
      then show ?thesis
        using g rot Inr t audits_from [OF q2 safe_log_failed [OF safe_messages(2)]]
        by (simp add: Handlers_Rotate_def)
    next
      case (Inr out)
      then show ?thesis
        using g rot \<open>x = Inr res\<close> t audits_from [OF q2 audits_jsonOK]
        by (cases out) (simp_all add: Handlers_Rotate_def audits_silent q2)
    qed
  qed
qed

lemma revoke_audits:
  "audits w (fst (Handlers_Revoke env \<lparr>hd_registry = reg, hd_transitKeyName = key\<rparr> r w))
     (snd (Handlers_Revoke env \<lparr>hd_registry = reg, hd_transitKeyName = key\<rparr> r w))"
proof (cases "\<exists>provider pid cid a. decode_revokeRequest (r_Body r) = Some (provider, pid, cid)
    \<and> provider \<noteq> [] \<and> pid \<noteq> [] \<and> Get env reg provider = Inr a")
  case False
  then show ?thesis by (auto simp: Handlers_Revoke_def audits_silent split: option.splits sum.splits)
next
  case True
  then obtain provider pid cid a where g: "decode_revokeRequest (r_Body r) = Some (provider, pid, cid)"
    "provider \<noteq> []" "pid \<noteq> []" "Get env reg provider = Inr a" by blast
  let ?rv = "\<lparr>rv_ProviderID = pid, rv_CredentialID = cid\<rparr>"
  obtain x w1 where rev: "Revoke a handler_ctx ?rv w = (x, w1)" by fastforce
  have q: "logs w1 = logs w"
    using quietD [OF credential_adapter.revoke_quiet [OF get_contract [OF g(4)]], of handler_ctx ?rv w] rev by simp
  show ?thesis
    using g rev audits_from [OF q safe_log_failed [OF safe_messages(3)]] audits_from [OF q audits_jsonOK]
    by (cases x) (simp_all add: Handlers_Revoke_def)
qed

lemma status_audits:
  "audits w (fst (Handlers_Status env \<lparr>hd_registry = reg, hd_transitKeyName = key\<rparr> r w))
     (snd (Handlers_Status env \<lparr>hd_registry = reg, hd_transitKeyName = key\<rparr> r w))"
proof (cases "\<exists>a. Query_Get r ''provider'' \<noteq> [] \<and> Query_Get r ''credential_id'' \<noteq> []
    \<and> Get env reg (Query_Get r ''provider'') = Inr a")
  case False
  then show ?thesis by (auto simp: Handlers_Status_def Let_def audits_silent split: option.splits sum.splits)
next
  case True
  then obtain a where g: "Query_Get r ''provider'' \<noteq> []" "Query_Get r ''credential_id'' \<noteq> []"
    "Get env reg (Query_Get r ''provider'') = Inr a" by blast
  obtain x w1 where st: "Status a handler_ctx (Query_Get r ''credential_id'') w = (x, w1)" by fastforce
  have q: "logs w1 = logs w"
    using quietD [OF credential_adapter.status_quiet [OF get_contract [OF g(3)]],
        of handler_ctx "Query_Get r ''credential_id''" w] st by simp
  show ?thesis
    using g st audits_from [OF q safe_log_failed [OF safe_messages(4)]] audits_from [OF q audits_jsonOK]
    by (cases x) (simp_all add: Handlers_Status_def)
qed

lemma health_audits: "audits w (fst (Handlers_Health env r w)) (snd (Handlers_Health env r w))"
  unfolding Handlers_Health_def by (rule audits_from [OF _ audits_jsonOK]) simp

lemma mux_audits:
  "audits w (fst (mux env \<lparr>hd_registry = reg, hd_transitKeyName = key\<rparr> r w))
     (snd (mux env \<lparr>hd_registry = reg, hd_transitKeyName = key\<rparr> r w))"
  by (simp add: mux_def endpoint_handler_def audits_silent rotate_audits revoke_audits status_audits
      health_audits split: route.split endpoint.split)

end

section \<open>The lines of a request\<close>

definition request_line :: "env \<Rightarrow> request \<Rightarrow> nat \<Rightarrow> log_entry" where
  "request_line env r status = \<lparr>log_level = LInfo, log_msg = ''request'', log_attrs =
     [(''method'', AStr (r_Method r)), (''path'', AStr (quoted env (URL_Path r))),
      (''status'', AInt (int status)), (''remote'', AStr (quoted env (r_RemoteAddr r))),
      (''cert_cn'', AStr (quoted env (fst (clientCertIdentity r)))),
      (''cert_serial'', AStr (snd (clientCertIdentity r)))]\<rparr>"

lemma logs_log_request: "logs (log_request env r st w) = logs w @ [request_line env r st]"
  by (simp add: log_request_def log_def request_line_def)

lemma safe_request_line: "log_safe (r_Method r) \<Longrightarrow> safe_entry (request_line env r st)"
  by (simp add: safe_entry_def request_line_def loggable_def)

lemma certAuthz_audits:
  assumes "\<And>w. audits w (fst (next r w)) (snd (next r w))"
  shows "audits w (fst (certAuthz env allow next r w)) (snd (certAuthz env allow next r w))"
proof -
  have "audits w (Done forbidden) (log LWarn ''cert authz denied''
      [(''path'', AStr (quoted env (URL_Path r))), (''cert_cn'', AStr (quoted env cn))] w)" for cn
    by (rule audits_line) (simp_all add: safe_entry_def forbidden_def loggable_def)
  then show ?thesis using assms by (simp add: certAuthz_def Let_def split: option.split)
qed

lemma audits_inFlight:
  "audits (w\<lparr>inFlight := i\<rparr>) out w' \<Longrightarrow> audits w out (w'\<lparr>inFlight := j\<rparr>)"
  by (simp add: audits_def)

lemma limiter_audits:
  assumes "\<And>w. audits w (fst (next r w)) (snd (next r w))"
  shows "audits w (fst (concurrencyLimiter env limit next r w)) (snd (concurrencyLimiter env limit next r w))"
proof (cases "inFlight w < limit")
  case True
  obtain out w' where run: "next r (w\<lparr>inFlight := inFlight w + 1\<rparr>) = (out, w')" by fastforce
  from audits_inFlight [OF assms [of "w\<lparr>inFlight := inFlight w + 1\<rparr>", unfolded run fst_conv snd_conv]] True run
  show ?thesis by (simp add: limiter_serves)
next
  case False
  have "audits (w\<lparr>inFlight := inFlight w\<rparr>) (Done overloaded_response)
      (log LWarn ''request rejected: concurrency limit reached''
        [(''limit'', AInt limit), (''path'', AStr (quoted env (URL_Path r)))] (w\<lparr>inFlight := inFlight w\<rparr>))"
    by (rule audits_line) (simp_all add: safe_entry_def overloaded_response_def loggable_def)
  with False show ?thesis by (simp add: concurrencyLimiter_def Let_def)
qed

text \<open>
  C13. Every request that is answered leaves exactly one \<open>request\<close> line, the last one, which
  holds the method, path, status and client identity and nothing of the body or of the
  answer; before it there is at most one more line, and none at all when the answer is a 200
  with a body, so that no credential and no ciphertext can be in the log of a successful
  rotation.  No line holds a control character (provided the method holds none, which
  \<open>net/http\<close> checks), whatever the client and the providers send.  A request whose handler
  panics leaves no line.
\<close>

theorem requests_audited:
  assumes "server_New env cfg = Inr s" "sv_Registry cfg = Some (broker_registry env a0 sp gh dd sq pd)"
    and "log_safe (r_Method r)" "srv_handler s r w = (out, w')"
  shows "\<exists>ls. logs w' = logs w @ ls \<and> list_all safe_entry ls
    \<and> (case out of
         Done resp \<Rightarrow> last ls = request_line env r (w_Status resp) \<and> length ls \<in> {1, 2}
           \<and> (w_Status resp = 200 \<longrightarrow> w_Body resp \<noteq> [] \<longrightarrow> length ls = 1)
       | Panics _ \<Rightarrow> ls = [])"
proof -
  let ?h = "\<lparr>hd_registry = broker_registry env a0 sp gh dd sq pd, hd_transitKeyName = sv_TransitKeyName cfg\<rparr>"
  let ?inner = "concurrencyLimiter env (limit_of cfg) (certAuthz env (sv_CertAllowlist cfg) (mux env ?h))"
  have h: "srv_handler s = requestLogger env ?inner"
    using server_New_Inr [OF assms(1)] assms(2) by auto
  obtain o1 w1 where run: "?inner r w = (o1, w1)" by fastforce
  have "audits w (fst (?inner r w)) (snd (?inner r w))"
    by (rule limiter_audits, rule certAuthz_audits, rule broker.mux_audits)
  then obtain ls where ls: "logs w1 = logs w @ ls" "length ls \<le> 1" "list_all safe_entry ls"
    "case o1 of Done resp \<Rightarrow> w_Status resp = 200 \<longrightarrow> w_Body resp \<noteq> [] \<longrightarrow> ls = [] | Panics _ \<Rightarrow> ls = []"
    unfolding run audits_def by auto
  show ?thesis
  proof (cases o1)
    case (Done resp)
    then have "out = Done resp" "w' = log_request env r (w_Status resp) w1"
      using assms(4) run by (simp_all add: h requestLogger_def)
    with ls Done safe_request_line [OF assms(3)] show ?thesis
      by (intro exI [of _ "ls @ [request_line env r (w_Status resp)]"])
         (cases ls, auto simp: logs_log_request)
  next
    case (Panics p)
    then have "out = Panics p" "w' = w1" using assms(4) run by (simp_all add: h requestLogger_def)
    with ls Panics show ?thesis by simp
  qed
qed

text \<open>A request that passes the middleware reaches the handler of its endpoint.\<close>

lemma server_serves:
  assumes "server_New env cfg = Inr s" "sv_Registry cfg = Some reg" "sv_CertAllowlist cfg = []"
    and "inFlight w < limit_of cfg" "r_EscapedPath r = ep_path ep" "serves_method ep (r_Method r)"
    and "endpoint_handler env \<lparr>hd_registry = reg, hd_transitKeyName = sv_TransitKeyName cfg\<rparr> ep r
      (w\<lparr>inFlight := inFlight w + 1\<rparr>) = (Done resp, w1)"
  shows "srv_handler s r w = (Done resp, log_request env r (w_Status resp) (w1\<lparr>inFlight := inFlight w1 - 1\<rparr>))"
proof -
  have "route_of r = Serve ep" using route_canonical [OF assms(5)] assms(6) by simp
  with assms server_New_Inr [OF assms(1)] show ?thesis
    by (auto simp: requestLogger_def limiter_serves certAuthz_def mux_def)
qed

lemma demo_rotation_served:
  obtains s resp w' where "server_New (demo_env ''k'') (demo_config (demo_env ''k'') []) = Inr s"
    "srv_handler s (demo_request ''POST'' ''/v1/credentials/rotate'' rotate_json) fresh_world = (Done resp, w')"
    "w_Status resp = 200" "w_Body resp \<noteq> []"
proof -
  let ?r = "demo_request ''POST'' ''/v1/credentials/rotate'' rotate_json"
  let ?cfg = "demo_config (demo_env ''k'') []"
  obtain s where s: "server_New (demo_env ''k'') ?cfg = Inr s" using demo_server by blast
  have "\<exists>resp w1. Handlers_Rotate (demo_env ''k'') \<lparr>hd_registry = demo_registry (demo_env ''k''),
      hd_transitKeyName = ''k''\<rparr> ?r (fresh_world\<lparr>inFlight := 1\<rparr>) = (Done resp, w1)
      \<and> w_Status resp = 200 \<and> w_Body resp \<noteq> []"
    using rotate_goes_through [OF demo_env_answers demo_env_transit demo_env_clock year_ok_0, of ?r "''bot''"]
      decode_rotate_json unfolding demo_registry_def sq_name_def demo_request_body
    by (metis append_is_Nil_conv list.distinct(1) response.select_convs(1,3))
  then obtain resp w1 where run: "Handlers_Rotate (demo_env ''k'') \<lparr>hd_registry = demo_registry (demo_env ''k''),
      hd_transitKeyName = ''k''\<rparr> ?r (fresh_world\<lparr>inFlight := 1\<rparr>) = (Done resp, w1)"
    and ok: "w_Status resp = 200" "w_Body resp \<noteq> []" by blast
  have ep: "r_EscapedPath ?r = ep_path EP_Rotate" "serves_method EP_Rotate (r_Method ?r)"
    by (simp_all add: demo_request_def serves_method_def)
  have cfg: "sv_Registry ?cfg = Some (demo_registry (demo_env ''k''))" "sv_CertAllowlist ?cfg = []"
    "sv_TransitKeyName ?cfg = ''k''" "inFlight fresh_world < limit_of ?cfg"
    by (simp_all add: demo_config_def limit_of_def defaultMaxConcurrency_def)
  have "endpoint_handler (demo_env ''k'') \<lparr>hd_registry = demo_registry (demo_env ''k''),
      hd_transitKeyName = sv_TransitKeyName ?cfg\<rparr> EP_Rotate ?r (fresh_world\<lparr>inFlight := inFlight fresh_world + 1\<rparr>)
    = (Done resp, w1)"
    using run cfg(3) by (simp add: endpoint_handler_def)
  from that [OF s server_serves [OF s cfg(1,2,4) ep this] ok] show thesis .
qed

theorem requests_audited_witness:
  "\<exists>(s :: server) (resp :: response) w' ls. srv_handler s (demo_request ''POST'' ''/v1/credentials/rotate'' rotate_json) fresh_world
      = (Done resp, w') \<and> w_Status resp = 200 \<and> logs w' = logs fresh_world @ ls \<and> list_all safe_entry ls
    \<and> last ls = request_line (demo_env ''k'') (demo_request ''POST'' ''/v1/credentials/rotate'' rotate_json) 200
    \<and> length ls = 1"
proof -
  let ?r = "demo_request ''POST'' ''/v1/credentials/rotate'' rotate_json"
  obtain s resp w' where s: "server_New (demo_env ''k'') (demo_config (demo_env ''k'') []) = Inr s"
    and run: "srv_handler s ?r fresh_world = (Done resp, w')" and ok: "w_Status resp = 200" "w_Body resp \<noteq> []"
    by (rule demo_rotation_served)
  have reg: "sv_Registry (demo_config (demo_env ''k'') []) = Some (broker_registry (demo_env ''k'') auth0_example
      sp_example gh_example dd_example sq_example pd_example)"
    by (simp add: demo_config_def demo_registry_def)
  have "log_safe (r_Method ?r)" by (simp add: demo_request_def loggable_def)
  from requests_audited [OF s reg this run] ok obtain ls where
    "logs w' = logs fresh_world @ ls" "list_all safe_entry ls"
    "last ls = request_line (demo_env ''k'') ?r 200" "length ls = 1"
    by (auto simp del: fresh_world_sel)
  with run ok(1) show ?thesis by blast
qed

section \<open>The lines of a clean-up\<close>

text \<open>A clean-up that fails writes one safe line at most, and one that succeeds writes none.\<close>

lemma log_failure_safe:
  assumes "quiet m" "\<And>e. safe_entry \<lparr>log_level = l, log_msg = msg, log_attrs = as e\<rparr>"
  shows "\<exists>ls. logs (log_failure m (\<lambda>e. log_to b l msg (as e)) w) = logs w @ ls \<and> list_all safe_entry ls"
proof -
  obtain r w1 where m: "m w = (r, w1)" by fastforce
  then have "logs w1 = logs w" using quietD [OF assms(1), of w] by simp
  with m assms(2) show ?thesis by (cases r) (auto simp: log_failure_def log_to_def log_def)
qed

lemma sanitized_attrs:
  "log_safe m \<Longrightarrow> safe_entry \<lparr>log_level = l, log_msg = m, log_attrs = [(x, AStr (sanitizeForLog s)),
     (y, AStr (sanitizeForLog t)), (z, AStr (sanitizeForLog e))]\<rparr>"
  by (simp add: safe_entry_def log_safe_sanitizeForLog)

lemma cleanups_audited:
  "\<exists>ls. logs (dd_cleanup env dd cl w) = logs w @ ls \<and> list_all safe_entry ls"
  "\<exists>ls. logs (pd_cleanup env pd cl w) = logs w @ ls \<and> list_all safe_entry ls"
  "\<exists>ls. logs (sp_cleanup env sp cl w) = logs w @ ls \<and> list_all safe_entry ls"
  "\<exists>ls. logs (sq_cleanup env sq cl w) = logs w @ ls \<and> list_all safe_entry ls"
  unfolding dd_cleanup_def pd_cleanup_def sp_cleanup_def sq_cleanup_def
  by (rule log_failure_safe, rule quiet_dd_deleteKey quiet_sp_deleteToken quiet_pd_calls(2) quiet_sq_calls(2),
      rule sanitized_attrs, simp add: loggable_def)+

section \<open>Rotations that go wrong\<close>


lemma dd_rotation_refused:
  "\<exists>resp w'. Handlers_Rotate (answering 200 token_reply) \<lparr>hd_registry = broker_registry (answering 200 token_reply)
      auth0_example sp_example gh_example dd_example sq_example pd_example, hd_transitKeyName = ''k''\<rparr>
      (demo_request ''POST'' ''/v1/credentials/rotate'' dd_rotate_json) fresh_world = (Done (resp :: response), w')
    \<and> w_Status resp = 502"
proof -
  have short: "length (json_print token_reply) \<le> bodyLimit"
    using short_token_reply by (simp add: short_json_def)
  have "\<exists>pre w1. dd_Rotate (answering 200 token_reply) dd_example handler_ctx
      \<lparr>rq_ProviderID = ''svc'', rq_Meta = Map.empty\<rparr> fresh_world = (Inl (pre @ json_print token_reply), w1)"
    by (rule dd_Rotate_unexpected [where st = 200]) (simp_all add: short)
  then obtain pre w1 where rot: "Rotate (datadog (answering 200 token_reply) dd_example) handler_ctx
      \<lparr>rq_ProviderID = ''svc'', rq_Meta = Map.empty\<rparr> fresh_world = (Inl (pre @ json_print token_reply), w1)"
    unfolding datadog_sel by blast
  have ne: "dd_name \<noteq> []" "''svc'' \<noteq> []" by (simp_all add: dd_name_def)
  show ?thesis
    unfolding Handlers_Rotate_def demo_request_body decode_dd_rotate_json
    using ne by (simp only: option.case prod.case if_False simp_thms handlers.select_convs broker_Get_datadog
        sum.case rot jsonError_def prod.inject outcome.inject) (simp add: error_response_def)
qed


text \<open>What a rotation that succeeds starts.\<close>

definition old_meta_key :: "string \<Rightarrow> string" where
  "old_meta_key n = (if n \<in> {dd_name, pd_name} then ''old_key_id'' else ''old_token_name'')"

lemma start_cleanup_spawned:
  assumes "start_cleanup n k req (Now env (\<lambda>t. ret (f t))) w = (r, w')" "meta_value (rq_Meta req) k = Some old"
  shows "\<lparr>cl_adapter = n, cl_target = old, cl_provider = rq_ProviderID req\<rparr> \<in> set (spawned w')"
  using assms by (auto simp: start_cleanup_def then_do_def spawn_def Now_def)

lemma rotation_spawns:
  "dd_Rotate env dd c req w = (Inr res, w') \<Longrightarrow> meta_value (rq_Meta req) ''old_key_id'' = Some old \<Longrightarrow>
   \<lparr>cl_adapter = dd_name, cl_target = old, cl_provider = rq_ProviderID req\<rparr> \<in> set (spawned w')"
  "pd_Rotate env pd c req w = (Inr res, w') \<Longrightarrow> meta_value (rq_Meta req) ''old_key_id'' = Some old \<Longrightarrow>
   \<lparr>cl_adapter = pd_name, cl_target = old, cl_provider = rq_ProviderID req\<rparr> \<in> set (spawned w')"
  "sp_Rotate env sp c req w = (Inr res, w') \<Longrightarrow> meta_value (rq_Meta req) ''old_token_name'' = Some old \<Longrightarrow>
   \<lparr>cl_adapter = sp_name, cl_target = old, cl_provider = rq_ProviderID req\<rparr> \<in> set (spawned w')"
  "sq_Rotate env sq c req w = (Inr res, w') \<Longrightarrow> meta_value (rq_Meta req) ''old_token_name'' = Some old \<Longrightarrow>
   \<lparr>cl_adapter = sq_name, cl_target = old, cl_provider = rq_ProviderID req\<rparr> \<in> set (spawned w')"
  unfolding dd_Rotate_def pd_Rotate_def sp_Rotate_def sq_Rotate_def Let_def
  by (auto simp: act_eq_Inr split: prod.splits dest: start_cleanup_spawned)

lemma broker_rotation_spawns:
  assumes "Get env (broker_registry env a0 sp gh dd sq pd) n = Inr a" "n \<in> {sp_name, dd_name, sq_name, pd_name}"
    and "Rotate a c req w = (Inr res, w')" "meta_value (rq_Meta req) (old_meta_key n) = Some old"
  shows "\<lparr>cl_adapter = n, cl_target = old, cl_provider = rq_ProviderID req\<rparr> \<in> set (spawned w')"
  using Get_member [OF assms(1)]
proof (cases rule: broker_registry_cases)
qed (use assms(2-4) in \<open>auto simp: old_meta_key_def provider_names dest: rotation_spawns\<close>)

lemma TransitEncrypt_keeps_spawned: "TransitEncrypt env k p w = (r, w') \<Longrightarrow> spawned w' = spawned w"
  using TransitEncrypt_spawned [of env k p w] by simp

text \<open>
  C16. A rotation answered with 500 has issued the new credential, given it to Transit and lost
  it: the answer is the fixed text, and the clean-up that will delete or revoke the old
  credential named in the request has been started all the same, so that after it neither
  the old credential nor the new one is of any use.
\<close>

theorem encryption_failure_strands:
  assumes "Handlers_Rotate env \<lparr>hd_registry = broker_registry env a0 sp gh dd sq pd,
      hd_transitKeyName = key\<rparr> r w = (Done resp, w')"
    and "w_Status resp = 500"
    and "decode_rotateRequest (r_Body r) = Some (provider, pid, meta)"
    and "provider \<in> {sp_name, dd_name, sq_name, pd_name}"
    and "meta_value meta (old_meta_key provider) = Some old"
  shows "resp = error_response 500 ''encryption failed''
    \<and> \<lparr>cl_adapter = provider, cl_target = old, cl_provider = pid\<rparr> \<in> set (spawned w')
    \<and> (\<exists>es tok cred. cred \<noteq> [] \<and> trace w' = trace w @ es @ [transit_event tok key cred])"
proof -
  let ?reg = "broker_registry env a0 sp gh dd sq pd"
  let ?req = "\<lparr>rq_ProviderID = pid, rq_Meta = meta\<rparr>"
  have ne: "provider \<noteq> []" "pid \<noteq> []"
    using assms(1-3) by (auto simp: Handlers_Rotate_def jsonError_def)
  obtain a where g: "Get env ?reg provider = Inr a"
    using assms(1-3) ne by (auto simp: Handlers_Rotate_def jsonError_def split: sum.splits)
  note c = broker.get_contract [OF g]
  obtain x w1 where rot: "Rotate a handler_ctx ?req w = (x, w1)" by fastforce
  with assms(1-3) ne g obtain res where x: "x = Inr res"
    by (cases x) (auto simp: Handlers_Rotate_def jsonError_def)
  note rot = rot [unfolded x]
  obtain y w2 where t: "TransitEncrypt env key (res_Credential res) w1 = (y, w2)" by fastforce
  with assms(1-3) ne g rot obtain e where "y = Inl e"
    by (cases y) (auto simp: Handlers_Rotate_def jsonOK_def split: outcome.splits option.splits)
  with assms(1-3) ne g rot t have out: "resp = error_response 500 ''encryption failed''"
    "spawned w' = spawned w2" "trace w' = trace w2"
    by (auto simp: Handlers_Rotate_def jsonError_def)
  have "\<lparr>cl_adapter = provider, cl_target = old, cl_provider = rq_ProviderID ?req\<rparr> \<in> set (spawned w1)"
    using assms(4,5) by (intro broker_rotation_spawns [OF g _ rot]) simp_all
  moreover have "trace w2 = trace w1 @ [transit_event (vault_token w1) key (res_Credential res)]"
    using TransitEncrypt_trace [of env key "res_Credential res" w1] t by simp
  moreover obtain es where "trace w1 = trace w @ es"
    using emitsD [OF credential_adapter.rotate_emits [OF c], of handler_ctx ?req w] rot by auto
  moreover have "res_Credential res \<noteq> []" by (rule credential_adapter.rotate_credential [OF c rot])
  ultimately show ?thesis using out TransitEncrypt_keeps_spawned [OF t] by auto
qed

text \<open>A SonarQube rotation with an old token, while Vault is sealed.\<close>

definition sealed_env :: env where
  "sealed_env = (demo_env ''k'')\<lparr>vault := (\<lambda>_ _ _. Inl ''Vault is sealed'')\<rparr>"

definition rotate_old_json :: json where
  "rotate_old_json = JObj [(''provider'', JStr ''sonarqube''), (''provider_id'', JStr ''bot''),
     (''meta'', JObj [(''old_token_name'', JStr ''bot-1'')])]"

lemma decode_rotate_old_json:
  "decode_rotateRequest (json_print rotate_old_json)
     = Some (sq_name, ''bot'', Map.empty(''old_token_name'' \<mapsto> ''bot-1''))"
proof -
  have "Decode (json_print rotate_old_json) = Some rotate_old_json"
    using Decode_print [of rotate_old_json "[]"] by (simp add: rotate_old_json_def)
  then show ?thesis
    by (simp add: decode_rotateRequest_def rotate_old_json_def dec_struct_def dec_str_def key_for_other sq_name_def)
qed

lemma sealed_rotation:
  "\<exists>resp w'. Handlers_Rotate sealed_env \<lparr>hd_registry = broker_registry sealed_env auth0_example sp_example
      gh_example dd_example sq_example pd_example, hd_transitKeyName = ''k''\<rparr>
      (demo_request ''POST'' ''/v1/credentials/rotate'' rotate_old_json) fresh_world = (Done (resp :: response), w')
    \<and> w_Status resp = 500"
proof -
  let ?req = "\<lparr>rq_ProviderID = ''bot'', rq_Meta = Map.empty(''old_token_name'' \<mapsto> ''bot-1'')\<rparr>"
  have answers: "answers sealed_env 200 token_reply"
    by (simp add: answers_def sealed_env_def demo_env_def transit_vault_def)
  have "succeeds (sq_Rotate sealed_env sq_example handler_ctx ?req) fresh_world"
    by (rule sq_answers_Rotate [OF answers]) simp
  then obtain res w1 where "sq_Rotate sealed_env sq_example handler_ctx ?req fresh_world = (Inr res, w1)"
    by (rule succeedsE)
  then have rot: "Rotate (sonarqube sealed_env sq_example) handler_ctx ?req fresh_world = (Inr res, w1)"
    by simp
  have enc: "\<exists>e w2. TransitEncrypt sealed_env ''k'' (res_Credential res) w1 = (Inl e, w2)"
    by (simp add: TransitEncrypt_def attempt_def vault_do_def sealed_env_def)
  have ne: "sq_name \<noteq> []" "''bot'' \<noteq> []" by (simp_all add: sq_name_def)
  have "\<exists>w'. Handlers_Rotate sealed_env \<lparr>hd_registry = broker_registry sealed_env auth0_example sp_example
      gh_example dd_example sq_example pd_example, hd_transitKeyName = ''k''\<rparr>
      (demo_request ''POST'' ''/v1/credentials/rotate'' rotate_old_json) fresh_world
      = (Done (error_response 500 ''encryption failed''), w')"
    using enc ne unfolding Handlers_Rotate_def demo_request_body decode_rotate_old_json
    by (auto simp only: option.case prod.case if_False simp_thms handlers.select_convs
        broker_Get_sonarqube sum.case rot jsonError_def prod.inject outcome.inject)
  then show ?thesis using status_error_response by blast
qed

theorem encryption_failure_strands_witness:
  "\<exists>(resp :: response) w' es tok cred.
    Handlers_Rotate sealed_env \<lparr>hd_registry = broker_registry sealed_env auth0_example sp_example
      gh_example dd_example sq_example pd_example, hd_transitKeyName = ''k''\<rparr>
      (demo_request ''POST'' ''/v1/credentials/rotate'' rotate_old_json) fresh_world = (Done resp, w')
    \<and> resp = error_response 500 ''encryption failed''
    \<and> \<lparr>cl_adapter = sq_name, cl_target = ''bot-1'', cl_provider = ''bot''\<rparr> \<in> set (spawned w')
    \<and> cred \<noteq> [] \<and> trace w' = trace fresh_world @ es @ [transit_event tok ''k'' cred]"
proof -
  let ?r = "demo_request ''POST'' ''/v1/credentials/rotate'' rotate_old_json"
  obtain resp w' where run: "Handlers_Rotate sealed_env \<lparr>hd_registry = broker_registry sealed_env auth0_example
      sp_example gh_example dd_example sq_example pd_example, hd_transitKeyName = ''k''\<rparr> ?r fresh_world
      = (Done (resp :: response), w')" and bad: "w_Status resp = 500"
    using sealed_rotation by blast
  have "decode_rotateRequest (r_Body ?r) = Some (sq_name, ''bot'', Map.empty(''old_token_name'' \<mapsto> ''bot-1''))"
    unfolding demo_request_body by (rule decode_rotate_old_json)
  moreover have "sq_name \<in> {sp_name, dd_name, sq_name, pd_name}" by simp
  moreover have "meta_value (Map.empty(''old_token_name'' \<mapsto> ''bot-1'')) (old_meta_key sq_name) = Some ''bot-1''"
    by (simp add: meta_value_def old_meta_key_def provider_names)
  ultimately have "resp = error_response 500 ''encryption failed''
    \<and> \<lparr>cl_adapter = sq_name, cl_target = ''bot-1'', cl_provider = ''bot''\<rparr> \<in> set (spawned w')
    \<and> (\<exists>es tok cred. cred \<noteq> [] \<and> trace w' = trace fresh_world @ es @ [transit_event tok ''k'' cred])"
    by (rule encryption_failure_strands [OF run bad])
  with run show ?thesis by blast
qed

end
