(* ===== verification/Responses.thy ===== *)
theory Responses
  imports Request_Log
begin

text \<open>
  The shape of what the server answers: the statuses and the JSON type of the body, per
  endpoint.  The values the server writes are made of text from clients, providers and
  Vault; \<open>responses_typed\<close> shows that whatever the bytes, the body is one JSON object of
  the endpoint's type.
\<close>

section \<open>Types of JSON values\<close>

datatype ty = TString | TBool | TObject "(string \<times> ty) list"

text \<open>An object has exactly the fields of its type, in their order.\<close>

inductive has_type :: "json \<Rightarrow> ty \<Rightarrow> bool" where
  str: "has_type (JStr s) TString"
| bool: "has_type (JBool b) TBool"
| empty: "has_type (JObj []) (TObject [])"
| field: "has_type v t \<Longrightarrow> has_type (JObj ms) (TObject fs) \<Longrightarrow>
    has_type (JObj ((k, v) # ms)) (TObject ((k, t) # fs))"

code_pred has_type .

inductive_simps has_type_simps [simp]:
  "has_type (JStr s) t" "has_type (JBool b) t" "has_type (JObj []) t" "has_type (JObj (m # ms)) t"

inductive_cases has_type_objectE: "has_type v (TObject fs)"

lemma has_type_no_nums: "has_type v t \<Longrightarrow> no_nums v"
  by (induction rule: has_type.induct) simp_all

fun plain_names :: "ty \<Rightarrow> bool" where
  "plain_names (TObject fs) \<longleftrightarrow> list_all (\<lambda>(k, t). ascii k \<and> plain_names t) fs"
| "plain_names t \<longleftrightarrow> True"

text \<open>Replacing invalid UTF-8 keeps the type, when the field names are ASCII.\<close>

lemma has_type_valid: "has_type v t \<Longrightarrow> plain_names t \<Longrightarrow> has_type (valid_json v) t"
  by (induction rule: has_type.induct) (simp_all add: has_type.intros)

text \<open>Printing a value of a type gives a text that parses to a value of that type.\<close>

definition body_of_type :: "string \<Rightarrow> ty \<Rightarrow> bool" where
  "body_of_type b t \<longleftrightarrow> (\<exists>v. Unmarshal b = Some v \<and> has_type v t)"

lemma printed_body: "has_type v t \<Longrightarrow> plain_names t \<Longrightarrow> body_of_type (json_print v) t"
  unfolding body_of_type_def
  using Unmarshal_printed [OF has_type_no_nums] has_type_valid by blast

lemma printed_body_newline:
  "has_type v t \<Longrightarrow> plain_names t \<Longrightarrow> body_of_type (json_print v @ [newline]) t"
proof -
  assume v: "has_type v t" "plain_names t"
  have "char_of (10 :: nat) = newline" by code_simp
  then have "Unmarshal (json_print v @ [newline]) = Some (valid_json v)"
    using Unmarshal_printed_newline [OF has_type_no_nums [OF v(1)]] by simp
  with has_type_valid [OF v] show ?thesis by (auto simp: body_of_type_def)
qed

section \<open>The types of the endpoints\<close>

definition error_type :: ty where
  "error_type = TObject [(''error'', TString)]"

fun ok_type :: "endpoint \<Rightarrow> ty" where
  "ok_type EP_Rotate = TObject [(''provider_id'', TString), (''encrypted_value'', TString), (''rotated_at'', TString)]"
| "ok_type EP_Revoke = TObject [(''status'', TString)]"
| "ok_type EP_Status = TObject [(''provider_id'', TString), (''credential_id'', TString),
     (''active'', TBool), (''checked_at'', TString)]"
| "ok_type EP_Health = TObject [(''status'', TString), (''time'', TString)]"

fun statuses :: "endpoint \<Rightarrow> nat list" where
  "statuses EP_Rotate = [200, 400, 404, 500, 502, 403, 503]"
| "statuses EP_Revoke = [200, 400, 404, 502, 403, 503]"
| "statuses EP_Status = [200, 400, 404, 502, 403, 503]"
| "statuses EP_Health = [200, 403, 503]"

text \<open>A 200 without a body is a time that does not marshal.\<close>

definition well_typed :: "endpoint \<Rightarrow> response \<Rightarrow> bool" where
  "well_typed ep resp \<longleftrightarrow> w_Status resp \<in> set (statuses ep)
     \<and> (''Content-Type'', ''application/json'') \<in> set (w_Headers resp)
     \<and> (if w_Status resp = 200 then w_Body resp = [] \<or> body_of_type (w_Body resp) (ok_type ep)
        else body_of_type (w_Body resp) error_type)"

lemma plain_types: "plain_names error_type" "plain_names (ok_type ep)"
  by (simp add: error_type_def, cases ep) simp_all

lemma error_typed:
  "code \<in> set (statuses ep) \<Longrightarrow> code \<noteq> 200 \<Longrightarrow> well_typed ep (error_response code msg)"
  using printed_body_newline [of "JObj [(''error'', JStr msg)]" error_type] plain_types(1)
  by (simp add: well_typed_def error_response_def json_header_def error_type_def has_type.intros)

lemma jsonOK_typed:
  assumes "\<And>j. v = Some j \<Longrightarrow> has_type j (ok_type ep)" "jsonOK v w = (out, w')"
  shows "\<exists>resp. out = Done resp \<and> well_typed ep resp"
proof -
  have "(200 :: nat) \<in> set (statuses ep)" by (cases ep) simp_all
  then show ?thesis
    using assms printed_body_newline [OF _ plain_types(2) [of ep]]
    by (auto simp: jsonOK_def well_typed_def json_header_def split: option.splits)
qed

lemma has_type_rotate: "RotateResponse_json x = Some j \<Longrightarrow> has_type j (ok_type EP_Rotate)"
  by (auto simp: RotateResponse_json_def time_json_def intro!: has_type.intros split: if_splits)

lemma has_type_status: "CredentialStatus_json x = Some j \<Longrightarrow> has_type j (ok_type EP_Status)"
  by (auto simp: CredentialStatus_json_def time_json_def intro!: has_type.intros split: if_splits)

lemma has_type_revoked: "has_type (marshal_map [(''status'', JStr s)]) (ok_type EP_Revoke)"
  by (simp add: marshal_map_def has_type.intros)

lemma has_type_health: "has_type (marshal_map [(''status'', JStr s), (''time'', JStr t)]) (ok_type EP_Health)"
  by (simp add: marshal_map_def has_type.intros)

section \<open>Handlers\<close>

text \<open>\<open>typed ep ow\<close>: if there is an answer, the answer is well typed.\<close>

definition typed :: "endpoint \<Rightarrow> response outcome \<times> world \<Rightarrow> bool" where
  "typed ep ow \<longleftrightarrow> (case fst ow of Done resp \<Rightarrow> well_typed ep resp | Panics _ \<Rightarrow> True)"

lemma typed_error [simp]:
  "code \<in> set (statuses ep) \<Longrightarrow> code \<noteq> 200 \<Longrightarrow> typed ep (jsonError code msg w)"
  by (simp add: typed_def jsonError_def error_typed)

lemma typed_jsonOK: "(\<And>j. v = Some j \<Longrightarrow> has_type j (ok_type ep)) \<Longrightarrow> typed ep (jsonOK v w)"
  using jsonOK_typed [of v ep w] by (cases "jsonOK v w") (auto simp: typed_def)

lemma typed_Panics [simp]: "typed ep (Panics p, w)"
  by (simp add: typed_def)

lemma typed_answers:
  "typed EP_Rotate (jsonOK (RotateResponse_json x) w)"
  "typed EP_Status (jsonOK (CredentialStatus_json y) w)"
  "typed EP_Revoke (jsonOK (Some (marshal_map [(''status'', JStr s)])) w)"
  "typed EP_Health (jsonOK (Some (marshal_map [(''status'', JStr s), (''time'', JStr t)])) w)"
  by (rule typed_jsonOK, use has_type_rotate has_type_status has_type_revoked has_type_health in blast)+

lemma Handlers_Rotate_typed: "typed EP_Rotate (Handlers_Rotate env h r w)"
  unfolding Handlers_Rotate_def
  by (simp add: typed_answers split: option.split sum.split prod.split outcome.split)

lemma Handlers_Revoke_typed: "typed EP_Revoke (Handlers_Revoke env h r w)"
  unfolding Handlers_Revoke_def
  by (simp add: typed_answers split: option.split sum.split prod.split)

lemma Handlers_Status_typed: "typed EP_Status (Handlers_Status env h r w)"
  unfolding Handlers_Status_def Let_def
  by (simp add: typed_answers split: sum.split prod.split)

lemma Handlers_Health_typed: "typed EP_Health (Handlers_Health env r w)"
  unfolding Handlers_Health_def by (rule typed_answers)

lemma endpoint_typed: "typed ep (endpoint_handler env h ep r w)"
  by (cases ep) (simp_all add: endpoint_handler_def Handlers_Rotate_typed Handlers_Revoke_typed
      Handlers_Status_typed Handlers_Health_typed)

section \<open>The whole server\<close>

text \<open>The two bodies written by hand.\<close>

lemma Unmarshal_error_literal:
  assumes "plain_key s"
  shows "Unmarshal (''{\"error\":'' @ dq # s @ dq # ''}'') = Some (JObj [(''error'', JStr s)])"
proof -
  have "printable s" "ascii s" using assms by (simp_all add: plain_key_def printable_ascii)
  then have "parse_value (dq # s @ dq # CHR ''}'' # []) = Some (JStr s, CHR ''}'' # [])"
    using scan_plain [OF assms, of "''}''"] by (simp add: is_ws_def del: scan_str.simps)
  from parse_member_end [of "''error''" "dq # s @ [dq]" "[]" "JStr s"] this
  have "parse_members (dq # ''error'' @ dq # CHR '':'' # dq # s @ dq # ''}'') = Some ([(''error'', JStr s)], [])"
    by (simp add: plain_key_def)
  from Unmarshal_members [OF this [unfolded append_Cons append_Nil]] show ?thesis by simp
qed

lemma middleware_typed:
  "well_typed ep forbidden" "well_typed ep overloaded_response"
proof -
  have s: "(403 :: nat) \<in> set (statuses ep)" "(503 :: nat) \<in> set (statuses ep)" by (cases ep; simp)+
  have "body_of_type (''{\"error\":'' @ dq # m @ dq # ''}'') error_type" if "plain_key m" for m
    using Unmarshal_error_literal [OF that] by (auto simp: body_of_type_def error_type_def has_type.intros)
  from this [of "''forbidden''"] this [of "''server overloaded, retry after 1s''"]
  have "body_of_type (w_Body forbidden) error_type" "body_of_type (w_Body overloaded_response) error_type"
    by (simp_all add: forbidden_def overloaded_response_def plain_key_def)
  with s show "well_typed ep forbidden" "well_typed ep overloaded_response"
    by (simp_all add: well_typed_def forbidden_def overloaded_response_def json_header_def)
qed

lemma middleware_keeps_typed:
  assumes "\<And>w. typed ep (next r w)"
  shows "typed ep (requestLogger env (concurrencyLimiter env limit (certAuthz env allow next)) r w)"
proof -
  have c: "typed ep (certAuthz env allow next r w)" for w
    using assms middleware_typed by (simp add: certAuthz_def Let_def typed_def split: option.split)
  have l: "typed ep (concurrencyLimiter env limit (certAuthz env allow next) r w)"
    using c [of "w\<lparr>inFlight := inFlight w + 1\<rparr>"] middleware_typed
    by (cases "certAuthz env allow next r (w\<lparr>inFlight := inFlight w + 1\<rparr>)")
       (simp add: concurrencyLimiter_def Let_def typed_def)
  then show ?thesis
    by (cases "concurrencyLimiter env limit (certAuthz env allow next) r w")
       (simp add: requestLogger_def typed_def split: outcome.splits)
qed

text \<open>
  C14. Every answer the server gives at one of its endpoints is typed: the status is one of
  the endpoint's, the content type is JSON, and the body is a single JSON object with exactly
  the fields of its type, that of the endpoint when the status is 200 and
  \<open>{"error": string}\<close> otherwise, whatever bytes the client, the provider and Vault have put
  into it (a 200 may have an empty body instead, when a time does not marshal).
\<close>

theorem responses_typed:
  assumes "server_New env cfg = Inr s" "route_of r = Serve ep" "srv_handler s r w = (Done resp, w')"
  shows "well_typed ep resp"
proof -
  obtain reg where h: "srv_handler s = requestLogger env (concurrencyLimiter env (limit_of cfg)
      (certAuthz env (sv_CertAllowlist cfg)
        (mux env \<lparr>hd_registry = reg, hd_transitKeyName = sv_TransitKeyName cfg\<rparr>)))"
    using server_New_Inr [OF assms(1)] by blast
  have "typed ep (srv_handler s r w)"
    unfolding h by (rule middleware_keeps_typed) (simp add: mux_def assms(2) endpoint_typed)
  with assms(3) show ?thesis by (simp add: typed_def)
qed

theorem responses_typed_witness:
  "\<exists>(s :: server) (resp :: response) w'. srv_handler s (demo_request ''POST'' ''/v1/credentials/rotate'' rotate_json)
      fresh_world = (Done resp, w') \<and> well_typed EP_Rotate resp
    \<and> body_of_type (w_Body resp) (TObject [(''provider_id'', TString), (''encrypted_value'', TString),
        (''rotated_at'', TString)])"
proof -
  let ?r = "demo_request ''POST'' ''/v1/credentials/rotate'' rotate_json"
  obtain s resp w' where s: "server_New (demo_env ''k'') (demo_config (demo_env ''k'') []) = Inr s"
    and run: "srv_handler s ?r fresh_world = (Done resp, w')" and ok: "w_Status resp = 200" "w_Body resp \<noteq> []"
    by (rule demo_rotation_served)
  have "r_EscapedPath ?r = ep_path EP_Rotate" by (simp add: demo_request_def)
  from route_canonical [OF this] have "route_of ?r = Serve EP_Rotate"
    by (simp add: serves_method_def demo_request_def)
  from responses_typed [OF s this run] have "well_typed EP_Rotate resp" .
  moreover from this ok have "body_of_type (w_Body resp) (ok_type EP_Rotate)"
    unfolding well_typed_def by metis
  ultimately show ?thesis using run unfolding ok_type.simps by blast
qed

end
