(* ===== verification/Key_Store.thy ===== *)
theory Key_Store
  imports Request_Log
begin

text \<open>
  What an adapter does to the credentials its provider holds, against an abstract store: a
  finite map from credential ids to secrets.  \<open>store_step\<close> says what each operation may do
  to the store, whatever the provider; the locale \<open>key_store\<close> holds what follows for runs of
  operations.  The providers are not part of the repository: \<open>key_api\<close> states the documented
  behaviour of a key management API, as a function \<open>keys\<close> from the requests made so far to the
  keys it holds (so that nobody else creates or deletes keys meanwhile), and \<open>acts\<close> carries what
  it says through the steps of an adapter.  The adapters are in \<open>Key_Providers\<close>.
\<close>

section \<open>The abstract store\<close>

type_synonym store = "string \<rightharpoonup> string"

datatype command = CRotate RotateRequest | CRevoke RevokeRequest | CStatus string

datatype reply = Rotated Result | Revoked | Checked CredentialStatus | Failed gerr

text \<open>A request to create a key whose outcome is not known may have created one.\<close>

definition gained :: "store \<Rightarrow> store \<Rightarrow> bool" where
  "gained s s' \<longleftrightarrow> s' = s \<or> (\<exists>k v. k \<notin> dom s \<and> s' = s(k \<mapsto> v))"

inductive store_step :: "command \<Rightarrow> reply \<Rightarrow> store \<Rightarrow> store \<Rightarrow> bool" where
  rotated: "res_CredentialID res \<notin> dom s \<Longrightarrow>
    store_step (CRotate rq) (Rotated res) s (s(res_CredentialID res \<mapsto> res_Credential res))"
| rotate_failed: "gained s s' \<Longrightarrow> store_step (CRotate rq) (Failed e) s s'"
| revoked: "store_step (CRevoke rv) Revoked s (s(rv_CredentialID rv := None))"
| revoke_failed: "s' = s \<or> s' = s(rv_CredentialID rv := None) \<Longrightarrow> store_step (CRevoke rv) (Failed e) s s'"
| checked: "cs_CredentialID st = cid \<Longrightarrow> cs_Active st = (cid \<in> dom s) \<Longrightarrow>
    store_step (CStatus cid) (Checked st) s s"
| check_failed: "store_step (CStatus cid) (Failed e) s s"

inductive_simps store_step_simps:
  "store_step (CRotate rq) r s s'" "store_step (CRevoke rv) r s s'" "store_step (CStatus cid) r s s'"

inductive store_run :: "command list \<Rightarrow> reply list \<Rightarrow> store \<Rightarrow> store \<Rightarrow> bool" where
  none: "store_run [] [] s s"
| step: "store_step cmd r s s' \<Longrightarrow> store_run cmds rs s' s'' \<Longrightarrow> store_run (cmd # cmds) (r # rs) s s''"

inductive_cases store_run_ConsE: "store_run (cmd # cmds) rs s s''"

lemma store_run_append:
  "store_run cmds rs s s' \<Longrightarrow> store_run cmds' rs' s' s'' \<Longrightarrow> store_run (cmds @ cmds') (rs @ rs') s s''"
  by (induction rule: store_run.induct) (simp_all add: store_run.step)

text \<open>A key goes away only by a revocation that names it.\<close>

fun revokes :: "string \<Rightarrow> command \<Rightarrow> bool" where
  "revokes k (CRevoke rv) \<longleftrightarrow> rv_CredentialID rv = k"
| "revokes k _ \<longleftrightarrow> False"

lemma store_step_keeps: "store_step cmd r s s' \<Longrightarrow> \<not> revokes k cmd \<Longrightarrow> s k = Some v \<Longrightarrow> s' k = Some v"
  by (induction rule: store_step.induct) (auto simp: gained_def domIff)

lemma store_run_keeps:
  "store_run cmds rs s s' \<Longrightarrow> list_all (\<lambda>cmd. \<not> revokes k cmd) cmds \<Longrightarrow> s k = Some v \<Longrightarrow> s' k = Some v"
  by (induction rule: store_run.induct) (auto dest: store_step_keeps)

section \<open>Adapters as stores\<close>

fun perform :: "adapter \<Rightarrow> ctx \<Rightarrow> command \<Rightarrow> world \<Rightarrow> reply \<times> world" where
  "perform a c (CRotate rq) w =
     (case Rotate a c rq w of (Inr res, w') \<Rightarrow> (Rotated res, w') | (Inl e, w') \<Rightarrow> (Failed e, w'))"
| "perform a c (CRevoke rv) w =
     (case Revoke a c rv w of (Inr _, w') \<Rightarrow> (Revoked, w') | (Inl e, w') \<Rightarrow> (Failed e, w'))"
| "perform a c (CStatus cid) w =
     (case Status a c cid w of (Inr st, w') \<Rightarrow> (Checked st, w') | (Inl e, w') \<Rightarrow> (Failed e, w'))"

fun perform_all :: "adapter \<Rightarrow> ctx \<Rightarrow> command list \<Rightarrow> world \<Rightarrow> reply list \<times> world" where
  "perform_all a c [] w = ([], w)"
| "perform_all a c (cmd # cmds) w =
     (case perform a c cmd w of (r, w') \<Rightarrow>
        (case perform_all a c cmds w' of (rs, w'') \<Rightarrow> (r # rs, w'')))"

lemma perform_all_append:
  "perform_all a c (cmds @ cmds') w =
     (case perform_all a c cmds w of (rs, w') \<Rightarrow>
        (case perform_all a c cmds' w' of (rs', w'') \<Rightarrow> (rs @ rs', w'')))"
  by (induction cmds arbitrary: w) (simp_all split: prod.split)

lemma perform_all_length: "perform_all a c cmds w = (rs, w') \<Longrightarrow> length rs = length cmds"
  by (induction cmds arbitrary: w rs) (auto split: prod.splits)

text \<open>
  An adapter that implements the store, provided its provider behaves (\<open>provider\<close>) and
  the ids it is given are of the provider's form (\<open>plain\<close>).
\<close>

locale key_store =
  fixes a :: "env \<Rightarrow> adapter" and provider :: "env \<Rightarrow> (event list \<Rightarrow> store) \<Rightarrow> bool"
    and plain :: "command \<Rightarrow> bool"
  assumes simulates: "provider env keys \<Longrightarrow> plain cmd \<Longrightarrow> perform (a env) c cmd w = (r, w') \<Longrightarrow>
    store_step cmd r (keys (trace w)) (keys (trace w'))"
begin

lemma run_simulates:
  "provider env keys \<Longrightarrow> list_all plain cmds \<Longrightarrow> perform_all (a env) c cmds w = (rs, w') \<Longrightarrow>
   store_run cmds rs (keys (trace w)) (keys (trace w'))"
proof (induction cmds arbitrary: w rs)
  case Nil
  then show ?case by (auto intro: store_run.none)
next
  case (Cons cmd cmds)
  obtain r w1 where r: "perform (a env) c cmd w = (r, w1)" by fastforce
  obtain rs1 where rs: "perform_all (a env) c cmds w1 = (rs1, w')" "rs = r # rs1"
    using Cons.prems r by (auto split: prod.splits)
  have "store_step cmd r (keys (trace w)) (keys (trace w1))"
    using Cons.prems r by (intro simulates) auto
  moreover have "store_run cmds rs1 (keys (trace w1)) (keys (trace w'))"
    using Cons.prems rs by (intro Cons.IH) auto
  ultimately show ?case unfolding rs(2) by (rule store_run.step)
qed

text \<open>A credential that was handed out works until somebody revokes it.\<close>

lemma issued_lives:
  assumes "provider env keys" "list_all plain (CRotate rq # cmds)"
    and "perform_all (a env) c (CRotate rq # cmds) w = (Rotated res # rs, w')"
    and "list_all (\<lambda>cmd. \<not> revokes (res_CredentialID res) cmd) cmds"
  shows "keys (trace w') (res_CredentialID res) = Some (res_Credential res)"
proof -
  have "store_run (CRotate rq # cmds) (Rotated res # rs) (keys (trace w)) (keys (trace w'))"
    using assms(1-3) by (rule run_simulates)
  then obtain s1 where "store_step (CRotate rq) (Rotated res) (keys (trace w)) s1"
    and run: "store_run cmds rs s1 (keys (trace w'))"
    by (auto elim: store_run_ConsE)
  then have "s1 (res_CredentialID res) = Some (res_Credential res)" by (simp add: store_step_simps)
  from store_run_keeps [OF run assms(4) this] show ?thesis .
qed

end

section \<open>Reasoning about the keys\<close>

text \<open>
  \<open>acts Q keys m\<close>: whatever \<open>m\<close> returns is related by \<open>Q\<close> to the keys before and after.  The
  steps that send nothing (\<open>emits (\<lambda>_. False)\<close>) leave the keys alone.
\<close>

definition acts :: "(gerr + 'a \<Rightarrow> store \<Rightarrow> store \<Rightarrow> bool) \<Rightarrow> (event list \<Rightarrow> store) \<Rightarrow> 'a act \<Rightarrow> bool" where
  "acts Q keys m \<longleftrightarrow> (\<forall>w r w'. m w = (r, w') \<longrightarrow> Q r (keys (trace w)) (keys (trace w')))"

lemma actsD: "acts Q keys m \<Longrightarrow> m w = (r, w') \<Longrightarrow> Q r (keys (trace w)) (keys (trace w'))"
  by (simp add: acts_def)

lemma silent_trace: "emits (\<lambda>_. False) m \<Longrightarrow> m w = (r, w') \<Longrightarrow> trace w' = trace w"
  using emitsD [of "\<lambda>_. False" m w] by (auto simp: list_all_iff)

lemma acts_after_silent:
  assumes "emits (\<lambda>_. False) m" "\<And>e s. Q (Inl e) s s" "\<And>x. acts Q keys (k x)"
  shows "acts Q keys (attempt m f k)"
  unfolding acts_def
proof (intro allI impI)
  fix w r w' assume run: "attempt m f k w = (r, w')"
  obtain x w1 where m: "m w = (x, w1)" by fastforce
  have t: "trace w1 = trace w" by (rule silent_trace [OF assms(1) m])
  show "Q r (keys (trace w)) (keys (trace w'))"
  proof (cases x)
    case (Inl e)
    with run m t assms(2) show ?thesis by (auto simp: attempt_def)
  next
    case (Inr y)
    with run m have "k y w1 = (r, w')" by (simp add: attempt_def)
    from actsD [OF assms(3) this] t show ?thesis by simp
  qed
qed

lemma acts_then_silent:
  assumes "acts P keys m" "\<And>e s s'. P (Inl e) s s' \<Longrightarrow> Q (Inl (f e)) s s'" "\<And>x. emits (\<lambda>_. False) (k x)"
    and "\<And>x w r w' s s'. P (Inr x) s s' \<Longrightarrow> k x w = (r, w') \<Longrightarrow> Q r s s'"
  shows "acts Q keys (attempt m f k)"
  unfolding acts_def
proof (intro allI impI)
  fix w r w' assume run: "attempt m f k w = (r, w')"
  obtain x w1 where m: "m w = (x, w1)" by fastforce
  note p = actsD [OF assms(1) m]
  show "Q r (keys (trace w)) (keys (trace w'))"
  proof (cases x)
    case (Inl e)
    with run m p assms(2) show ?thesis by (auto simp: attempt_def)
  next
    case (Inr y)
    with run m have k: "k y w1 = (r, w')" by (simp add: attempt_def)
    from assms(4) [OF p [unfolded Inr] k] silent_trace [OF assms(3) k] show ?thesis by simp
  qed
qed

lemma acts_Now: "(\<And>t. acts Q keys (k t)) \<Longrightarrow> acts Q keys (Now env k)"
  by (fastforce simp: acts_def Now_def)

lemma acts_check: "(\<And>s. Q (Inl e) s s) \<Longrightarrow> (\<not> b \<Longrightarrow> acts Q keys m) \<Longrightarrow> acts Q keys (check b e m)"
  by (simp add: acts_def check_def)

text \<open>
  One call of a provider's API: it was not sent, or a request \<open>P\<close> allows was sent and the reply is
  the result.
\<close>

definition calls :: "env \<Rightarrow> (http_request \<Rightarrow> bool) \<Rightarrow> (nat \<times> string) act \<Rightarrow> bool" where
  "calls env P d \<longleftrightarrow> (\<forall>w r w'. d w = (r, w') \<longrightarrow>
     (\<exists>e. r = Inl e \<and> trace w' = trace w) \<or>
     (\<exists>q. P q \<and> trace w' = trace w @ [EHttp q]
        \<and> (case net env (trace w) q of Inl _ \<Rightarrow> \<exists>e. r = Inl e
           | Inr rep \<Rightarrow> r = Inr (resp_status rep, read_limited bodyLimit rep))))"

lemma calls_cases:
  assumes "calls env P d" "d w = (r, w')"
  obtains e where "r = Inl e" "trace w' = trace w"
    | q where "P q" "trace w' = trace w @ [EHttp q]"
      "case net env (trace w) q of Inl _ \<Rightarrow> \<exists>e. r = Inl e
       | Inr rep \<Rightarrow> r = Inr (resp_status rep, read_limited bodyLimit rep)"
  using assms unfolding calls_def by blast

lemma calls_request:
  assumes "\<And>q. q = h \<lparr>hr_ctx = c, hr_method = m, hr_url = u, hr_headers = [], hr_body = b\<rparr> \<Longrightarrow> P q"
  shows "calls env P (NewRequest env c m u b f (\<lambda>req.
    attempt (Do env (h req)) g (\<lambda>resp. ret (resp_status resp, read_limited bodyLimit resp))))"
  unfolding calls_def
proof (intro allI impI)
  fix w r w'
  assume run: "NewRequest env c m u b f (\<lambda>req. attempt (Do env (h req)) g
      (\<lambda>resp. ret (resp_status resp, read_limited bodyLimit resp))) w = (r, w')"
  define q where "q = h \<lparr>hr_ctx = c, hr_method = m, hr_url = u, hr_headers = [], hr_body = b\<rparr>"
  show "(\<exists>e. r = Inl e \<and> trace w' = trace w) \<or>
     (\<exists>q. P q \<and> trace w' = trace w @ [EHttp q]
        \<and> (case net env (trace w) q of Inl _ \<Rightarrow> \<exists>e. r = Inl e
           | Inr rep \<Rightarrow> r = Inr (resp_status rep, read_limited bodyLimit rep)))"
  proof (cases "url_err env u")
    case (Some e)
    with run show ?thesis by (auto simp: NewRequest_def)
  next
    case None
    then have "attempt (Do env q) g (\<lambda>resp. ret (resp_status resp, read_limited bodyLimit resp)) w = (r, w')"
      using run by (simp add: NewRequest_def q_def)
    then show ?thesis
      using assms [OF q_def] by (intro disjI2 exI [of _ q]) (auto simp: attempt_def Do_def split: sum.splits)
  qed
qed

text \<open>
  What a call does is what the provider does with its request (\<open>A\<close>), as far as the steps after it
  can tell from the reply.
\<close>

lemma call_acts:
  assumes "calls env P d" "\<And>tr q. P q \<Longrightarrow> A (keys tr) (net env tr q) (keys (tr @ [EHttp q]))"
    and "\<And>x. emits (\<lambda>_. False) (k x)"
    and "\<And>e s. Q (Inl e) s s" "\<And>e e' s s'. A s (Inl e) s' \<Longrightarrow> Q (Inl e') s s'"
    and "\<And>rep s s' w r w'. A s (Inr rep) s' \<Longrightarrow> k (resp_status rep, read_limited bodyLimit rep) w = (r, w')
      \<Longrightarrow> Q r s s'"
  shows "acts Q keys (attempt d f k)"
  unfolding acts_def
proof (intro allI impI)
  fix w r w' assume run: "attempt d f k w = (r, w')"
  obtain x w1 where d: "d w = (x, w1)" by fastforce
  have w': "trace w' = trace w1"
  proof (cases x)
    case (Inl e)
    with run d show ?thesis by simp
  next
    case (Inr y)
    with run d have "k y w1 = (r, w')" by (simp add: attempt_def)
    with assms(3) show ?thesis by (rule silent_trace)
  qed
  from assms(1) d show "Q r (keys (trace w)) (keys (trace w'))"
  proof (cases rule: calls_cases)
    case (1 e)
    then show ?thesis using run d w' assms(4) by auto
  next
    case (2 q)
    then have st: "A (keys (trace w)) (net env (trace w) q) (keys (trace w'))"
      using assms(2) w' by simp
    show ?thesis
    proof (cases "net env (trace w) q")
      case (Inl e)
      with 2 run d st assms(5) show ?thesis by auto
    next
      case (Inr rep)
      with 2 run d have "k (resp_status rep, read_limited bodyLimit rep) w1 = (r, w')"
        by (simp add: attempt_def)
      with st Inr assms(6) show ?thesis by simp
    qed
  qed
qed

section \<open>Key management APIs\<close>

definition plain_id :: "string \<Rightarrow> bool" where
  "plain_id kid \<longleftrightarrow> kid \<noteq> [] \<and> list_all unreserved kid"

text \<open>
  What an API does with one request: a creation answered with a status in \<open>ok\<close> adds a fresh key,
  which \<open>decode\<close> reads from the reply; a deletion answered with a status in \<open>gone\<close> (the key has
  been removed, or there is none) leaves no such key; a request of another outcome may or may not
  have been carried out.
\<close>

definition key_created ::
  "nat set \<Rightarrow> (string \<Rightarrow> (string \<times> string) option) \<Rightarrow> store \<Rightarrow> gerr + http_response \<Rightarrow> store \<Rightarrow> bool"
where
  "key_created ok decode s reply s' \<longleftrightarrow> gained s s' \<and> (\<forall>rep. reply = Inr rep \<longrightarrow> resp_status rep \<in> ok \<longrightarrow>
     (\<exists>kid key. decode (read_limited bodyLimit rep) = Some (kid, key) \<and> kid \<notin> dom s
        \<and> s' = s(kid \<mapsto> key)))"

definition key_deleted :: "nat set \<Rightarrow> string \<Rightarrow> store \<Rightarrow> gerr + http_response \<Rightarrow> store \<Rightarrow> bool" where
  "key_deleted gone kid s reply s' \<longleftrightarrow> (s' = s \<or> s' = s(kid := None)) \<and> (\<forall>rep. reply = Inr rep \<longrightarrow>
     resp_status rep \<in> gone \<longrightarrow> s' = s(kid := None))"

definition key_read :: "(store \<Rightarrow> nat \<Rightarrow> string \<Rightarrow> bool) \<Rightarrow> store \<Rightarrow> gerr + http_response \<Rightarrow> store \<Rightarrow> bool" where
  "key_read shows s reply s' \<longleftrightarrow> s' = s \<and> (\<forall>rep. reply = Inr rep \<longrightarrow>
     shows s (resp_status rep) (read_limited bodyLimit rep))"

text \<open>
  \<open>mine\<close>: the requests with the adapter's own admin credentials; \<open>creates q decode\<close>,
  \<open>deletes q kid\<close>, \<open>reads q kid\<close>: the forms of request; \<open>shows\<close>: what the reply to a reading tells of
  the keys.
\<close>

record key_api =
  ka_mine :: "event \<Rightarrow> bool"
  ka_creates :: "http_request \<Rightarrow> (string \<Rightarrow> (string \<times> string) option) \<Rightarrow> bool"
  ka_created :: "nat set"
  ka_deletes :: "http_request \<Rightarrow> string \<Rightarrow> bool"
  ka_deleted :: "nat set"
  ka_reads :: "http_request \<Rightarrow> string \<Rightarrow> bool"
  ka_shows :: "string \<Rightarrow> store \<Rightarrow> nat \<Rightarrow> string \<Rightarrow> bool"

definition behaves :: "key_api \<Rightarrow> env \<Rightarrow> (event list \<Rightarrow> store) \<Rightarrow> bool" where
  "behaves api env keys \<longleftrightarrow>
     (\<forall>tr e. \<not> ka_mine api e \<longrightarrow> keys (tr @ [e]) = keys tr) \<and>
     (\<forall>tr q. ka_mine api (EHttp q) \<longrightarrow>
        (\<forall>decode. ka_creates api q decode \<longrightarrow>
           key_created (ka_created api) decode (keys tr) (net env tr q) (keys (tr @ [EHttp q]))) \<and>
        (\<forall>kid. ka_deletes api q kid \<longrightarrow>
           key_deleted (ka_deleted api) kid (keys tr) (net env tr q) (keys (tr @ [EHttp q]))) \<and>
        (\<forall>kid. ka_reads api q kid \<longrightarrow>
           key_read (ka_shows api kid) (keys tr) (net env tr q) (keys (tr @ [EHttp q]))))"

lemma behaves_other: "behaves api env keys \<Longrightarrow> \<not> ka_mine api e \<Longrightarrow> keys (tr @ [e]) = keys tr"
  by (simp add: behaves_def)

text \<open>What the calls of an adapter make of it; \<open>g\<close> is the key that is made.\<close>

fun made :: "('a \<Rightarrow> string \<times> string) \<Rightarrow> gerr + 'a \<Rightarrow> store \<Rightarrow> store \<Rightarrow> bool" where
  "made g (Inl _) s s' \<longleftrightarrow> gained s s'"
| "made g (Inr x) s s' \<longleftrightarrow> fst (g x) \<notin> dom s \<and> s' = s(fst (g x) \<mapsto> snd (g x))"

fun replaced :: "gerr + Result \<Rightarrow> store \<Rightarrow> store \<Rightarrow> bool" where
  "replaced (Inl _) s s' \<longleftrightarrow> gained s s'"
| "replaced (Inr res) s s' \<longleftrightarrow> res_CredentialID res \<notin> dom s \<and> s' = s(res_CredentialID res \<mapsto> res_Credential res)"

fun removed :: "string \<Rightarrow> gerr + unit \<Rightarrow> store \<Rightarrow> store \<Rightarrow> bool" where
  "removed kid (Inl _) s s' \<longleftrightarrow> s' = s \<or> s' = s(kid := None)"
| "removed kid (Inr _) s s' \<longleftrightarrow> s' = s(kid := None)"

fun seen :: "('a \<Rightarrow> store \<Rightarrow> bool) \<Rightarrow> gerr + 'a \<Rightarrow> store \<Rightarrow> store \<Rightarrow> bool" where
  "seen R (Inl _) s s' \<longleftrightarrow> s' = s"
| "seen R (Inr x) s s' \<longleftrightarrow> s' = s \<and> R x s"

abbreviation told :: "string \<Rightarrow> gerr + CredentialStatus \<Rightarrow> store \<Rightarrow> store \<Rightarrow> bool" where
  "told cid \<equiv> seen (\<lambda>st s. cs_CredentialID st = cid \<and> cs_Active st = (cid \<in> dom s))"

lemma gained_refl [simp]: "gained s s"
  by (simp add: gained_def)

lemma create_acts:
  assumes "behaves api env keys" "calls env (\<lambda>q. ka_mine api (EHttp q) \<and> ka_creates api q decode) d"
    and "\<And>x. emits (\<lambda>_. False) (k x)"
    and "\<And>st b w x w'. k (st, b) w = (Inr x, w') \<Longrightarrow> st \<in> ka_created api \<and> decode b = Some (g x)"
  shows "acts (made g) keys (attempt d f k)"
proof (rule call_acts [OF assms(2) _ assms(3), where A = "key_created (ka_created api) decode"])
  fix rep s s' w r w'
  assume created: "key_created (ka_created api) decode s (Inr rep) s'"
    and run: "k (resp_status rep, read_limited bodyLimit rep) w = (r, w')"
  show "made g r s s'"
  proof (cases r)
    case (Inl e)
    with created show ?thesis by (simp add: key_created_def)
  next
    case (Inr x)
    with created assms(4) run show ?thesis unfolding key_created_def by force
  qed
qed (use assms(1) in \<open>auto simp: behaves_def key_created_def\<close>)

lemma delete_acts:
  assumes "behaves api env keys" "calls env (\<lambda>q. ka_mine api (EHttp q) \<and> ka_deletes api q kid) d"
    and "\<And>x. emits (\<lambda>_. False) (k x)"
    and "\<And>st b w x w'. k (st, b) w = (Inr x, w') \<Longrightarrow> st \<in> ka_deleted api"
  shows "acts (removed kid) keys (attempt d f k)"
proof (rule call_acts [OF assms(2) _ assms(3), where A = "key_deleted (ka_deleted api) kid"])
  fix rep s s' w r w'
  assume deleted: "key_deleted (ka_deleted api) kid s (Inr rep) s'"
    and run: "k (resp_status rep, read_limited bodyLimit rep) w = (r, w')"
  show "removed kid r s s'"
  proof (cases r)
    case (Inl e)
    with deleted show ?thesis by (simp add: key_deleted_def)
  next
    case (Inr x)
    with deleted assms(4) run show ?thesis unfolding key_deleted_def by force
  qed
qed (use assms(1) in \<open>auto simp: behaves_def key_deleted_def\<close>)

lemma read_acts:
  assumes "behaves api env keys" "calls env (\<lambda>q. ka_mine api (EHttp q) \<and> ka_reads api q kid) d"
    and "\<And>x. emits (\<lambda>_. False) (k x)"
    and "\<And>st b w x w' s. k (st, b) w = (Inr x, w') \<Longrightarrow> ka_shows api kid s st b \<Longrightarrow> R x s"
  shows "acts (seen R) keys (attempt d f k)"
proof (rule call_acts [OF assms(2) _ assms(3), where A = "key_read (ka_shows api kid)"])
  fix rep s s' w r w'
  assume read: "key_read (ka_shows api kid) s (Inr rep) s'"
    and run: "k (resp_status rep, read_limited bodyLimit rep) w = (r, w')"
  show "seen R r s s'"
  proof (cases r)
    case (Inl e)
    with read show ?thesis by (simp add: key_read_def)
  next
    case (Inr x)
    with read assms(4) run show ?thesis unfolding key_read_def by force
  qed
qed (use assms(1) in \<open>auto simp: behaves_def key_read_def\<close>)

lemma start_cleanup_result:
  "start_cleanup n k req (Now env (\<lambda>t. ret (f t))) w = (r, w') \<Longrightarrow> (\<exists>t. r = Inr (f t)) \<and> trace w' = trace w"
  by (auto simp: start_cleanup_def then_do_def spawn_def Now_def split: option.splits)

text \<open>The last step of a rotation: from the key made to the result.\<close>

lemma made_replaced:
  assumes "acts (made g) keys m"
    and "\<And>x t. res_CredentialID (mk x t) = fst (g x) \<and> res_Credential (mk x t) = snd (g x)"
  shows "acts replaced keys (attempt m f (\<lambda>x. start_cleanup n k rq (Now env (\<lambda>t. ret (mk x t)))))"
proof (rule acts_then_silent [OF assms(1)], goal_cases)
  case (2 x)
  show ?case by (intro trace_mono)
next
  case (3 x w r w' s s')
  then show ?case using assms(2) by (auto dest!: start_cleanup_result)
qed simp

lemmas made_replaced_pair = made_replaced [where g = "\<lambda>p. p",
  unfolded case_prod_unfold [symmetric]]

lemma acts_seen_map:
  assumes "acts (seen R) keys m" "\<And>x. emits (\<lambda>_. False) (k x)"
    and "\<And>x w y w' s. k x w = (Inr y, w') \<Longrightarrow> R x s \<Longrightarrow> R' y s"
  shows "acts (seen R') keys (attempt m f k)"
proof (rule acts_then_silent [OF assms(1) _ assms(2)])
  fix x w r w' s s'
  assume "seen R (Inr x) s s'" "k x w = (r, w')"
  then show "seen R' r s s'" using assms(3) by (cases r) auto
qed simp

lemma acts_removed_map:
  assumes "acts (removed kid) keys m"
  shows "acts (removed kid) keys (attempt m f (\<lambda>_. ret ()))"
  by (rule acts_then_silent [OF assms]) (auto intro: trace_mono)

text \<open>The commands whose ids, where there are any, need no escaping in a URL.\<close>

fun plain_command :: "command \<Rightarrow> bool" where
  "plain_command (CRotate rq) \<longleftrightarrow> True"
| "plain_command (CRevoke rv) \<longleftrightarrow> rv_CredentialID rv = [] \<or> plain_id (rv_CredentialID rv)"
| "plain_command (CStatus cid) \<longleftrightarrow> cid = [] \<or> plain_id cid"

text \<open>From what the operations do to the keys to the laws of the store.\<close>

lemma perform_steps:
  assumes "\<And>rq. plain (CRotate rq) \<Longrightarrow> acts replaced keys (Rotate a c rq)"
    and "\<And>rv. plain (CRevoke rv) \<Longrightarrow> acts (removed (rv_CredentialID rv)) keys (Revoke a c rv)"
    and "\<And>cid. plain (CStatus cid) \<Longrightarrow> acts (told cid) keys (Status a c cid)"
    and "plain cmd" "perform a c cmd w = (r, w')"
  shows "store_step cmd r (keys (trace w)) (keys (trace w'))"
proof (cases cmd)
  case (CRotate rq)
  obtain x w1 where x: "Rotate a c rq w = (x, w1)" by fastforce
  from actsD [OF assms(1) x] assms(4,5) x CRotate show ?thesis
    by (cases x) (auto simp: store_step_simps)
next
  case (CRevoke rv)
  obtain x w1 where x: "Revoke a c rv w = (x, w1)" by fastforce
  from actsD [OF assms(2) x] assms(4,5) x CRevoke show ?thesis
    by (cases x) (auto simp: store_step_simps)
next
  case (CStatus cid)
  obtain x w1 where x: "Status a c cid w = (x, w1)" by fastforce
  from actsD [OF assms(3) x] assms(4,5) x CStatus show ?thesis
    by (cases x) (auto simp: store_step_simps)
qed

section \<open>Confirmed deletions\<close>

definition confirmed :: "env \<Rightarrow> key_api \<Rightarrow> bool" where
  "confirmed env api \<longleftrightarrow> (\<forall>tr q kid. ka_mine api (EHttp q) \<longrightarrow> ka_deletes api q kid \<longrightarrow>
     (\<exists>rep. net env tr q = Inr rep \<and> resp_status rep \<in> ka_deleted api))"

lemma request_sent:
  "url_err env u = None \<Longrightarrow> trace (snd (NewRequest env c m u b f (\<lambda>req.
    attempt (Do env (h req)) g (\<lambda>resp. ret (resp_status resp, read_limited bodyLimit resp))) w)) \<noteq> trace w"
  by (auto simp: NewRequest_def attempt_def Do_def split: sum.split)

lemma delete_succeeds:
  assumes "calls env (\<lambda>q. ka_mine api (EHttp q) \<and> ka_deletes api q kid) d" "confirmed env api"
    and "\<And>w. trace (snd (d w)) \<noteq> trace w"
    and "\<And>st b w. st \<in> ka_deleted api \<Longrightarrow> \<exists>w'. k (st, b) w = (Inr (), w')"
  shows "\<exists>w'. attempt d f k w = (Inr (), w')"
proof -
  obtain x w1 where d: "d w = (x, w1)" by fastforce
  from assms(1) d show ?thesis
  proof (cases rule: calls_cases)
    case (1 e)
    with assms(3) [of w] d show ?thesis by simp
  next
    case (2 q)
    then obtain rep where "net env (trace w) q = Inr rep" "resp_status rep \<in> ka_deleted api"
      using assms(2) unfolding confirmed_def by blast
    with 2 d assms(4) show ?thesis by (simp add: attempt_def)
  qed
qed

section \<open>A provider with one key\<close>

text \<open>
  The smallest provider with a state: it holds one key, which can be read and deleted, and makes no
  others.
\<close>

definition one_key :: "(event \<Rightarrow> bool) \<Rightarrow> string \<Rightarrow> event list \<Rightarrow> store" where
  "one_key del kid tr = (if list_ex del tr then Map.empty else [kid \<mapsto> ''s0''])"

definition one_key_env :: "(event \<Rightarrow> bool) \<Rightarrow> (bool \<Rightarrow> http_request \<Rightarrow> http_response) \<Rightarrow> env" where
  "one_key_env del reply = (transit_vault ''k'')\<lparr>net := \<lambda>tr q. Inr (reply (list_ex del tr) q)\<rparr>"

lemma one_key_behaves:
  assumes "\<And>e. del e \<Longrightarrow> ka_mine api e"
    and "\<And>q d deleted. ka_creates api q d \<Longrightarrow> \<not> del (EHttp q) \<and> resp_status (reply deleted q) \<notin> ka_created api"
    and "\<And>q k. ka_mine api (EHttp q) \<Longrightarrow> ka_deletes api q k \<Longrightarrow> del (EHttp q) = (k = kid)"
    and "\<And>q k deleted. ka_reads api q k \<Longrightarrow> \<not> del (EHttp q) \<and>
      ka_shows api k (if deleted then Map.empty else [kid \<mapsto> ''s0'']) (resp_status (reply deleted q))
        (read_limited bodyLimit (reply deleted q))"
  shows "behaves api (one_key_env del reply) (one_key del kid)"
proof -
  have net: "net (one_key_env del reply) tr q = Inr (reply (list_ex del tr) q)" for tr q
    by (simp add: one_key_env_def)
  have deleted: "key_deleted (ka_deleted api) k (one_key del kid tr) (net (one_key_env del reply) tr q)
      (one_key del kid (tr @ [EHttp q]))" if "ka_mine api (EHttp q)" "ka_deletes api q k" for tr q k
    using assms(3) [OF that] by (auto simp: key_deleted_def one_key_def)
  have created: "key_created (ka_created api) d (one_key del kid tr) (net (one_key_env del reply) tr q)
      (one_key del kid (tr @ [EHttp q]))" if "ka_creates api q d" for tr q d
    using assms(2) [OF that, of "list_ex del tr"] by (simp add: key_created_def one_key_def net)
  have read: "key_read (ka_shows api k) (one_key del kid tr) (net (one_key_env del reply) tr q)
      (one_key del kid (tr @ [EHttp q]))" if "ka_reads api q k" for tr q k
    using assms(4) [OF that, of "list_ex del tr"] by (simp add: key_read_def one_key_def net)
  have other: "one_key del kid (tr @ [e]) = one_key del kid tr" if "\<not> ka_mine api e" for tr e
    using that assms(1) by (auto simp: one_key_def)
  show ?thesis unfolding behaves_def using deleted created read other by blast
qed

end
