(* ===== verification/Auth0_Tenant.thy ===== *)
theory Auth0_Tenant
  imports Key_Store Auth0_Engine
begin

text \<open>
  Auth0 as both programs see it: a map from applications to their current client secrets, which
  the rotation of a secret replaces in place.  The engine authenticates with the secret of an
  application of its own, so that its configuration must keep up with this map; a lease is the
  secret of another application for as long as nobody rotates it.
\<close>

section \<open>The tenant\<close>

definition secret_rotation :: "string \<Rightarrow> event \<Rightarrow> string \<Rightarrow> bool" where
  "secret_rotation base e app = (case e of
     EHttp q \<Rightarrow> plain_id app \<and> hr_method q = ''POST''
       \<and> hr_url q = base @ ''/api/v2/clients/'' @ app @ ''/rotate-secret''
   | EVault _ _ \<Rightarrow> False)"

text \<open>
  What a rotation does: a reply of status 200 carries the new secret, which differs from the old
  one; another status says that nothing was done; without a reply it is not known.
\<close>

definition secret_rotated :: "string \<Rightarrow> store \<Rightarrow> gerr + http_response \<Rightarrow> store \<Rightarrow> bool" where
  "secret_rotated app s reply s' \<longleftrightarrow> (case reply of
     Inl _ \<Rightarrow> s' = s \<or> (\<exists>x. s' = s(app \<mapsto> x))
   | Inr rep \<Rightarrow>
       if resp_status rep = 200
       then \<exists>x. decode_client_secret (read_limited (2 ^ 20) rep) = Some x \<and> x \<noteq> [] \<and> s app \<noteq> Some x \<and> s' = s(app \<mapsto> x)
       else s' = s)"

definition tenant :: "string \<Rightarrow> env \<Rightarrow> (event list \<Rightarrow> store) \<Rightarrow> bool" where
  "tenant base env secrets \<longleftrightarrow>
     (\<forall>tr e. (\<forall>app. \<not> secret_rotation base e app) \<longrightarrow> secrets (tr @ [e]) = secrets tr) \<and>
     (\<forall>tr q app. secret_rotation base (EHttp q) app \<longrightarrow>
        secret_rotated app (secrets tr) (net env tr q) (secrets (tr @ [EHttp q])))"

definition delivers :: "env \<Rightarrow> bool" where
  "delivers env \<longleftrightarrow> (\<forall>tr q. \<exists>rep. net env tr q = Inr rep)"

text \<open>
  The effect of a rotation that returns a secret (\<open>g\<close> of its result), or fails: it fails without
  effect, except that a network that loses replies can lose the one with the new secret.
\<close>

fun renewed :: "env \<Rightarrow> string \<Rightarrow> ('a \<Rightarrow> string) \<Rightarrow> gerr + 'a \<Rightarrow> store \<Rightarrow> store \<Rightarrow> bool" where
  "renewed env app g (Inl _) s s' \<longleftrightarrow> s' = s \<or> (\<not> delivers env \<and> (\<exists>x. s' = s(app \<mapsto> x)))"
| "renewed env app g (Inr y) s s' \<longleftrightarrow> s app \<noteq> Some (g y) \<and> s' = s(app \<mapsto> g y)"

lemma secret_rotation_unique:
  "secret_rotation base e app \<Longrightarrow> secret_rotation base e app' \<Longrightarrow> app' = app"
  by (cases e) (auto simp: secret_rotation_def)

lemma tenant_other: "tenant base env secrets \<Longrightarrow> (\<And>app. \<not> secret_rotation base e app) \<Longrightarrow> secrets (tr @ [e]) = secrets tr"
  by (simp add: tenant_def)

lemma tenant_others:
  assumes "tenant base env secrets" "list_all (\<lambda>e. \<forall>app. \<not> secret_rotation base e app) es"
  shows "secrets (tr @ es) = secrets tr"
  using assms(2)
proof (induction es rule: rev_induct)
  case (snoc e es)
  then have "secrets ((tr @ es) @ [e]) = secrets (tr @ es)" by (intro tenant_other [OF assms(1)]) simp
  with snoc show ?case by simp
qed simp

abbreviation unchanged :: "gerr + 'a \<Rightarrow> store \<Rightarrow> store \<Rightarrow> bool" where
  "unchanged r s s' \<equiv> s' = s"

lemma acts_unchanged:
  assumes "tenant base env secrets" "emits (\<lambda>e. \<forall>app. \<not> secret_rotation base e app) m"
  shows "acts unchanged secrets m"
  unfolding acts_def
proof (intro allI impI)
  fix w r w' assume m: "m w = (r, w')"
  obtain es where "trace w' = trace w @ es" "list_all (\<lambda>e. \<forall>app. \<not> secret_rotation base e app) es"
    using emitsD [OF assms(2), of w] m by auto
  then show "secrets (trace w') = secrets (trace w)" by (simp add: tenant_others [OF assms(1)])
qed

lemma acts_after_unchanged:
  assumes "acts unchanged secrets m" "\<And>e s. Q (Inl e) s s" "\<And>x. acts Q secrets (k x)"
  shows "acts Q secrets (attempt m f k)"
  unfolding acts_def
proof (intro allI impI)
  fix w r w' assume run: "attempt m f k w = (r, w')"
  obtain x w1 where m: "m w = (x, w1)" by fastforce
  note t = actsD [OF assms(1) m]
  show "Q r (secrets (trace w)) (secrets (trace w'))"
  proof (cases x)
    case (Inl e)
    with run m t assms(2) show ?thesis by (auto simp: attempt_def)
  next
    case (Inr y)
    with run m have "k y w1 = (r, w')" by (simp add: attempt_def)
    from actsD [OF assms(3) this] t show ?thesis by simp
  qed
qed

text \<open>The request for a rotation, with what is made of the reply.\<close>

lemma rotation_acts:
  assumes t: "tenant base env secrets" and q: "\<And>q. q = h \<lparr>hr_ctx = c, hr_method = ''POST'',
      hr_url = base @ ''/api/v2/clients/'' @ app @ ''/rotate-secret'', hr_headers = [], hr_body = None\<rparr> \<Longrightarrow>
      secret_rotation base (EHttp q) app"
    and k: "\<And>x. emits (\<lambda>_. False) (k x)" "\<And>rep w y w'. k rep w = (Inr y, w') \<Longrightarrow>
      resp_status rep = 200 \<and> decode_client_secret (read_limited (2 ^ 20) rep) = Some (g y)"
      "\<And>rep w e w' x. k rep w = (Inl e, w') \<Longrightarrow> resp_status rep = 200 \<Longrightarrow>
        decode_client_secret (read_limited (2 ^ 20) rep) = Some x \<Longrightarrow> x = []"
  shows "acts (renewed env app g) secrets (NewRequest env c ''POST''
    (base @ ''/api/v2/clients/'' @ app @ ''/rotate-secret'') None f (\<lambda>req. attempt (Do env (h req)) f' k))"
  unfolding acts_def
proof (intro allI impI)
  fix w r w'
  assume run: "NewRequest env c ''POST'' (base @ ''/api/v2/clients/'' @ app @ ''/rotate-secret'') None f
      (\<lambda>req. attempt (Do env (h req)) f' k) w = (r, w')"
  let ?u = "base @ ''/api/v2/clients/'' @ app @ ''/rotate-secret''"
  define q where "q = h \<lparr>hr_ctx = c, hr_method = ''POST'', hr_url = ?u, hr_headers = [], hr_body = None\<rparr>"
  show "renewed env app g r (secrets (trace w)) (secrets (trace w'))"
  proof (cases "url_err env ?u")
    case (Some e)
    with run show ?thesis by (auto simp: NewRequest_def)
  next
    case None
    then have do: "attempt (Do env q) f' k w = (r, w')" using run by (simp add: NewRequest_def q_def)
    have st: "secret_rotated app (secrets (trace w)) (net env (trace w) q) (secrets (trace w @ [EHttp q]))"
      using t q [OF q_def] unfolding tenant_def by blast
    show ?thesis
    proof (cases "net env (trace w) q")
      case (Inl e)
      then have "\<not> delivers env" unfolding delivers_def by (metis sum.distinct(1))
      with Inl show ?thesis using do st by (auto simp: attempt_def Do_def secret_rotated_def)
    next
      case (Inr rep)
      then have kr: "k rep (w\<lparr>trace := trace w @ [EHttp q]\<rparr>) = (r, w')" using do by (simp add: attempt_def Do_def)
      have tr: "trace w' = trace w @ [EHttp q]" using silent_trace [OF k(1) kr] by simp
      show ?thesis
      proof (cases r)
        case (Inl e)
        with k(3) kr have "resp_status rep \<noteq> 200 \<or> (\<forall>x. decode_client_secret (read_limited (2 ^ 20) rep) = Some x
            \<longrightarrow> x = [])" by blast
        with Inl show ?thesis using st \<open>net env (trace w) q = Inr rep\<close> tr
          by (auto simp: secret_rotated_def split: if_splits)
      next
        case (Inr y)
        with k(2) kr have "resp_status rep = 200" "decode_client_secret (read_limited (2 ^ 20) rep) = Some (g y)" by blast+
        with Inr st \<open>net env (trace w) q = Inr rep\<close> tr show ?thesis by (auto simp: secret_rotated_def)
      qed
    qed
  qed
qed

lemma no_rotation [simp]:
  "\<not> secret_rotation base (EVault tok op) app"
  "hr_method q \<noteq> ''POST'' \<Longrightarrow> \<not> secret_rotation base (EHttp q) app"
  "hr_url q = base @ ''/oauth/token'' \<Longrightarrow> \<not> secret_rotation base (EHttp q) app"
  by (simp_all add: secret_rotation_def)

section \<open>The broker's adapter\<close>

lemma managementToken_unchanged:
  "tenant (a0_baseURL a) env secrets \<Longrightarrow> acts unchanged secrets (managementToken env a c)"
  by (rule acts_unchanged, assumption)
     (auto simp: managementToken_def fetch_token_def Let_def intro!: trace_mono split: prod.split)

lemma auth0_Rotate_acts:
  assumes "tenant (a0_baseURL a) env secrets" "plain_id (rq_ProviderID rq)"
  shows "acts (renewed env (rq_ProviderID rq) res_Credential) secrets (auth0_Rotate env a c rq)"
  unfolding auth0_Rotate_def
  by (intro acts_after_unchanged [OF managementToken_unchanged [OF assms(1)]] rotation_acts [OF assms(1)])
     (use assms(2) in \<open>auto simp: secret_rotation_def Let_def act_eq_Inr intro!: trace_mono
        simp: check_def of_option_def Now_def emits_def split: if_splits option.splits\<close>)

section \<open>The engine's calls\<close>

lemma engine_managementToken_unchanged:
  "tenant (a0_baseURL a) env secrets \<Longrightarrow> acts unchanged secrets (engine_managementToken env a c)"
  by (rule acts_unchanged, assumption)
     (auto simp: engine_managementToken_def engine_fetch_token_def Let_def intro!: trace_mono split: prod.split)

lemma rotateSecret_acts:
  assumes "tenant (a0_baseURL a) env secrets" "plain_id app"
  shows "acts (renewed env app (\<lambda>s. s)) secrets (rotateSecret env a c app)"
  unfolding rotateSecret_def
  by (intro acts_after_unchanged [OF engine_managementToken_unchanged [OF assms(1)]] rotation_acts [OF assms(1)])
     (use assms(2) in \<open>auto simp: secret_rotation_def Let_def act_eq_Inr check_def of_option_def
        intro!: trace_mono split: if_splits option.splits\<close>)

lemma appActive_unchanged:
  assumes "tenant (a0_baseURL a) env secrets"
  shows "acts unchanged secrets (appActive env a c app)"
  unfolding appActive_def
  by (intro acts_after_unchanged [OF engine_managementToken_unchanged [OF assms]] acts_unchanged [OF assms])
     (auto intro!: trace_mono)

lemma transitEncrypt_unchanged:
  "tenant base env secrets \<Longrightarrow> acts unchanged secrets (transitEncrypt env key p)"
  by (rule acts_unchanged, assumption)
     (auto simp: transitEncrypt_def Let_def intro!: trace_mono split: option.split)

lemma storage_kept: "sealed_writes [] m \<Longrightarrow> m w = (r, w') \<Longrightarrow> storage w' = storage w"
  using sealed_writesD [of "[]" m w] by (intro ext) auto

lemma engine_calls_storage:
  "rotateSecret env a c app w = (r1, w') \<Longrightarrow> storage w' = storage w"
  "appActive env a c app w = (r2, w') \<Longrightarrow> storage w' = storage w"
  "transitEncrypt env key p w = (r3, w') \<Longrightarrow> storage w' = storage w"
  by (erule storage_kept [rotated], rule sealed_writes_requests)+

section \<open>Handlers\<close>

text \<open>\<open>touches secrets app m\<close>: whatever \<open>m\<close> does, it changes the secret of no application but \<open>app\<close>.\<close>

definition at_most :: "string \<Rightarrow> store \<Rightarrow> store \<Rightarrow> bool" where
  "at_most app s s' \<longleftrightarrow> (\<forall>x. x \<noteq> app \<longrightarrow> s' x = s x)"

definition touches :: "(event list \<Rightarrow> store) \<Rightarrow> string \<Rightarrow> 'a act \<Rightarrow> bool" where
  "touches secrets app m \<longleftrightarrow> acts (\<lambda>_. at_most app) secrets m"

named_theorems touches_intro

lemma touchesD: "touches secrets app m \<Longrightarrow> m w = (r, w') \<Longrightarrow> at_most app (secrets (trace w)) (secrets (trace w'))"
  unfolding touches_def by (rule actsD)

lemma touches_unchanged: "acts unchanged secrets m \<Longrightarrow> touches secrets app m"
  by (simp add: touches_def acts_def at_most_def)

lemma touches_simple [touches_intro]: "touches secrets app (ret x)" "touches secrets app (fail e)"
  by (simp_all add: touches_def acts_def at_most_def)

lemma touches_attempt [touches_intro]:
  "touches secrets app m \<Longrightarrow> (\<And>x. touches secrets app (k x)) \<Longrightarrow> touches secrets app (attempt m f k)"
  by (auto simp: touches_def acts_def attempt_def at_most_def split: prod.splits sum.splits)

lemma touches_on_result [touches_intro]:
  "touches secrets app m \<Longrightarrow> (\<And>x. touches secrets app (k x)) \<Longrightarrow> touches secrets app (on_result m k)"
  by (auto simp: touches_def acts_def on_result_def at_most_def split: prod.splits)

lemma touches_Now [touches_intro]: "(\<And>t. touches secrets app (k t)) \<Longrightarrow> touches secrets app (Now env k)"
  unfolding touches_def by (rule acts_Now)

lemma touches_check [touches_intro]: "touches secrets app m \<Longrightarrow> touches secrets app (check b e m)"
  unfolding touches_def by (rule acts_check) (simp_all add: at_most_def)

lemma touches_client [touches_intro]: "touches secrets app (k (client_of cfg)) \<Longrightarrow> touches secrets app (with_client cfg k)"
  unfolding touches_def acts_def with_client_eq by (metis no_token_simps(2))

lemma touches_Put [touches_intro]: "touches secrets app (storage_Put env k v)"
  by (simp add: touches_def acts_def storage_Put_def at_most_def Let_def split: option.split)

lemma client_of_base [simp]: "a0_baseURL (client_of cfg) = ''https://'' @ cfg_string cfg ''domain''"
  by (simp add: client_of_def)

lemma renewed_at_most: "renewed env app g r s s' \<Longrightarrow> at_most app s s'"
  by (cases r) (auto simp: at_most_def)

lemma touches_calls [touches_intro]:
  assumes "tenant (''https://'' @ cfg_string cfg ''domain'') env secrets"
  shows "plain_id app \<Longrightarrow> touches secrets app (rotateSecret env (client_of cfg) c app)"
    and "touches secrets x (appActive env (client_of cfg) c app)" "touches secrets x (transitEncrypt env key p)"
proof -
  show "touches secrets app (rotateSecret env (client_of cfg) c app)" if "plain_id app"
    using rotateSecret_acts [of "client_of cfg" env secrets app c] that assms
    by (auto simp: touches_def acts_def intro: renewed_at_most)
qed (use assms in \<open>auto intro!: touches_unchanged appActive_unchanged transitEncrypt_unchanged\<close>)

text \<open>A handler goes on with the configuration that is stored, or does nothing.\<close>

definition touches_if :: "(world \<Rightarrow> bool) \<Rightarrow> (event list \<Rightarrow> store) \<Rightarrow> string \<Rightarrow> 'a act \<Rightarrow> bool" where
  "touches_if pre secrets app m \<longleftrightarrow> (\<forall>w r w'. pre w \<longrightarrow> m w = (r, w') \<longrightarrow>
     at_most app (secrets (trace w)) (secrets (trace w')))"

lemma touches_config:
  assumes "touches secrets app m0" "touches secrets app (m cfg)"
  shows "touches_if (\<lambda>w. storage w config_key = Some cfg) secrets app
    (attempt (getConfig env) f (\<lambda>c. case c of None \<Rightarrow> m0 | Some cfg \<Rightarrow> m cfg))"
  unfolding touches_if_def
proof (intro allI impI)
  fix w r w'
  assume cfg: "storage w config_key = Some cfg"
    and run: "attempt (getConfig env) f (\<lambda>c. case c of None \<Rightarrow> m0 | Some cfg \<Rightarrow> m cfg) w = (r, w')"
  obtain x w1 where g: "getConfig env w = (x, w1)" by fastforce
  have w1: "trace w1 = trace w" using getConfig_trace [of env w] g by simp
  show "at_most app (secrets (trace w)) (secrets (trace w'))"
  proof (cases x)
    case (Inl e)
    then show ?thesis using run g w1 by (auto simp: attempt_def at_most_def)
  next
    case (Inr c)
    show ?thesis
    proof (cases c)
      case None
      then have "m0 w1 = (r, w')" using run g Inr by (simp add: attempt_def)
      from touchesD [OF assms(1) this] show ?thesis by (simp add: w1)
    next
      case (Some cfg')
      then have "cfg' = cfg" using getConfig_Some g Inr cfg by fastforce
      then have "m cfg w1 = (r, w')" using run g Inr Some by (simp add: attempt_def)
      from touchesD [OF assms(2) this] show ?thesis by (simp add: w1)
    qed
  qed
qed

lemma touches_if_check: "(\<not> b \<Longrightarrow> touches_if pre secrets app m) \<Longrightarrow>
  touches_if pre secrets app (check b e m)"
  by (auto simp: touches_if_def check_def at_most_def)

lemma handlers_touch:
  assumes "tenant (''https://'' @ cfg_string cfg ''domain'') env secrets"
  defines "pre \<equiv> \<lambda>w. storage w config_key = Some cfg"
  shows "app = field_Get d ''application_client_id'' [] \<Longrightarrow> app = [] \<or> plain_id app \<Longrightarrow>
      touches_if pre secrets app (a0e_rotateCreds env d)"
    and "app = cfg_string internal ''application_client_id'' \<Longrightarrow> app = [] \<or> plain_id app \<Longrightarrow>
      touches_if pre secrets app (revokeCreds env internal)"
    and "touches_if pre secrets x (checkStatus env d)"
    and "touches_if pre secrets x (a0e_readConfig env)"
    and "plain_id (cfg_string cfg ''client_id'') \<Longrightarrow> touches_if pre secrets (cfg_string cfg ''client_id'') (rotateRoot env)"
proof -
  note calls = touches_calls [OF assms(1)]
  show "touches_if pre secrets app (a0e_rotateCreds env d)"
    if "app = field_Get d ''application_client_id'' []" "app = [] \<or> plain_id app"
    unfolding a0e_rotateCreds_def pre_def Let_def using that
    by (intro touches_config) (auto intro!: touches_intro calls split: sum.split)
  show "touches_if pre secrets app (revokeCreds env internal)"
    if "app = cfg_string internal ''application_client_id''" "app = [] \<or> plain_id app"
    unfolding revokeCreds_def pre_def Let_def using that
    by (intro touches_if_check touches_config) (auto intro!: touches_intro calls)
  show "touches_if pre secrets (cfg_string cfg ''client_id'') (rotateRoot env)"
    if "plain_id (cfg_string cfg ''client_id'')"
    unfolding rotateRoot_def pre_def using that
    by (intro touches_config) (auto intro!: touches_intro calls)
  show "touches_if pre secrets x (checkStatus env d)"
    unfolding checkStatus_def pre_def Let_def
    by (intro touches_config) (auto intro!: touches_intro calls split: sum.split)
  show "touches_if pre secrets x (a0e_readConfig env)"
    unfolding a0e_readConfig_def pre_def by (intro touches_config) (auto intro!: touches_intro)
qed

section \<open>Runs of the engine\<close>

text \<open>The operations of the engine, without the writing of a configuration and the SDK's renewals.\<close>

datatype engine_op = OpReadConfig | OpRotateRoot | OpCreds field_data | OpStatus field_data
  | OpRevoke "(string \<times> goval) list"

fun run_op :: "env \<Rightarrow> engine_op \<Rightarrow> logical_response act" where
  "run_op env OpReadConfig = a0e_readConfig env"
| "run_op env OpRotateRoot = rotateRoot env"
| "run_op env (OpCreds d) = a0e_rotateCreds env d"
| "run_op env (OpStatus d) = checkStatus env d"
| "run_op env (OpRevoke internal) = revokeCreds env internal"

fun run_ops :: "env \<Rightarrow> engine_op list \<Rightarrow> world \<Rightarrow> world" where
  "run_ops env [] w = w"
| "run_ops env (op # ops) w = run_ops env ops (snd (run_op env op w))"

lemma run_op_complete:
  "list_all (\<lambda>pt. list_all (\<lambda>(op, h). (pt_Pattern pt = Exact ''config/connection'' \<and> op \<noteq> ReadOperation)
       \<or> (\<forall>d. \<exists>e. h d = run_op env e)) (pt_Operations pt)) (be_Paths (a0e_backend env lease_extend))
   \<and> list_all (\<lambda>lt. \<forall>internal. lt_Revoke lt internal = run_op env (OpRevoke internal))
       (be_Secrets (a0e_backend env lease_extend))"
proof -
  have "\<exists>e. a0e_readConfig env = run_op env e" "\<exists>e. rotateRoot env = run_op env e"
    "\<exists>e. a0e_rotateCreds env d = run_op env e" "\<exists>e. checkStatus env d = run_op env e" for d
    by (metis run_op.simps)+
  then show ?thesis
    by (simp add: a0e_backend_def a0e_paths_def a0e_pathConfig_def a0e_pathRotateRoot_def a0e_pathCreds_def
        a0e_pathStatus_def secretAuth0Creds_def)
qed

text \<open>The application of a request, whose id the route takes only when it is plain.\<close>

fun op_app :: "engine_op \<Rightarrow> string" where
  "op_app (OpCreds d) = field_Get d ''application_client_id'' []"
| "op_app (OpRevoke internal) = cfg_string internal ''application_client_id''"
| "op_app _ = []"

definition plain_op :: "engine_op \<Rightarrow> bool" where
  "plain_op op \<longleftrightarrow> op_app op = [] \<or> plain_id (op_app op)"

lemma other_ops_storage:
  assumes "op \<noteq> OpRotateRoot" "run_op env op w = (r, w')"
  shows "storage w' = storage w"
proof -
  have "sealed_writes [] (a0e_readConfig env)" "sealed_writes [] (a0e_rotateCreds env d)"
    "sealed_writes [] (checkStatus env d)" "sealed_writes [] (revokeCreds env internal)" for d internal
    unfolding a0e_readConfig_def a0e_rotateCreds_def checkStatus_def revokeCreds_def Let_def
    by (auto intro!: trace_mono split: option.split sum.split)
  with assms show ?thesis by (cases op) (auto intro: storage_kept)
qed

lemma rotateRoot_storage:
  assumes "rotateRoot env w = (r, w')" "storage w config_key = Some cfg"
  shows "storage w' = storage w \<or> (\<exists>sec. storage w' = (storage w)(config_key \<mapsto> cfg_set cfg ''client_secret'' (GStr sec)))"
proof -
  obtain x w1 where g: "getConfig env w = (x, w1)" by fastforce
  have w1: "storage w1 = storage w" using getConfig_storage [of env w] g by simp
  obtain y w2 where y: "rotateSecret env (client_of cfg) RequestCtx (cfg_string cfg ''client_id'') (no_token w1) = (y, w2)"
    by fastforce
  have w2: "storage w2 = storage w" using engine_calls_storage(1) [OF y] w1 by simp
  have "x = Inr (Some cfg)" if "x = Inr (Some c)" for c
    using getConfig_Some g that assms(2) by fastforce
  then show ?thesis
    using assms(1) g w1 y w2
    by (cases y; auto simp: rotateRoot_def attempt_def with_client_eq storage_Put_def Let_def Now_def
        split: sum.splits option.splits)
qed

definition configured_for :: "string \<Rightarrow> string \<Rightarrow> world \<Rightarrow> bool" where
  "configured_for domain cid w \<longleftrightarrow> (\<exists>cfg. storage w config_key = Some cfg
     \<and> cfg_string cfg ''domain'' = domain \<and> cfg_string cfg ''client_id'' = cid)"

lemma cfg_string_set: "cfg_string (cfg_set cfg k (GStr v)) k' = (if k' = k then v else cfg_string cfg k')"
  by (simp add: cfg_string_def cfg_set_same cfg_set_other as_string_def)

lemma configured_step:
  assumes "configured_for domain cid w" "run_op env op w = (r, w')"
  shows "configured_for domain cid w'"
proof -
  obtain cfg where cfg: "storage w config_key = Some cfg" "cfg_string cfg ''domain'' = domain"
    "cfg_string cfg ''client_id'' = cid" using assms(1) by (auto simp: configured_for_def)
  show ?thesis
  proof (cases "op = OpRotateRoot")
    case True
    with assms(2) have "rotateRoot env w = (r, w')" by simp
    from rotateRoot_storage [OF this cfg(1)] cfg show ?thesis
      by (auto simp: configured_for_def cfg_string_set)
  next
    case False
    from other_ops_storage [OF False assms(2)] cfg show ?thesis by (auto simp: configured_for_def)
  qed
qed

text \<open>The application whose secret an operation rotates.\<close>

definition op_touches :: "string \<Rightarrow> engine_op \<Rightarrow> string" where
  "op_touches cid op = (if op = OpRotateRoot then cid else op_app op)"

lemma op_secrets:
  assumes "tenant (''https://'' @ domain) env secrets" "configured_for domain cid w" "plain_id cid" "plain_op op"
    and "run_op env op w = (r, w')"
  shows "at_most (op_touches cid op) (secrets (trace w)) (secrets (trace w'))"
proof -
  obtain cfg where cfg: "storage w config_key = Some cfg" "cfg_string cfg ''domain'' = domain"
    "cfg_string cfg ''client_id'' = cid" using assms(2) by (auto simp: configured_for_def)
  have t: "tenant (''https://'' @ cfg_string cfg ''domain'') env secrets" using assms(1) cfg(2) by simp
  have "touches_if (\<lambda>w. storage w config_key = Some cfg) secrets (op_touches cid op) (run_op env op)"
    using handlers_touch [OF t] assms(3,4) cfg(3) by (cases op) (simp_all add: op_touches_def plain_op_def)
  with cfg(1) assms(5) show ?thesis unfolding touches_if_def by blast
qed

lemma ops_secrets:
  assumes "tenant (''https://'' @ domain) env secrets" "plain_id cid"
  shows "configured_for domain cid w \<Longrightarrow> list_all (\<lambda>op. plain_op op \<and> op_touches cid op \<noteq> app) ops \<Longrightarrow>
    configured_for domain cid (run_ops env ops w) \<and> secrets (trace (run_ops env ops w)) app = secrets (trace w) app"
proof (induction ops arbitrary: w)
  case (Cons op ops)
  obtain r w1 where run: "run_op env op w = (r, w1)" by fastforce
  have "configured_for domain cid w1" using Cons.prems(1) run by (rule configured_step)
  moreover have "secrets (trace w1) app = secrets (trace w) app"
    using op_secrets [OF assms(1) Cons.prems(1) assms(2) _ run] Cons.prems(2) by (auto simp: at_most_def)
  ultimately show ?case using Cons.IH [of w1] Cons.prems(2) run by simp
qed simp

end
