(* ===== verification/Auth0_Secrets.thy ===== *)
theory Auth0_Secrets
  imports Auth0_Tenant
begin

text \<open>
  What the engine for Auth0 guarantees over a tenant: its configuration keeps up with the secret
  of its own application, and a lease is the current secret of another application until that
  one is rotated again.
\<close>

section \<open>A tenant for the concrete instances\<close>

definition flip_secret :: "string option \<Rightarrow> string" where
  "flip_secret x = (if x = Some ''new'' then ''newer'' else ''new'')"

definition tenant_url :: string where
  "tenant_url = ''https://'' @ ''t.auth0.com''"

fun issued :: "event list \<Rightarrow> store" where
  "issued [] = [''m2m'' \<mapsto> ''old'', ''app1'' \<mapsto> ''first'']"
| "issued (e # es) = (\<lambda>app.
     if secret_rotation tenant_url e app then Some (flip_secret (issued es app)) else issued es app)"

definition flip_tenant :: "event list \<Rightarrow> store" where
  "flip_tenant tr = issued (rev tr)"

definition rotated_app :: "http_request \<Rightarrow> string" where
  "rotated_app q = (let r = drop (length (tenant_url @ ''/api/v2/clients/'')) (hr_url q)
     in take (length r - length ''/rotate-secret'') r)"

definition flip_body :: "string option \<Rightarrow> json" where
  "flip_body x = JObj [(''access_token'', JStr ''tk''), (''client_secret'', JStr (flip_secret x))]"

definition flip_env :: env where
  "flip_env = (transit_vault ''k'')\<lparr>net := (\<lambda>tr q.
     Inr \<lparr>resp_status = 200, resp_body = json_print (flip_body (flip_tenant tr (rotated_app q)))\<rparr>)\<rparr>"

lemma flip_body_short: "short_json 65536 (flip_body x)" "short_json 1048576 (flip_body x)"
  by (simp_all add: short_json_def flip_body_def flip_secret_def json_quote_def json_esc_def ascii_def)

lemma flip_body_dec:
  "decode_token (json_print (flip_body x)) = Some (''tk'', 0)"
  "decode_client_secret (json_print (flip_body x)) = Some (flip_secret x)"
proof -
  have "dec_root (json_print (flip_body x)) = dec_struct (flip_body x)"
    by (rule dec_root_short [OF flip_body_short(1)])
  then show "decode_token (json_print (flip_body x)) = Some (''tk'', 0)"
    "decode_client_secret (json_print (flip_body x)) = Some (flip_secret x)"
    by (simp_all add: decode_token_def decode_client_secret_def flip_body_def dec_struct_def dec_str_def
        token_fields_def key_for_def same_fold_def runes_def del: json_print.simps)
qed

lemma flip_secret_fresh: "flip_secret x \<noteq> []" "x \<noteq> Some (flip_secret x)"
  by (simp_all add: flip_secret_def)

lemma flip_tenant_snoc:
  "flip_tenant [] = [''m2m'' \<mapsto> ''old'', ''app1'' \<mapsto> ''first'']"
  "flip_tenant (tr @ [e]) = (\<lambda>app. if secret_rotation tenant_url e app
     then Some (flip_secret (flip_tenant tr app)) else flip_tenant tr app)"
  by (simp_all add: flip_tenant_def cong: if_cong)

lemma rotated_app_url: "secret_rotation tenant_url (EHttp q) app \<Longrightarrow> rotated_app q = app"
  by (simp add: secret_rotation_def rotated_app_def)

lemma flip_env_tenant: "tenant tenant_url flip_env flip_tenant"
  unfolding tenant_def
proof (intro conjI allI impI)
  fix tr e assume "\<forall>app. \<not> secret_rotation tenant_url e app"
  then show "flip_tenant (tr @ [e]) = flip_tenant tr" by (simp add: flip_tenant_snoc)
next
  fix tr q app assume q: "secret_rotation tenant_url (EHttp q) app"
  have "flip_tenant (tr @ [EHttp q]) = (flip_tenant tr)(app \<mapsto> flip_secret (flip_tenant tr app))"
  proof
    fix x show "flip_tenant (tr @ [EHttp q]) x = ((flip_tenant tr)(app \<mapsto> flip_secret (flip_tenant tr app))) x"
      by (cases "x = app") (use q secret_rotation_unique [OF q, of x] in \<open>auto simp: flip_tenant_snoc(2)\<close>)
  qed
  then show "secret_rotated app (flip_tenant tr) (net flip_env tr q) (flip_tenant (tr @ [EHttp q]))"
    using rotated_app_url [OF q] flip_secret_fresh [of "flip_tenant tr app"]
    by (simp add: secret_rotated_def flip_env_def flip_body_short flip_body_dec)
qed

lemma flip_env_sel [simp]:
  "delivers flip_env" "storage_put flip_env t = None" "storage_get flip_env t = None"
  "storage_decode flip_env t = None"
  by (simp_all add: delivers_def flip_env_def transit_vault_def)

lemma flip_env_rotateSecret:
  "mgmtToken w = [] \<Longrightarrow> \<exists>s w'. rotateSecret flip_env a c app w = (Inr s, w')"
  by (simp add: rotateSecret_def engine_managementToken_fresh engine_fetch_token_def NewRequest_def attempt_def
      Do_def Let_def store_token_def Now_def flip_env_def transit_vault_def flip_body_short flip_body_dec flip_secret_fresh)

lemma flip_env_encrypt: "\<exists>ct w'. transitEncrypt flip_env ''k'' p w = (Inr ct, w')"
  by (rule transitEncrypt_answers) (simp_all add: transit_ok_def flip_env_def transit_vault_def)

section \<open>The engine keeps up with Auth0\<close>

definition in_sync :: "(event list \<Rightarrow> store) \<Rightarrow> string \<Rightarrow> string \<Rightarrow> world \<Rightarrow> bool" where
  "in_sync secrets domain cid w \<longleftrightarrow> (\<exists>cfg. storage w config_key = Some cfg
     \<and> cfg_string cfg ''domain'' = domain \<and> cfg_string cfg ''client_id'' = cid
     \<and> secrets (trace w) cid = Some (cfg_string cfg ''client_secret''))"

lemma rotateRoot_sync:
  assumes "tenant (''https://'' @ domain) env secrets" "delivers env" "\<And>t. storage_put env t = None" "plain_id cid"
    and "in_sync secrets domain cid w" "rotateRoot env w = (r, w')"
  shows "in_sync secrets domain cid w'"
proof -
  obtain cfg where cfg: "storage w config_key = Some cfg" "cfg_string cfg ''domain'' = domain"
    "cfg_string cfg ''client_id'' = cid" "secrets (trace w) cid = Some (cfg_string cfg ''client_secret'')"
    using assms(5) by (auto simp: in_sync_def)
  obtain x w1 where g: "getConfig env w = (x, w1)" by fastforce
  have w1: "storage w1 = storage w" "trace w1 = trace w"
    using getConfig_storage [of env w] getConfig_trace [of env w] g by simp_all
  obtain y w2 where y: "rotateSecret env (client_of cfg) RequestCtx cid (no_token w1) = (y, w2)" by fastforce
  have w2: "storage w2 = storage w" using engine_calls_storage(1) [OF y] w1 by simp
  have "acts (renewed env cid (\<lambda>s. s)) secrets (rotateSecret env (client_of cfg) RequestCtx cid)"
    using rotateSecret_acts [of "client_of cfg"] assms(1,4) cfg(2) by simp
  from actsD [OF this y] have sec: "renewed env cid (\<lambda>s. s) y (secrets (trace w)) (secrets (trace w2))"
    by (simp add: w1)
  consider (same) "storage w' = storage w" "trace w' = trace w"
    | (failed) e where "y = Inl e" "w' = w2"
    | (stored) s where "y = Inr s" "trace w' = trace w2"
        "storage w' = (storage w)(config_key \<mapsto> cfg_set cfg ''client_secret'' (GStr s))"
  proof (cases x)
    case (Inl e)
    then show thesis using assms(6) g w1 that(1) by (simp add: rotateRoot_def)
  next
    case (Inr c)
    show thesis
    proof (cases c)
      case None
      then show thesis using assms(6) g w1 Inr that(1) by (simp add: rotateRoot_def attempt_def)
    next
      case (Some cfg')
      then have "x = Inr (Some cfg)" using getConfig_Some g Inr cfg(1) by fastforce
      then show thesis using assms(3,6) g y cfg(3) w2 that(2,3)
        by (cases y) (auto simp: rotateRoot_def attempt_def with_client_eq storage_Put_def Let_def Now_def)
    qed
  qed
  then show ?thesis
  proof cases
    case same
    with assms(5) show ?thesis by (simp add: in_sync_def)
  next
    case failed
    with sec assms(2,5) w2 show ?thesis by (simp add: in_sync_def)
  next
    case stored
    with sec cfg show ?thesis by (simp add: in_sync_def cfg_string_set)
  qed
qed

text \<open>
  C11. The engine keeps up with Auth0.  If its configuration holds the current secret of its own
  application, it does so after any sequence of rotate-root, credential, status, revocation and
  read requests, whichever of them fail, as long as none of them names the engine's own
  application, replies are not lost, and the storage takes what is written.
\<close>

theorem engine_stays_in_sync:
  assumes "tenant (''https://'' @ domain) env secrets" "delivers env" "\<And>t. storage_put env t = None" "plain_id cid"
    and "in_sync secrets domain cid w" "list_all (\<lambda>op. plain_op op \<and> op_app op \<noteq> cid) ops"
  shows "in_sync secrets domain cid (run_ops env ops w)"
  using assms(5,6)
proof (induction ops arbitrary: w)
  case (Cons op ops)
  obtain r w1 where run: "run_op env op w = (r, w1)" by fastforce
  have "in_sync secrets domain cid w1"
  proof (cases "op = OpRotateRoot")
    case True
    with run have "rotateRoot env w = (r, w1)" by simp
    with assms(1-4) Cons.prems(1) show ?thesis by (rule rotateRoot_sync)
  next
    case False
    have "configured_for domain cid w" using Cons.prems(1) by (auto simp: in_sync_def configured_for_def)
    from op_secrets [OF assms(1) this assms(4) _ run] Cons.prems(2) False
    have "secrets (trace w1) cid = secrets (trace w) cid" by (auto simp: op_touches_def at_most_def)
    with other_ops_storage [OF False run] Cons.prems(1) show ?thesis by (simp add: in_sync_def)
  qed
  then show ?case using Cons.IH [of w1] Cons.prems(2) run by simp
qed simp

theorem engine_stays_in_sync_witness:
  "in_sync flip_tenant ''t.auth0.com'' ''m2m''
     (run_ops flip_env [OpRotateRoot, OpCreds app_field, OpRotateRoot, OpReadConfig, OpStatus app_field] configured)"
proof (rule engine_stays_in_sync [where env = flip_env])
  show "tenant (''https://'' @ ''t.auth0.com'') flip_env flip_tenant"
    using flip_env_tenant by (simp only: tenant_url_def)
  show "in_sync flip_tenant ''t.auth0.com'' ''m2m'' configured"
    using flip_tenant_snoc(1) by (simp add: in_sync_def auth0_config_example_def cfg_string_def as_string_def)
qed (simp_all add: plain_op_def plain_id_def unreserved_def is_digit_def)

section \<open>Leases\<close>

text \<open>
  The secret of a lease: with a Transit key the response only has its ciphertext, which Vault made
  in the last request.
\<close>

definition leases :: "string \<Rightarrow> (string \<times> goval) list \<Rightarrow> event list \<Rightarrow> string \<Rightarrow> bool" where
  "leases key data tr s \<longleftrightarrow> (if key = [] then map_of data ''credential'' = Some (GStr s)
     else \<exists>vtok. last tr = EVault vtok (VWrite (''transit/encrypt/'' @ key) [(''plaintext'', GStr (EncodeToString s))]))"

lemma lease_rotates:
  assumes "tenant (''https://'' @ domain) env secrets" "storage w config_key = Some cfg"
    and "cfg_string cfg ''domain'' = domain" "field_Get d ''application_client_id'' [] = app" "plain_id app"
    and "a0e_rotateCreds env d w = (Inr (SecretResponse ty data internal), w')"
  obtains s where "leases (cfg_string cfg ''transit_key'') data (trace w') s" "secrets (trace w) app \<noteq> Some s"
    "secrets (trace w') = (secrets (trace w))(app \<mapsto> s)" "internal = [(''application_client_id'', GStr app)]"
    "storage w' = storage w"
proof -
  obtain w1 where g: "getConfig env w = (Inr (Some cfg), w1)"
    using assms(6) getConfig_Some assms(2) unfolding a0e_rotateCreds_def
    by (fastforce simp: attempt_eq_Inr split: option.splits)
  have g': "storage w1 = storage w" "trace w1 = trace w"
    using getConfig_storage [of env w] getConfig_trace [of env w] g by simp_all
  obtain y w2 where y: "rotateSecret env (client_of cfg) RequestCtx app (no_token w1) = (y, w2)" by fastforce
  have "acts (renewed env app (\<lambda>s. s)) secrets (rotateSecret env (client_of cfg) RequestCtx app)"
    using rotateSecret_acts [of "client_of cfg"] assms(1,3,5) by simp
  from actsD [OF this y] have sec: "renewed env app (\<lambda>s. s) y (secrets (trace w)) (secrets (trace w2))"
    by (simp add: g')
  have w2: "storage w2 = storage w" using engine_calls_storage(1) [OF y] g' by simp
  let ?key = "cfg_string cfg ''transit_key''"
  let ?w = "w2\<lparr>ticks := Suc (ticks w2)\<rparr>"
  have app: "app \<noteq> []" using assms(5) by (auto simp: plain_id_def)
  then obtain s where s: "y = Inr s"
    using assms(4,6) g y by (cases y) (auto simp: a0e_rotateCreds_def with_client_eq attempt_eq_Inr on_result_def Let_def)
  show thesis
  proof (cases "?key = []")
    case True
    then show thesis using assms(4,6) g y s sec w2 app that [of s]
      by (auto simp: a0e_rotateCreds_def with_client_eq attempt_eq_Inr on_result_def Let_def Now_eq_Inr
          creds_response_def leases_def)
  next
    case False
    then obtain ct t where e: "transitEncrypt env ?key s ?w = (Inr ct, w')"
      and out: "data = [(''application_client_id'', GStr app), (''rotated_at'', GStr (fmt_rfc3339 t)),
        (''credential_ciphertext'', GStr ct), (''transit_key'', GStr ?key)]"
        "internal = [(''application_client_id'', GStr app)]"
      using assms(4,6) g y s app
      by (auto simp: a0e_rotateCreds_def with_client_eq attempt_eq_Inr on_result_def Let_def Now_eq_Inr creds_response_def)
    have "secrets (trace w') = secrets (trace ?w)"
      using actsD [OF transitEncrypt_unchanged [OF assms(1)] e] .
    moreover have "leases ?key data (trace w') s"
      by (rule transitEncrypt_Inr [OF e]) (use False in \<open>simp add: leases_def\<close>)
    ultimately show thesis using sec s w2 out engine_calls_storage(3) [OF e] that [of s] by simp
  qed
qed

lemma revocation_rotates:
  assumes "tenant (''https://'' @ domain) env secrets" "storage w config_key = Some cfg"
    and "cfg_string cfg ''domain'' = domain" "plain_id app"
    and "revokeCreds env [(''application_client_id'', GStr app)] w = (Inr r, w')"
  obtains s where "secrets (trace w) app \<noteq> Some s" "secrets (trace w') = (secrets (trace w))(app \<mapsto> s)"
proof -
  have app: "cfg_string [(''application_client_id'', GStr app)] ''application_client_id'' = app"
    by (simp add: cfg_string_def as_string_def)
  obtain w1 where g: "getConfig env w = (Inr (Some cfg), w1)"
    using assms(5) getConfig_Some assms(2) unfolding revokeCreds_def
    by (fastforce simp: attempt_eq_Inr check_eq_Inr Let_def split: option.splits)
  then obtain s where y: "rotateSecret env (client_of cfg) RequestCtx app (no_token w1) = (Inr s, w')"
    using assms(5) app by (auto simp: revokeCreds_def check_eq_Inr attempt_eq_Inr with_client_eq Let_def)
  have "acts (renewed env app (\<lambda>s. s)) secrets (rotateSecret env (client_of cfg) RequestCtx app)"
    using rotateSecret_acts [of "client_of cfg"] assms(1,3,4) by simp
  from actsD [OF this y] show thesis using getConfig_trace [of env w] g that [of s] by simp
qed

text \<open>
  Reading the credential of the engine's own application rotates the secret that the engine
  authenticates with, and the configuration keeps the old one: the engine is locked out.
\<close>

lemma own_application_locks_out:
  assumes "tenant (''https://'' @ domain) env secrets" "in_sync secrets domain cid w" "plain_id cid"
    and "field_Get d ''application_client_id'' [] = cid" "a0e_rotateCreds env d w = (Inr (SecretResponse ty data internal), w')"
  shows "\<not> in_sync secrets domain cid w'"
proof -
  obtain cfg where cfg: "storage w config_key = Some cfg" "cfg_string cfg ''domain'' = domain"
    "secrets (trace w) cid = Some (cfg_string cfg ''client_secret'')"
    using assms(2) by (auto simp: in_sync_def)
  obtain s where "secrets (trace w) cid \<noteq> Some s" "secrets (trace w') = (secrets (trace w))(cid \<mapsto> s)"
    "storage w' = storage w"
    using lease_rotates [OF assms(1) cfg(1,2) assms(4,3,5)] by metis
  then have "secrets (trace w') cid \<noteq> Some (cfg_string cfg ''client_secret'')" "storage w' config_key = Some cfg"
    using cfg(1,3) by simp_all
  then show ?thesis by (metis in_sync_def option.inject)
qed

text \<open>
  C12. The life of a lease.  What the engine leases is the secret Auth0 has just given the
  application, in place of a different one and without any other application being touched; it
  stays the application's current secret over any requests to the engine that do not rotate this
  application; and a revocation of the lease that succeeds puts another secret in its place.
\<close>

theorem lease_lifecycle:
  assumes "tenant (''https://'' @ domain) env secrets" "storage w config_key = Some cfg"
    and "cfg_string cfg ''domain'' = domain" "cfg_string cfg ''client_id'' = cid" "plain_id cid"
    and "field_Get d ''application_client_id'' [] = app" "plain_id app"
    and "a0e_rotateCreds env d w = (Inr (SecretResponse ty data internal), w1)"
    and "list_all (\<lambda>op. plain_op op \<and> op_touches cid op \<noteq> app) ops" "w2 = run_ops env ops w1"
  shows "\<exists>s. leases (cfg_string cfg ''transit_key'') data (trace w1) s \<and> secrets (trace w) app \<noteq> Some s
    \<and> secrets (trace w1) = (secrets (trace w))(app \<mapsto> s) \<and> secrets (trace w2) app = Some s
    \<and> (\<forall>r w3. revokeCreds env internal w2 = (Inr r, w3) \<longrightarrow>
        (\<exists>s'. s' \<noteq> s \<and> secrets (trace w3) = (secrets (trace w2))(app \<mapsto> s')))"
proof -
  obtain s where s: "leases (cfg_string cfg ''transit_key'') data (trace w1) s" "secrets (trace w) app \<noteq> Some s"
    "secrets (trace w1) = (secrets (trace w))(app \<mapsto> s)" "internal = [(''application_client_id'', GStr app)]"
    "storage w1 = storage w"
    using lease_rotates [OF assms(1-3,6-8)] by blast
  have "configured_for domain cid w1" using assms(2-4) s(5) by (auto simp: configured_for_def)
  from ops_secrets [OF assms(1,5) this assms(9)]
  have w2: "configured_for domain cid w2" "secrets (trace w2) app = Some s" using s(3) assms(10) by simp_all
  then obtain cfg2 where cfg2: "storage w2 config_key = Some cfg2" "cfg_string cfg2 ''domain'' = domain"
    by (auto simp: configured_for_def)
  have "\<exists>s'. s' \<noteq> s \<and> secrets (trace w3) = (secrets (trace w2))(app \<mapsto> s')"
    if "revokeCreds env internal w2 = (Inr r, w3)" for r w3
    using revocation_rotates [OF assms(1) cfg2 assms(7)] that s(4) w2(2) by metis
  with s(1-3) w2(2) show ?thesis by (metis (no_types))
qed

theorem lease_lifecycle_witness:
  "\<exists>ty data internal w1 s. a0e_rotateCreds flip_env app_field configured = (Inr (SecretResponse ty data internal), w1)
    \<and> leases ''k'' data (trace w1) s \<and> Some s \<noteq> Some ''first''
    \<and> flip_tenant (trace (run_ops flip_env [OpRotateRoot, OpStatus app_field, OpReadConfig] w1)) ''app1'' = Some s"
proof -
  have cfg: "cfg_string auth0_config_example ''domain'' = ''t.auth0.com''"
    "cfg_string auth0_config_example ''client_id'' = ''m2m''" "cfg_string auth0_config_example ''transit_key'' = ''k''"
    by (simp_all add: auth0_config_example_def cfg_string_def as_string_def)
  have g: "getConfig flip_env configured = (Inr (Some auth0_config_example), configured\<lparr>ticks := 2\<rparr>)"
    by (subst getConfig_ok; simp add: numeral_2_eq_2)
  obtain x w2 where r: "rotateSecret flip_env (client_of auth0_config_example) RequestCtx ''app1''
      (no_token (configured\<lparr>ticks := 2\<rparr>)) = (Inr x, w2)"
    using flip_env_rotateSecret by (metis no_token_simps(1))
  obtain ct w1 where e: "transitEncrypt flip_env ''k'' x (w2\<lparr>ticks := Suc (ticks w2)\<rparr>) = (Inr ct, w1)"
    using flip_env_encrypt by blast
  obtain ty data internal where run:
    "a0e_rotateCreds flip_env app_field configured = (Inr (SecretResponse ty data internal), w1)"
    using r e cfg by (simp add: a0e_rotateCreds_def attempt_def g with_client_eq on_result_def Let_def Now_def creds_response_def)
  have t: "tenant (''https://'' @ ''t.auth0.com'') flip_env flip_tenant"
    using flip_env_tenant by (simp only: tenant_url_def)
  have plain: "plain_id ''m2m''" "plain_id ''app1''"
    "list_all (\<lambda>op. plain_op op \<and> op_touches ''m2m'' op \<noteq> ''app1'') [OpRotateRoot, OpStatus app_field, OpReadConfig]"
    by (simp_all add: plain_op_def op_touches_def plain_id_def unreserved_def is_digit_def)
  have stored: "storage configured config_key = Some auth0_config_example" by simp
  from lease_lifecycle [OF t stored cfg(1,2) plain(1) app_field_Get plain(2) run plain(3) refl] run
  show ?thesis using flip_tenant_snoc(1) by (auto simp: cfg(3) simp del: run_ops.simps)
qed

end
