(* ===== verification/Go_Forms.thy ===== *)
theory Go_Forms
  imports Server
begin

text \<open>
  Form bodies (\<open>values_Encode\<close>, package net/url) read back: what a server gets from the form of
  a request with \<open>url.ParseQuery\<close> is what was put in, whatever bytes that is.
\<close>

lemma QueryUnescape_esc [simp]: "QueryUnescape (query_esc c @ t) = map_option ((#) c) (QueryUnescape t)"
proof -
  have "c = CHR '' '' \<or> query_esc c = pct c \<or> query_esc c = [c] \<and> c \<noteq> CHR ''%'' \<and> c \<noteq> CHR ''+''"
    by (auto simp: query_esc_def unreserved_def is_digit_def)
  then show ?thesis
    by (elim disjE conjE) (simp_all add: query_esc_def [of "CHR '' ''"] pct_def)
qed

lemma QueryUnescape_QueryEscape [simp]: "QueryUnescape (QueryEscape s) = Some s"
  by (induction s) (simp_all add: QueryEscape_def)

lemma QueryEscape_inject [simp]: "QueryEscape s = QueryEscape t \<longleftrightarrow> s = t"
  by (metis QueryUnescape_QueryEscape option.inject)

lemma hex_upper_no_delimiter: "d < 16 \<Longrightarrow> hex_upper d \<notin> {CHR ''&'', CHR ''='', CHR '';''}"
  using byte_hex_upper [of d] by (auto split: if_splits)

lemma query_esc_safe: "x \<in> set (query_esc c) \<Longrightarrow> x \<notin> {CHR ''&'', CHR ''='', CHR '';''}"
  using hex_upper_no_delimiter [of "byte c div 16"] hex_upper_no_delimiter [of "byte c mod 16"]
  by (auto simp: query_esc_def pct_def unreserved_def is_digit_def split: if_splits)

lemma QueryEscape_safe [simp]:
  "CHR ''&'' \<notin> set (QueryEscape s)" "CHR ''='' \<notin> set (QueryEscape s)" "CHR '';'' \<notin> set (QueryEscape s)"
  using query_esc_safe by (fastforce simp: QueryEscape_def)+

definition form_pair :: "string \<times> string \<Rightarrow> string" where
  "form_pair = (\<lambda>(k, v). QueryEscape k @ ''='' @ QueryEscape v)"

lemma query_pair_form_pair [simp]: "query_pair (form_pair kv) = Some kv"
proof -
  have "c \<noteq> CHR ''=''" if "c \<in> set (QueryEscape k)" for c k
    using that QueryEscape_safe(2) [of k] by blast
  then have "takeWhile (\<lambda>c. c \<noteq> CHR ''='') (QueryEscape k @ CHR ''='' # QueryEscape v) = QueryEscape k" for k v
    by (subst takeWhile_append2) auto
  then show ?thesis by (cases kv) (simp add: query_pair_def form_pair_def Let_def)
qed

lemma values_Encode_join: "values_Encode form = join (CHR ''&'') (map form_pair (sort_key fst form))"
proof -
  have "(case ps of [] \<Rightarrow> [] | p # qs \<Rightarrow> p @ concat (map (\<lambda>q. CHR ''&'' # q) qs)) = join (CHR ''&'') ps" for ps
    by (induction "CHR ''&''" ps rule: join.induct) simp_all
  then show ?thesis by (simp add: values_Encode_def form_pair_def)
qed

lemma ParseQuery_values_Encode: "ParseQuery (values_Encode form) = sort_key fst form"
proof (cases "form = []")
  case True
  then show ?thesis by (simp add: values_Encode_def ParseQuery_def query_pair_def List.map_filter_simps)
next
  case False
  let ?ps = "sort_key fst form"
  have "?ps \<noteq> []" using False by (metis length_0_conv length_sort)
  then have "Split (values_Encode form) (CHR ''&'') = map form_pair ?ps"
    unfolding values_Encode_join by (intro Split_join) (auto simp: list_all_iff form_pair_def)
  then show ?thesis by (simp add: ParseQuery_def List.map_filter_def comp_def)
qed

lemma form_value: "distinct (map fst form) \<Longrightarrow> map_of (ParseQuery (values_Encode form)) k = map_of form k"
proof -
  assume d: "distinct (map fst form)"
  have "set (sort_key fst form) = set form" "distinct (map fst (sort_key fst form))"
    using d by (simp_all add: distinct_map inj_on_def)
  with d show ?thesis
    unfolding ParseQuery_values_Encode by (metis map_of_eqI map_of_eq_Some_iff not_None_eq)
qed

end
