(* ===== verification/Key_Forms.thy ===== *)
theory Key_Forms
  imports Key_Store Go_Forms
begin

text \<open>
  The Splunk and the SonarQube adapter as implementations of the abstract store.  Their
  providers are told the name of a new token in a form, which they read back with
  \<open>ParseQuery\<close>, so that names and logins of any bytes are covered by the round trip of \<open>Go_Forms\<close>.
\<close>

section \<open>Forms\<close>

lemma map_of_values_Set: "map_of (values_Set k v form) x = (if x = k then Some v else map_of form x)"
  by (induction form) (auto simp: values_Set_def)

lemma distinct_values_Set: "distinct (map fst form) \<Longrightarrow> distinct (map fst (values_Set k v form))"
  by (auto simp: values_Set_def distinct_map_filter)

text \<open>The value a server finds in the body of a request.\<close>

definition form_has :: "http_request \<Rightarrow> string \<Rightarrow> string \<Rightarrow> bool" where
  "form_has q k v \<longleftrightarrow> (case hr_body q of None \<Rightarrow> False | Some body \<Rightarrow> map_of (ParseQuery body) k = Some v)"

lemma form_hasI:
  "hr_body q = Some (values_Encode form) \<Longrightarrow> distinct (map fst form) \<Longrightarrow> map_of form k = Some v \<Longrightarrow> form_has q k v"
  by (simp add: form_has_def form_value)

section \<open>Splunk\<close>

text \<open>
  The tokens of the store are the enabled ones; reading one by its name gives 404 or one entry
  with its \<open>disabled\<close> flag.  The two dot segments are no names.
\<close>

definition segment :: "string \<Rightarrow> bool" where
  "segment n \<longleftrightarrow> n \<notin> {[], ''.'', ''..''}"

definition sp_token :: "string \<Rightarrow> string option" where
  "sp_token body = (case sp_decode body of Some (e # _) \<Rightarrow> Some (snd e) | _ \<Rightarrow> None)"

definition sp_api :: "sp_adapter \<Rightarrow> key_api" where
  "sp_api a = \<lparr>ka_mine = sp_mine a,
     ka_creates = (\<lambda>q decode. hr_method q = ''POST''
       \<and> hr_url q = sp_baseURL a @ ''/services/data/inputs/http?output_mode=json''
       \<and> (\<exists>n. form_has q ''name'' n \<and> decode = (\<lambda>body. map_option (Pair n) (sp_token body)))),
     ka_created = {200, 201},
     ka_deletes = (\<lambda>q n. segment n \<and> hr_method q = ''DELETE'' \<and> hr_url q = sp_tokenURL a n),
     ka_deleted = {200, 204, 404},
     ka_reads = (\<lambda>q n. segment n \<and> hr_method q = ''GET'' \<and> hr_url q = sp_tokenURL a n),
     ka_shows = (\<lambda>n s status body. (status = 404 \<longrightarrow> n \<notin> dom s)
       \<and> (status = 200 \<longrightarrow> (\<exists>es. sp_decode body = Some es \<and> (n \<in> dom s) = (es \<noteq> [] \<and> \<not> fst (hd es)))))\<rparr>"

fun sp_command :: "command \<Rightarrow> bool" where
  "sp_command (CRotate rq) \<longleftrightarrow> True"
| "sp_command (CRevoke rv) \<longleftrightarrow> rv_CredentialID rv = [] \<or> segment (rv_CredentialID rv)"
| "sp_command (CStatus cid) \<longleftrightarrow> cid = [] \<or> segment cid"

lemma sp_form_name:
  "distinct (map fst (sp_form a n m))" "map_of (sp_form a n m) ''name'' = Some n"
  by (auto simp: sp_form_def Let_def map_of_values_Set intro!: distinct_values_Set split: option.split)

lemma sp_do_calls:
  assumes "under (sp_baseURL a) u" "\<And>q. hr_method q = m \<Longrightarrow> hr_url q = u \<Longrightarrow> hr_body q = b \<Longrightarrow> P q"
  shows "calls env (\<lambda>q. ka_mine (sp_api a) (EHttp q) \<and> P q) (sp_do env a c m u b)"
  unfolding sp_do_def Let_def
  by (rule calls_request) (use assms in \<open>simp add: sp_api_def sp_mine_def to_provider_def\<close>)

lemma sp_createToken_acts: "behaves (sp_api a) env keys \<Longrightarrow> acts (made (Pair n)) keys (sp_createToken env a c n m)"
  unfolding sp_createToken_def
  by (rule create_acts [where decode = "\<lambda>body. map_option (Pair n) (sp_token body)"], assumption, rule sp_do_calls)
     (auto simp: sp_api_def act_eq_Inr sp_token_def neq_Nil_conv
       intro!: trace_mono exI [of _ n] form_hasI [OF _ sp_form_name])

lemma sp_deleteToken_acts:
  "behaves (sp_api a) env keys \<Longrightarrow> segment n \<Longrightarrow> acts (removed n) keys (sp_deleteToken env a c n)"
  unfolding sp_deleteToken_def
  by (rule delete_acts, assumption, rule sp_do_calls)
     (auto simp: sp_api_def act_eq_Inr intro!: trace_mono)

lemma sp_Rotate_acts: "behaves (sp_api a) env keys \<Longrightarrow> acts replaced keys (sp_Rotate env a c rq)"
  unfolding sp_Rotate_def Let_def
  by (intro acts_after_silent acts_Now made_replaced [OF sp_createToken_acts] trace_mono) simp_all

lemma sp_Revoke_acts:
  "behaves (sp_api a) env keys \<Longrightarrow> sp_command (CRevoke rv) \<Longrightarrow>
   acts (removed (rv_CredentialID rv)) keys (sp_Revoke env a c rv)"
  unfolding sp_Revoke_def by (intro acts_check acts_removed_map sp_deleteToken_acts) simp_all

lemma sp_Status_acts:
  "behaves (sp_api a) env keys \<Longrightarrow> sp_command (CStatus cid) \<Longrightarrow> acts (told cid) keys (sp_Status env a c cid)"
  unfolding sp_Status_def
  by (intro acts_check, simp, rule read_acts [where kid = cid], assumption, rule sp_do_calls)
     (auto simp: sp_api_def act_eq_Inr Let_def intro!: trace_mono split: prod.splits if_splits)

interpretation splunk_keys: key_store "\<lambda>env. splunk env a" "behaves (sp_api a)" sp_command
  by unfold_locales (rule perform_steps [where plain = sp_command], auto simp: sp_Rotate_acts sp_Revoke_acts sp_Status_acts)

section \<open>SonarQube\<close>

text \<open>
  A token belongs to a login and has a name; its id is \<open>login:name\<close>, and SonarQube's logins have
  no colon.  The tokens of a login are read as a list.
\<close>

definition token_id :: "string \<Rightarrow> string \<Rightarrow> string \<Rightarrow> bool" where
  "token_id kid login n \<longleftrightarrow> CHR '':'' \<notin> set login \<and> kid = login @ '':'' @ n"

definition sq_api :: "sq_adapter \<Rightarrow> key_api" where
  "sq_api a = \<lparr>ka_mine = sq_mine a,
     ka_creates = (\<lambda>q decode. hr_method q = ''POST'' \<and> hr_url q = sq_baseURL a @ ''/api/user_tokens/generate''
       \<and> (\<exists>kid login n. form_has q ''login'' login \<and> form_has q ''name'' n \<and> token_id kid login n
            \<and> decode = (\<lambda>body. map_option (Pair kid) (sq_decode_token body)))),
     ka_created = {200},
     ka_deletes = (\<lambda>q kid. hr_method q = ''POST'' \<and> hr_url q = sq_baseURL a @ ''/api/user_tokens/revoke''
       \<and> (\<exists>login n. form_has q ''login'' login \<and> form_has q ''name'' n \<and> token_id kid login n)),
     ka_deleted = {204, 404},
     ka_reads = (\<lambda>q kid. hr_method q = ''GET'' \<and> (\<exists>login n. token_id kid login n
       \<and> hr_url q = sq_baseURL a @ ''/api/user_tokens/search?login='' @ QueryEscape login)),
     ka_shows = (\<lambda>kid s status body. status = 200 \<longrightarrow> (\<exists>names. sq_decode_search body = Some names
       \<and> (\<forall>login n. token_id kid login n \<longrightarrow> (n \<in> set names) = (kid \<in> dom s))))\<rparr>"

fun sq_command :: "command \<Rightarrow> bool" where
  "sq_command (CRotate rq) \<longleftrightarrow> CHR '':'' \<notin> set (rq_ProviderID rq)"
| "sq_command _ \<longleftrightarrow> True"

lemma parseCredentialID_token:
  assumes "parseCredentialID env cid = Inr (login, n)"
  shows "token_id cid login n"
proof -
  obtain i where i: "IndexByte cid (CHR '':'') = Some i" "login = take i cid" "n = drop (i + 1) cid"
    using assms by (auto simp: parseCredentialID_def Let_def split: option.splits if_splits)
  then have "i < length cid" "cid ! i = CHR '':''" "CHR '':'' \<notin> set (take i cid)"
    by (simp_all add: IndexByte_Some_iff)
  with i(2,3) id_take_nth_drop [of i cid] show ?thesis by (simp add: token_id_def)
qed

lemma sq_do_calls:
  assumes "under (sq_baseURL a) u" "\<And>q. hr_method q = m \<Longrightarrow> hr_url q = u \<Longrightarrow> hr_body q = b \<Longrightarrow> P q"
  shows "calls env (\<lambda>q. ka_mine (sq_api a) (EHttp q) \<and> P q) (sq_do env a c m u b t)"
  unfolding sq_do_def Let_def
  by (rule calls_request) (use assms in \<open>simp add: sq_api_def sq_mine_def to_provider_def\<close>)

lemma sq_generateToken_acts:
  assumes "behaves (sq_api a) env keys" "token_id kid login n"
  shows "acts (made (Pair kid)) keys (sq_generateToken env a c login n ty)"
proof -
  let ?form = "values_Set ''type'' ty (values_Set ''name'' n (values_Set ''login'' login []))"
  have f: "distinct (map fst ?form)" "map_of ?form ''login'' = Some login" "map_of ?form ''name'' = Some n"
    by (simp_all add: values_Set_def)
  have creates: "ka_creates (sq_api a) q (\<lambda>body. map_option (Pair kid) (sq_decode_token body))"
    if "hr_method q = ''POST''" "hr_url q = sq_baseURL a @ ''/api/user_tokens/generate''"
      "hr_body q = Some (values_Encode ?form)" for q
    using that assms(2) form_hasI [OF that(3) f(1,2)] form_hasI [OF that(3) f(1,3)] by (auto simp: sq_api_def)
  show ?thesis
    unfolding sq_generateToken_def Let_def
    by (rule create_acts [where decode = "\<lambda>body. map_option (Pair kid) (sq_decode_token body)", OF assms(1)],
        rule sq_do_calls [OF _ creates])
      (auto simp: sq_api_def act_eq_Inr intro!: trace_mono)
qed

lemma sq_revoke_calls:
  assumes "token_id kid login n"
  shows "calls env (\<lambda>q. ka_mine (sq_api a) (EHttp q) \<and> ka_deletes (sq_api a) q kid)
    (sq_do env a c ''POST'' (sq_baseURL a @ ''/api/user_tokens/revoke'')
      (Some (values_Encode (values_Set ''name'' n (values_Set ''login'' login [])))) t)"
proof (rule sq_do_calls)
  let ?form = "values_Set ''name'' n (values_Set ''login'' login [])"
  have f: "distinct (map fst ?form)" "map_of ?form ''login'' = Some login" "map_of ?form ''name'' = Some n"
    by (simp_all add: values_Set_def)
  fix q :: http_request
  assume q: "hr_method q = ''POST''" "hr_url q = sq_baseURL a @ ''/api/user_tokens/revoke''"
    "hr_body q = Some (values_Encode ?form)"
  show "ka_deletes (sq_api a) q kid"
    using q assms form_hasI [OF q(3) f(1,2)] form_hasI [OF q(3) f(1,3)] by (auto simp: sq_api_def)
qed simp

lemma sq_revokeToken_acts:
  assumes "behaves (sq_api a) env keys" "token_id kid login n"
  shows "acts (removed kid) keys (sq_revokeToken env a c login n)"
  unfolding sq_revokeToken_def Let_def
  by (rule delete_acts [OF assms(1) sq_revoke_calls [OF assms(2)]])
     (auto simp: sq_api_def act_eq_Inr intro!: trace_mono)

lemma sq_tokenExists_acts:
  assumes "behaves (sq_api a) env keys" "token_id kid login n"
  shows "acts (seen (\<lambda>b s. b = (kid \<in> dom s))) keys (sq_tokenExists env a c login n)"
  unfolding sq_tokenExists_def
  by (rule read_acts [where kid = kid, OF assms(1)], rule sq_do_calls)
     (use assms(2) in \<open>auto simp: sq_api_def act_eq_Inr intro!: trace_mono\<close>)

lemma sq_Rotate_acts:
  assumes "behaves (sq_api a) env keys" "CHR '':'' \<notin> set (rq_ProviderID rq)"
  shows "acts replaced keys (sq_Rotate env a c rq)"
proof -
  have "token_id (rq_ProviderID rq @ '':'' @ n) (rq_ProviderID rq) n" for n
    using assms(2) by (simp add: token_id_def)
  note made = sq_generateToken_acts [OF assms(1) this]
  show ?thesis
    unfolding sq_Rotate_def Let_def
    by (intro acts_check acts_after_silent acts_Now made_replaced [OF made] trace_mono) simp_all
qed

lemma sq_Revoke_acts:
  assumes "behaves (sq_api a) env keys"
  shows "acts (removed (rv_CredentialID rv)) keys (sq_Revoke env a c rv)"
  unfolding sq_Revoke_def
proof (intro acts_check)
  show "acts (removed (rv_CredentialID rv)) keys (case parseCredentialID env (rv_CredentialID rv) of
      Inl e \<Rightarrow> fail (''sonarqube revoke: '' @ e)
    | Inr (login, tokenName) \<Rightarrow>
        attempt (sq_revokeToken env a c login tokenName) (\<lambda>e. ''sonarqube revoke: '' @ e) (\<lambda>_. ret ()))"
  proof (cases "parseCredentialID env (rv_CredentialID rv)")
    case (Inl e)
    then show ?thesis by (simp add: acts_def)
  next
    case (Inr p)
    then obtain l n where p: "p = (l, n)" "token_id (rv_CredentialID rv) l n"
      using parseCredentialID_token by (cases p) blast
    have "acts (removed (rv_CredentialID rv)) keys
        (attempt (sq_revokeToken env a c l n) (\<lambda>e. ''sonarqube revoke: '' @ e) (\<lambda>_. ret ()))"
      by (rule acts_removed_map [OF sq_revokeToken_acts [OF assms p(2)]])
    then show ?thesis unfolding Inr p(1) sum.case prod.case .
  qed
qed simp

lemma sq_Status_acts:
  assumes "behaves (sq_api a) env keys"
  shows "acts (told cid) keys (sq_Status env a c cid)"
  unfolding sq_Status_def
proof (intro acts_check)
  show "acts (told cid) keys (case parseCredentialID env cid of
      Inl e \<Rightarrow> fail (''sonarqube status: '' @ e)
    | Inr (login, tokenName) \<Rightarrow>
        attempt (sq_tokenExists env a c login tokenName) (\<lambda>e. ''sonarqube status: '' @ e) (\<lambda>active.
        Now env (\<lambda>t. ret \<lparr>cs_ProviderID = login, cs_CredentialID = cid, cs_Active = active, cs_CheckedAt = t\<rparr>)))"
  proof (cases "parseCredentialID env cid")
    case (Inl e)
    then show ?thesis by (simp add: acts_def)
  next
    case (Inr p)
    then obtain l n where p: "p = (l, n)" "token_id cid l n"
      using parseCredentialID_token by (cases p) blast
    have "acts (told cid) keys (attempt (sq_tokenExists env a c l n) (\<lambda>e. ''sonarqube status: '' @ e) (\<lambda>active.
        Now env (\<lambda>t. ret \<lparr>cs_ProviderID = l, cs_CredentialID = cid, cs_Active = active, cs_CheckedAt = t\<rparr>)))"
      by (intro acts_seen_map [OF sq_tokenExists_acts [OF assms p(2)]] trace_mono) (auto simp: Now_def)
    then show ?thesis unfolding Inr p(1) sum.case prod.case .
  qed
qed simp

interpretation sonarqube_keys: key_store "\<lambda>env. sonarqube env a" "behaves (sq_api a)" sq_command
  by unfold_locales (rule perform_steps [where plain = sq_command], auto simp: sq_Rotate_acts sq_Revoke_acts sq_Status_acts)

section \<open>Providers with one token\<close>

definition sp_deletes_old :: "sp_adapter \<Rightarrow> event \<Rightarrow> bool" where
  "sp_deletes_old a e = (case e of
     EHttp q \<Rightarrow> sp_mine a e \<and> hr_method q = ''DELETE'' \<and> hr_url q = sp_tokenURL a ''old'' | EVault _ _ \<Rightarrow> False)"

definition sp_entry :: json where
  "sp_entry = JObj [(''entry'', JArr [JObj [(''content'', JObj [(''disabled'', JBool False)])]])]"

definition sp_reply :: "sp_adapter \<Rightarrow> bool \<Rightarrow> http_request \<Rightarrow> http_response" where
  "sp_reply a deleted q =
     (if hr_method q = ''DELETE'' then \<lparr>resp_status = 204, resp_body = []\<rparr>
      else if hr_method q = ''GET'' \<and> hr_url q = sp_tokenURL a ''old'' \<and> \<not> deleted
      then \<lparr>resp_status = 200, resp_body = json_print sp_entry\<rparr>
      else if hr_method q = ''GET'' then \<lparr>resp_status = 404, resp_body = []\<rparr>
      else \<lparr>resp_status = 409, resp_body = []\<rparr>)"

lemma sp_entry_decodes:
  "sp_decode (read_limited bodyLimit \<lparr>resp_status = code, resp_body = json_print sp_entry\<rparr>) = Some [(False, [])]"
proof -
  have "short_json bodyLimit sp_entry"
    by (simp add: short_json_def sp_entry_def json_quote_def json_esc_def ascii_def bodyLimit_def)
  then show ?thesis
    by (simp add: sp_decode_def)
      (simp add: sp_entry_def sp_decode_entry_def dec_struct_def dec_str_def dec_bool_def key_for_other)
qed

lemma sp_one_key: "behaves (sp_api a) (one_key_env (sp_deletes_old a) (sp_reply a)) (one_key (sp_deletes_old a) ''old'')"
proof (rule one_key_behaves)
  fix q k deleted assume "ka_reads (sp_api a) q k"
  then show "\<not> sp_deletes_old a (EHttp q) \<and> ka_shows (sp_api a) k (if deleted then Map.empty else [''old'' \<mapsto> ''s0''])
      (resp_status (sp_reply a deleted q)) (read_limited bodyLimit (sp_reply a deleted q))"
    by (auto simp: sp_api_def sp_deletes_old_def sp_reply_def sp_entry_decodes sp_tokenURL_def PathEscape_inject)
qed (auto simp: sp_api_def sp_deletes_old_def sp_reply_def sp_tokenURL_def PathEscape_inject split: event.splits)

definition sq_revokes_old :: "sq_adapter \<Rightarrow> event \<Rightarrow> bool" where
  "sq_revokes_old a e = (case e of
     EHttp q \<Rightarrow> sq_mine a e \<and> hr_method q = ''POST'' \<and> hr_url q = sq_baseURL a @ ''/api/user_tokens/revoke''
       \<and> form_has q ''login'' ''bot'' \<and> form_has q ''name'' ''old''
   | EVault _ _ \<Rightarrow> False)"

definition sq_list :: "string list \<Rightarrow> json" where
  "sq_list names = JObj [(''userTokens'', JArr (map (\<lambda>n. JObj [(''name'', JStr n)]) names))]"

definition sq_reply :: "sq_adapter \<Rightarrow> bool \<Rightarrow> http_request \<Rightarrow> http_response" where
  "sq_reply a deleted q =
     (if hr_method q = ''GET'' then \<lparr>resp_status = 200, resp_body = json_print (sq_list
         (if hr_url q = sq_baseURL a @ ''/api/user_tokens/search?login='' @ QueryEscape ''bot'' \<and> \<not> deleted
          then [''old''] else []))\<rparr>
      else if hr_url q = sq_baseURL a @ ''/api/user_tokens/revoke'' then \<lparr>resp_status = 204, resp_body = []\<rparr>
      else \<lparr>resp_status = 400, resp_body = []\<rparr>)"

lemma sq_list_decodes:
  assumes "names \<in> {[], [''old'']}"
  shows "sq_decode_search (read_limited bodyLimit \<lparr>resp_status = code, resp_body = json_print (sq_list names)\<rparr>)
    = Some names"
proof -
  have "short_json bodyLimit (sq_list names)"
    using assms by (auto simp: short_json_def sq_list_def json_quote_def json_esc_def ascii_def bodyLimit_def)
  with assms show ?thesis
    by (simp add: sq_decode_search_def)
      (auto simp: sq_list_def sq_decode_name_def dec_struct_def dec_str_def key_for_other)
qed

lemma token_id_unique: "token_id kid l n \<Longrightarrow> token_id kid l' n' \<Longrightarrow> l' = l \<and> n' = n"
  by (auto simp: token_id_def append_eq_append_conv2 Cons_eq_append_conv append_eq_Cons_conv)

lemma sq_one_key: "behaves (sq_api a) (one_key_env (sq_revokes_old a) (sq_reply a)) (one_key (sq_revokes_old a) ''bot:old'')"
proof (rule one_key_behaves)
  have id: "token_id ''bot:old'' ''bot'' ''old''" by (simp add: token_id_def)
  fix q k
  show "sq_revokes_old a (EHttp q) = (k = ''bot:old'')" if "ka_mine (sq_api a) (EHttp q)" "ka_deletes (sq_api a) q k"
    using that token_id_unique [OF id]
    by (auto simp: sq_api_def sq_revokes_old_def form_has_def token_id_def split: option.splits)
  fix deleted assume "ka_reads (sq_api a) q k"
  then obtain login n where get: "hr_method q = ''GET''" and k: "token_id k login n"
    and url: "hr_url q = sq_baseURL a @ ''/api/user_tokens/search?login='' @ QueryEscape login"
    by (auto simp: sq_api_def)
  have "(k = ''bot:old'') = (login = ''bot'' \<and> n = ''old'')"
  proof
    assume "k = ''bot:old''"
    with k have "token_id ''bot:old'' login n" by simp
    then show "login = ''bot'' \<and> n = ''old''" by (rule token_id_unique [OF id])
  qed (use k in \<open>simp add: token_id_def\<close>)
  with get k url show "\<not> sq_revokes_old a (EHttp q) \<and>
      ka_shows (sq_api a) k (if deleted then Map.empty else [''bot:old'' \<mapsto> ''s0''])
        (resp_status (sq_reply a deleted q)) (read_limited bodyLimit (sq_reply a deleted q))"
    by (auto simp: sq_api_def sq_revokes_old_def sq_reply_def sq_list_decodes dest: token_id_unique)
qed (auto simp: sq_api_def sq_revokes_old_def sq_reply_def split: event.splits)

end
