(* ===== verification/Key_Github.thy ===== *)
theory Key_Github
  imports Key_Store
begin

text \<open>
  The GitHub adapter as an implementation of the abstract store.  Its rotation deletes the old
  token itself, after it has made the new one, so that a rotation that names an old token is two
  steps of the store; the other rotations, revocations and status checks are one.
\<close>

section \<open>The provider\<close>

text \<open>The tokens of the store are those that have not expired, and none of them expires meanwhile.\<close>

definition gh_api :: "env \<Rightarrow> gh_adapter \<Rightarrow> key_api" where
  "gh_api env a = \<lparr>ka_mine = gh_mine a,
     ka_creates = (\<lambda>q decode. hr_method q = ''POST'' \<and> hr_url q = gh_baseURL a @ ''/user/personal_access_tokens''
       \<and> decode = (\<lambda>body. map_option (\<lambda>(tid, tok). (FormatInt tid, tok)) (gh_decode_created body))),
     ka_created = {201},
     ka_deletes = (\<lambda>q kid. plain_id kid \<and> hr_method q = ''DELETE'' \<and> hr_url q = gh_baseURL a @ token_path kid),
     ka_deleted = {204, 404},
     ka_reads = (\<lambda>q kid. plain_id kid \<and> hr_method q = ''GET'' \<and> hr_url q = gh_baseURL a @ token_path kid),
     ka_shows = (\<lambda>kid s status body. (status = 404 \<longrightarrow> kid \<notin> dom s)
       \<and> (status = 200 \<longrightarrow> (\<exists>expires. gh_decode_expiry body = Some expires
            \<and> (case (if expires = [] then None else parse_rfc3339 expires) of
                 None \<Rightarrow> kid \<in> dom s
               | Some t \<Rightarrow> (\<forall>i. (kid \<in> dom s) = (clock env i < t))))))\<rparr>"

lemma gh_do_calls:
  assumes "under (gh_baseURL a) (gh_baseURL a @ p)" "\<And>q. hr_method q = m \<Longrightarrow> hr_url q = gh_baseURL a @ p \<Longrightarrow> P q"
  shows "calls env (\<lambda>q. ka_mine (gh_api env' a) (EHttp q) \<and> P q) (gh_do env a c m p b)"
  unfolding gh_do_def Let_def
  by (rule calls_request) (use assms in \<open>simp add: gh_api_def gh_mine_def to_provider_def\<close>)

lemma under_tokens [simp]: "under base (base @ ''/user/personal_access_tokens'')"
  using under_append [of base "''user/personal_access_tokens''"] by simp

lemma gh_Revoke_acts:
  "behaves (gh_api env a) env keys \<Longrightarrow> rv_CredentialID rv = [] \<or> plain_id (rv_CredentialID rv) \<Longrightarrow>
   acts (removed (rv_CredentialID rv)) keys (gh_Revoke env a c rv)"
  unfolding gh_Revoke_def
  by (intro acts_check, simp, rule delete_acts, assumption, rule gh_do_calls)
     (auto simp: gh_api_def act_eq_Inr intro!: trace_mono split: if_splits)

lemma gh_Status_acts:
  "behaves (gh_api env a) env keys \<Longrightarrow> plain_command (CStatus cid) \<Longrightarrow> acts (told cid) keys (gh_Status env a c cid)"
  unfolding gh_Status_def
  by (intro acts_check, simp, rule read_acts [where kid = cid], assumption, rule gh_do_calls)
     (auto simp: gh_api_def act_eq_Inr intro!: trace_mono dest!: gh_status_result split: prod.splits if_splits option.splits)

section \<open>Rotation\<close>

text \<open>A rotation without the deletion of the old token.\<close>

definition gh_make :: "env \<Rightarrow> gh_adapter \<Rightarrow> ctx \<Rightarrow> RotateRequest \<Rightarrow> Result act" where
  "gh_make env a c req =
     Now env (\<lambda>t1. Now env (\<lambda>t2.
     attempt (gh_do env a c ''POST'' ''/user/personal_access_tokens'' (json_print (gh_body req t1 t2)))
       (\<lambda>e. ''github rotate: '' @ e) (\<lambda>(status, respBody).
     check (status \<noteq> 201)
       (''github rotate: unexpected status '' @ nat_dec status @ '': '' @ respBody)
     (of_option (gh_decode_created respBody)
       (''github rotate: parse response: '' @ json_err env ''github rotate'' respBody) (\<lambda>(tid, tok).
     check (tok = []) ''github rotate: empty token in response''
     (Now env (\<lambda>t. ret
       \<lparr>res_ProviderID = rq_ProviderID req, res_CredentialID = FormatInt tid,
        res_Credential = tok, res_RotatedAt = t\<rparr>)))))))"

lemma gh_Rotate_make: "gh_Rotate env a c req = attempt (gh_make env a c req) (\<lambda>e. e) (gh_delete_old env a c req)"
  unfolding gh_Rotate_def gh_make_def
  by (auto simp: fun_eq_iff attempt_def check_def of_option_def Now_def split: prod.split sum.split option.split)

lemma made_result: "made (\<lambda>res. (res_CredentialID res, res_Credential res)) r s s' = replaced r s s'"
  by (cases r) simp_all

lemma gh_make_acts:
  assumes "behaves (gh_api env a) env keys"
  shows "acts replaced keys (gh_make env a c rq)"
proof -
  have "acts (made (\<lambda>res. (res_CredentialID res, res_Credential res))) keys (gh_make env a c rq)"
    unfolding gh_make_def
    by (intro acts_Now, rule create_acts [OF assms, where decode =
          "\<lambda>body. map_option (\<lambda>(tid, tok). (FormatInt tid, tok)) (gh_decode_created body)"], rule gh_do_calls)
       (auto simp: gh_api_def act_eq_Inr intro!: trace_mono split: prod.splits)
  then show ?thesis unfolding made_result [abs_def] .
qed

text \<open>The old token named in the request, where there is one.\<close>

fun gh_replaced :: "RotateRequest \<Rightarrow> gerr + Result \<Rightarrow> store \<Rightarrow> store \<Rightarrow> bool" where
  "gh_replaced rq (Inl _) s s' \<longleftrightarrow> gained s s'"
| "gh_replaced rq (Inr res) s s' \<longleftrightarrow> res_CredentialID res \<notin> dom s
     \<and> (let s1 = s(res_CredentialID res \<mapsto> res_Credential res) in case meta_value (rq_Meta rq) ''old_token_id'' of
          None \<Rightarrow> s' = s1
        | Some old \<Rightarrow> s' = s1 \<or> s' = s1(old := None))"

fun gh_plain :: "RotateRequest \<Rightarrow> bool" where
  "gh_plain rq \<longleftrightarrow> (case meta_value (rq_Meta rq) ''old_token_id'' of None \<Rightarrow> True | Some old \<Rightarrow> plain_id old)"

lemma gh_delete_old_acts:
  assumes "behaves (gh_api env a) env keys" "meta_value (rq_Meta rq) ''old_token_id'' = Some old" "plain_id old"
  shows "acts (\<lambda>r s s'. r = Inr res \<and> (s' = s \<or> s' = s(old := None))) keys (gh_delete_old env a c rq res)"
  unfolding acts_def
proof (intro allI impI)
  fix w r w' assume run: "gh_delete_old env a c rq res w = (r, w')"
  let ?rv = "\<lparr>rv_ProviderID = rq_ProviderID rq, rv_CredentialID = old\<rparr>"
  obtain x w1 where x: "gh_Revoke env a c ?rv w = (x, w1)" by fastforce
  have "acts (removed old) keys (gh_Revoke env a c ?rv)"
    using gh_Revoke_acts [OF assms(1), of ?rv] assms(3) by simp
  from actsD [OF this x] run x assms(2)
  show "r = Inr res \<and> (keys (trace w') = keys (trace w) \<or> keys (trace w') = (keys (trace w))(old := None))"
    by (cases x) (auto simp: gh_delete_old_def on_result_def)
qed

lemma gh_Rotate_acts:
  assumes "behaves (gh_api env a) env keys" "gh_plain rq"
  shows "acts (gh_replaced rq) keys (gh_Rotate env a c rq)"
  unfolding acts_def
proof (intro allI impI)
  fix w r w' assume run: "gh_Rotate env a c rq w = (r, w')"
  obtain x w1 where x: "gh_make env a c rq w = (x, w1)" by fastforce
  note made = actsD [OF gh_make_acts [OF assms(1)] x]
  show "gh_replaced rq r (keys (trace w)) (keys (trace w'))"
  proof (cases x)
    case (Inl e)
    with made run x show ?thesis by (auto simp: gh_Rotate_make)
  next
    case (Inr res)
    with run x have del: "gh_delete_old env a c rq res w1 = (r, w')"
      by (simp add: gh_Rotate_make attempt_def)
    show ?thesis
    proof (cases "meta_value (rq_Meta rq) ''old_token_id''")
      case None
      with del made Inr show ?thesis by (auto simp: gh_delete_old_def)
    next
      case (Some old)
      with assms(2) have "plain_id old" by simp
      from actsD [OF gh_delete_old_acts [OF assms(1) Some this] del] made Inr Some show ?thesis by auto
    qed
  qed
qed

section \<open>The adapter as a store\<close>

fun gh_command :: "command \<Rightarrow> bool" where
  "gh_command (CRotate rq) \<longleftrightarrow> meta_value (rq_Meta rq) ''old_token_id'' = None"
| "gh_command cmd \<longleftrightarrow> plain_command cmd"

lemma gh_Rotate_replaced:
  assumes "behaves (gh_api env a) env keys" "meta_value (rq_Meta rq) ''old_token_id'' = None"
  shows "acts replaced keys (gh_Rotate env a c rq)"
proof -
  have "acts (gh_replaced rq) keys (gh_Rotate env a c rq)"
    using assms by (intro gh_Rotate_acts) simp_all
  moreover have "gh_replaced rq r s s' = replaced r s s'" for r s s'
    using assms(2) by (cases r) simp_all
  ultimately show ?thesis by (simp add: acts_def)
qed

interpretation github_keys: key_store "\<lambda>env. github env a" "\<lambda>env. behaves (gh_api env a) env" gh_command
  by unfold_locales
     (rule perform_steps [where plain = gh_command], auto simp: gh_Rotate_replaced gh_Revoke_acts gh_Status_acts)

text \<open>
  A rotation that names an old token is a replacement in one call, where GitHub answers the
  deletion: the other adapters leave the deletion to their \<open>Drain\<close>.
\<close>

lemma gh_Revoke_succeeds:
  assumes "\<And>u. url_err env u = None" "confirmed env (gh_api env a)" "plain_id (rv_CredentialID rv)"
  shows "\<exists>w'. gh_Revoke env a c rv w = (Inr (), w')"
proof -
  have "rv_CredentialID rv \<noteq> []" using assms(3) by (auto simp: plain_id_def)
  moreover have "\<exists>w'. attempt (gh_do env a c ''DELETE'' (token_path (rv_CredentialID rv)) [])
      (\<lambda>e. ''github revoke: '' @ e) (\<lambda>(status, body).
     if status = 404 then ret ()
     else check (status \<noteq> 204) (''github revoke: unexpected status '' @ nat_dec status @ '': '' @ body) (ret ())) w
     = (Inr (), w')"
    by (rule delete_succeeds [where api = "gh_api env a" and kid = "rv_CredentialID rv"], rule gh_do_calls)
       (use assms in \<open>auto simp: gh_api_def gh_do_def request_sent Let_def\<close>)
  ultimately show ?thesis by (simp add: gh_Revoke_def)
qed

lemma github_rotation_replaces:
  assumes "behaves (gh_api env a) env keys" "confirmed env (gh_api env a)" "\<And>u. url_err env u = None"
    and "gh_Rotate env a c rq w = (Inr res, w')" "meta_value (rq_Meta rq) ''old_token_id'' = Some old" "plain_id old"
  shows "res_CredentialID res \<notin> dom (keys (trace w))
    \<and> keys (trace w') = (keys (trace w))(res_CredentialID res \<mapsto> res_Credential res, old := None)"
proof -
  obtain x w1 where x: "gh_make env a c rq w = (x, w1)" by fastforce
  with assms(4) obtain res1 where x1: "x = Inr res1" and del: "gh_delete_old env a c rq res1 w1 = (Inr res, w')"
    by (cases x) (auto simp: gh_Rotate_make attempt_def)
  let ?rv = "\<lparr>rv_ProviderID = rq_ProviderID rq, rv_CredentialID = old\<rparr>"
  obtain w2 where rv: "gh_Revoke env a c ?rv w1 = (Inr (), w2)"
    using gh_Revoke_succeeds [OF assms(3,2), of ?rv] assms(6) by auto
  have eq: "res1 = res" "w2 = w'" using del rv assms(5) by (simp_all add: gh_delete_old_def on_result_def)
  have "acts (removed old) keys (gh_Revoke env a c ?rv)"
    using gh_Revoke_acts [OF assms(1), of ?rv] assms(6) by simp
  from actsD [OF this rv] actsD [OF gh_make_acts [OF assms(1)] x] x1 eq show ?thesis by simp
qed

section \<open>GitHub with one token\<close>

definition gh_deletes_old :: "gh_adapter \<Rightarrow> event \<Rightarrow> bool" where
  "gh_deletes_old a e = (case e of
     EHttp q \<Rightarrow> gh_mine a e \<and> hr_method q = ''DELETE'' \<and> hr_url q = gh_baseURL a @ token_path ''7''
   | EVault _ _ \<Rightarrow> False)"

definition gh_token_json :: json where
  "gh_token_json = JObj [(''expires_at'', JStr [])]"

definition gh_reply :: "gh_adapter \<Rightarrow> bool \<Rightarrow> http_request \<Rightarrow> http_response" where
  "gh_reply a deleted q =
     (if hr_method q = ''DELETE'' then \<lparr>resp_status = 204, resp_body = []\<rparr>
      else if hr_method q = ''GET''
      then if \<not> deleted \<and> hr_url q = gh_baseURL a @ token_path ''7''
           then \<lparr>resp_status = 200, resp_body = json_print gh_token_json\<rparr>
           else \<lparr>resp_status = 404, resp_body = []\<rparr>
      else \<lparr>resp_status = 429, resp_body = []\<rparr>)"

lemma gh_token_json_decodes:
  "gh_decode_expiry (read_limited bodyLimit \<lparr>resp_status = code, resp_body = json_print gh_token_json\<rparr>) = Some []"
proof -
  have "short_json bodyLimit gh_token_json"
    by (simp add: short_json_def gh_token_json_def json_quote_def json_esc_def ascii_def bodyLimit_def)
  then show ?thesis
    by (simp add: gh_decode_expiry_def) (simp add: gh_token_json_def dec_struct_def dec_str_def key_for_other)
qed

lemma gh_one_key: "behaves (gh_api (one_key_env (gh_deletes_old a) (gh_reply a)) a)
  (one_key_env (gh_deletes_old a) (gh_reply a)) (one_key (gh_deletes_old a) ''7'')"
  by (rule one_key_behaves)
     (auto simp: gh_api_def gh_deletes_old_def gh_reply_def gh_token_json_decodes token_path_def split: event.splits)

end
