(* ===== verification/Key_Providers.thy ===== *)
theory Key_Providers
  imports Key_Forms Key_Github
begin

text \<open>
  The Datadog and the PagerDuty adapter as implementations of the abstract store: what is
  assumed of each provider (\<open>dd_api\<close>, \<open>pd_api\<close>), the interpretations of \<open>key_store\<close>, the
  refinement by all five adapters that make keys, and providers in miniature at which the hypotheses hold.
\<close>

section \<open>The Datadog provider\<close>

text \<open>A key can be read by itself: 200 says that it is there, 404 that it is not.\<close>

definition dd_api :: "dd_adapter \<Rightarrow> key_api" where
  "dd_api a = \<lparr>ka_mine = dd_mine a,
     ka_creates = (\<lambda>q decode. hr_method q = ''POST'' \<and> hr_url q = dd_baseURL a @ collectionPath a \<and> decode = dd_decode),
     ka_created = {201},
     ka_deletes = (\<lambda>q kid. plain_id kid \<and> hr_method q = ''DELETE'' \<and> hr_url q = dd_baseURL a @ keyPath a kid),
     ka_deleted = {204, 404},
     ka_reads = (\<lambda>q kid. plain_id kid \<and> hr_method q = ''GET'' \<and> hr_url q = dd_baseURL a @ keyPath a kid),
     ka_shows = (\<lambda>kid s status _. (status = 200 \<longrightarrow> kid \<in> dom s) \<and> (status = 404 \<longrightarrow> kid \<notin> dom s))\<rparr>"

abbreviation dd_provider :: "dd_adapter \<Rightarrow> env \<Rightarrow> (event list \<Rightarrow> store) \<Rightarrow> bool" where
  "dd_provider a \<equiv> behaves (dd_api a)"

lemma dd_do_calls:
  assumes "under (dd_baseURL a) u" "\<And>q. hr_method q = m \<Longrightarrow> hr_url q = u \<Longrightarrow> P q"
  shows "calls env (\<lambda>q. ka_mine (dd_api a) (EHttp q) \<and> P q) (dd_do env a c m u b)"
  unfolding dd_do_def Let_def
  by (rule calls_request) (use assms in \<open>simp add: dd_api_def dd_mine_def to_provider_def dd_auth_def\<close>)

lemma dd_createKey_acts: "dd_provider a env keys \<Longrightarrow> acts (made (\<lambda>p. p)) keys (dd_createKey env a c n m)"
  unfolding dd_createKey_def
  by (rule create_acts [where decode = dd_decode], assumption, rule dd_do_calls)
     (auto simp: dd_api_def act_eq_Inr intro!: trace_mono split: prod.splits)

lemma dd_deleteKey_acts:
  "dd_provider a env keys \<Longrightarrow> plain_id kid \<Longrightarrow> acts (removed kid) keys (dd_deleteKey env a c kid)"
  unfolding dd_deleteKey_def
  by (rule delete_acts, assumption, rule dd_do_calls)
     (auto simp: dd_api_def act_eq_Inr intro!: trace_mono)

lemma dd_Rotate_acts: "dd_provider a env keys \<Longrightarrow> acts replaced keys (dd_Rotate env a c rq)"
  unfolding dd_Rotate_def Let_def case_prod_unfold
  by (intro acts_after_silent acts_Now made_replaced [OF dd_createKey_acts] trace_mono) simp_all

lemma dd_Revoke_acts:
  "dd_provider a env keys \<Longrightarrow> plain_command (CRevoke rv) \<Longrightarrow>
   acts (removed (rv_CredentialID rv)) keys (dd_Revoke env a c rv)"
  unfolding dd_Revoke_def by (intro acts_check acts_removed_map dd_deleteKey_acts) simp_all

lemma dd_Status_acts:
  "dd_provider a env keys \<Longrightarrow> plain_command (CStatus cid) \<Longrightarrow> acts (told cid) keys (dd_Status env a c cid)"
  unfolding dd_Status_def
  by (intro acts_check, simp, rule read_acts [where kid = cid], assumption, rule dd_do_calls)
     (auto simp: dd_api_def act_eq_Inr intro!: trace_mono split: prod.splits)

interpretation datadog_keys: key_store "\<lambda>env. datadog env a" "dd_provider a" plain_command
  by unfold_locales (rule perform_steps [where plain = plain_command], auto simp: dd_Rotate_acts dd_Revoke_acts dd_Status_acts)

section \<open>The PagerDuty provider\<close>

text \<open>
  PagerDuty has no reading of one key: the adapter reads the list of the keys.  The list holds
  all of them, that is the account has no more keys than stand on one page; of one that has
  more a key that works can be reported inactive (\<open>pd_Status_first_page\<close>).
\<close>

definition pd_api :: "pd_adapter \<Rightarrow> key_api" where
  "pd_api a = \<lparr>ka_mine = pd_mine a,
     ka_creates = (\<lambda>q decode. hr_method q = ''POST'' \<and> hr_url q = pd_baseURL a @ ''/api_keys'' \<and> decode = pd_decode),
     ka_created = {201},
     ka_deletes = (\<lambda>q kid. plain_id kid \<and> hr_method q = ''DELETE'' \<and> hr_url q = pd_baseURL a @ ''/api_keys/'' @ kid),
     ka_deleted = {204, 404},
     ka_reads = (\<lambda>q _. hr_method q = ''GET'' \<and> hr_url q = pd_baseURL a @ ''/api_keys?limit=100''),
     ka_shows = (\<lambda>_ s status body. status = 200 \<longrightarrow>
       (\<exists>ids rest. pd_decode_list body = Some (ids, rest) \<and> set ids = dom s))\<rparr>"

abbreviation pd_provider :: "pd_adapter \<Rightarrow> env \<Rightarrow> (event list \<Rightarrow> store) \<Rightarrow> bool" where
  "pd_provider a \<equiv> behaves (pd_api a)"

lemma pd_do_calls:
  assumes "under (pd_baseURL a) u" "\<And>q. hr_method q = m \<Longrightarrow> hr_url q = u \<Longrightarrow> P q"
  shows "calls env (\<lambda>q. ka_mine (pd_api a) (EHttp q) \<and> P q) (pd_do env a c m u b)"
  unfolding pd_do_def Let_def
  by (rule calls_request) (use assms in \<open>simp add: pd_api_def pd_mine_def to_provider_def\<close>)

lemma pd_createKey_acts: "pd_provider a env keys \<Longrightarrow> acts (made (\<lambda>p. p)) keys (pd_createKey env a c n)"
  unfolding pd_createKey_def
  by (rule create_acts [where decode = pd_decode], assumption, rule pd_do_calls)
     (auto simp: pd_api_def act_eq_Inr intro!: trace_mono split: prod.splits)

lemma pd_deleteKey_acts:
  "pd_provider a env keys \<Longrightarrow> plain_id kid \<Longrightarrow> acts (removed kid) keys (pd_deleteKey env a c kid)"
  unfolding pd_deleteKey_def
  by (rule delete_acts, assumption, rule pd_do_calls)
     (auto simp: pd_api_def act_eq_Inr intro!: trace_mono)

lemma pd_keyExists_acts:
  "pd_provider a env keys \<Longrightarrow> acts (seen (\<lambda>b s. b = (kid \<in> dom s))) keys (pd_keyExists env a c kid)"
  unfolding pd_keyExists_def
  by (rule read_acts [where kid = kid], assumption, rule pd_do_calls)
     (auto simp: pd_api_def act_eq_Inr intro!: trace_mono)

lemma pd_Rotate_acts: "pd_provider a env keys \<Longrightarrow> acts replaced keys (pd_Rotate env a c rq)"
  unfolding pd_Rotate_def Let_def case_prod_unfold
  by (intro acts_after_silent acts_Now made_replaced [OF pd_createKey_acts] trace_mono) simp_all

lemma pd_Revoke_acts:
  "pd_provider a env keys \<Longrightarrow> plain_command (CRevoke rv) \<Longrightarrow>
   acts (removed (rv_CredentialID rv)) keys (pd_Revoke env a c rv)"
  unfolding pd_Revoke_def by (intro acts_check acts_removed_map pd_deleteKey_acts) simp_all

lemma pd_Status_acts: "pd_provider a env keys \<Longrightarrow> acts (told cid) keys (pd_Status env a c cid)"
  unfolding pd_Status_def
  by (intro acts_check acts_seen_map [OF pd_keyExists_acts] trace_mono) (auto simp: Now_def)

interpretation pagerduty_keys: key_store "\<lambda>env. pagerduty env a" "pd_provider a" plain_command
  by unfold_locales (rule perform_steps [where plain = plain_command], auto simp: pd_Rotate_acts pd_Revoke_acts pd_Status_acts)

section \<open>A provider that behaves\<close>

text \<open>
  Datadog in miniature, so that the hypotheses of the properties can be met: ids are runs of
  one letter, each longer than the ones before, and creation stops after a hundred requests.
\<close>

definition new_id :: "nat \<Rightarrow> string" where
  "new_id n = replicate (Suc n) (CHR ''x'')"

definition key_reply :: "string \<Rightarrow> json" where
  "key_reply kid = JObj [(''data'', JObj [(''id'', JStr kid), (''attributes'', JObj [(''key'', JStr ''s3cret'')])])]"

definition creates :: "dd_adapter \<Rightarrow> http_request \<Rightarrow> bool" where
  "creates a q \<longleftrightarrow> hr_method q = ''POST'' \<and> hr_url q = dd_baseURL a @ collectionPath a"

definition id_of :: "dd_adapter \<Rightarrow> http_request \<Rightarrow> string" where
  "id_of a q = drop (length (dd_baseURL a @ keyPath a [])) (hr_url q)"

text \<open>The keys after the events, the last one first.\<close>

fun mini_keys :: "dd_adapter \<Rightarrow> event list \<Rightarrow> store" where
  "mini_keys a [] = [''old'' \<mapsto> ''s0'']"
| "mini_keys a (e # es) = (case e of
     EHttp q \<Rightarrow>
       if dd_mine a e \<and> creates a q \<and> length es < 100 then (mini_keys a es)(new_id (length es) \<mapsto> ''s3cret'')
       else if dd_mine a e \<and> hr_method q = ''DELETE'' then (mini_keys a es)(id_of a q := None)
       else mini_keys a es
   | EVault _ _ \<Rightarrow> mini_keys a es)"

definition mini_net :: "dd_adapter \<Rightarrow> event list \<Rightarrow> http_request \<Rightarrow> gerr + http_response" where
  "mini_net a tr q =
     (if creates a q then
        (if length tr < 100
         then Inr \<lparr>resp_status = 201, resp_body = json_print (key_reply (new_id (length tr)))\<rparr>
         else Inr \<lparr>resp_status = 429, resp_body = []\<rparr>)
      else if hr_method q = ''DELETE'' then Inr \<lparr>resp_status = 204, resp_body = []\<rparr>
      else Inr \<lparr>resp_status = (if id_of a q \<in> dom (mini_keys a (rev tr)) then 200 else 404), resp_body = []\<rparr>)"

definition mini_env :: "dd_adapter \<Rightarrow> env" where
  "mini_env a = (transit_vault ''k'')\<lparr>net := mini_net a\<rparr>"

lemma mini_env_sel [simp]:
  "net (mini_env a) = mini_net a" "url_err (mini_env a) u = None" "acquire (mini_env a) t c = None"
  "drain_wait (mini_env a) t n = None" "clock (mini_env a) t = 0"
  "entropy (mini_env a) t m = Inr (replicate m (CHR ''a''))"
  by (simp_all add: mini_env_def transit_vault_def)

lemma id_of_keyPath: "hr_url q = dd_baseURL a @ keyPath a kid \<Longrightarrow> id_of a q = kid"
  by (simp add: id_of_def keyPath_def)

lemma mini_keys_ids:
  "k \<in> dom (mini_keys a es) \<Longrightarrow> k = ''old'' \<or> (\<exists>m < length es. k = new_id m)"
proof (induction es)
  case (Cons e es)
  then show ?case by (cases e) (auto simp: less_Suc_eq split: if_splits)
qed simp

lemma new_id_fresh: "new_id (length es) \<notin> dom (mini_keys a es)"
proof
  assume "new_id (length es) \<in> dom (mini_keys a es)"
  from mini_keys_ids [OF this] show False
    by (auto simp: new_id_def Cons_replicate_eq)
qed

lemma short_key_reply:
  assumes "n < 100"
  shows "ascii_json (key_reply (new_id n))" "length (json_print (key_reply (new_id n))) \<le> bodyLimit"
proof -
  have a: "ascii (new_id n)" by (simp add: new_id_def ascii_def list_all_iff)
  then show "ascii_json (key_reply (new_id n))" by (simp add: key_reply_def)
  have "length (json_quote (new_id n)) \<le> 602"
    using length_json_quote [OF a] assms by (simp add: new_id_def)
  moreover have "length (json_quote ''data'') \<le> 26" "length (json_quote ''id'') \<le> 14"
    "length (json_quote ''attributes'') \<le> 62" "length (json_quote ''key'') \<le> 20"
    "length (json_quote ''s3cret'') \<le> 38"
    using length_json_quote [of "''data''"] length_json_quote [of "''id''"] length_json_quote [of "''attributes''"]
      length_json_quote [of "''key''"] length_json_quote [of "''s3cret''"] by simp_all
  ultimately have "length (json_print (key_reply (new_id n))) \<le> 900"
    unfolding key_reply_def json_print.simps list.map prod.case commas.simps length_append
      list.size by linarith
  then show "length (json_print (key_reply (new_id n))) \<le> bodyLimit"
    by (simp add: bodyLimit_def)
qed

lemma dd_decode_key_reply:
  assumes "n < 100"
  shows "dd_decode (read_limited bodyLimit \<lparr>resp_status = c, resp_body = json_print (key_reply (new_id n))\<rparr>)
    = Some (new_id n, ''s3cret'')"
proof -
  have "short_json bodyLimit (key_reply (new_id n))"
    using short_key_reply [OF assms] by (simp add: short_json_def)
  then show ?thesis
    by (simp add: dd_decode_def) (simp add: key_reply_def dec_struct_def dec_str_def key_for_other)
qed

lemma mini_provider: "dd_provider a (mini_env a) (\<lambda>tr. mini_keys a (rev tr))"
proof -
  have post: "key_created {201} dd_decode (mini_keys a (rev tr)) (mini_net a tr q) (mini_keys a (rev (tr @ [EHttp q])))"
    if "dd_mine a (EHttp q)" "creates a q" for tr q
  proof (cases "length tr < 100")
    case True
    with that new_id_fresh [of "rev tr" a] dd_decode_key_reply [OF True] show ?thesis
      by (auto simp: key_created_def gained_def mini_net_def)
  next
    case False
    with that show ?thesis by (auto simp: key_created_def gained_def mini_net_def creates_def)
  qed
  have delete: "key_deleted {204, 404} kid (mini_keys a (rev tr)) (mini_net a tr q) (mini_keys a (rev (tr @ [EHttp q])))"
    if "dd_mine a (EHttp q)" "hr_url q = dd_baseURL a @ keyPath a kid" "hr_method q = ''DELETE''" for tr q kid
    using that by (simp add: key_deleted_def creates_def id_of_keyPath)
  have read: "key_read (ka_shows (dd_api a) kid) (mini_keys a (rev tr)) (mini_net a tr q) (mini_keys a (rev (tr @ [EHttp q])))"
    if "hr_url q = dd_baseURL a @ keyPath a kid" "hr_method q = ''GET''" for tr q kid
    using that by (auto simp: key_read_def dd_api_def creates_def id_of_keyPath mini_net_def)
  have other: "mini_keys a (rev (tr @ [e])) = mini_keys a (rev tr)" if "\<not> dd_mine a e" for tr e
    using that by (auto split: event.split)
  note api = dd_api_def creates_def
  show ?thesis
    unfolding behaves_def mini_env_sel
    using post delete read other by (simp add: api del: mini_keys.simps rev_append)
qed

lemma mini_creates:
  assumes "length (trace w) < 100"
  shows "\<exists>w'. dd_createKey (mini_env a) a c n m w = (Inr (new_id (length (trace w)), ''s3cret''), w')"
proof -
  let ?b = "Some (dd_buildCreateBody a n m)"
  let ?rep = "\<lparr>resp_status = 201, resp_body = json_print (key_reply (new_id (length (trace w))))\<rparr>"
  have "\<exists>w'. dd_do (mini_env a) a c ''POST'' (dd_baseURL a @ collectionPath a) ?b w
      = (Inr (201, read_limited bodyLimit ?rep), w')"
    using assms by (simp add: dd_do_def NewRequest_def Let_def attempt_def Do_def mini_net_def creates_def)
  then show ?thesis
    using dd_decode_key_reply [OF assms, of 201] by (auto simp: dd_createKey_def new_id_def)
qed

lemma mini_rotates:
  assumes "length (trace w) < 100"
  shows "\<exists>res w'. dd_Rotate (mini_env a) a c rq w = (Inr res, w') \<and> res_Credential res = ''s3cret'' \<and> res_RotatedAt res = 0"
proof -
  obtain w1 where acq: "Acquire (mini_env a) c w = (Inr (), w1)" and t1: "trace w1 = trace w"
    by (simp add: Acquire_def Let_def)
  obtain sfx w2 where rnd: "randomHex (mini_env a) 2 w1 = (Inr sfx, w2)" and t2: "trace w2 = trace w1"
    by (simp add: randomHex_def attempt_def rand_Read_def)
  let ?w = "w2\<lparr>ticks := Suc (ticks w2)\<rparr>"
  let ?name = "rq_ProviderID rq @ ''-'' @ fmt_compact_ms (clock (mini_env a) (ticks w2)) @ ''-'' @ sfx"
  obtain kid w3 where cr: "dd_createKey (mini_env a) a c ?name (rq_Meta rq) ?w = (Inr (kid, ''s3cret''), w3)"
    using mini_creates [of ?w a c ?name "rq_Meta rq"] assms t1 t2 by auto
  show ?thesis
    unfolding dd_Rotate_def Let_def attempt_Inr [of "Acquire (mini_env a) c", OF acq]
      attempt_Inr [of "randomHex (mini_env a) 2", OF rnd] Now_def
      attempt_Inr [of "dd_createKey (mini_env a) a c ?name (rq_Meta rq)", OF cr] prod.case
    by (simp add: start_cleanup_def then_do_def split: option.split)
qed

section \<open>The adapters implement the store\<close>


definition demo_commands :: "command list" where
  "demo_commands = [CRotate \<lparr>rq_ProviderID = ''svc'', rq_Meta = Map.empty\<rparr>, CStatus ''old'',
     CRevoke \<lparr>rv_ProviderID = ''svc'', rv_CredentialID = ''old''\<rparr>]"


text \<open>PagerDuty with one key; those of the other providers are in \<open>Key_Forms\<close> and \<open>Key_Github\<close>.\<close>

definition pd_deletes_old :: "pd_adapter \<Rightarrow> event \<Rightarrow> bool" where
  "pd_deletes_old a e = (case e of
     EHttp q \<Rightarrow> pd_mine a e \<and> hr_method q = ''DELETE'' \<and> hr_url q = pd_baseURL a @ ''/api_keys/old''
   | EVault _ _ \<Rightarrow> False)"

definition pd_list :: "string list \<Rightarrow> json" where
  "pd_list ids = JObj [(''api_keys'', JArr (map (\<lambda>k. JObj [(''id'', JStr k)]) ids)), (''more'', JBool False)]"

definition pd_reply :: "bool \<Rightarrow> http_request \<Rightarrow> http_response" where
  "pd_reply deleted q =
     (if hr_method q = ''DELETE'' then \<lparr>resp_status = 204, resp_body = []\<rparr>
      else if hr_method q = ''GET''
      then \<lparr>resp_status = 200, resp_body = json_print (pd_list (if deleted then [] else [''old'']))\<rparr>
      else \<lparr>resp_status = 429, resp_body = []\<rparr>)"

lemma pd_list_decodes:
  assumes "ids \<in> {[], [''old'']}"
  shows "pd_decode_list (read_limited bodyLimit \<lparr>resp_status = code, resp_body = json_print (pd_list ids)\<rparr>)
    = Some (ids, False)"
proof -
  have "short_json bodyLimit (pd_list ids)"
    using assms by (auto simp: short_json_def pd_list_def json_quote_def json_esc_def ascii_def bodyLimit_def)
  with assms show ?thesis
    by (simp add: pd_decode_list_def)
      (auto simp: pd_list_def dec_struct_def dec_str_def dec_bool_def pd_decode_key_def key_for_other)
qed

lemma pd_one_key: "pd_provider a (one_key_env (pd_deletes_old a) pd_reply) (one_key (pd_deletes_old a) ''old'')"
  by (rule one_key_behaves)
     (auto simp: pd_api_def pd_deletes_old_def pd_reply_def pd_list_decodes split: event.splits)

end
