(* ===== verification/Key_Rotation.thy ===== *)
theory Key_Rotation
  imports Key_Providers
begin

text \<open>
  A rotation with its clean-up.  The locale \<open>key_rotation\<close> is an adapter that makes a key and
  leaves the deletion of the old one to its \<open>Drain\<close>; in it, the rotation replaces the key.  It is
  interpreted on the four adapters that work this way.
\<close>

section \<open>Clean-ups\<close>

lemma cleanup_removes:
  assumes "acts (removed kid) keys m" "\<exists>w'. m w = (Inr (), w')"
  shows "keys (trace (log_failure m l w)) = (keys (trace w))(kid := None)"
proof -
  obtain w' where m: "m w = (Inr (), w')" using assms(2) by blast
  from actsD [OF assms(1) m] show ?thesis by (simp add: log_failure_def m)
qed

lemma spawns_nothing:
  assumes "only_spawns (\<lambda>_. False) m" "m w = (x, w')"
  shows "spawned w' = spawned w"
  using only_spawnsD [OF assms(1), of w] assms(2) by (auto simp: list_all_iff)

lemmas spawned_steps = spawns_nothing [OF only_spawns_Acquire] spawns_nothing [OF only_spawns_randomHex]
  spawns_nothing [OF only_spawns_dd_createKey] spawns_nothing [OF only_spawns_pd_calls(1)]
  spawns_nothing [OF only_spawns_sp_createToken] spawns_nothing [OF only_spawns_sq_calls(1)]

section \<open>Adapters that replace keys\<close>

text \<open>
  \<open>target pid old\<close> is the id of the key that the clean-up for \<open>old\<close> deletes, if \<open>pid\<close> and \<open>old\<close> are
  such that it names one.
\<close>

locale key_rotation =
  fixes env :: env and ad :: adapter and api :: key_api and name old_key :: string
    and target :: "string \<Rightarrow> string \<Rightarrow> string option" and cleanup :: "cleanup \<Rightarrow> world \<Rightarrow> world"
  assumes rotates: "behaves api env keys \<Longrightarrow> target (rq_ProviderID rq) old = Some kid \<Longrightarrow>
      acts replaced keys (Rotate ad c rq)"
    and spawns: "Rotate ad c rq w = (Inr res, w') \<Longrightarrow> meta_value (rq_Meta rq) old_key = Some old \<Longrightarrow>
      spawned w' = spawned w @ [\<lparr>cl_adapter = name, cl_target = old, cl_provider = rq_ProviderID rq\<rparr>]"
    and drains: "Drain ad = Some (Drain_wait env name cleanup)"
    and removes: "behaves api env keys \<Longrightarrow> confirmed env api \<Longrightarrow> (\<And>u. url_err env u = None) \<Longrightarrow>
      target pid old = Some kid \<Longrightarrow>
      keys (trace (cleanup \<lparr>cl_adapter = name, cl_target = old, cl_provider = pid\<rparr> w)) = (keys (trace w))(kid := None)"
begin

lemma replaces:
  assumes "behaves api env keys" "Rotate ad c rq w = (Inr res, w1)"
    and "meta_value (rq_Meta rq) old_key = Some old" "target (rq_ProviderID rq) old = Some kid"
    and "kid \<in> dom (keys (trace w))" "list_all (\<lambda>cl. cl_adapter cl \<noteq> name) (spawned w)"
    and "drain_wait env (ticks w1) name = None" "\<And>u. url_err env u = None" "confirmed env api"
  shows "keys (trace w1) = (keys (trace w))(res_CredentialID res \<mapsto> res_Credential res)
    \<and> keys (trace w1) kid = keys (trace w) kid
    \<and> (\<exists>dr w2. Drain ad = Some dr \<and> dr d w1 = (Inr (), w2)
        \<and> keys (trace w2) = (keys (trace w))(kid := None, res_CredentialID res \<mapsto> res_Credential res))"
proof -
  let ?cl = "\<lparr>cl_adapter = name, cl_target = old, cl_provider = rq_ProviderID rq\<rparr>"
  have new: "res_CredentialID res \<notin> dom (keys (trace w))"
    and w1: "keys (trace w1) = (keys (trace w))(res_CredentialID res \<mapsto> res_Credential res)"
    using actsD [OF rotates [OF assms(1,4)] assms(2)] by simp_all
  then have ne: "kid \<noteq> res_CredentialID res" using assms(5) by auto
  have sp: "spawned w1 = spawned w @ [?cl]" by (rule spawns [OF assms(2,3)])
  have own: "filter (\<lambda>cl. cl_adapter cl = name) (spawned w1) = [?cl]"
    using assms(6) sp by (auto simp: list_all_iff filter_empty_conv)
  define w2 where "w2 = cleanup ?cl
      (w1\<lparr>ticks := Suc (ticks w1), spawned := filter (\<lambda>cl. cl_adapter cl \<noteq> name) (spawned w1)\<rparr>)"
  have "length (spawned w1) = Suc (length (spawned w))" using sp by simp
  then have "Drain_wait env name cleanup d w1 = (Inr (), w2)"
    using assms(7) own by (simp add: Drain_wait_def run_pending_def Let_def w2_def)
  moreover have "keys (trace w2) = (keys (trace w1))(kid := None)"
    using removes [OF assms(1,9,8,4)] by (simp add: w2_def)
  ultimately show ?thesis using w1 ne drains by (auto simp: fun_upd_twist)
qed

end

section \<open>The four adapters\<close>

definition plain_target :: "string \<Rightarrow> string \<Rightarrow> string option" where
  "plain_target pid old = (if plain_id old then Some old else None)"

definition segment_target :: "string \<Rightarrow> string \<Rightarrow> string option" where
  "segment_target pid old = (if segment old then Some old else None)"

definition token_target :: "string \<Rightarrow> string \<Rightarrow> string option" where
  "token_target pid old = (if CHR '':'' \<in> set pid then None else Some (pid @ '':'' @ old))"

lemma dd_deleteKey_succeeds:
  "(\<And>u. url_err env u = None) \<Longrightarrow> confirmed env (dd_api a) \<Longrightarrow> plain_id kid \<Longrightarrow>
   \<exists>w'. dd_deleteKey env a c kid w = (Inr (), w')"
  unfolding dd_deleteKey_def
  by (rule delete_succeeds [where api = "dd_api a" and kid = kid], rule dd_do_calls)
     (auto simp: dd_api_def dd_do_def request_sent Let_def)

interpretation dd_rotation: key_rotation env "datadog env a" "dd_api a" dd_name "''old_key_id''" plain_target "dd_cleanup env a"
proof
  fix keys pid old kid and w :: world
  assume b: "behaves (dd_api a) env keys" "confirmed env (dd_api a)" "\<And>u. url_err env u = None"
    and t: "plain_target pid old = Some kid"
  have k: "plain_id kid" "old = kid" using t by (auto simp: plain_target_def split: if_splits)
  show "keys (trace (dd_cleanup env a \<lparr>cl_adapter = dd_name, cl_target = old, cl_provider = pid\<rparr> w))
      = (keys (trace w))(kid := None)"
    unfolding dd_cleanup_def k(2) cleanup.simps
    by (rule cleanup_removes [OF dd_deleteKey_acts [OF b(1) k(1)] dd_deleteKey_succeeds [OF b(3,2) k(1)]])
next
  fix c rq w res w' old
  assume "Rotate (datadog env a) c rq w = (Inr res, w')" "meta_value (rq_Meta rq) ''old_key_id'' = Some old"
  then show "spawned w' = spawned w @ [\<lparr>cl_adapter = dd_name, cl_target = old, cl_provider = rq_ProviderID rq\<rparr>]"
    by (auto simp: dd_Rotate_def Let_def act_eq_Inr start_cleanup_def then_do_def spawn_def dest!: spawned_steps)
next
  show "Drain (datadog env a) = Some (Drain_wait env dd_name (dd_cleanup env a))"
    by (simp add: dd_Drain_def fun_eq_iff)
qed (simp add: dd_Rotate_acts)

lemma pd_deleteKey_succeeds:
  "(\<And>u. url_err env u = None) \<Longrightarrow> confirmed env (pd_api a) \<Longrightarrow> plain_id kid \<Longrightarrow>
   \<exists>w'. pd_deleteKey env a c kid w = (Inr (), w')"
  unfolding pd_deleteKey_def
  by (rule delete_succeeds [where api = "pd_api a" and kid = kid], rule pd_do_calls)
     (auto simp: pd_api_def pd_do_def request_sent Let_def)

interpretation pd_rotation: key_rotation env "pagerduty env a" "pd_api a" pd_name "''old_key_id''" plain_target "pd_cleanup env a"
proof
  fix keys pid old kid and w :: world
  assume b: "behaves (pd_api a) env keys" "confirmed env (pd_api a)" "\<And>u. url_err env u = None"
    and t: "plain_target pid old = Some kid"
  have k: "plain_id kid" "old = kid" using t by (auto simp: plain_target_def split: if_splits)
  show "keys (trace (pd_cleanup env a \<lparr>cl_adapter = pd_name, cl_target = old, cl_provider = pid\<rparr> w))
      = (keys (trace w))(kid := None)"
    unfolding pd_cleanup_def k(2) cleanup.simps
    by (rule cleanup_removes [OF pd_deleteKey_acts [OF b(1) k(1)] pd_deleteKey_succeeds [OF b(3,2) k(1)]])
next
  fix c rq w res w' old
  assume "Rotate (pagerduty env a) c rq w = (Inr res, w')" "meta_value (rq_Meta rq) ''old_key_id'' = Some old"
  then show "spawned w' = spawned w @ [\<lparr>cl_adapter = pd_name, cl_target = old, cl_provider = rq_ProviderID rq\<rparr>]"
    by (auto simp: pd_Rotate_def Let_def act_eq_Inr start_cleanup_def then_do_def spawn_def dest!: spawned_steps)
next
  show "Drain (pagerduty env a) = Some (Drain_wait env pd_name (pd_cleanup env a))"
    by (simp add: pd_Drain_def fun_eq_iff)
qed (simp add: pd_Rotate_acts)

lemma sp_deleteToken_succeeds:
  "(\<And>u. url_err env u = None) \<Longrightarrow> confirmed env (sp_api a) \<Longrightarrow> segment n \<Longrightarrow>
   \<exists>w'. sp_deleteToken env a c n w = (Inr (), w')"
  unfolding sp_deleteToken_def
  by (rule delete_succeeds [where api = "sp_api a" and kid = n], rule sp_do_calls)
     (auto simp: sp_api_def sp_do_def request_sent Let_def)

interpretation sp_rotation: key_rotation env "splunk env a" "sp_api a" sp_name "''old_token_name''" segment_target "sp_cleanup env a"
proof
  fix keys pid old kid and w :: world
  assume b: "behaves (sp_api a) env keys" "confirmed env (sp_api a)" "\<And>u. url_err env u = None"
    and t: "segment_target pid old = Some kid"
  have k: "segment kid" "old = kid" using t by (auto simp: segment_target_def split: if_splits)
  show "keys (trace (sp_cleanup env a \<lparr>cl_adapter = sp_name, cl_target = old, cl_provider = pid\<rparr> w))
      = (keys (trace w))(kid := None)"
    unfolding sp_cleanup_def k(2) cleanup.simps
    by (rule cleanup_removes [OF sp_deleteToken_acts [OF b(1) k(1)] sp_deleteToken_succeeds [OF b(3,2) k(1)]])
next
  fix c rq w res w' old
  assume "Rotate (splunk env a) c rq w = (Inr res, w')" "meta_value (rq_Meta rq) ''old_token_name'' = Some old"
  then show "spawned w' = spawned w @ [\<lparr>cl_adapter = sp_name, cl_target = old, cl_provider = rq_ProviderID rq\<rparr>]"
    by (auto simp: sp_Rotate_def Let_def act_eq_Inr start_cleanup_def then_do_def spawn_def dest!: spawned_steps)
next
  show "Drain (splunk env a) = Some (Drain_wait env sp_name (sp_cleanup env a))"
    by (simp add: sp_Drain_def fun_eq_iff)
qed (simp add: sp_Rotate_acts)

lemma sq_revokeToken_succeeds:
  assumes "\<And>u. url_err env u = None" "confirmed env (sq_api a)" "token_id kid login n"
  shows "\<exists>w'. sq_revokeToken env a c login n w = (Inr (), w')"
  unfolding sq_revokeToken_def Let_def
  by (rule delete_succeeds [where api = "sq_api a" and kid = kid], rule sq_revoke_calls [OF assms(3)])
     (use assms in \<open>auto simp: sq_api_def sq_do_def request_sent Let_def\<close>)

interpretation sq_rotation: key_rotation env "sonarqube env a" "sq_api a" sq_name "''old_token_name''" token_target "sq_cleanup env a"
proof
  fix keys pid old kid and w :: world
  assume b: "behaves (sq_api a) env keys" "confirmed env (sq_api a)" "\<And>u. url_err env u = None"
    and t: "token_target pid old = Some kid"
  have k: "token_id kid pid old" using t by (auto simp: token_target_def token_id_def split: if_splits)
  show "keys (trace (sq_cleanup env a \<lparr>cl_adapter = sq_name, cl_target = old, cl_provider = pid\<rparr> w))
      = (keys (trace w))(kid := None)"
    unfolding sq_cleanup_def cleanup.simps
    by (rule cleanup_removes [OF sq_revokeToken_acts [OF b(1) k] sq_revokeToken_succeeds [OF b(3,2) k]])
next
  fix c rq w res w' old
  assume "Rotate (sonarqube env a) c rq w = (Inr res, w')" "meta_value (rq_Meta rq) ''old_token_name'' = Some old"
  then show "spawned w' = spawned w @ [\<lparr>cl_adapter = sq_name, cl_target = old, cl_provider = rq_ProviderID rq\<rparr>]"
    by (auto simp: sq_Rotate_def Let_def act_eq_Inr start_cleanup_def then_do_def spawn_def dest!: spawned_steps)
next
  show "Drain (sonarqube env a) = Some (Drain_wait env sq_name (sq_cleanup env a))"
    by (simp add: sq_Drain_def fun_eq_iff)
qed (auto simp: token_target_def intro: sq_Rotate_acts split: if_splits)

text \<open>The adapters, what their providers do, the metadata that names the old key, and its id.\<close>

inductive replaces_keys ::
  "env \<Rightarrow> adapter \<Rightarrow> key_api \<Rightarrow> string \<Rightarrow> (string \<Rightarrow> string \<Rightarrow> string option) \<Rightarrow> bool"
where
  "replaces_keys env (datadog env a) (dd_api a) ''old_key_id'' plain_target"
| "replaces_keys env (pagerduty env a) (pd_api a) ''old_key_id'' plain_target"
| "replaces_keys env (splunk env a) (sp_api a) ''old_token_name'' segment_target"
| "replaces_keys env (sonarqube env a) (sq_api a) ''old_token_name'' token_target"

text \<open>
  C6. A rotation at Datadog, PagerDuty, Splunk or SonarQube replaces the key without a gap: when
  it returns, the new key works next to the old one and every other key, and once the clean-up has
  run (at the latest in \<open>Drain\<close>, when the provider confirms the deletion) the keys are the ones
  from before, with the old key gone and the new one in its place.
\<close>

theorem rotation_replaces_key:
  assumes "replaces_keys env ad api old_key target" "behaves api env keys" "confirmed env api"
    and "Rotate ad c rq w = (Inr res, w1)" "meta_value (rq_Meta rq) old_key = Some old"
    and "target (rq_ProviderID rq) old = Some kid" "kid \<in> dom (keys (trace w))"
    and "list_all (\<lambda>cl. cl_adapter cl \<noteq> Name ad) (spawned w)" "drain_wait env (ticks w1) (Name ad) = None"
    and "\<And>u. url_err env u = None"
  shows "keys (trace w1) = (keys (trace w))(res_CredentialID res \<mapsto> res_Credential res)
    \<and> keys (trace w1) kid = keys (trace w) kid
    \<and> (\<exists>dr w2. Drain ad = Some dr \<and> dr d w1 = (Inr (), w2)
        \<and> keys (trace w2) = (keys (trace w))(kid := None, res_CredentialID res \<mapsto> res_Credential res))"
  using assms(1)
proof cases
  case (1 a)
  from assms(2-10) show ?thesis unfolding 1 by (intro dd_rotation.replaces) (simp_all del: datadog_sel(2,5))
next
  case (2 a)
  from assms(2-10) show ?thesis unfolding 2 by (intro pd_rotation.replaces) (simp_all del: pagerduty_sel(2,5))
next
  case (3 a)
  from assms(2-10) show ?thesis unfolding 3 by (intro sp_rotation.replaces) (simp_all del: splunk_sel(2,5))
next
  case (4 a)
  from assms(2-10) show ?thesis unfolding 4 by (intro sq_rotation.replaces) (simp_all del: sonarqube_sel(2,5))
qed

theorem rotation_replaces_key_witness:
  "\<exists>res w1 dr w2. Rotate (datadog (mini_env dd_example) dd_example) handler_ctx
      \<lparr>rq_ProviderID = ''svc'', rq_Meta = Map.empty(''old_key_id'' \<mapsto> ''old'')\<rparr> fresh_world = (Inr res, w1)
    \<and> mini_keys dd_example (rev (trace w1)) ''old'' = Some ''s0''
    \<and> Drain (datadog (mini_env dd_example) dd_example) = Some dr \<and> dr Background w1 = (Inr (), w2)
    \<and> mini_keys dd_example (rev (trace w2)) = (mini_keys dd_example (rev (trace fresh_world)))
        (''old'' := None, res_CredentialID res \<mapsto> res_Credential res)"
proof -
  let ?env = "mini_env dd_example" and ?rq = "\<lparr>rq_ProviderID = ''svc'', rq_Meta = Map.empty(''old_key_id'' \<mapsto> ''old'')\<rparr>"
  let ?keys = "\<lambda>tr. mini_keys dd_example (rev tr)"
  have "length (trace fresh_world) < 100" by simp
  from mini_rotates [OF this, of dd_example handler_ctx ?rq] obtain res w1
    where "dd_Rotate ?env dd_example handler_ctx ?rq fresh_world = (Inr res, w1)" by blast
  then have run: "Rotate (datadog ?env dd_example) handler_ctx ?rq fresh_world = (Inr res, w1)" by simp
  have confirmed: "confirmed ?env (dd_api dd_example)"
    by (simp add: confirmed_def dd_api_def mini_net_def creates_def)
  have "plain_id ''old''" by (simp add: plain_id_def unreserved_def is_digit_def)
  then have target: "plain_target (rq_ProviderID ?rq) ''old'' = Some ''old''" by (simp add: plain_target_def)
  have old: "?keys (trace fresh_world) ''old'' = Some ''s0''" by simp
  have "?keys (trace w1) = (?keys (trace fresh_world)) (res_CredentialID res \<mapsto> res_Credential res)
    \<and> ?keys (trace w1) ''old'' = ?keys (trace fresh_world) ''old''
    \<and> (\<exists>dr w2. Drain (datadog ?env dd_example) = Some dr \<and> dr Background w1 = (Inr (), w2)
        \<and> ?keys (trace w2) = (?keys (trace fresh_world)) (''old'' := None, res_CredentialID res \<mapsto> res_Credential res))"
    by (rule rotation_replaces_key [OF replaces_keys.intros(1) mini_provider confirmed run _ target])
       (use old in \<open>auto simp: meta_value_def\<close>)
  with run old show ?thesis by metis
qed

end
