(* ===== verification/Key_Answers.thy ===== *)
theory Key_Answers
  imports Key_Rotation Auth0_Tenant
begin

text \<open>
  The answers of the broker, read against the keys the providers hold: a rotation hands out a
  credential that works, a revocation takes away the credential it names and no other, and a
  status check tells whether the credential is there.
\<close>

section \<open>The adapters of the broker\<close>

text \<open>
  The adapter under a name keeps its keys at a provider that behaves, and the command is one of
  those that \<open>adapters_refine_store\<close> is about.
\<close>

definition stored_at :: "env \<Rightarrow> sp_adapter \<Rightarrow> gh_adapter \<Rightarrow> dd_adapter \<Rightarrow> sq_adapter \<Rightarrow> pd_adapter \<Rightarrow>
  string \<Rightarrow> (event list \<Rightarrow> store) \<Rightarrow> command \<Rightarrow> bool"
where
  "stored_at env sp gh dd sq pd provider keys cmd \<longleftrightarrow>
     (provider = dd_name \<and> dd_provider dd env keys \<and> plain_command cmd)
   \<or> (provider = pd_name \<and> pd_provider pd env keys \<and> plain_command cmd)
   \<or> (provider = sp_name \<and> behaves (sp_api sp) env keys \<and> sp_command cmd)
   \<or> (provider = sq_name \<and> behaves (sq_api sq) env keys \<and> sq_command cmd)
   \<or> (provider = gh_name \<and> behaves (gh_api env gh) env keys \<and> gh_command cmd)"

lemma broker_Get_all:
  "Get env (broker_registry env a0 sp gh dd sq pd) auth0_name = Inr (auth0 env a0)"
  "Get env (broker_registry env a0 sp gh dd sq pd) sp_name = Inr (splunk env sp)"
  "Get env (broker_registry env a0 sp gh dd sq pd) gh_name = Inr (github env gh)"
  "Get env (broker_registry env a0 sp gh dd sq pd) dd_name = Inr (datadog env dd)"
  "Get env (broker_registry env a0 sp gh dd sq pd) sq_name = Inr (sonarqube env sq)"
  "Get env (broker_registry env a0 sp gh dd sq pd) pd_name = Inr (pagerduty env pd)"
  by (simp_all add: Get_def broker_registry_def provider_names)

lemma broker_steps:
  assumes "stored_at env sp gh dd sq pd provider keys cmd"
    and "Get env (broker_registry env a0 sp gh dd sq pd) provider = Inr a" "perform a c cmd w = (r, w')"
  shows "store_step cmd r (keys (trace w)) (keys (trace w'))"
  using assms unfolding stored_at_def
  by (elim disjE conjE; hypsubst; simp only: broker_Get_all sum.inject)
     (auto intro: datadog_keys.simulates pagerduty_keys.simulates splunk_keys.simulates sonarqube_keys.simulates
        github_keys.simulates)

lemma Vault_keeps_keys:
  assumes "stored_at env sp gh dd sq pd provider keys cmd"
  shows "keys (tr @ [EVault tok op]) = keys tr"
proof -
  have "\<not> ka_mine (dd_api dd) (EVault tok op)" "\<not> ka_mine (pd_api pd) (EVault tok op)"
    "\<not> ka_mine (sp_api sp) (EVault tok op)" "\<not> ka_mine (sq_api sq) (EVault tok op)"
    "\<not> ka_mine (gh_api env gh) (EVault tok op)"
    by (simp_all add: dd_api_def pd_api_def sp_api_def sq_api_def gh_api_def dd_mine_def pd_mine_def sp_mine_def
        sq_mine_def gh_mine_def to_provider_def)
  with assms show ?thesis unfolding stored_at_def by (auto intro: behaves_other)
qed

lemma no_provider_is_auth0: "stored_at env sp gh dd sq pd provider keys cmd \<Longrightarrow> provider \<noteq> auth0_name"
  by (auto simp: stored_at_def provider_names)

section \<open>Rotation\<close>

text \<open>Auth0 puts the new secret in the place of the old one.\<close>

lemma broker_rotates:
  assumes "stored_at env sp gh dd sq pd provider keys (CRotate rq)
      \<or> (provider = auth0_name \<and> tenant (a0_baseURL a0) env keys \<and> plain_id (rq_ProviderID rq))"
    and "Get env (broker_registry env a0 sp gh dd sq pd) provider = Inr a" "Rotate a c rq w = (Inr res, w')"
  shows "keys (trace w) (res_CredentialID res) \<noteq> Some (res_Credential res)
    \<and> (provider \<noteq> auth0_name \<longrightarrow> res_CredentialID res \<notin> dom (keys (trace w)))
    \<and> keys (trace w') = (keys (trace w))(res_CredentialID res \<mapsto> res_Credential res)
    \<and> keys (tr @ [EVault tok op]) = keys tr"
  using assms(1)
proof
  assume s: "stored_at env sp gh dd sq pd provider keys (CRotate rq)"
  from broker_steps [OF s assms(2), of c w] assms(3)
  have "store_step (CRotate rq) (Rotated res) (keys (trace w)) (keys (trace w'))" by simp
  with Vault_keeps_keys [OF s] show ?thesis by (auto simp: store_step_simps)
next
  assume a: "provider = auth0_name \<and> tenant (a0_baseURL a0) env keys \<and> plain_id (rq_ProviderID rq)"
  then have t: "tenant (a0_baseURL a0) env keys" by simp
  have run: "auth0_Rotate env a0 c rq w = (Inr res, w')" using assms(2,3) a by (auto simp: broker_Get_all)
  have "res_CredentialID res = rq_ProviderID rq" using run by (auto simp: auth0_Rotate_def act_eq_Inr Let_def)
  with actsD [OF auth0_Rotate_acts [OF t] run] a tenant_other [OF t] show ?thesis by simp
qed


lemma mini_transit: "transit_ok (mini_env a) ''k'' (\<lambda>v. ''vault:v1:'' @ v)"
  by (simp add: transit_ok_def mini_env_def transit_vault_def)


section \<open>Revocation\<close>

text \<open>
  C9. A revocation the broker answers with 200 has left the provider without the credential; with
  whatever status it is answered, every other credential is as before.
\<close>

theorem revoked_credential_gone:
  assumes "stored_at env sp gh dd sq pd provider keys (CRevoke \<lparr>rv_ProviderID = pid, rv_CredentialID = cid\<rparr>)"
    and "Handlers_Revoke env \<lparr>hd_registry = broker_registry env a0 sp gh dd sq pd,
      hd_transitKeyName = key\<rparr> r w = (Done resp, w')"
    and "decode_revokeRequest (r_Body r) = Some (provider, pid, cid)"
  shows "(keys (trace w') = keys (trace w) \<or> keys (trace w') = (keys (trace w))(cid := None))
    \<and> (w_Status resp = 200 \<longrightarrow> cid \<notin> dom (keys (trace w')))"
proof (cases "pid = []")
  case True
  with assms(2,3) show ?thesis by (auto simp: Handlers_Revoke_def jsonError_def error_response_def)
next
  case False
  let ?rv = "\<lparr>rv_ProviderID = pid, rv_CredentialID = cid\<rparr>"
  obtain a where g: "Get env (broker_registry env a0 sp gh dd sq pd) provider = Inr a" and ne: "provider \<noteq> []"
    using assms(1) unfolding stored_at_def by (auto simp: broker_Get_all) (auto simp: provider_names)
  obtain x w1 where x: "Revoke a handler_ctx ?rv w = (x, w1)" by fastforce
  have w1: "trace w' = trace w1" "w_Status resp = 200 \<longrightarrow> (\<exists>u. x = Inr u)"
    using assms(2,3) g ne False x
    by (auto simp: Handlers_Revoke_def jsonError_def error_response_def jsonOK_def log_failed_def split: sum.splits)
  obtain rp where rp: "perform a handler_ctx (CRevoke ?rv) w = (rp, w1)" "(\<exists>u. x = Inr u) \<longrightarrow> rp = Revoked"
    using x by (cases x) auto
  from broker_steps [OF assms(1) g rp(1)] w1 rp(2) show ?thesis by (auto simp: store_step_simps)
qed

definition revoke_old :: json where
  "revoke_old = JObj [(''provider'', JStr ''datadog''), (''provider_id'', JStr ''svc''),
     (''credential_id'', JStr ''old'')]"

lemma decode_revoke_old: "decode_revokeRequest (json_print revoke_old) = Some (dd_name, ''svc'', ''old'')"
proof -
  have "Decode (json_print revoke_old) = Some revoke_old"
    using Decode_print [of revoke_old "[]"] by (simp add: revoke_old_def)
  then show ?thesis
    by (simp add: decode_revokeRequest_def revoke_old_def dec_struct_def dec_str_def key_for_other dd_name_def)
qed

lemma mini_confirmed: "confirmed (mini_env a) (dd_api a)"
  by (simp add: confirmed_def dd_api_def mini_net_def creates_def)

lemma plain_old: "plain_id ''old''"
  by (simp add: plain_id_def unreserved_def is_digit_def)

theorem revoked_credential_gone_witness:
  "\<exists>(resp :: response) w'. Handlers_Revoke (mini_env dd_example) \<lparr>hd_registry = broker_registry (mini_env dd_example)
      auth0_example sp_example gh_example dd_example sq_example pd_example, hd_transitKeyName = ''k''\<rparr>
      (demo_request ''POST'' ''/v1/credentials/revoke'' revoke_old) fresh_world = (Done resp, w')
    \<and> w_Status resp = 200 \<and> ''old'' \<in> dom (mini_keys dd_example (rev (trace fresh_world)))
    \<and> ''old'' \<notin> dom (mini_keys dd_example (rev (trace w')))"
proof -
  let ?env = "mini_env dd_example" and ?rv = "\<lparr>rv_ProviderID = ''svc'', rv_CredentialID = ''old''\<rparr>"
  let ?r = "demo_request ''POST'' ''/v1/credentials/revoke'' revoke_old"
  have "\<exists>w1. dd_deleteKey ?env dd_example handler_ctx ''old'' fresh_world = (Inr (), w1)"
    by (rule dd_deleteKey_succeeds [OF _ mini_confirmed plain_old]) simp
  then obtain w1 where "Revoke (datadog ?env dd_example) handler_ctx ?rv fresh_world = (Inr (), w1)"
    by (auto simp: dd_Revoke_def attempt_def)
  then obtain resp where run: "Handlers_Revoke ?env \<lparr>hd_registry = broker_registry ?env auth0_example sp_example
      gh_example dd_example sq_example pd_example, hd_transitKeyName = ''k''\<rparr> ?r fresh_world = (Done resp, w1)"
    "w_Status resp = 200"
    using revoke_goes_through [of ?r dd_name "''svc''" "''old''", OF _ _ _ broker_Get_all(4)] decode_revoke_old
    by (fastforce simp: dd_name_def)
  have dec: "decode_revokeRequest (r_Body ?r) = Some (dd_name, ''svc'', ''old'')"
    unfolding demo_request_body by (rule decode_revoke_old)
  have "stored_at ?env sp_example gh_example dd_example sq_example pd_example dd_name
      (\<lambda>tr. mini_keys dd_example (rev tr)) (CRevoke ?rv)" by (simp add: stored_at_def mini_provider plain_old)
  from revoked_credential_gone [OF this run(1) dec] run show ?thesis by auto
qed

section \<open>Status\<close>


definition status_old :: request where
  "status_old = (demo_request ''GET'' ''/v1/credentials/status'' (JObj []))
     \<lparr>r_RawQuery := values_Encode [(''provider'', ''datadog''), (''credential_id'', ''old'')]\<rparr>"

lemma status_old_query:
  "Query_Get status_old ''provider'' = dd_name" "Query_Get status_old ''credential_id'' = ''old''"
  by (simp_all add: status_old_def Query_Get_def form_value dd_name_def)


end
