(* ===== verification/Plugin_Keys.thy ===== *)
theory Plugin_Keys
  imports Plugins Key_Answers
begin

text \<open>
  From the plugin to the provider: the credential that a client of Vault reads from the REST engine,
  followed through the broker and its adapter to the keys of the provider.
\<close>


definition dd_fields :: field_data where
  "dd_fields = \<lparr>fd_raw = [''provider'' \<mapsto> ''datadog'', ''provider_id'' \<mapsto> ''svc''], fd_err = (\<lambda>_. None)\<rparr>"

lemma dd_fields_Get [simp]:
  "field_Get dd_fields ''provider'' [] = ''datadog''" "field_Get dd_fields ''provider_id'' [] = ''svc''"
  by (simp_all add: dd_fields_def field_Get_def)

lemma mini_broker_answers:
  assumes "decode_rotateRequest (r_Body r) = Some (dd_name, ''svc'', Map.empty)"
  shows "\<exists>w'. Handlers_Rotate (mini_env dd_example) \<lparr>hd_registry = broker_registry (mini_env dd_example) a0 sp gh
      dd_example sq pd, hd_transitKeyName = ''k''\<rparr> r fresh_world
    = (Done \<lparr>w_Status = 200, w_Headers = json_header, w_Body = broker_answer ''svc'' ''s3cret''\<rparr>, w')"
proof -
  let ?env = "mini_env dd_example" and ?rq = "\<lparr>rq_ProviderID = ''svc'', rq_Meta = Map.empty\<rparr>"
  have "length (trace fresh_world) < 100" by simp
  from mini_rotates [OF this, of dd_example handler_ctx ?rq] obtain res w1
    where rot: "dd_Rotate ?env dd_example handler_ctx ?rq fresh_world = (Inr res, w1)"
    and res: "res_Credential res = ''s3cret''" "res_RotatedAt res = 0" by blast
  have pid: "res_ProviderID res = ''svc''"
    using credential_adapter.rotate_echo [OF datadog.credential_adapter_axioms, of ?env dd_example handler_ctx ?rq] rot
    by fastforce
  have "dd_name \<noteq> []" by (simp add: dd_name_def)
  with assms rot show ?thesis
    by (simp add: Handlers_Rotate_def broker_Get_all res pid TransitEncrypt_ok [OF mini_transit] jsonOK_def
        RotateResponse_json_def time_json_def year_ok_0 broker_answer_def del: json_print.simps EncodeToString.simps)
qed


end
