(* ===== verification/Engine_Fields.thy ===== *)
theory Engine_Fields
  imports Rest_Engine Auth0_Engine
begin

text \<open>
  The path tables of the two plugins against their handlers: which fields a handler reads, with
  which defaults, and which fields its leases hold.
\<close>

section \<open>Fields\<close>

text \<open>
  What the SDK makes of a request: the schema of the path decides which values are there, and
  fills in the defaults it declares.  (\<open>FieldData.Get\<close> of an undeclared field panics.)
\<close>

definition sdk_view :: "engine_path \<Rightarrow> field_data \<Rightarrow> field_data" where
  "sdk_view pt d = \<lparr>
     fd_raw = (\<lambda>k. case map_of (pt_Fields pt) k of
       None \<Rightarrow> None
     | Some f \<Rightarrow> (case fd_raw d k of None \<Rightarrow> fs_Default f | Some v \<Rightarrow> Some v)),
     fd_err = (\<lambda>k. if map_of (pt_Fields pt) k = None then None else fd_err d k)\<rparr>"

fun pattern_names :: "pattern \<Rightarrow> string list" where
  "pattern_names (Exact p) = []"
| "pattern_names (WithName p x) = [x]"
| "pattern_names (WithNameAt p x) = [x]"
| "pattern_names (WithTwoNames p x y) = [x, y]"

lemma field_Get_view:
  "(case map_of (pt_Fields pt) k of None \<Rightarrow> False | Some f \<Rightarrow> fs_Default f = None \<or> fs_Default f = Some dflt) \<Longrightarrow>
   field_Get (sdk_view pt d) k dflt = field_Get d k dflt"
  by (auto simp: field_Get_def sdk_view_def split: option.splits)

lemma fd_err_view: "map_of (pt_Fields pt) k \<noteq> None \<Longrightarrow> fd_err (sdk_view pt d) k = fd_err d k"
  by (auto simp: sdk_view_def)

lemma fd_raw_view:
  "(case map_of (pt_Fields pt) k of None \<Rightarrow> False | Some f \<Rightarrow> fs_Default f = None) \<Longrightarrow>
   fd_raw (sdk_view pt d) k = fd_raw d k"
  by (auto simp: sdk_view_def split: option.splits)

lemmas view_simps = field_Get_view fd_err_view fd_raw_view fs_plain_def fs_required_def fs_default_def

lemma rest_handlers_view:
  "rest_writeConfig env (sdk_view (rest_pathConfig env) d) = rest_writeConfig env d"
  "rest_rotateCreds env (sdk_view (rest_pathCredentials env) d) = rest_rotateCreds env d"
  by (simp_all add: rest_writeConfig_def rest_rotateCreds_def rest_pathConfig_def rest_pathCredentials_def view_simps
      cong: option.case_cong if_cong)

lemma a0e_handlers_view:
  "a0e_writeConfig env (sdk_view (a0e_pathConfig env) d) = a0e_writeConfig env d"
  "a0e_rotateCreds env (sdk_view (a0e_pathCreds env) d) = a0e_rotateCreds env d"
  "checkStatus env (sdk_view (a0e_pathStatus env) d) = checkStatus env d"
  by (simp_all add: a0e_writeConfig_def required_field_def a0e_rotateCreds_def checkStatus_def a0e_pathConfig_def
      a0e_pathCreds_def a0e_pathStatus_def view_simps cong: option.case_cong if_cong)

text \<open>What a lease of the Auth0 engine is made of.\<close>

definition lease_declared :: "lease_type list \<Rightarrow> logical_response \<Rightarrow> bool" where
  "lease_declared lts resp = (case resp of
     SecretResponse ty data internal \<Rightarrow>
       list_ex (\<lambda>lt. lt_Type lt = ty \<and> set (map fst data) \<subseteq> set (lt_Fields lt)) lts
       \<and> cfg_string internal ''application_client_id'' \<noteq> []
   | _ \<Rightarrow> True)"

definition returns :: "('a \<Rightarrow> bool) \<Rightarrow> 'a act \<Rightarrow> bool" where
  "returns P m \<longleftrightarrow> (\<forall>w x w'. m w = (Inr x, w') \<longrightarrow> P x)"

named_theorems returns_intro

lemma returns_attempt [returns_intro]: "(\<And>x. returns P (k x)) \<Longrightarrow> returns P (attempt m f k)"
  by (auto simp: returns_def attempt_eq_Inr)

lemma returns_cases [returns_intro]:
  "P x \<Longrightarrow> returns P (ret x)" "returns P (fail e)" "returns P m \<Longrightarrow> returns P (check b e m)"
  by (auto simp: returns_def check_eq_Inr)

lemma returns_on_result [returns_intro]: "(\<And>x. returns P (k x)) \<Longrightarrow> returns P (on_result m k)"
  by (auto simp: returns_def on_result_def split: prod.splits)

lemma returns_Now [returns_intro]: "(\<And>t. returns P (k t)) \<Longrightarrow> returns P (Now env k)"
  by (auto simp: returns_def Now_eq_Inr)

lemma returns_client [returns_intro]: "(\<And>a. returns P (k a)) \<Longrightarrow> returns P (with_client cfg k)"
  by (auto simp: returns_def with_client_def newAuth0Client_def)

lemma rest_handlers_lease:
  "returns (lease_declared lts) (rest_writeConfig env d)" "returns (lease_declared lts) (rest_readConfig env)"
  "returns (lease_declared lts) (rest_rotateCreds env d)"
  unfolding rest_writeConfig_def rest_readConfig_def rest_rotateCreds_def Let_def
  by (auto intro!: returns_intro simp: lease_declared_def split: option.split sum.split prod.split)

lemma a0e_handlers_lease:
  "returns (lease_declared lts) (a0e_writeConfig env d)" "returns (lease_declared lts) (a0e_readConfig env)"
  "returns (lease_declared lts) (rotateRoot env)" "returns (lease_declared lts) (checkStatus env d)"
  unfolding a0e_writeConfig_def required_field_def a0e_readConfig_def rotateRoot_def checkStatus_def Let_def
  by (auto intro!: returns_intro simp: lease_declared_def split: option.split sum.split)

lemma creds_response_declared:
  assumes "app \<noteq> []" "set (map fst cred) \<subseteq> {''credential'', ''credential_ciphertext'', ''transit_key''}"
  shows "lease_declared [secretAuth0Creds env lease_extend] (creds_response app t cred)"
  using assms by (auto simp: lease_declared_def creds_response_def secretAuth0Creds_def cfg_string_def as_string_def)

lemma a0e_rotateCreds_lease:
  "returns (lease_declared [secretAuth0Creds env lease_extend]) (a0e_rotateCreds env d)"
  unfolding a0e_rotateCreds_def Let_def
  by (auto intro!: returns_intro creds_response_declared simp: lease_declared_def [of _ "ErrorResponse _"]
      split: option.split sum.split)

text \<open>
  C29. The path tables of both engines fit their handlers.  The parameters of a URL are declared
  fields; a handler reads declared fields only, and the values it falls back to are the defaults
  of the schema, so that it does the same on a request as on what the SDK makes of the request
  with the schema.  A lease is of a kind the backend has declared, holds only fields declared for
  it, and carries the application id without which it could not be revoked; the engine that
  declares no kind of lease issues none.
\<close>

theorem fields_declared:
  "list_all (\<lambda>pt. set (pattern_names (pt_Pattern pt)) \<subseteq> fst ` set (pt_Fields pt)
      \<and> list_all (\<lambda>(op, h). \<forall>d. h (sdk_view pt d) = h d) (pt_Operations pt)) (rest_paths env @ a0e_paths env)
   \<and> list_all (\<lambda>pt. list_all (\<lambda>(op, h). \<forall>d. returns (lease_declared []) (h d)) (pt_Operations pt)) (rest_paths env)
   \<and> list_all (\<lambda>pt. list_all (\<lambda>(op, h). \<forall>d. returns (lease_declared (be_Secrets (a0e_backend env lease_extend))) (h d))
       (pt_Operations pt)) (a0e_paths env)"
proof (intro conjI)
  note tables = rest_paths_def a0e_paths_def rest_pathConfig_def rest_pathCredentials_def a0e_pathConfig_def
    a0e_pathRotateRoot_def a0e_pathCreds_def a0e_pathStatus_def a0e_backend_def
  show "list_all (\<lambda>pt. list_all (\<lambda>(op, h). \<forall>d. returns (lease_declared []) (h d)) (pt_Operations pt)) (rest_paths env)"
    by (simp add: tables rest_handlers_lease)
  show "list_all (\<lambda>pt. list_all (\<lambda>(op, h). \<forall>d. returns (lease_declared (be_Secrets (a0e_backend env lease_extend))) (h d))
       (pt_Operations pt)) (a0e_paths env)"
    by (simp add: tables a0e_handlers_lease a0e_rotateCreds_lease)
  show "list_all (\<lambda>pt. set (pattern_names (pt_Pattern pt)) \<subseteq> fst ` set (pt_Fields pt)
      \<and> list_all (\<lambda>(op, h). \<forall>d. h (sdk_view pt d) = h d) (pt_Operations pt)) (rest_paths env @ a0e_paths env)"
    using rest_handlers_view a0e_handlers_view by (simp add: tables)
qed

end
