(* ===== verification/Spec2Isabelle.thy ===== *)
theory Spec2Isabelle
  imports Go_Base64 Log_Sanitizer Auth0_Adapter Datadog_Adapter Splunk_Adapter Sonarqube_Adapter
    Pagerduty_Adapter Github_Adapter Broker Concurrency Fixtures Rest_Engine Auth0_Engine Plugins Chaos
    Responses Auth0_Secrets Plugin_Keys Engine_Fields
begin

text \<open>
  A verification development of the secrets broker: \<^bold>\<open>cred-rotation-api\<close>, an mTLS
  server that rotates, revokes and checks credentials at six SaaS providers and hands a rotated
  secret out only as Vault Transit ciphertext, and the two Vault plugins, \<^bold>\<open>vault-rest-engine\<close>,
  which calls the broker and decrypts its answer, and \<^bold>\<open>vault-auth0-engine\<close>, which rotates
  Auth0 secrets itself.  All paths below are under \<^verbatim>\<open>src/\<close>.

  \<^bold>\<open>How the parts interact.\<close>  \<open>run\<close> (\<^verbatim>\<open>cred-rotation-api/main.go\<close>) authenticates to Vault,
  reads each adapter's settings from KV, decrypts its secrets with Transit, registers the six
  adapters, obtains a server certificate from Vault's PKI and serves.  A request passes the log,
  the concurrency limiter and the certificate allowlist, is routed to a handler, and the handler
  calls the adapter that the registry holds under the provider's name.  A rotation creates the
  new credential at the provider, may start a goroutine that deletes the old one later, and is
  answered with the ciphertext.  A shutdown waits for the requests and then for those goroutines.
  A plugin handler runs inside Vault, with the storage of its mount.

  \<^bold>\<open>Effects.\<close>  Theory \<open>World\<close> has the conventions.  All that is not in the repository is a field
  of the record \<open>env\<close>: the providers (\<open>net\<close>), Vault, clock, entropy, environment variables, the
  verdicts of \<^verbatim>\<open>crypto/x509\<close> and of the libraries that are called.  Replies may depend on the
  history of events, so a provider with a state is one value of \<open>net\<close>.  What the process
  changes is the record \<open>world\<close>.  A Go function that returns \<open>(T, error)\<close> is an action
  \<open>world \<Rightarrow> (gerr + T) \<times> world\<close>, an error is the text of its message, and a panic is the value
  \<open>Panics\<close> of \<open>outcome\<close>.  Strings are sequences of bytes, as Go's are.

  \<^bold>\<open>Theories and the code they model.\<close>

  \<^item> \<open>Prelude\<close>, \<open>Go_Strings\<close>, \<open>Go_Text\<close>, \<open>Go_Json\<close>, \<open>Go_Time\<close>, \<open>Go_Base64\<close>: what the code uses of
    the standard library, as executable functions: UTF-8, \<^verbatim>\<open>%q\<close>, escaping, \<^verbatim>\<open>encoding/json\<close>
    (parser, printer, decoding into structs), RFC 3339 times and wrapping durations, base64.
    Their lemmas are the round trips (a printed value parses back, with invalid UTF-8 replaced,
    an encoded string decodes, a formatted time parses to the same instant) that the
    components rest on.
  \<^item> \<open>World\<close>, \<open>Fixtures\<close>: actions; \<open>emits\<close> and \<open>only_spawns\<close>, which bound what an action sends and
    starts, \<open>quiet\<close>, which says that it logs nothing, and \<open>on_fail\<close>, which bounds what it leaves
    behind when it fails, with one rule for each way of composing actions (\<open>trace_mono\<close>,
    \<open>fail_intro\<close>); \<open>yields\<close>, which says that it returns a value in every state; and concrete
    surroundings for the instances.
  \<^item> \<open>Adapter\<close>: \<^verbatim>\<open>adapter/adapter.go\<close>, \<^verbatim>\<open>registry.go\<close>, \<^verbatim>\<open>drainer.go\<close>, and the interfaces as locales.
    \<open>credential_adapter\<close> is what a handler may rely on (a rotation echoes the provider id and has
    a credential, revoking nothing fails without effect, requests go only to the provider,
    nothing is logged, a failed rotation takes nothing away), \<open>drainer\<close> what the shutdown relies on.  The registry refines a finite map.
  \<^item> \<open>Auth0_Adapter\<close>, \<open>Datadog_Adapter\<close>, \<open>Splunk_Adapter\<close>, \<open>Sonarqube_Adapter\<close>, \<open>Pagerduty_Adapter\<close>,
    \<open>Github_Adapter\<close>: the files of the same names under \<^verbatim>\<open>adapter/\<close>, each with its construction,
    request helpers, \<open>Rotate\<close>, \<open>Revoke\<close>, \<open>Status\<close> and, where it has one, \<open>Drain\<close>; each interprets
    \<open>credential_adapter\<close>, and \<open>drainer\<close> where it applies, on these definitions.  \<open>Log_Sanitizer\<close> is
    their \<open>sanitizeForLog\<close>.
  \<^item> \<open>Vault_Client\<close>: \<^verbatim>\<open>vault/client.go\<close>: authentication by token, SPIFFE, JWT or AppRole, the
    renewal loop (a \<open>partial_function\<close>, with the exact condition for its return), Transit, KV, PKI.
  \<^item> \<open>Server\<close>: \<^verbatim>\<open>server/server.go\<close> and \<^verbatim>\<open>server/handlers.go\<close>.  The locale \<open>served_registry\<close> is a
    registry of adapters that keep their contract, \<open>drained_registry\<close> extends it by \<open>drainer\<close>;
    the lemmas on the handlers and on the shutdown are proved in them.
  \<^item> \<open>Startup\<close>: \<^verbatim>\<open>main.go\<close>; it interprets \<open>drained_registry\<close> on the registry of the six adapters.
  \<^item> \<open>Broker\<close>: the properties of the broker as a whole, from that interpretation.
    \<open>Request_Log\<close>: the lines a request leaves in the log, and what is left when a rotation goes
    wrong.  \<open>Responses\<close>: the JSON types of the answers (\<open>has_type\<close>, an inductive relation).
  \<^item> \<open>Key_Store\<close>: what an adapter does to the keys its provider holds.  The abstract store is the
    inductive relation \<open>store_step\<close> on maps from ids to secrets; the locale \<open>key_store\<close> is an
    adapter that simulates it.  A provider is a value of \<open>key_api\<close> (which requests create, delete
    and read keys) and the hypothesis that it \<open>behaves\<close>; one lemma for each kind of call carries
    that through an adapter.  \<open>Key_Forms\<close> interprets the locale on the Splunk and the SonarQube
    adapter, whose requests are forms (\<open>Go_Forms\<close>: a form parses back to what was put in), and
    \<open>Key_Github\<close> on the GitHub adapter, which deletes an old token itself, and \<open>Key_Providers\<close> on the
    Datadog and the PagerDuty adapter.  \<open>Key_Rotation\<close> follows a rotation
    into its clean-up (locale \<open>key_rotation\<close>, interpreted on the four adapters that have one).
    \<open>Key_Answers\<close> reads the answers of the broker against the keys.  \<open>mini_env\<close> and \<open>one_key_env\<close>
    are providers that meet the hypotheses.
  \<^item> \<open>Auth0_Tenant\<close>, \<open>Auth0_Secrets\<close>: Auth0, which both programs use, as a map from applications to
    secrets that are replaced in place (hypothesis \<open>tenant\<close>): what the broker's adapter and each
    operation of the plugin do to it, runs of the plugin's operations (\<open>engine_op\<close>), the agreement
    of its stored secret with Auth0's (\<open>in_sync\<close>), and the life of a lease.  \<open>flip_env\<close> is a tenant.
  \<^item> \<open>Concurrency\<close>: the interleavings of rotations, clean-ups and \<open>Drain\<close>, of the limiter and of
    the double-checked token cache; \<open>Chaos\<close>: \<^verbatim>\<open>chaos/mock_provider.go\<close>.  Both are step functions,
    whose runs (\<open>runs\<close>) are an inductive relation; each interprets the locale \<open>machine\<close>, which
    gives the invariant of every reachable state.
  \<^item> \<open>Engine\<close>, \<open>Rest_Engine\<close>, \<open>Auth0_Engine\<close>: \<^verbatim>\<open>backend/\<close> of the two plugins, with their path tables;
    \<open>Plugins\<close>: their properties, up to the way of a credential from the adapter in the broker,
    through Transit and JSON, to the response of the plugin, and in \<open>Plugin_Keys\<close> from the keys of the
    provider; \<open>Engine_Fields\<close>: that the path tables
    declare what the handlers read and what the leases hold.

  \<^bold>\<open>What the properties show.\<close>  The broker: what a rotation sends and in which order, what its
  answer contains, which requests have no effect, that the allowlist is enforced, that a
  confirmed revocation was confirmed by the provider, that a shutdown deletes what was to be
  deleted, how a started broker is wired, what it logs and what shape its answers have, and that
  at the five providers with keys any run of operations does to them what an abstract store does,
  that a rotation replaces a key without a gap, and that the answers are true: a client is given a
  credential that works, a revoked one is gone, a status is that of the provider.  Concurrency: bounds on rotations and requests, that
  draining is final and can finish, that the token is fetched once.  The plugins: the credential
  returned is the one the provider issued, and it works there; rotate-root stores exactly the new secret, and the
  configuration keeps up with Auth0 over any run of operations; a leased secret is the current one
  until its application is rotated again; leases carry ciphertext; all writes are under seal-wrapped prefixes; reads disclose no secret; the
  fields read are the fields declared.  The functions: round trips of Transit and of credential ids, bounds of intervals and lifetimes,
  exact characterisations of the accepted socket addresses and of escaped URLs.  Several of them,
  and some lemmas beside them, state a defect of the code as it is: a Vault reply without a body loses a credential, error texts
  carry bodies of providers, a failing Transit loses the new credential while the old one is
  deleted, HEAD is not covered by an allowlist of GET, a failing storage
  loses the rotated root secret, reading the credential of the plugin's own application locks it out, a second \<open>Block\<close> strands requests.

  \<^bold>\<open>Bounds.\<close>  No definition has fuel: recursion is structural or has a measure, except for the
  renewal loop above.  Response bodies are cut where the code cuts them (\<open>read_limited\<close>).
  Durations wrap at 64 bits, counters of the mock provider are 64-bit words, and the float64
  arithmetic of the renewal interval is written out as rounded multiplication.

  \<^bold>\<open>Not modelled.\<close>  Sockets and TLS handshakes (their outcomes are arguments), the dispatch, the set-up, the
  serving and the lease extension of the plugin SDK, Vault and the providers themselves; cancellation of a context
  is an error of the call it is given to.  Log lines are kept, their formatting is not.  The
  10000-level limit and the wording of \<^verbatim>\<open>encoding/json\<close> errors are left to \<open>env\<close>.  Help texts,
  an unused debug function and the option that swaps the HTTP transport in tests have no
  counterpart.  In the sequential theories a clean-up
  goroutine runs when it is waited for; its interleavings are in \<open>Concurrency\<close>.
\<close>

end
